(* ===== verification/Prelude.thy ===== *)
theory Prelude
  imports Main "HOL-Library.AList" "HOL-Library.List_Lexorder" "HOL-Library.Char_ord"
    "HOL-Library.Product_Lexorder" "HOL-Library.Option_ord"
begin

section \<open>Prelude: the standard containers of the code\<close>

text \<open>
  What every component shares: models of the Rust standard containers the program keeps its
  state in, with the lookup and membership laws the component proofs use.

  \<^item> \<open>BTreeSet<T>\<close> and \<open>BTreeMap<K, V>\<close> are lists that are strictly ascending in the key of
    the element type's \<open>Ord\<close> instance (\<open>bset_wf\<close>), so iteration in list order is iteration in
    key order. \<open>bset_insert\<close> keeps an element of equal key, as \<open>BTreeSet::insert\<close> does;
    \<open>bset_replace\<close> overwrites it, as \<open>BTreeSet::replace\<close>, \<open>BTreeMap::insert\<close>,
    \<open>BTreeSet::append\<close> and building a set from an iterator do. The two differ exactly when the
    element type's equality ignores part of the element (routes, listener conditions).
  \<^item> \<open>HashMap<K, V>\<close> is an association list with the operations of \<^theory_text>\<open>HOL-Library.AList\<close>;
    its iteration order is the list order, and no theorem depends on which order that is.
  \<^item> \<open>HashSet<T>\<close> is a list with at most one element per key (\<open>hset_insert\<close> keeps an element
    of equal key).
  Strings are lists of bytes, ordered bytewise as \<open>str\<close> is.
\<close>

named_theorems container_simps "lookup and membership laws of the containers"

subsection \<open>Ordered sets\<close>

fun bset_insert :: "('a \<Rightarrow> 'k::linorder) \<Rightarrow> 'a \<Rightarrow> 'a list \<Rightarrow> 'a list" where
  "bset_insert key x [] = [x]"
| "bset_insert key x (y # ys) =
     (if key x < key y then x # y # ys
      else if key x = key y then y # ys
      else y # bset_insert key x ys)"

fun bset_replace :: "('a \<Rightarrow> 'k::linorder) \<Rightarrow> 'a \<Rightarrow> 'a list \<Rightarrow> 'a list" where
  "bset_replace key x [] = [x]"
| "bset_replace key x (y # ys) =
     (if key x < key y then x # y # ys
      else if key x = key y then x # ys
      else y # bset_replace key x ys)"

definition bset_remove :: "('a \<Rightarrow> 'k) \<Rightarrow> 'k \<Rightarrow> 'a list \<Rightarrow> 'a list" where
  "bset_remove key k xs = filter (\<lambda>y. key y \<noteq> k) xs"

definition bset_get :: "('a \<Rightarrow> 'k) \<Rightarrow> 'k \<Rightarrow> 'a list \<Rightarrow> 'a option" where
  "bset_get key k xs = find (\<lambda>y. key y = k) xs"

definition bset_append :: "('a \<Rightarrow> 'k::linorder) \<Rightarrow> 'a list \<Rightarrow> 'a list \<Rightarrow> 'a list" where
  "bset_append key xs ys = fold (bset_replace key) ys xs"

definition bset_from :: "('a \<Rightarrow> 'k::linorder) \<Rightarrow> 'a list \<Rightarrow> 'a list" where
  "bset_from key ys = bset_append key [] ys"

definition bset_wf :: "('a \<Rightarrow> 'k::linorder) \<Rightarrow> 'a list \<Rightarrow> bool" where
  "bset_wf key xs \<longleftrightarrow> sorted_wrt (<) (map key xs)"

lemma bset_wf_Nil [simp]: "bset_wf key []"
  by (simp add: bset_wf_def)

lemma bset_wf_Cons [simp]: "bset_wf key (x # xs) \<longleftrightarrow> (\<forall>y\<in>set xs. key x < key y) \<and> bset_wf key xs"
  by (simp add: bset_wf_def)

lemma bset_wf_distinct: "bset_wf key xs \<Longrightarrow> distinct (map key xs)"
  by (simp add: bset_wf_def strict_sorted_imp_sorted strict_sorted_iff)

lemma keys_bset_insert [container_simps]: "key ` set (bset_insert key x xs) = insert (key x) (key ` set xs)"
  by (induction xs) auto

lemma keys_bset_replace [container_simps]: "key ` set (bset_replace key x xs) = insert (key x) (key ` set xs)"
  by (induction xs) auto

lemma bset_insert_subset: "set (bset_insert key x xs) \<subseteq> insert x (set xs)"
  by (induction xs) auto

lemma bset_replace_subset: "set (bset_replace key x xs) \<subseteq> insert x (set xs)"
  by (induction xs) auto

lemma set_bset_insert [container_simps]:
  "bset_wf key xs \<Longrightarrow> set (bset_insert key x xs) = (if key x \<in> key ` set xs then set xs else insert x (set xs))"
  by (induction xs) (auto simp: image_iff)

lemma set_bset_replace [container_simps]:
  "bset_wf key xs \<Longrightarrow> set (bset_replace key x xs) = insert x {y \<in> set xs. key y \<noteq> key x}"
  by (induction xs) auto

lemma set_bset_insert_id [simp]: "set (bset_insert (\<lambda>x. x) x xs) = insert x (set xs)"
  by (induction xs) auto

lemma set_bset_replace_id [simp]: "set (bset_replace (\<lambda>x. x) x xs) = insert x (set xs)"
  by (induction xs) auto

lemma bset_wf_insert [simp, intro]: "bset_wf key xs \<Longrightarrow> bset_wf key (bset_insert key x xs)"
proof (induction xs)
  case (Cons y ys)
  have "\<forall>z\<in>set (bset_insert key x ys). key z = key x \<or> z \<in> set ys"
    using bset_insert_subset [of key x ys] by auto
  with Cons show ?case by auto
qed simp

lemma bset_wf_replace [simp, intro]: "bset_wf key xs \<Longrightarrow> bset_wf key (bset_replace key x xs)"
proof (induction xs)
  case (Cons y ys)
  have "\<forall>z\<in>set (bset_replace key x ys). key z = key x \<or> z \<in> set ys"
    using bset_replace_subset [of key x ys] by auto
  with Cons show ?case by auto
qed simp

lemma bset_wf_filter [simp, intro]: "bset_wf key xs \<Longrightarrow> bset_wf key (filter P xs)"
  by (induction xs) auto

lemma bset_wf_remove [simp, intro]: "bset_wf key xs \<Longrightarrow> bset_wf key (bset_remove key k xs)"
  by (simp add: bset_remove_def)

lemma set_bset_remove [simp]: "set (bset_remove key k xs) = {y \<in> set xs. key y \<noteq> k}"
  by (auto simp: bset_remove_def)

lemma bset_wf_append [simp, intro]: "bset_wf key xs \<Longrightarrow> bset_wf key (bset_append key xs ys)"
  unfolding bset_append_def by (induction ys arbitrary: xs) auto

lemma bset_wf_from [simp, intro]: "bset_wf key (bset_from key ys)"
  by (simp add: bset_from_def bset_wf_append)

lemma keys_bset_append [container_simps]: "key ` set (bset_append key xs ys) = key ` set xs \<union> key ` set ys"
  unfolding bset_append_def by (induction ys arbitrary: xs) (auto simp: container_simps)

lemma keys_bset_from [container_simps]: "key ` set (bset_from key ys) = key ` set ys"
  by (simp add: bset_from_def keys_bset_append)

lemma set_bset_append_id [simp]: "set (bset_append (\<lambda>x. x) xs ys) = set xs \<union> set ys"
  unfolding bset_append_def by (induction ys arbitrary: xs) auto

lemma set_bset_from_id [simp]: "set (bset_from (\<lambda>x. x) ys) = set ys"
  by (simp add: bset_from_def)

lemma bset_append_subset: "set (bset_append key xs ys) \<subseteq> set xs \<union> set ys"
proof (unfold bset_append_def, induction ys arbitrary: xs)
  case (Cons y ys)
  have "set (fold (bset_replace key) ys (bset_replace key y xs)) \<subseteq> set (bset_replace key y xs) \<union> set ys"
    by (rule Cons.IH)
  then show ?case using bset_replace_subset [of key y xs] by auto
qed simp

lemma bset_from_subset: "set (bset_from key ys) \<subseteq> set ys"
  using bset_append_subset [of key "[]" ys] by (simp add: bset_from_def)

lemma set_bset_from_inj_on: "inj_on key (set ys) \<Longrightarrow> set (bset_from key ys) = set ys"
  using keys_bset_from [of key ys] bset_from_subset [of key ys] by (metis inj_on_image_eq_iff subset_refl)

lemma set_bset_from_distinct: "distinct (map key ys) \<Longrightarrow> set (bset_from key ys) = set ys"
  by (rule set_bset_from_inj_on) (simp add: distinct_map)

lemma length_bset_wf: "bset_wf key xs \<Longrightarrow> length xs = card (key ` set xs)"
  by (metis bset_wf_distinct distinct_card length_map list.set_map)

subsection \<open>Lookups\<close>

lemma bset_get_Nil [simp]: "bset_get key k [] = None"
  by (simp add: bset_get_def)

lemma bset_get_Cons [simp]: "bset_get key k (x # xs) = (if key x = k then Some x else bset_get key k xs)"
  by (simp add: bset_get_def)

lemma bset_get_replace [simp]:
  "bset_get key k (bset_replace key x xs) = (if k = key x then Some x else bset_get key k xs)"
  by (induction xs) auto

lemma bset_get_insert [container_simps]:
  "bset_wf key xs \<Longrightarrow> bset_get key k (bset_insert key x xs) =
     (if k = key x then Some (case bset_get key k xs of None \<Rightarrow> x | Some y \<Rightarrow> y) else bset_get key k xs)"
proof (induction xs)
  case (Cons y ys)
  have "bset_get key (key x) ys = None" if "key x < key y"
  proof -
    have "\<forall>z\<in>set ys. key z \<noteq> key x" using that Cons.prems by force
    then show ?thesis by (auto simp: bset_get_def find_None_iff)
  qed
  with Cons show ?case by auto
qed simp

lemma bset_get_remove [simp]: "bset_get key k (bset_remove key k' xs) = (if k = k' then None else bset_get key k xs)"
  by (induction xs) (auto simp: bset_remove_def)

lemma bset_get_SomeD: "bset_get key k xs = Some x \<Longrightarrow> x \<in> set xs \<and> key x = k"
  by (induction xs) (auto split: if_splits)

lemma bset_get_None_iff: "bset_get key k xs = None \<longleftrightarrow> k \<notin> key ` set xs"
  by (induction xs) auto

lemma bset_get_Some_iff: "bset_wf key xs \<Longrightarrow> bset_get key k xs = Some x \<longleftrightarrow> x \<in> set xs \<and> key x = k"
  by (induction xs) auto

lemma find_key_eq: "find (\<lambda>p. fst p = k) m = map_option (\<lambda>v. (k, v)) (map_of m k)"
  by (induction m) auto

lemma map_of_bset_replace [simp]: "map_of (bset_replace fst (k, v) m) = (map_of m)(k \<mapsto> v)"
  by (induction m) (auto simp: fun_eq_iff)

lemma map_of_bset_remove [simp]: "map_of (bset_remove fst k m) = (map_of m)(k := None)"
  by (induction m) (auto simp: bset_remove_def fun_eq_iff)

subsection \<open>Hash sets\<close>

definition hset_insert :: "('a \<Rightarrow> 'k) \<Rightarrow> 'a \<Rightarrow> 'a list \<Rightarrow> 'a list" where
  "hset_insert key x xs = (if key x \<in> key ` set xs then xs else xs @ [x])"

lemma keys_hset_insert [container_simps]: "key ` set (hset_insert key x xs) = insert (key x) (key ` set xs)"
  by (auto simp: hset_insert_def)

lemma distinct_hset_insert [simp, intro]: "distinct (map key xs) \<Longrightarrow> distinct (map key (hset_insert key x xs))"
  by (simp add: hset_insert_def)

subsection \<open>Lists\<close>

lemma filter_partition_length: "length (filter P xs) + length (filter (\<lambda>x. \<not> P x) xs) = length xs"
  by (rule sum_length_filter_compl)

lemma find_Some_mem: "find P xs = Some x \<Longrightarrow> x \<in> set xs \<and> P x"
  by (induction xs) (auto split: if_splits)

lemma find_None_all: "find P xs = None \<longleftrightarrow> (\<forall>x\<in>set xs. \<not> P x)"
  by (induction xs) auto

lemma map_of_mem: "map_of m k = Some v \<Longrightarrow> (k, v) \<in> set m"
  by (rule map_of_SomeD)

end
