(* ===== verification/Resource_Keys.thy ===== *)
theory Resource_Keys
  imports Prelude "HOL-Library.Word"
begin

section \<open>Resource keys\<close>

text \<open>
  The identity of a Kubernetes object inside the controller: \<open>ResourceKey\<close> and the constants of
  \<open>kubvernor-common/src/resource_key.rs\<close>, the reference key of a route's parent
  (\<open>RouteRefKey\<close>, \<open>kubvernor-controller/src/common/resource_key.rs\<close>), the gateway
  implementation type (\<open>kubvernor-common/src/lib.rs\<close>) and the process configuration
  (\<open>kubvernor-common/src/configuration.rs\<close>). Both key types derive \<open>Ord\<close> in the source, which
  is lexicographic in field order; the two \<open>linorder\<close> instances below are that order, and every
  ordered container of the development is ordered by them.
\<close>

subsection \<open>The key of an object\<close>

definition DEFAULT_GROUP_NAME :: string where
  "DEFAULT_GROUP_NAME = ''gateway.networking.k8s.io''"

definition DEFAULT_INFERENCE_GROUP_NAME :: string where
  "DEFAULT_INFERENCE_GROUP_NAME = ''inference.networking.k8s.io/v1''"

definition DEFAULT_NAMESPACE_NAME :: string where
  "DEFAULT_NAMESPACE_NAME = ''default''"

definition DEFAULT_KIND_NAME :: string where
  "DEFAULT_KIND_NAME = ''Gateway''"

definition DEFAULT_ROUTE_HOSTNAME :: string where
  "DEFAULT_ROUTE_HOSTNAME = ''*''"

definition KUBERNETES_NONE :: string where
  "KUBERNETES_NONE = ''None''"

lemmas key_constants = DEFAULT_GROUP_NAME_def DEFAULT_INFERENCE_GROUP_NAME_def
  DEFAULT_NAMESPACE_NAME_def DEFAULT_KIND_NAME_def DEFAULT_ROUTE_HOSTNAME_def KUBERNETES_NONE_def

record resource_key =
  rk_group :: string
  rk_namespace :: string
  rk_name :: string
  rk_kind :: string

text \<open>The derived order of the struct: group, then namespace, then name, then kind.\<close>

instantiation resource_key_ext :: (linorder) linorder
begin

definition less_eq_resource_key_ext :: "'a resource_key_scheme \<Rightarrow> 'a resource_key_scheme \<Rightarrow> bool" where
  "less_eq_resource_key_ext a b \<longleftrightarrow>
     (rk_group a, rk_namespace a, rk_name a, rk_kind a, resource_key.more a)
       \<le> (rk_group b, rk_namespace b, rk_name b, rk_kind b, resource_key.more b)"

definition less_resource_key_ext :: "'a resource_key_scheme \<Rightarrow> 'a resource_key_scheme \<Rightarrow> bool" where
  "less_resource_key_ext a b \<longleftrightarrow>
     (rk_group a, rk_namespace a, rk_name a, rk_kind a, resource_key.more a)
       < (rk_group b, rk_namespace b, rk_name b, rk_kind b, resource_key.more b)"

instance
proof
  fix a b c :: "'a resource_key_scheme"
  show "a < b \<longleftrightarrow> a \<le> b \<and> \<not> b \<le> a"
    unfolding less_eq_resource_key_ext_def less_resource_key_ext_def by (rule less_le_not_le)
  show "a \<le> a" by (simp add: less_eq_resource_key_ext_def)
  show "a \<le> b \<Longrightarrow> b \<le> c \<Longrightarrow> a \<le> c"
    unfolding less_eq_resource_key_ext_def by (rule order_trans)
  show "a \<le> b \<or> b \<le> a" unfolding less_eq_resource_key_ext_def by (rule linear)
  assume "a \<le> b" "b \<le> a"
  then have "(rk_group a, rk_namespace a, rk_name a, rk_kind a, resource_key.more a)
      = (rk_group b, rk_namespace b, rk_name b, rk_kind b, resource_key.more b)"
    unfolding less_eq_resource_key_ext_def by (rule antisym)
  then show "a = b" by simp
qed

end

definition default_resource_key :: resource_key where
  "default_resource_key = \<lparr>rk_group = DEFAULT_GROUP_NAME, rk_namespace = DEFAULT_NAMESPACE_NAME,
     rk_name = '''', rk_kind = DEFAULT_KIND_NAME\<rparr>"

definition new_key :: "string \<Rightarrow> resource_key" where
  "new_key name = default_resource_key\<lparr>rk_name := name\<rparr>"

definition namespaced_key :: "string \<Rightarrow> string \<Rightarrow> resource_key" where
  "namespaced_key name namespace = default_resource_key\<lparr>rk_name := name, rk_namespace := namespace\<rparr>"

text \<open>\<open>unwrap_or\<close> and \<open>unwrap_or_default\<close> of the optional strings of the API objects.\<close>

fun unwrap_or :: "'a option \<Rightarrow> 'a \<Rightarrow> 'a" where
  "unwrap_or None d = d"
| "unwrap_or (Some x) d = x"

definition key_from_parts :: "string option \<Rightarrow> string option \<Rightarrow> string \<Rightarrow> string option \<Rightarrow> resource_key" where
  "key_from_parts grp namespace name kind =
     \<lparr>rk_group = unwrap_or grp DEFAULT_GROUP_NAME, rk_namespace = unwrap_or namespace DEFAULT_NAMESPACE_NAME,
      rk_name = name, rk_kind = unwrap_or kind DEFAULT_KIND_NAME\<rparr>"

subsection \<open>Display names of resources\<close>

definition create_id :: "string \<Rightarrow> string \<Rightarrow> string" where
  "create_id name namespace = namespace @ ''.'' @ name"

definition display_key :: "resource_key \<Rightarrow> string" where
  "display_key k = create_id (rk_name k) (rk_namespace k)"

text \<open>
  A Kubernetes namespace is an RFC 1123 label, so it holds no dot, while object names may.
  Under that condition the display name determines namespace and name.
\<close>

lemma append_dot_cancel:
  assumes "CHR ''.'' \<notin> set a" "CHR ''.'' \<notin> set b" "a @ ''.'' @ x = b @ ''.'' @ y"
  shows "a = b \<and> x = y"
  using assms
proof (induction a arbitrary: b)
  case Nil
  then show ?case by (cases b) auto
next
  case (Cons c a)
  then obtain b' where "b = c # b'" by (cases b) auto
  with Cons show ?case by simp
qed

lemma create_id_inject:
  assumes "CHR ''.'' \<notin> set ns1" "CHR ''.'' \<notin> set ns2"
  shows "create_id n1 ns1 = create_id n2 ns2 \<longleftrightarrow> n1 = n2 \<and> ns1 = ns2"
  using append_dot_cancel [OF assms, of n1 n2] by (auto simp: create_id_def)

subsection \<open>The parent reference of a route\<close>

record route_ref_key =
  rrk_resource_key :: resource_key
  rrk_section_name :: "string option"
  rrk_port :: "32 word option"

record parent_reference =
  pr_group :: "string option"
  pr_kind :: "string option"
  pr_name :: string
  pr_namespace :: "string option"
  pr_port :: "32 word option"
  pr_section_name :: "string option"

definition route_ref_key_from :: "parent_reference \<Rightarrow> string \<Rightarrow> route_ref_key" where
  "route_ref_key_from route_parent route_namespace =
     \<lparr>rrk_resource_key =
        \<lparr>rk_group = unwrap_or (pr_group route_parent) DEFAULT_GROUP_NAME,
         rk_namespace = unwrap_or (pr_namespace route_parent) route_namespace,
         rk_name = pr_name route_parent,
         rk_kind = unwrap_or (pr_kind route_parent) DEFAULT_KIND_NAME\<rparr>,
      rrk_section_name = pr_section_name route_parent,
      rrk_port = pr_port route_parent\<rparr>"

text \<open>The conversion of a bare \<open>ParentReference\<close>, whose kind is not defaulted to \<open>Gateway\<close>.\<close>

definition key_from_parent_reference :: "parent_reference \<Rightarrow> resource_key" where
  "key_from_parent_reference value =
     \<lparr>rk_group = DEFAULT_GROUP_NAME,
      rk_namespace = unwrap_or (pr_namespace value) DEFAULT_NAMESPACE_NAME,
      rk_name = pr_name value,
      rk_kind = unwrap_or (pr_kind value) ''''\<rparr>"

subsection \<open>Gateway implementations\<close>

datatype gateway_implementation_type = Envoy | Agentgateway | Orion

definition parse_implementation_type :: "string option \<Rightarrow> string + gateway_implementation_type" where
  "parse_implementation_type value = (case value of
       None \<Rightarrow> Inr Envoy
     | Some s \<Rightarrow>
         if s = ''agentgateway'' then Inr Agentgateway
         else if s = ''orion'' then Inr Orion
         else if s = ''envoy'' then Inr Envoy
         else Inl ''Invalid backend type '')"

subsection \<open>Process configuration\<close>

record address =
  addr_hostname :: string
  addr_port :: "16 word"

record configuration =
  controller_name :: string
  enable_open_telemetry :: "bool option"
  envoy_gateway_control_plane :: "address option"
  agentgateway_gateway_control_plane :: "address option"
  orion_gateway_control_plane :: "address option"
  admin_interface :: "address option"

datatype configuration_error = ControllerName | ControlPlane

definition validate_configuration :: "configuration \<Rightarrow> configuration_error + unit" where
  "validate_configuration c =
     (if controller_name c = '''' then Inl ControllerName
      else case (agentgateway_gateway_control_plane c, envoy_gateway_control_plane c) of
             (None, None) \<Rightarrow> Inl ControlPlane
           | _ \<Rightarrow> Inr ())"

text \<open>
  \<open>Address::to_ips\<close>: the textual socket address when it parses, both wildcard addresses when it
  does not. The parser of the standard library is the parameter \<open>parse\<close>; \<open>show_port\<close> prints the
  port.
\<close>

definition display_address :: "(16 word \<Rightarrow> string) \<Rightarrow> address \<Rightarrow> string" where
  "display_address show_port a = addr_hostname a @ '':'' @ show_port (addr_port a)"

datatype 'ip socket_addr = Parsed 'ip | Any_V4 "16 word" | Any_V6 "16 word"

definition to_ips :: "(16 word \<Rightarrow> string) \<Rightarrow> (string \<Rightarrow> 'ip option) \<Rightarrow> address \<Rightarrow> 'ip socket_addr list" where
  "to_ips show_port parse a = (case parse (display_address show_port a) of
       Some socket \<Rightarrow> [Parsed socket]
     | None \<Rightarrow> [Any_V4 (addr_port a), Any_V6 (addr_port a)])"

lemma validate_configuration_ok_iff:
  "validate_configuration c = Inr () \<longleftrightarrow>
     controller_name c \<noteq> '''' \<and>
     (agentgateway_gateway_control_plane c \<noteq> None \<or> envoy_gateway_control_plane c \<noteq> None)"
  by (auto simp: validate_configuration_def split: option.splits)

lemma parse_implementation_type_ok_iff:
  "(\<exists>t. parse_implementation_type v = Inr t) \<longleftrightarrow>
     v \<in> {None, Some ''envoy'', Some ''agentgateway'', Some ''orion''}"
  by (auto simp: parse_implementation_type_def split: option.splits)

end
