(* ===== verification/Kube_Objects.thy ===== *)
theory Kube_Objects
  imports Resource_Keys
begin

section \<open>The Kubernetes objects the controller reads and writes\<close>

text \<open>
  The API objects of the crates \<open>gateway_api_with_extensions\<close> and \<open>k8s_openapi\<close>, as records of the
  fields the controller reads or writes. Those types are plain data; a field \<open>..._rest\<close> stands
  for the part of a specification the controller only compares (its \<open>check_spec\<close> functions
  compare whole specifications), so two objects are equal here exactly when they are equal there.
  The conversions of objects into \<open>ResourceKey\<close> follow
  \<open>kubvernor-common/src/resource_key.rs\<close>. Integers of 32 bits are words; where the sign matters
  they are read with \<open>sint\<close>.
\<close>

record object_meta =
  om_name :: "string option"
  om_generate_name :: "string option"
  om_namespace :: "string option"
  om_uid :: "string option"
  om_resource_version :: "string option"
  om_generation :: "int option"
  om_finalizers :: "string list option"
  om_deletion_timestamp :: "string option"
  om_labels :: "(string \<times> string) list option"
  om_managed_fields :: "string option"

definition empty_meta :: object_meta where
  "empty_meta = \<lparr>om_name = None, om_generate_name = None, om_namespace = None, om_uid = None,
     om_resource_version = None, om_generation = None, om_finalizers = None,
     om_deletion_timestamp = None, om_labels = None, om_managed_fields = None\<rparr>"

text \<open>\<open>ResourceExt::name_any\<close>: the name, the generate name, or the empty string.\<close>

definition name_any :: "object_meta \<Rightarrow> string" where
  "name_any m = (case om_name m of Some n \<Rightarrow> n | None \<Rightarrow> unwrap_or (om_generate_name m) '''')"

definition meta_namespace :: "object_meta \<Rightarrow> string" where
  "meta_namespace m = unwrap_or (om_namespace m) DEFAULT_NAMESPACE_NAME"

record condition =
  cond_type :: string
  cond_status :: string
  cond_reason :: string
  cond_message :: string
  cond_observed_generation :: "int option"
  cond_last_transition_time :: string

subsection \<open>Routes\<close>

record http_header =
  hh_name :: string
  hh_value :: string

record header_modifier =
  hm_add :: "http_header list option"
  hm_remove :: "string list option"
  hm_set :: "http_header list option"

record backend_object_reference =
  bor_group :: "string option"
  bor_kind :: "string option"
  bor_name :: string
  bor_namespace :: "string option"
  bor_port :: "32 word option"

text \<open>\<open>HTTPBackendReference\<close> and \<open>GRPCBackendReference\<close> have the same fields.\<close>

record backend_reference = backend_object_reference +
  br_weight :: "32 word option"

datatype http_filter_type = RequestHeaderModifier | ResponseHeaderModifier | RequestMirror
  | RequestRedirect | URLRewrite | ExtensionRef

datatype path_operation = ReplaceFullPath | ReplacePrefixMatch

record path_modifier =
  pmo_type :: path_operation
  pmo_replace_full_path :: "string option"
  pmo_replace_prefix_match :: "string option"

datatype redirect_scheme = Scheme_Http | Scheme_Https

record request_redirect =
  rr_scheme :: "redirect_scheme option"
  rr_hostname :: "string option"
  rr_path :: "path_modifier option"
  rr_port :: "32 word option"
  rr_status_code :: "int option"

record fraction =
  fr_numerator :: "32 word"
  fr_denominator :: "32 word option"

record request_mirror =
  rmi_backend_ref :: backend_object_reference
  rmi_percent :: "32 word option"
  rmi_fraction :: "fraction option"

record url_rewrite =
  ur_hostname :: "string option"
  ur_path :: "path_modifier option"

record http_route_filter =
  hf_type :: http_filter_type
  hf_request_header_modifier :: "header_modifier option"
  hf_response_header_modifier :: "header_modifier option"
  hf_request_mirror :: "request_mirror option"
  hf_request_redirect :: "request_redirect option"
  hf_url_rewrite :: "url_rewrite option"

datatype match_type = Exact | RegularExpression

record name_match =
  nm_name :: string
  nm_type :: "match_type option"
  nm_value :: string

datatype path_match_type = PathExact | PathPrefix | PathRegularExpression

record path_match =
  pm_type :: "path_match_type option"
  pm_value :: "string option"

datatype http_method = GET | HEAD | POST | PUT | DELETE | CONNECT | OPTIONS | TRACE | PATCH

record route_match =
  rm_path :: "path_match option"
  rm_headers :: "name_match list option"
  rm_query_params :: "name_match list option"
  rm_method :: "http_method option"

record http_route_rule =
  hrr_matches :: "route_match list option"
  hrr_filters :: "http_route_filter list option"
  hrr_backend_refs :: "backend_reference list option"

record parent_route_status =
  prs_conditions :: "condition list"
  prs_controller_name :: string
  prs_parent_ref :: parent_reference

record http_route_spec =
  hrs_parent_refs :: "parent_reference list option"
  hrs_hostnames :: "string list option"
  hrs_rules :: "http_route_rule list option"
  hrs_rest :: string

record http_route =
  hr_metadata :: object_meta
  hr_spec :: http_route_spec
  hr_status :: "parent_route_status list option"

datatype grpc_filter_type = GrpcRequestHeaderModifier | GrpcResponseHeaderModifier
  | GrpcRequestMirror | GrpcExtensionRef

record grpc_route_filter =
  gf_type :: grpc_filter_type
  gf_request_header_modifier :: "header_modifier option"
  gf_response_header_modifier :: "header_modifier option"
  gf_request_mirror :: "request_mirror option"

record grpc_method_match =
  gmm_type :: "match_type option"
  gmm_service :: "string option"
  gmm_method :: "string option"

record grpc_route_match =
  gm_headers :: "name_match list option"
  gm_method :: "grpc_method_match option"

record grpc_route_rule =
  grr_matches :: "grpc_route_match list option"
  grr_filters :: "grpc_route_filter list option"
  grr_backend_refs :: "backend_reference list option"

record grpc_route_spec =
  grs_parent_refs :: "parent_reference list option"
  grs_hostnames :: "string list option"
  grs_rules :: "grpc_route_rule list option"
  grs_rest :: string

record grpc_route =
  gr_metadata :: object_meta
  gr_spec :: grpc_route_spec
  gr_status :: "parent_route_status list option"

subsection \<open>Gateways and gateway classes\<close>

datatype namespaces_from = All | Same | Selector

record label_selector =
  ls_match_labels :: "(string \<times> string) list option"

record allowed_routes_namespaces =
  arn_from :: "namespaces_from option"
  arn_selector :: "label_selector option"

record allowed_route_kind =
  ark_group :: "string option"
  ark_kind :: string

record allowed_routes =
  ar_kinds :: "allowed_route_kind list option"
  ar_namespaces :: "allowed_routes_namespaces option"

record secret_reference =
  sr_group :: "string option"
  sr_kind :: "string option"
  sr_name :: string
  sr_namespace :: "string option"

datatype tls_mode = Terminate_Mode | Passthrough_Mode

record listener_tls =
  lt_mode :: "tls_mode option"
  lt_certificate_refs :: "secret_reference list option"

record listener_spec =
  li_name :: string
  li_port :: "32 word"
  li_hostname :: "string option"
  li_protocol :: string
  li_allowed_routes :: "allowed_routes option"
  li_tls :: "listener_tls option"

record gateway_status_address =
  gsa_type :: "string option"
  gsa_value :: string

record listener_status =
  lst_name :: string
  lst_attached_routes :: "32 word"
  lst_conditions :: "condition list"
  lst_supported_kinds :: "allowed_route_kind list option"

record gateway_status =
  gst_addresses :: "gateway_status_address list option"
  gst_conditions :: "condition list option"
  gst_listeners :: "listener_status list option"

record gateway_spec =
  gs_gateway_class_name :: string
  gs_listeners :: "listener_spec list"
  gs_rest :: string

record kube_gateway =
  kg_metadata :: object_meta
  kg_spec :: gateway_spec
  kg_status :: "gateway_status option"

record parameters_reference =
  par_group :: string
  par_kind :: string
  par_name :: string
  par_namespace :: "string option"

record gateway_class_spec =
  gcs_controller_name :: string
  gcs_parameters_ref :: "parameters_reference option"
  gcs_rest :: string

record gateway_class_status =
  gcst_conditions :: "condition list option"
  gcst_supported_features :: "string list option"

record gateway_class =
  gc_metadata :: object_meta
  gc_spec :: gateway_class_spec
  gc_status :: "gateway_class_status option"

subsection \<open>Inference pools\<close>

datatype failure_mode = FailOpen | FailClose

record endpoint_picker_ref =
  epr_group :: "string option"
  epr_kind :: "string option"
  epr_name :: string
  epr_port :: "32 word option"
  epr_failure_mode :: "failure_mode option"

record inference_pool_spec =
  ips_endpoint_picker_ref :: endpoint_picker_ref
  ips_selector :: "(string \<times> string) list"
  ips_target_ports :: "32 word list"

record inference_reference =
  ir_kind :: "string option"
  ir_name :: string
  ir_namespace :: "string option"

record inference_pool_parent =
  ipp_conditions :: "condition list option"
  ipp_parent_ref :: inference_reference
  ipp_controller_name :: "string option"

record inference_pool =
  ip_metadata :: object_meta
  ip_spec :: inference_pool_spec
  ip_status :: "inference_pool_parent list option option"

subsection \<open>Reference grants and services\<close>

record reference_grant_from =
  rgf_group :: string
  rgf_kind :: string
  rgf_namespace :: string

record reference_grant_to =
  rgt_group :: string
  rgt_kind :: string
  rgt_name :: "string option"

record reference_grant =
  rg_metadata :: object_meta
  rg_from :: "reference_grant_from list"
  rg_to :: "reference_grant_to list"

datatype int_or_string = IOS_Int "32 word" | IOS_String string

record service_port =
  sp_port :: "32 word"
  sp_target_port :: "int_or_string option"

record service_spec =
  ssp_cluster_ip :: "string option"
  ssp_ports :: "service_port list option"

record service =
  svc_metadata :: object_meta
  svc_spec :: "service_spec option"

subsection \<open>Keys of objects\<close>

definition key_of_gateway_class :: "gateway_class \<Rightarrow> resource_key" where
  "key_of_gateway_class value =
     \<lparr>rk_group = DEFAULT_GROUP_NAME, rk_namespace = meta_namespace (gc_metadata value),
      rk_name = name_any (gc_metadata value), rk_kind = ''GatewayClass''\<rparr>"

definition key_of_gateway :: "kube_gateway \<Rightarrow> resource_key" where
  "key_of_gateway value =
     \<lparr>rk_group = DEFAULT_GROUP_NAME, rk_namespace = meta_namespace (kg_metadata value),
      rk_name = name_any (kg_metadata value), rk_kind = ''Gateway''\<rparr>"

definition key_of_http_route :: "http_route \<Rightarrow> resource_key" where
  "key_of_http_route value =
     \<lparr>rk_group = DEFAULT_GROUP_NAME, rk_namespace = meta_namespace (hr_metadata value),
      rk_name = name_any (hr_metadata value), rk_kind = ''HTTPRoute''\<rparr>"

definition key_of_grpc_route :: "grpc_route \<Rightarrow> resource_key" where
  "key_of_grpc_route value =
     \<lparr>rk_group = DEFAULT_GROUP_NAME, rk_namespace = meta_namespace (gr_metadata value),
      rk_name = name_any (gr_metadata value), rk_kind = ''GRPCRoute''\<rparr>"

definition key_of_inference_pool :: "inference_pool \<Rightarrow> resource_key" where
  "key_of_inference_pool value =
     \<lparr>rk_group = DEFAULT_INFERENCE_GROUP_NAME, rk_namespace = meta_namespace (ip_metadata value),
      rk_name = name_any (ip_metadata value), rk_kind = ''InferencePool''\<rparr>"

definition key_of_service :: "service \<Rightarrow> resource_key" where
  "key_of_service value =
     \<lparr>rk_group = DEFAULT_GROUP_NAME, rk_namespace = meta_namespace (svc_metadata value),
      rk_name = (case (om_name (svc_metadata value), om_generate_name (svc_metadata value)) of
                   (None, None) \<Rightarrow> '''' | (Some name, _) \<Rightarrow> name | (None, Some name) \<Rightarrow> name),
      rk_kind = DEFAULT_KIND_NAME\<rparr>"

text \<open>A backend reference names its kind only when the route does: the kind defaults to the empty string.\<close>

definition key_of_backend_reference :: "'a backend_object_reference_scheme \<Rightarrow> string \<Rightarrow> resource_key" where
  "key_of_backend_reference value gateway_namespace =
     \<lparr>rk_group = DEFAULT_GROUP_NAME, rk_namespace = unwrap_or (bor_namespace value) gateway_namespace,
      rk_name = bor_name value, rk_kind = unwrap_or (bor_kind value) ''''\<rparr>"

definition key_of_parameters_ref :: "parameters_reference \<Rightarrow> resource_key" where
  "key_of_parameters_ref value =
     \<lparr>rk_group = par_group value, rk_namespace = unwrap_or (par_namespace value) DEFAULT_NAMESPACE_NAME,
      rk_name = par_name value, rk_kind = par_kind value\<rparr>"

definition key_of_grant_from :: "reference_grant_from \<Rightarrow> resource_key" where
  "key_of_grant_from value =
     \<lparr>rk_group = (if rgf_group value = '''' then DEFAULT_GROUP_NAME else rgf_group value),
      rk_namespace = rgf_namespace value, rk_name = '''', rk_kind = rgf_kind value\<rparr>"

definition key_of_grant_to :: "reference_grant_to \<Rightarrow> resource_key" where
  "key_of_grant_to value =
     \<lparr>rk_group = (if rgt_group value = '''' then DEFAULT_GROUP_NAME else rgt_group value),
      rk_namespace = '''', rk_name = unwrap_or (rgt_name value) '''', rk_kind = rgt_kind value\<rparr>"

lemma key_of_backend_reference_default_kind:
  "bor_kind b = None \<Longrightarrow> rk_kind (key_of_backend_reference b ns) = ''''"
  by (simp add: key_of_backend_reference_def)

end
