(* ===== verification/State_Store.thy ===== *)
theory State_Store
  imports Kube_Objects
begin

section \<open>The shared in-memory state\<close>

text \<open>
  \<open>kubvernor-state/src/inmemory.rs\<close>: the store every controller and service shares. Each field is
  a mutex around one \<open>HashMap\<close>; every operation takes the locks it needs, does total container
  operations and releases them, so an operation is one atomic step here. (A mutex is poisoned only
  by a panic inside a critical section; none of the critical sections can panic, so the
  \<open>LockingError\<close> results cannot arise and operations return their value directly.)

  \<^item> locale \<open>keyed_store\<close>: what a client may rely on for a keyed collection; interpreted on
    all five object collections and on the implementation types.
  \<^item> locale \<open>attachment\<close>: the contract of attach and detach against the abstract relation of
    gateways and routes; interpreted on the HTTP and GRPC operations.
  \<^item> \<open>state_wf\<close>: one entry per key and ordered route sets, kept by every operation.
\<close>

subsection \<open>Data\<close>

record route_to_inference_pool =
  rtp_route_id :: resource_key
  rtp_inference_pool_ids :: "resource_key list"

record state =
  st_gateway_classes :: "(resource_key \<times> gateway_class) list"
  st_gateways :: "(resource_key \<times> kube_gateway) list"
  st_http_routes :: "(resource_key \<times> http_route) list"
  st_grpc_routes :: "(resource_key \<times> grpc_route) list"
  st_gateways_with_routes :: "(resource_key \<times> resource_key list) list"
  st_inference_pools :: "(resource_key \<times> inference_pool) list"
  st_gateways_with_routes_with_inference_pools :: "(resource_key \<times> route_to_inference_pool list) list"
  st_gateway_implementation_types :: "(resource_key \<times> gateway_implementation_type) list"

definition new_state :: state where
  "new_state = \<lparr>st_gateway_classes = [], st_gateways = [], st_http_routes = [], st_grpc_routes = [],
     st_gateways_with_routes = [], st_inference_pools = [],
     st_gateways_with_routes_with_inference_pools = [], st_gateway_implementation_types = []\<rparr>"

subsection \<open>Gateways and gateway classes\<close>

definition save_gateway :: "resource_key \<Rightarrow> kube_gateway \<Rightarrow> state \<Rightarrow> state" where
  "save_gateway i g s = s\<lparr>st_gateways := AList.update i g (st_gateways s)\<rparr>"

definition get_gateway :: "resource_key \<Rightarrow> state \<Rightarrow> kube_gateway option" where
  "get_gateway i s = map_of (st_gateways s) i"

definition maybe_save_gateway :: "resource_key \<Rightarrow> kube_gateway \<Rightarrow> state \<Rightarrow> state" where
  "maybe_save_gateway i g s =
     (if map_of (st_gateways s) i \<noteq> None then s\<lparr>st_gateways := AList.update i g (st_gateways s)\<rparr> else s)"

definition delete_gateway :: "resource_key \<Rightarrow> state \<Rightarrow> kube_gateway option \<times> state" where
  "delete_gateway i s = (map_of (st_gateways s) i, s\<lparr>st_gateways := AList.delete i (st_gateways s)\<rparr>)"

definition get_gateways :: "state \<Rightarrow> kube_gateway list" where
  "get_gateways s = map snd (st_gateways s)"

definition save_gateway_class :: "resource_key \<Rightarrow> gateway_class \<Rightarrow> state \<Rightarrow> gateway_class option \<times> state" where
  "save_gateway_class i g s =
     (map_of (st_gateway_classes s) i, s\<lparr>st_gateway_classes := AList.update i g (st_gateway_classes s)\<rparr>)"

definition get_gateway_class_by_id :: "resource_key \<Rightarrow> state \<Rightarrow> gateway_class option" where
  "get_gateway_class_by_id i s = map_of (st_gateway_classes s) i"

definition get_gateway_classes :: "state \<Rightarrow> gateway_class list" where
  "get_gateway_classes s = map snd (st_gateway_classes s)"

definition delete_gateway_class :: "resource_key \<Rightarrow> state \<Rightarrow> gateway_class option \<times> state" where
  "delete_gateway_class i s =
     (map_of (st_gateway_classes s) i, s\<lparr>st_gateway_classes := AList.delete i (st_gateway_classes s)\<rparr>)"

definition save_gateway_type ::
    "resource_key \<Rightarrow> gateway_implementation_type \<Rightarrow> state \<Rightarrow> gateway_implementation_type option \<times> state" where
  "save_gateway_type i t s =
     (map_of (st_gateway_implementation_types s) i,
      s\<lparr>st_gateway_implementation_types := AList.update i t (st_gateway_implementation_types s)\<rparr>)"

definition get_gateway_type :: "resource_key \<Rightarrow> state \<Rightarrow> gateway_implementation_type option" where
  "get_gateway_type i s = map_of (st_gateway_implementation_types s) i"

definition delete_gateway_type :: "resource_key \<Rightarrow> state \<Rightarrow> gateway_implementation_type option \<times> state" where
  "delete_gateway_type i s =
     (map_of (st_gateway_implementation_types s) i,
      s\<lparr>st_gateway_implementation_types := AList.delete i (st_gateway_implementation_types s)\<rparr>)"

subsection \<open>Routes\<close>

definition save_http_route :: "resource_key \<Rightarrow> http_route \<Rightarrow> state \<Rightarrow> state" where
  "save_http_route i r s = s\<lparr>st_http_routes := AList.update i r (st_http_routes s)\<rparr>"

definition maybe_save_http_route :: "resource_key \<Rightarrow> http_route \<Rightarrow> state \<Rightarrow> state" where
  "maybe_save_http_route i r s =
     (if map_of (st_http_routes s) i \<noteq> None then s\<lparr>st_http_routes := AList.update i r (st_http_routes s)\<rparr> else s)"

definition delete_http_route :: "resource_key \<Rightarrow> state \<Rightarrow> http_route option \<times> state" where
  "delete_http_route i s = (map_of (st_http_routes s) i, s\<lparr>st_http_routes := AList.delete i (st_http_routes s)\<rparr>)"

definition get_http_route_by_id :: "resource_key \<Rightarrow> state \<Rightarrow> http_route option" where
  "get_http_route_by_id i s = map_of (st_http_routes s) i"

definition get_http_routes :: "state \<Rightarrow> http_route list" where
  "get_http_routes s = map snd (st_http_routes s)"

definition save_grpc_route :: "resource_key \<Rightarrow> grpc_route \<Rightarrow> state \<Rightarrow> state" where
  "save_grpc_route i r s = s\<lparr>st_grpc_routes := AList.update i r (st_grpc_routes s)\<rparr>"

definition maybe_save_grpc_route :: "resource_key \<Rightarrow> grpc_route \<Rightarrow> state \<Rightarrow> state" where
  "maybe_save_grpc_route i r s =
     (if map_of (st_grpc_routes s) i \<noteq> None then s\<lparr>st_grpc_routes := AList.update i r (st_grpc_routes s)\<rparr> else s)"

definition delete_grpc_route :: "resource_key \<Rightarrow> state \<Rightarrow> grpc_route option \<times> state" where
  "delete_grpc_route i s = (map_of (st_grpc_routes s) i, s\<lparr>st_grpc_routes := AList.delete i (st_grpc_routes s)\<rparr>)"

definition get_grpc_route_by_id :: "resource_key \<Rightarrow> state \<Rightarrow> grpc_route option" where
  "get_grpc_route_by_id i s = map_of (st_grpc_routes s) i"

subsection \<open>Routes attached to gateways\<close>

text \<open>HTTP and GRPC routes share the attachment map, as in the source; the route key holds the kind.\<close>

definition attach_http_route_to_gateway :: "resource_key \<Rightarrow> resource_key \<Rightarrow> state \<Rightarrow> state" where
  "attach_http_route_to_gateway gateway_id route_id s = s\<lparr>st_gateways_with_routes :=
     (case map_of (st_gateways_with_routes s) gateway_id of
        Some routes \<Rightarrow> AList.update gateway_id (bset_insert (\<lambda>k. k) route_id routes) (st_gateways_with_routes s)
      | None \<Rightarrow> AList.update gateway_id (bset_insert (\<lambda>k. k) route_id []) (st_gateways_with_routes s))\<rparr>"

definition attach_grpc_route_to_gateway :: "resource_key \<Rightarrow> resource_key \<Rightarrow> state \<Rightarrow> state" where
  "attach_grpc_route_to_gateway gateway_id route_id s = s\<lparr>st_gateways_with_routes :=
     (case map_of (st_gateways_with_routes s) gateway_id of
        Some routes \<Rightarrow> AList.update gateway_id (bset_insert (\<lambda>k. k) route_id routes) (st_gateways_with_routes s)
      | None \<Rightarrow> AList.update gateway_id (bset_insert (\<lambda>k. k) route_id []) (st_gateways_with_routes s))\<rparr>"

definition detach_http_route_from_gateway :: "resource_key \<Rightarrow> resource_key \<Rightarrow> state \<Rightarrow> state" where
  "detach_http_route_from_gateway gateway_id route_id s =
     (case map_of (st_gateways_with_routes s) gateway_id of
        Some routes \<Rightarrow> s\<lparr>st_gateways_with_routes :=
          AList.update gateway_id (filter (\<lambda>k. k \<noteq> route_id) routes) (st_gateways_with_routes s)\<rparr>
      | None \<Rightarrow> s)"

definition detach_grpc_route_from_gateway :: "resource_key \<Rightarrow> resource_key \<Rightarrow> state \<Rightarrow> state" where
  "detach_grpc_route_from_gateway gateway_id route_id s =
     (case map_of (st_gateways_with_routes s) gateway_id of
        Some routes \<Rightarrow> s\<lparr>st_gateways_with_routes :=
          AList.update gateway_id (filter (\<lambda>k. k \<noteq> route_id) routes) (st_gateways_with_routes s)\<rparr>
      | None \<Rightarrow> s)"

definition get_http_routes_attached_to_gateway :: "resource_key \<Rightarrow> state \<Rightarrow> http_route list option" where
  "get_http_routes_attached_to_gateway gateway_key s =
     map_option (\<lambda>ks. List.map_filter (\<lambda>k. map_of (st_http_routes s) k) ks)
       (map_of (st_gateways_with_routes s) gateway_key)"

definition get_grpc_routes_attached_to_gateway :: "resource_key \<Rightarrow> state \<Rightarrow> grpc_route list option" where
  "get_grpc_routes_attached_to_gateway gateway_key s =
     map_option (\<lambda>ks. List.map_filter (\<lambda>k. map_of (st_grpc_routes s) k) ks)
       (map_of (st_gateways_with_routes s) gateway_key)"

definition get_gateways_with_http_routes :: "resource_key list \<Rightarrow> state \<Rightarrow> resource_key list" where
  "get_gateways_with_http_routes routes s =
     fold (\<lambda>(gateway_id, stored_routes) owned_gateways.
             if filter (\<lambda>k. k \<in> set routes) stored_routes \<noteq> []
             then bset_insert (\<lambda>k. k) gateway_id owned_gateways else owned_gateways)
       (st_gateways_with_routes s) []"

subsection \<open>Inference pools\<close>

definition save_inference_pool :: "resource_key \<Rightarrow> inference_pool \<Rightarrow> state \<Rightarrow> state" where
  "save_inference_pool i p s = s\<lparr>st_inference_pools := AList.update i p (st_inference_pools s)\<rparr>"

definition maybe_save_inference_pool :: "resource_key \<Rightarrow> inference_pool \<Rightarrow> state \<Rightarrow> state" where
  "maybe_save_inference_pool i p s =
     (if map_of (st_inference_pools s) i \<noteq> None
      then s\<lparr>st_inference_pools := AList.update i p (st_inference_pools s)\<rparr> else s)"

definition get_inference_pool :: "resource_key \<Rightarrow> state \<Rightarrow> inference_pool option" where
  "get_inference_pool i s = map_of (st_inference_pools s) i"

definition delete_inference_pool :: "resource_key \<Rightarrow> state \<Rightarrow> inference_pool option \<times> state" where
  "delete_inference_pool i s =
     (map_of (st_inference_pools s) i, s\<lparr>st_inference_pools := AList.delete i (st_inference_pools s)\<rparr>)"

definition find_gateways_by_inference_pool :: "resource_key \<Rightarrow> state \<Rightarrow> resource_key list" where
  "find_gateways_by_inference_pool pool s =
     fold (\<lambda>(gateway, routes) gateway_ids.
             fold (\<lambda>r ids. if pool \<in> set (rtp_inference_pool_ids r) then bset_insert (\<lambda>k. k) gateway ids else ids)
               routes gateway_ids)
       (st_gateways_with_routes_with_inference_pools s) []"

definition find_gateways_by_route_and_inference_pool :: "resource_key \<Rightarrow> state \<Rightarrow> resource_key list" where
  "find_gateways_by_route_and_inference_pool route_id s =
     (let pools_of_route = bset_from (\<lambda>k. k) (concat (List.map_filter
            (\<lambda>p. map_option rtp_inference_pool_ids (find (\<lambda>r. rtp_route_id r = route_id) p))
            (map snd (st_gateways_with_routes_with_inference_pools s))))
      in fold (\<lambda>(gateway, routes) gateway_ids.
             fold (\<lambda>r ids. fold (\<lambda>pool ids'. if pool \<in> set (rtp_inference_pool_ids r)
                                               then bset_insert (\<lambda>k. k) gateway ids' else ids')
                             pools_of_route ids)
               routes gateway_ids)
           (st_gateways_with_routes_with_inference_pools s) [])"

definition attach_inference_pool_to_gateway ::
    "resource_key \<Rightarrow> resource_key \<Rightarrow> resource_key list \<Rightarrow> state \<Rightarrow> state" where
  "attach_inference_pool_to_gateway gateway_id route_id inference_pool_ids s =
     s\<lparr>st_gateways_with_routes_with_inference_pools :=
       (let entry = \<lparr>rtp_route_id = route_id, rtp_inference_pool_ids = inference_pool_ids\<rparr>;
            m = st_gateways_with_routes_with_inference_pools s
        in case map_of m gateway_id of
             Some routes_with_pools \<Rightarrow> AList.update gateway_id (hset_insert rtp_route_id entry routes_with_pools) m
           | None \<Rightarrow> AList.update gateway_id (hset_insert rtp_route_id entry []) m)\<rparr>"

definition detach_inference_pool_from_gateway ::
    "resource_key \<Rightarrow> resource_key \<Rightarrow> state \<Rightarrow> resource_key list \<times> state" where
  "detach_inference_pool_from_gateway gateway_id route_id s =
     (let m = st_gateways_with_routes_with_inference_pools s
      in case map_of m gateway_id of
           None \<Rightarrow> ([], s)
         | Some routes_with_pools \<Rightarrow>
             (case find (\<lambda>r. rtp_route_id r = route_id) routes_with_pools of
                None \<Rightarrow> ([], s)
              | Some r \<Rightarrow> (rtp_inference_pool_ids r,
                   s\<lparr>st_gateways_with_routes_with_inference_pools :=
                       AList.update gateway_id (bset_remove rtp_route_id route_id routes_with_pools) m\<rparr>)))"

subsection \<open>The contract of a keyed collection\<close>

locale keyed_store =
  fixes lookup :: "'k \<Rightarrow> 's \<Rightarrow> 'v option"
    and save :: "'k \<Rightarrow> 'v \<Rightarrow> 's \<Rightarrow> 's"
    and remove :: "'k \<Rightarrow> 's \<Rightarrow> 'v option \<times> 's"
  assumes lookup_save: "lookup k (save i v s) = (if k = i then Some v else lookup k s)"
    and remove_returns: "fst (remove i s) = lookup i s"
    and lookup_remove: "lookup k (snd (remove i s)) = (if k = i then None else lookup k s)"
begin

lemma save_then_remove: "fst (remove i (save i v s)) = Some v"
  by (simp add: remove_returns lookup_save)

lemma remove_twice: "fst (remove i (snd (remove i s))) = None"
  by (simp add: remove_returns lookup_remove)

lemma save_remove_restores: "lookup i s = None \<Longrightarrow> lookup k (snd (remove i (save i v s))) = lookup k s"
  by (simp add: lookup_remove lookup_save)

lemma save_commute: "i \<noteq> j \<Longrightarrow> lookup k (save i v (save j w s)) = lookup k (save j w (save i v s))"
  by (simp add: lookup_save)

text \<open>After any sequence of saves the last one of a key is the one that is read.\<close>

lemma lookup_saves:
  "lookup k (fold (\<lambda>(i, v). save i v) ps s) = (case map_of (rev ps) k of Some v \<Rightarrow> Some v | None \<Rightarrow> lookup k s)"
proof (induction ps arbitrary: s)
  case (Cons p ps)
  then show ?case by (cases p) (auto simp: lookup_save map_add_def split: option.splits)
qed simp

end

locale conditional_store = keyed_store +
  fixes maybe_save :: "'a \<Rightarrow> 'c \<Rightarrow> 'b \<Rightarrow> 'b"
  assumes lookup_maybe_save:
    "lookup k (maybe_save i v s) = (if k = i \<and> lookup i s \<noteq> None then Some v else lookup k s)"
begin

text \<open>A conditional save never brings back an object that was removed.\<close>

lemma maybe_save_after_remove: "lookup i (maybe_save i v (snd (remove i s))) = None"
  by (simp add: lookup_maybe_save lookup_remove)

lemma maybe_save_dom: "lookup k (maybe_save i v s) = None \<longleftrightarrow> lookup k s = None"
  by (auto simp: lookup_maybe_save)

end

lemmas store_defs = save_gateway_def get_gateway_def maybe_save_gateway_def delete_gateway_def
  save_gateway_class_def get_gateway_class_by_id_def delete_gateway_class_def
  save_gateway_type_def get_gateway_type_def delete_gateway_type_def
  save_http_route_def maybe_save_http_route_def delete_http_route_def get_http_route_by_id_def
  save_grpc_route_def maybe_save_grpc_route_def delete_grpc_route_def get_grpc_route_by_id_def
  save_inference_pool_def maybe_save_inference_pool_def get_inference_pool_def delete_inference_pool_def

interpretation gateways: conditional_store get_gateway save_gateway delete_gateway maybe_save_gateway
  by unfold_locales (auto simp: store_defs update_conv' delete_conv')

interpretation http_routes: conditional_store get_http_route_by_id save_http_route delete_http_route maybe_save_http_route
  by unfold_locales (auto simp: store_defs update_conv' delete_conv')

interpretation grpc_routes: conditional_store get_grpc_route_by_id save_grpc_route delete_grpc_route maybe_save_grpc_route
  by unfold_locales (auto simp: store_defs update_conv' delete_conv')

interpretation inference_pools: conditional_store get_inference_pool save_inference_pool
    delete_inference_pool maybe_save_inference_pool
  by unfold_locales (auto simp: store_defs update_conv' delete_conv')

interpretation gateway_classes: keyed_store get_gateway_class_by_id
    "\<lambda>i c s. snd (save_gateway_class i c s)" delete_gateway_class
  by unfold_locales (auto simp: store_defs update_conv' delete_conv')

interpretation gateway_types: keyed_store get_gateway_type
    "\<lambda>i t s. snd (save_gateway_type i t s)" delete_gateway_type
  by unfold_locales (auto simp: store_defs update_conv' delete_conv')

subsection \<open>The contract of attachments\<close>

text \<open>
  The abstract state of the attachment map is a relation between gateway keys and route keys.
  A gateway may be in the map with no route: \<open>detach\<close> leaves an empty set behind.
\<close>

definition attached :: "state \<Rightarrow> resource_key \<Rightarrow> resource_key \<Rightarrow> bool" where
  "attached s g r \<longleftrightarrow> (case map_of (st_gateways_with_routes s) g of None \<Rightarrow> False | Some rs \<Rightarrow> r \<in> set rs)"

locale attachment =
  fixes related :: "'s \<Rightarrow> 'k \<Rightarrow> 'r \<Rightarrow> bool"
    and attach :: "'k \<Rightarrow> 'r \<Rightarrow> 's \<Rightarrow> 's"
    and detach :: "'k \<Rightarrow> 'r \<Rightarrow> 's \<Rightarrow> 's"
  assumes related_attach: "related (attach g r s) g' r' \<longleftrightarrow> (g' = g \<and> r' = r) \<or> related s g' r'"
    and related_detach: "related (detach g r s) g' r' \<longleftrightarrow> \<not> (g' = g \<and> r' = r) \<and> related s g' r'"
begin

lemma related_attach_all:
  "related (fold (\<lambda>g. attach g r) gs s) g' r' \<longleftrightarrow> (g' \<in> set gs \<and> r' = r) \<or> related s g' r'"
  by (induction gs arbitrary: s) (auto simp: related_attach)

lemma related_detach_all:
  "related (fold (\<lambda>g. detach g r) gs s) g' r' \<longleftrightarrow> \<not> (g' \<in> set gs \<and> r' = r) \<and> related s g' r'"
  by (induction gs arbitrary: s) (auto simp: related_detach)

text \<open>Attaching a route to its parents and detaching it from them again restores the relation.\<close>

lemma detach_undoes_attach:
  "(\<And>g. \<not> related s g r) \<Longrightarrow>
     related (fold (\<lambda>g. detach g r) gs (fold (\<lambda>g. attach g r) gs s)) = related s"
  by (intro ext) (auto simp: related_detach_all related_attach_all)

end

interpretation http_attachment: attachment attached attach_http_route_to_gateway detach_http_route_from_gateway
  by unfold_locales (auto simp: attached_def attach_http_route_to_gateway_def
      detach_http_route_from_gateway_def update_conv' split: option.splits)

interpretation grpc_attachment: attachment attached attach_grpc_route_to_gateway detach_grpc_route_from_gateway
  by unfold_locales (auto simp: attached_def attach_grpc_route_to_gateway_def
      detach_grpc_route_from_gateway_def update_conv' split: option.splits)

text \<open>The inference pools recorded for a route on a gateway.\<close>

definition pools_of :: "state \<Rightarrow> resource_key \<Rightarrow> resource_key \<Rightarrow> resource_key list option" where
  "pools_of s g r = (case map_of (st_gateways_with_routes_with_inference_pools s) g of
     None \<Rightarrow> None
   | Some rs \<Rightarrow> map_option rtp_inference_pool_ids (find (\<lambda>e. rtp_route_id e = r) rs))"

subsection \<open>Well-formed states\<close>

definition hash_wf :: "('k \<times> 'v) list \<Rightarrow> bool" where
  "hash_wf m \<longleftrightarrow> distinct (map fst m)"

definition all_values :: "('v \<Rightarrow> bool) \<Rightarrow> ('k \<times> 'v) list \<Rightarrow> bool" where
  "all_values P m \<longleftrightarrow> (\<forall>(k, v) \<in> set m. P v)"

definition state_wf :: "state \<Rightarrow> bool" where
  "state_wf s \<longleftrightarrow>
     hash_wf (st_gateway_classes s) \<and> hash_wf (st_gateways s) \<and> hash_wf (st_http_routes s) \<and>
     hash_wf (st_grpc_routes s) \<and> hash_wf (st_gateways_with_routes s) \<and> hash_wf (st_inference_pools s) \<and>
     hash_wf (st_gateways_with_routes_with_inference_pools s) \<and> hash_wf (st_gateway_implementation_types s) \<and>
     all_values (bset_wf (\<lambda>k. k)) (st_gateways_with_routes s) \<and>
     all_values (\<lambda>rs. distinct (map rtp_route_id rs)) (st_gateways_with_routes_with_inference_pools s)"

lemma hash_wf_update [simp, intro]: "hash_wf m \<Longrightarrow> hash_wf (AList.update k v m)"
  by (simp add: hash_wf_def distinct_update)

lemma hash_wf_delete [simp, intro]: "hash_wf m \<Longrightarrow> hash_wf (AList.delete k m)"
  by (simp add: hash_wf_def distinct_delete)

lemma hash_wf_get: "hash_wf m \<Longrightarrow> (k, v) \<in> set m \<longleftrightarrow> map_of m k = Some v"
  by (simp add: hash_wf_def map_of_eq_Some_iff)

lemma all_values_update [simp, intro]:
  assumes "hash_wf m" "all_values P m" "P x"
  shows "all_values P (AList.update i x m)"
proof -
  have "hash_wf (AList.update i x m)" using assms(1) by simp
  then show ?thesis
    using assms unfolding all_values_def by (auto simp: hash_wf_get update_conv' split: if_splits)
qed

lemma all_values_get: "all_values P m \<Longrightarrow> map_of m k = Some v \<Longrightarrow> P v"
  by (auto simp: all_values_def dest: map_of_SomeD)

lemma state_wf_new: "state_wf new_state"
  by (simp add: state_wf_def new_state_def hash_wf_def all_values_def)

lemma attached_wf:
  "state_wf s \<Longrightarrow> map_of (st_gateways_with_routes s) g = Some rs \<Longrightarrow> bset_wf (\<lambda>k. k) rs"
  unfolding state_wf_def by (blast intro: all_values_get)

lemma pools_wf:
  "state_wf s \<Longrightarrow> map_of (st_gateways_with_routes_with_inference_pools s) g = Some rs \<Longrightarrow>
     distinct (map rtp_route_id rs)"
  unfolding state_wf_def by (blast intro: all_values_get [where P = "\<lambda>rs. distinct (map rtp_route_id rs)"])

lemma state_wf_simple_ops:
  assumes "state_wf s"
  shows "state_wf (save_gateway i g s)" "state_wf (maybe_save_gateway i g s)" "state_wf (snd (delete_gateway i s))"
    "state_wf (snd (save_gateway_class i c s))" "state_wf (snd (delete_gateway_class i s))"
    "state_wf (snd (save_gateway_type i t s))" "state_wf (snd (delete_gateway_type i s))"
    "state_wf (save_http_route i r s)" "state_wf (maybe_save_http_route i r s)" "state_wf (snd (delete_http_route i s))"
    "state_wf (save_grpc_route i q s)" "state_wf (maybe_save_grpc_route i q s)" "state_wf (snd (delete_grpc_route i s))"
    "state_wf (save_inference_pool i p s)" "state_wf (maybe_save_inference_pool i p s)"
    "state_wf (snd (delete_inference_pool i s))"
  using assms by (simp_all add: state_wf_def store_defs)

lemma state_wf_attach_routes: "state_wf s \<Longrightarrow> state_wf (attach_http_route_to_gateway g r s)"
  using attached_wf [of s g]
  by (auto simp: state_wf_def attach_http_route_to_gateway_def split: option.splits)

lemma attach_grpc_is_attach_http: "attach_grpc_route_to_gateway = attach_http_route_to_gateway"
  by (simp add: attach_grpc_route_to_gateway_def attach_http_route_to_gateway_def fun_eq_iff)

lemma detach_grpc_is_detach_http: "detach_grpc_route_from_gateway = detach_http_route_from_gateway"
  by (simp add: detach_grpc_route_from_gateway_def detach_http_route_from_gateway_def fun_eq_iff)

lemma state_wf_detach_routes: "state_wf s \<Longrightarrow> state_wf (detach_http_route_from_gateway g r s)"
  using attached_wf [of s g]
  by (auto simp: state_wf_def detach_http_route_from_gateway_def split: option.splits)

lemma state_wf_attach_pools: "state_wf s \<Longrightarrow> state_wf (attach_inference_pool_to_gateway g r ps s)"
  using pools_wf [of s g]
  by (auto simp: state_wf_def attach_inference_pool_to_gateway_def Let_def hset_insert_def split: option.splits)

lemma state_wf_detach_pools: "state_wf s \<Longrightarrow> state_wf (snd (detach_inference_pool_from_gateway g r s))"
  using pools_wf [of s g]
  by (auto simp: state_wf_def detach_inference_pool_from_gateway_def Let_def bset_remove_def
      distinct_map_filter split: option.splits)

lemmas state_wf_ops = state_wf_simple_ops state_wf_attach_routes state_wf_detach_routes
  state_wf_attach_pools state_wf_detach_pools

subsection \<open>Queries over the attachments\<close>

lemma bset_wf_fold:
  assumes "\<And>x acc. bset_wf key acc \<Longrightarrow> bset_wf key (f x acc)" "bset_wf key acc"
  shows "bset_wf key (fold f xs acc)"
  using assms(2) by (induction xs arbitrary: acc) (auto intro: assms(1))

lemma set_fold_collect:
  assumes "\<And>x acc. set (f x acc) = h x \<union> set acc"
  shows "set (fold f xs acc) = (\<Union>x\<in>set xs. h x) \<union> set acc"
  using assms by (induction xs arbitrary: acc) auto

lemma set_fold_insert_if:
  "set (fold (\<lambda>r ids. if P r then bset_insert (\<lambda>k. k) g ids else ids) rs acc) =
     (if \<exists>r\<in>set rs. P r then insert g (set acc) else set acc)"
  by (induction rs arbitrary: acc) auto

lemma set_fold_insert_if2:
  "set (fold (\<lambda>r ids. fold (\<lambda>p ids'. if Q r p then bset_insert (\<lambda>k. k) g ids' else ids') ps ids) rs acc) =
     (if \<exists>r\<in>set rs. \<exists>p\<in>set ps. Q r p then insert g (set acc) else set acc)"
  by (induction rs arbitrary: acc) (auto simp: set_fold_insert_if)

lemma wf_fold_insert_if:
  "bset_wf (\<lambda>k. k) acc \<Longrightarrow> bset_wf (\<lambda>k. k) (fold (\<lambda>r ids. if P r then bset_insert (\<lambda>k. k) g ids else ids) rs acc)"
  by (rule bset_wf_fold) auto

lemma Union_entries:
  assumes "hash_wf m"
  shows "(\<Union>x\<in>set m. if P (snd x) then {fst x} else {}) = {g. \<exists>v. map_of m g = Some v \<and> P v}"
proof (intro set_eqI iffI)
  fix g assume "g \<in> (\<Union>x\<in>set m. if P (snd x) then {fst x} else {})"
  then obtain x where "x \<in> set m" "P (snd x)" "fst x = g" by (auto split: if_splits)
  then have "(g, snd x) \<in> set m" by (metis prod.collapse)
  then have "map_of m g = Some (snd x)" using assms by (simp add: hash_wf_get)
  with \<open>P (snd x)\<close> show "g \<in> {g. \<exists>v. map_of m g = Some v \<and> P v}" by blast
next
  fix g assume "g \<in> {g. \<exists>v. map_of m g = Some v \<and> P v}"
  then obtain v where "(g, v) \<in> set m" "P v" by (auto dest: map_of_SomeD)
  then show "g \<in> (\<Union>x\<in>set m. if P (snd x) then {fst x} else {})" by force
qed

lemma set_get_gateways_with_http_routes:
  assumes "state_wf s"
  shows "set (get_gateways_with_http_routes routes s) = {g. \<exists>r\<in>set routes. attached s g r}"
proof -
  let ?P = "\<lambda>rs. filter (\<lambda>k. k \<in> set routes) rs \<noteq> []"
  have wf: "hash_wf (st_gateways_with_routes s)" using assms by (simp add: state_wf_def)
  have "set (get_gateways_with_http_routes routes s) =
      (\<Union>x\<in>set (st_gateways_with_routes s). if ?P (snd x) then {fst x} else {})"
    unfolding get_gateways_with_http_routes_def
    by (subst set_fold_collect [where h = "\<lambda>x. if ?P (snd x) then {fst x} else {}"]) (auto split: prod.splits)
  also have "\<dots> = {g. \<exists>v. map_of (st_gateways_with_routes s) g = Some v \<and> ?P v}" by (rule Union_entries [OF wf])
  also have "\<dots> = {g. \<exists>r\<in>set routes. attached s g r}"
    by (auto simp: attached_def filter_empty_conv split: option.splits)
  finally show ?thesis .
qed

lemma wf_get_gateways_with_http_routes: "bset_wf (\<lambda>k. k) (get_gateways_with_http_routes routes s)"
  unfolding get_gateways_with_http_routes_def by (rule bset_wf_fold) (auto split: prod.splits)

lemma find_distinct_key:
  assumes "distinct (map f xs)"
  shows "find (\<lambda>x. f x = k) xs = Some y \<longleftrightarrow> y \<in> set xs \<and> f y = k"
  using assms by (induction xs) auto

lemma pools_of_Some_iff:
  assumes "state_wf s"
  shows "pools_of s g r = Some ps \<longleftrightarrow>
     (\<exists>rs. map_of (st_gateways_with_routes_with_inference_pools s) g = Some rs \<and>
        (\<exists>e\<in>set rs. rtp_route_id e = r \<and> rtp_inference_pool_ids e = ps))"
proof (cases "map_of (st_gateways_with_routes_with_inference_pools s) g")
  case (Some rs)
  have "distinct (map rtp_route_id rs)" using pools_wf [OF assms Some] .
  with Some show ?thesis by (auto simp: pools_of_def find_distinct_key)
qed (simp add: pools_of_def)

lemma set_find_gateways_by_inference_pool:
  assumes "state_wf s"
  shows "set (find_gateways_by_inference_pool pool s) = {g. \<exists>r ps. pools_of s g r = Some ps \<and> pool \<in> set ps}"
proof -
  let ?m = "st_gateways_with_routes_with_inference_pools s"
  let ?P = "\<lambda>rs. \<exists>r\<in>set rs. pool \<in> set (rtp_inference_pool_ids r)"
  have wf: "hash_wf ?m" using assms by (simp add: state_wf_def)
  have "set (find_gateways_by_inference_pool pool s) = (\<Union>x\<in>set ?m. if ?P (snd x) then {fst x} else {})"
    unfolding find_gateways_by_inference_pool_def
    by (subst set_fold_collect [where h = "\<lambda>x. if ?P (snd x) then {fst x} else {}"])
      (auto simp: set_fold_insert_if split: prod.splits)
  also have "\<dots> = {g. \<exists>v. map_of ?m g = Some v \<and> ?P v}" by (rule Union_entries [OF wf])
  also have "\<dots> = {g. \<exists>r ps. pools_of s g r = Some ps \<and> pool \<in> set ps}"
    unfolding pools_of_Some_iff [OF assms] by blast
  finally show ?thesis .
qed

lemma set_concat_map_filter: "set (concat (List.map_filter f xs)) = {y. \<exists>x\<in>set xs. \<exists>ys. f x = Some ys \<and> y \<in> set ys}"
  by (induction xs) (auto simp: List.map_filter_simps split: option.splits)

lemma pools_of_lookup:
  "pools_of s g r = Some ps \<longleftrightarrow>
     (\<exists>v. map_of (st_gateways_with_routes_with_inference_pools s) g = Some v \<and>
        map_option rtp_inference_pool_ids (find (\<lambda>e. rtp_route_id e = r) v) = Some ps)"
  by (auto simp: pools_of_def split: option.splits)

text \<open>The pools of a route, collected over all gateways.\<close>

lemma set_find_gateways_by_route_and_inference_pool:
  assumes "state_wf s"
  shows "set (find_gateways_by_route_and_inference_pool route s) =
    {g. \<exists>g' r ps ps' pool. pools_of s g' route = Some ps \<and> pools_of s g r = Some ps' \<and> pool \<in> set ps \<and> pool \<in> set ps'}"
proof -
  let ?m = "st_gateways_with_routes_with_inference_pools s"
  let ?f = "\<lambda>p. map_option rtp_inference_pool_ids (find (\<lambda>r. rtp_route_id r = route) p)"
  define psl where "psl = bset_from (\<lambda>k. k) (concat (List.map_filter ?f (map snd ?m)))"
  let ?P = "\<lambda>rs. \<exists>r\<in>set rs. \<exists>p\<in>set psl. p \<in> set (rtp_inference_pool_ids r)"
  have wf: "hash_wf ?m" using assms by (simp add: state_wf_def)
  have "set psl = {pool. \<exists>p\<in>set ?m. \<exists>ps. ?f (snd p) = Some ps \<and> pool \<in> set ps}"
    unfolding psl_def set_bset_from_id set_concat_map_filter by auto
  also have "\<dots> = {pool. \<exists>g' v. map_of ?m g' = Some v \<and> (\<exists>ps. ?f v = Some ps \<and> pool \<in> set ps)}"
  proof (intro set_eqI iffI)
    fix q assume "q \<in> {pool. \<exists>p\<in>set ?m. \<exists>ps. ?f (snd p) = Some ps \<and> pool \<in> set ps}"
    then obtain p ps where p: "p \<in> set ?m" "?f (snd p) = Some ps" "q \<in> set ps" by blast
    then have "map_of ?m (fst p) = Some (snd p)" using hash_wf_get [OF wf, of "fst p" "snd p"] by simp
    with p show "q \<in> {pool. \<exists>g' v. map_of ?m g' = Some v \<and> (\<exists>ps. ?f v = Some ps \<and> pool \<in> set ps)}" by blast
  next
    fix q assume "q \<in> {pool. \<exists>g' v. map_of ?m g' = Some v \<and> (\<exists>ps. ?f v = Some ps \<and> pool \<in> set ps)}"
    then obtain g' v ps where q: "map_of ?m g' = Some v" "?f v = Some ps" "q \<in> set ps" by blast
    then have "(g', v) \<in> set ?m" by (simp add: map_of_SomeD)
    moreover have "?f (snd (g', v)) = Some ps" using q(2) by (simp only: snd_conv)
    ultimately show "q \<in> {pool. \<exists>p\<in>set ?m. \<exists>ps. ?f (snd p) = Some ps \<and> pool \<in> set ps}" using q(3) by blast
  qed
  also have "\<dots> = {pool. \<exists>g' ps. pools_of s g' route = Some ps \<and> pool \<in> set ps}"
    unfolding pools_of_lookup by auto
  finally have ps: "set psl = {pool. \<exists>g' ps. pools_of s g' route = Some ps \<and> pool \<in> set ps}" .
  have "set (find_gateways_by_route_and_inference_pool route s) = (\<Union>x\<in>set ?m. if ?P (snd x) then {fst x} else {})"
    unfolding find_gateways_by_route_and_inference_pool_def Let_def psl_def [symmetric]
    by (subst set_fold_collect [where h = "\<lambda>x. if ?P (snd x) then {fst x} else {}"])
      (auto simp: set_fold_insert_if2 split: prod.splits)
  also have "\<dots> = {g. \<exists>v. map_of ?m g = Some v \<and> ?P v}" by (rule Union_entries [OF wf])
  also have "\<dots> = {g. \<exists>r ps' pool. pools_of s g r = Some ps' \<and> pool \<in> set ps' \<and> pool \<in> set psl}"
    unfolding pools_of_Some_iff [OF assms] by blast
  finally show ?thesis unfolding ps by blast
qed

lemma wf_find_gateways_by_inference_pool: "bset_wf (\<lambda>k. k) (find_gateways_by_inference_pool pool s)"
  unfolding find_gateways_by_inference_pool_def
  by (rule bset_wf_fold) (auto split: prod.splits intro: wf_fold_insert_if)

lemma wf_find_gateways_by_route_and_inference_pool:
  "bset_wf (\<lambda>k. k) (find_gateways_by_route_and_inference_pool route s)"
  unfolding find_gateways_by_route_and_inference_pool_def Let_def
  by (rule bset_wf_fold) (auto split: prod.splits intro!: bset_wf_fold)

lemma set_map_filter_lookup: "set (List.map_filter f xs) = {y. \<exists>x\<in>set xs. f x = Some y}"
  by (induction xs) (auto simp: List.map_filter_simps split: option.splits)

lemma http_routes_attached_mem:
  "get_http_routes_attached_to_gateway g s = Some rs \<Longrightarrow>
     r \<in> set rs \<longleftrightarrow> (\<exists>k. attached s g k \<and> get_http_route_by_id k s = Some r)"
  by (auto simp: get_http_routes_attached_to_gateway_def attached_def get_http_route_by_id_def
      set_map_filter_lookup split: option.splits)

lemma grpc_routes_attached_mem:
  "get_grpc_routes_attached_to_gateway g s = Some rs \<Longrightarrow>
     r \<in> set rs \<longleftrightarrow> (\<exists>k. attached s g k \<and> get_grpc_route_by_id k s = Some r)"
  by (auto simp: get_grpc_routes_attached_to_gateway_def attached_def get_grpc_route_by_id_def
      set_map_filter_lookup split: option.splits)

subsection \<open>The store as an abstract data type\<close>

text \<open>
  The specification of the store: finite maps for the objects, a relation for the attachments and a
  partial function for the pools a route uses on a gateway. \<open>apply_op\<close> runs one operation of the
  store, \<open>spec_op\<close> its effect on the specification.
\<close>

record abs_state =
  ab_gateways :: "resource_key \<rightharpoonup> kube_gateway"
  ab_classes :: "resource_key \<rightharpoonup> gateway_class"
  ab_types :: "resource_key \<rightharpoonup> gateway_implementation_type"
  ab_http :: "resource_key \<rightharpoonup> http_route"
  ab_grpc :: "resource_key \<rightharpoonup> grpc_route"
  ab_pools :: "resource_key \<rightharpoonup> inference_pool"
  ab_attached :: "(resource_key \<times> resource_key) set"
  ab_pools_of :: "resource_key \<times> resource_key \<rightharpoonup> resource_key list"

definition abs_of :: "state \<Rightarrow> abs_state" where
  "abs_of s = \<lparr>ab_gateways = map_of (st_gateways s), ab_classes = map_of (st_gateway_classes s),
     ab_types = map_of (st_gateway_implementation_types s), ab_http = map_of (st_http_routes s),
     ab_grpc = map_of (st_grpc_routes s), ab_pools = map_of (st_inference_pools s),
     ab_attached = {(g, r). attached s g r}, ab_pools_of = (\<lambda>(g, r). pools_of s g r)\<rparr>"

datatype store_op =
    Save_Gateway resource_key kube_gateway | Maybe_Save_Gateway resource_key kube_gateway | Delete_Gateway resource_key
  | Save_Class resource_key gateway_class | Delete_Class resource_key
  | Save_Type resource_key gateway_implementation_type | Delete_Type resource_key
  | Save_Http resource_key http_route | Maybe_Save_Http resource_key http_route | Delete_Http resource_key
  | Save_Grpc resource_key grpc_route | Maybe_Save_Grpc resource_key grpc_route | Delete_Grpc resource_key
  | Save_Pool resource_key inference_pool | Maybe_Save_Pool resource_key inference_pool | Delete_Pool resource_key
  | Attach_Http resource_key resource_key | Attach_Grpc resource_key resource_key
  | Detach_Http resource_key resource_key | Detach_Grpc resource_key resource_key
  | Attach_Pools resource_key resource_key "resource_key list" | Detach_Pools resource_key resource_key

fun apply_op :: "store_op \<Rightarrow> state \<Rightarrow> state" where
  "apply_op (Save_Gateway i g) s = save_gateway i g s"
| "apply_op (Maybe_Save_Gateway i g) s = maybe_save_gateway i g s"
| "apply_op (Delete_Gateway i) s = snd (delete_gateway i s)"
| "apply_op (Save_Class i c) s = snd (save_gateway_class i c s)"
| "apply_op (Delete_Class i) s = snd (delete_gateway_class i s)"
| "apply_op (Save_Type i t) s = snd (save_gateway_type i t s)"
| "apply_op (Delete_Type i) s = snd (delete_gateway_type i s)"
| "apply_op (Save_Http i r) s = save_http_route i r s"
| "apply_op (Maybe_Save_Http i r) s = maybe_save_http_route i r s"
| "apply_op (Delete_Http i) s = snd (delete_http_route i s)"
| "apply_op (Save_Grpc i r) s = save_grpc_route i r s"
| "apply_op (Maybe_Save_Grpc i r) s = maybe_save_grpc_route i r s"
| "apply_op (Delete_Grpc i) s = snd (delete_grpc_route i s)"
| "apply_op (Save_Pool i p) s = save_inference_pool i p s"
| "apply_op (Maybe_Save_Pool i p) s = maybe_save_inference_pool i p s"
| "apply_op (Delete_Pool i) s = snd (delete_inference_pool i s)"
| "apply_op (Attach_Http g r) s = attach_http_route_to_gateway g r s"
| "apply_op (Attach_Grpc g r) s = attach_grpc_route_to_gateway g r s"
| "apply_op (Detach_Http g r) s = detach_http_route_from_gateway g r s"
| "apply_op (Detach_Grpc g r) s = detach_grpc_route_from_gateway g r s"
| "apply_op (Attach_Pools g r ps) s = attach_inference_pool_to_gateway g r ps s"
| "apply_op (Detach_Pools g r) s = snd (detach_inference_pool_from_gateway g r s)"

definition put_if_present :: "'k \<Rightarrow> 'v \<Rightarrow> ('k \<rightharpoonup> 'v) \<Rightarrow> ('k \<rightharpoonup> 'v)" where
  "put_if_present i v m = (if m i = None then m else m(i \<mapsto> v))"

fun spec_op :: "store_op \<Rightarrow> abs_state \<Rightarrow> abs_state" where
  "spec_op (Save_Gateway i g) a = a\<lparr>ab_gateways := (ab_gateways a)(i \<mapsto> g)\<rparr>"
| "spec_op (Maybe_Save_Gateway i g) a = a\<lparr>ab_gateways := put_if_present i g (ab_gateways a)\<rparr>"
| "spec_op (Delete_Gateway i) a = a\<lparr>ab_gateways := (ab_gateways a)(i := None)\<rparr>"
| "spec_op (Save_Class i c) a = a\<lparr>ab_classes := (ab_classes a)(i \<mapsto> c)\<rparr>"
| "spec_op (Delete_Class i) a = a\<lparr>ab_classes := (ab_classes a)(i := None)\<rparr>"
| "spec_op (Save_Type i t) a = a\<lparr>ab_types := (ab_types a)(i \<mapsto> t)\<rparr>"
| "spec_op (Delete_Type i) a = a\<lparr>ab_types := (ab_types a)(i := None)\<rparr>"
| "spec_op (Save_Http i r) a = a\<lparr>ab_http := (ab_http a)(i \<mapsto> r)\<rparr>"
| "spec_op (Maybe_Save_Http i r) a = a\<lparr>ab_http := put_if_present i r (ab_http a)\<rparr>"
| "spec_op (Delete_Http i) a = a\<lparr>ab_http := (ab_http a)(i := None)\<rparr>"
| "spec_op (Save_Grpc i r) a = a\<lparr>ab_grpc := (ab_grpc a)(i \<mapsto> r)\<rparr>"
| "spec_op (Maybe_Save_Grpc i r) a = a\<lparr>ab_grpc := put_if_present i r (ab_grpc a)\<rparr>"
| "spec_op (Delete_Grpc i) a = a\<lparr>ab_grpc := (ab_grpc a)(i := None)\<rparr>"
| "spec_op (Save_Pool i p) a = a\<lparr>ab_pools := (ab_pools a)(i \<mapsto> p)\<rparr>"
| "spec_op (Maybe_Save_Pool i p) a = a\<lparr>ab_pools := put_if_present i p (ab_pools a)\<rparr>"
| "spec_op (Delete_Pool i) a = a\<lparr>ab_pools := (ab_pools a)(i := None)\<rparr>"
| "spec_op (Attach_Http g r) a = a\<lparr>ab_attached := insert (g, r) (ab_attached a)\<rparr>"
| "spec_op (Attach_Grpc g r) a = a\<lparr>ab_attached := insert (g, r) (ab_attached a)\<rparr>"
| "spec_op (Detach_Http g r) a = a\<lparr>ab_attached := ab_attached a - {(g, r)}\<rparr>"
| "spec_op (Detach_Grpc g r) a = a\<lparr>ab_attached := ab_attached a - {(g, r)}\<rparr>"
| "spec_op (Attach_Pools g r ps) a =
     a\<lparr>ab_pools_of := (if ab_pools_of a (g, r) = None then (ab_pools_of a)((g, r) \<mapsto> ps) else ab_pools_of a)\<rparr>"
| "spec_op (Detach_Pools g r) a = a\<lparr>ab_pools_of := (ab_pools_of a)((g, r) := None)\<rparr>"

lemma find_append_None: "find P xs = None \<Longrightarrow> find P (xs @ ys) = find P ys"
  by (induction xs) auto

lemma find_append_Some: "find P xs = Some y \<Longrightarrow> find P (xs @ ys) = Some y"
  by (induction xs) (auto split: if_splits)

lemma find_key_None_iff: "find (\<lambda>x. f x = k) xs = None \<longleftrightarrow> k \<notin> f ` set xs"
  by (induction xs) auto

lemma find_hset_insert:
  "find (\<lambda>x. f x = k) (hset_insert f y xs) =
     (if f y = k \<and> find (\<lambda>x. f x = k) xs = None then Some y else find (\<lambda>x. f x = k) xs)"
proof (cases "f y \<in> f ` set xs")
  case True
  then show ?thesis by (auto simp: hset_insert_def find_key_None_iff)
next
  case False
  then show ?thesis
    by (cases "find (\<lambda>x. f x = k) xs") (auto simp: hset_insert_def find_append_None find_append_Some)
qed

lemma find_bset_remove:
  "find (\<lambda>x. f x = k) (bset_remove f k' xs) = (if k = k' then None else find (\<lambda>x. f x = k) xs)"
  using bset_get_remove [of f k k' xs] by (simp add: bset_get_def)

lemma pools_of_attach:
  "pools_of (attach_inference_pool_to_gateway g r ps s) g' r' =
     (if g' = g \<and> r' = r \<and> pools_of s g r = None then Some ps else pools_of s g' r')"
  by (auto simp: pools_of_def attach_inference_pool_to_gateway_def Let_def update_conv' find_hset_insert
      split: option.splits)

lemma pools_of_detach:
  "pools_of (snd (detach_inference_pool_from_gateway g r s)) g' r' =
     (if g' = g \<and> r' = r then None else pools_of s g' r')"
  by (auto simp: pools_of_def detach_inference_pool_from_gateway_def Let_def update_conv' find_bset_remove
      split: option.splits)

lemma detach_pools_returns:
  "fst (detach_inference_pool_from_gateway g r s) = (case pools_of s g r of None \<Rightarrow> [] | Some ps \<Rightarrow> ps)"
  by (auto simp: pools_of_def detach_inference_pool_from_gateway_def Let_def split: option.splits)

lemma apply_op_wf: "state_wf s \<Longrightarrow> state_wf (apply_op x s)"
  by (cases x) (simp_all add: state_wf_ops attach_grpc_is_attach_http detach_grpc_is_detach_http)

lemma attached_frame [simp]:
  "attached (s\<lparr>st_gateways := a\<rparr>) = attached s" "attached (s\<lparr>st_gateway_classes := b\<rparr>) = attached s"
  "attached (s\<lparr>st_gateway_implementation_types := c\<rparr>) = attached s" "attached (s\<lparr>st_http_routes := d\<rparr>) = attached s"
  "attached (s\<lparr>st_grpc_routes := e\<rparr>) = attached s" "attached (s\<lparr>st_inference_pools := f\<rparr>) = attached s"
  "attached (s\<lparr>st_gateways_with_routes_with_inference_pools := h\<rparr>) = attached s"
  by (simp_all add: attached_def fun_eq_iff)

lemma pools_of_frame [simp]:
  "pools_of (s\<lparr>st_gateways := a\<rparr>) = pools_of s" "pools_of (s\<lparr>st_gateway_classes := b\<rparr>) = pools_of s"
  "pools_of (s\<lparr>st_gateway_implementation_types := c\<rparr>) = pools_of s" "pools_of (s\<lparr>st_http_routes := d\<rparr>) = pools_of s"
  "pools_of (s\<lparr>st_grpc_routes := e\<rparr>) = pools_of s" "pools_of (s\<lparr>st_inference_pools := f\<rparr>) = pools_of s"
  "pools_of (s\<lparr>st_gateways_with_routes := h\<rparr>) = pools_of s"
  by (simp_all add: pools_of_def fun_eq_iff)

lemma abs_attach_http:
  "abs_of (attach_http_route_to_gateway g r s) = (abs_of s)\<lparr>ab_attached := insert (g, r) (ab_attached (abs_of s))\<rparr>"
  by (auto simp: abs_of_def http_attachment.related_attach) (auto simp: attach_http_route_to_gateway_def)

lemma abs_detach_http:
  "abs_of (detach_http_route_from_gateway g r s) = (abs_of s)\<lparr>ab_attached := ab_attached (abs_of s) - {(g, r)}\<rparr>"
  by (auto simp: abs_of_def http_attachment.related_detach)
    (auto simp: detach_http_route_from_gateway_def split: option.splits)

lemma abs_attach_pools:
  "abs_of (attach_inference_pool_to_gateway g r ps s) = spec_op (Attach_Pools g r ps) (abs_of s)"
  by (auto simp: abs_of_def pools_of_attach fun_eq_iff) (auto simp: attach_inference_pool_to_gateway_def)

lemma abs_detach_pools:
  "abs_of (snd (detach_inference_pool_from_gateway g r s)) = spec_op (Detach_Pools g r) (abs_of s)"
  by (auto simp: abs_of_def pools_of_detach fun_eq_iff)
    (auto simp: detach_inference_pool_from_gateway_def Let_def split: option.splits)

lemma abs_apply_op: "abs_of (apply_op x s) = spec_op x (abs_of s)"
proof (cases x)
  case (Attach_Pools g r ps)
  then show ?thesis by (simp only: apply_op.simps abs_attach_pools)
next
  case (Detach_Pools g r)
  then show ?thesis by (simp only: apply_op.simps abs_detach_pools)
qed (simp_all add: abs_attach_http abs_detach_http attach_grpc_is_attach_http detach_grpc_is_detach_http,
     simp_all add: abs_of_def store_defs update_conv' delete_conv' put_if_present_def)

subsection \<open>Properties\<close>

lemma bset_wf_id_sorted_list_of_set: "bset_wf (\<lambda>k. k) xs \<Longrightarrow> xs = sorted_list_of_set (set xs)"
  by (simp add: bset_wf_def strict_sorted_iff sorted_list_of_set.idem_if_sorted_distinct)

lemma bset_eq_sorted_list_of_set: "bset_wf (\<lambda>k. k) xs \<Longrightarrow> set xs = A \<Longrightarrow> xs = sorted_list_of_set A"
  using bset_wf_id_sorted_list_of_set by blast

lemma run_ops_wf: "state_wf s \<Longrightarrow> state_wf (fold apply_op ops s)"
  by (induction ops arbitrary: s) (simp_all add: apply_op_wf)

lemma run_ops_abs: "abs_of (fold apply_op ops s) = fold spec_op ops (abs_of s)"
  by (induction ops arbitrary: s) (simp_all add: abs_apply_op)

definition reached :: "store_op list \<Rightarrow> state" where
  "reached ops = fold apply_op ops new_state"

text \<open>
  C1: the store refines its specification. Whatever sequence of operations the controllers run,
  what the store holds is the result of the same sequence on the abstract maps and relations: a
  save overwrites, a conditional save changes only a stored object, a delete removes one object and
  leaves attachments alone, attach and detach add and remove one pair, and no operation disturbs
  another collection.
\<close>

theorem store_refines_spec:
  "abs_of (reached ops) = fold spec_op ops (abs_of new_state) \<and> state_wf (reached ops)"
  by (simp add: reached_def run_ops_abs run_ops_wf state_wf_new)

text \<open>
  After any sequence of operations the queries answer from the specification: the gateways with
  one of the given routes, and the gateways with a route over a given inference pool, each once and
  in key order; and the routes attached to a gateway are exactly the stored ones, a gateway that
  never had a route being told apart from one that has none left.
\<close>

lemma store_queries:
  "get_gateways_with_http_routes routes (reached ops) =
     sorted_list_of_set {g. \<exists>r\<in>set routes. (g, r) \<in> ab_attached (abs_of (reached ops))} \<and>
   find_gateways_by_inference_pool pool (reached ops) =
     sorted_list_of_set {g. \<exists>r ps. ab_pools_of (abs_of (reached ops)) (g, r) = Some ps \<and> pool \<in> set ps} \<and>
   (case get_http_routes_attached_to_gateway g (reached ops) of
      None \<Rightarrow> \<forall>k. (g, k) \<notin> ab_attached (abs_of (reached ops))
    | Some rs \<Rightarrow> set rs = {r. \<exists>k. (g, k) \<in> ab_attached (abs_of (reached ops)) \<and> ab_http (abs_of (reached ops)) k = Some r}) \<and>
   (case get_grpc_routes_attached_to_gateway g (reached ops) of
      None \<Rightarrow> \<forall>k. (g, k) \<notin> ab_attached (abs_of (reached ops))
    | Some rs \<Rightarrow> set rs = {r. \<exists>k. (g, k) \<in> ab_attached (abs_of (reached ops)) \<and> ab_grpc (abs_of (reached ops)) k = Some r})"
proof -
  define s where "s = reached ops"
  have wf: "state_wf s" unfolding s_def reached_def by (rule run_ops_wf [OF state_wf_new])
  have 1: "set (get_gateways_with_http_routes routes s) = {g. \<exists>r\<in>set routes. (g, r) \<in> ab_attached (abs_of s)}"
    using set_get_gateways_with_http_routes [OF wf] by (simp add: abs_of_def)
  have 2: "set (find_gateways_by_inference_pool pool s) =
      {g. \<exists>r ps. ab_pools_of (abs_of s) (g, r) = Some ps \<and> pool \<in> set ps}"
    using set_find_gateways_by_inference_pool [OF wf] by (simp add: abs_of_def)
  have 3: "case get_http_routes_attached_to_gateway g s of
      None \<Rightarrow> \<forall>k. (g, k) \<notin> ab_attached (abs_of s)
    | Some rs \<Rightarrow> set rs = {r. \<exists>k. (g, k) \<in> ab_attached (abs_of s) \<and> ab_http (abs_of s) k = Some r}"
    using http_routes_attached_mem [of g s]
    by (auto simp: abs_of_def get_http_route_by_id_def get_http_routes_attached_to_gateway_def attached_def split: option.splits)
  have 4: "case get_grpc_routes_attached_to_gateway g s of
      None \<Rightarrow> \<forall>k. (g, k) \<notin> ab_attached (abs_of s)
    | Some rs \<Rightarrow> set rs = {r. \<exists>k. (g, k) \<in> ab_attached (abs_of s) \<and> ab_grpc (abs_of s) k = Some r}"
    using grpc_routes_attached_mem [of g s]
    by (auto simp: abs_of_def get_grpc_route_by_id_def get_grpc_routes_attached_to_gateway_def attached_def split: option.splits)
  show ?thesis
    using bset_eq_sorted_list_of_set [OF wf_get_gateways_with_http_routes 1]
      bset_eq_sorted_list_of_set [OF wf_find_gateways_by_inference_pool 2] 3 4 unfolding s_def by blast
qed

lemma attach_pools_keeps_first:
  "fst (detach_inference_pool_from_gateway g r (attach_inference_pool_to_gateway g r new s)) =
     (case pools_of s g r of None \<Rightarrow> new | Some old \<Rightarrow> old)"
  by (simp add: detach_pools_returns pools_of_attach split: option.splits)

text \<open>
  When a route that is already attached is attached again with other inference pools, the pools
  recorded first stay. \<open>HashSet::insert\<close> keeps the element it has, and two entries are equal when
  their routes are, so the pools of an edited route are stale until the route is detached.
\<close>

lemma reattach_keeps_stale_pools:
  "pools_of (attach_inference_pool_to_gateway g r new (attach_inference_pool_to_gateway g r old
      (snd (detach_inference_pool_from_gateway g r s)))) g r = Some old"
  by (simp add: pools_of_attach pools_of_detach)

end
