(* ===== verification/Inference_Status.thy ===== *)
theory Inference_Status
  imports State_Store
begin

section \<open>Status of inference pools\<close>

text \<open>
  The pure functions of \<open>controllers/inference_pool.rs\<close>: which routes use a pool, and the status
  the controller writes into one. The time of the clock, read by every new condition, is the argument
  \<open>now\<close>.
\<close>

datatype inference_pool_condition = IPC_Accepted "int option" | IPC_Resolved | IPC_NotResolved

definition INFERENCE_POOL_CONDITION_MESSAGE :: string where
  "INFERENCE_POOL_CONDITION_MESSAGE = ''Inference Pool status updated by controller''"

fun get_condition :: "string \<Rightarrow> inference_pool_condition \<Rightarrow> condition" where
  "get_condition now (IPC_Accepted generation) = \<lparr>cond_type = ''Accepted'', cond_status = ''True'', cond_reason = ''Accepted'',
     cond_message = INFERENCE_POOL_CONDITION_MESSAGE, cond_observed_generation = generation, cond_last_transition_time = now\<rparr>"
| "get_condition now IPC_Resolved = \<lparr>cond_type = ''ResolvedRefs'', cond_status = ''True'', cond_reason = ''ResolvedRefs'',
     cond_message = INFERENCE_POOL_CONDITION_MESSAGE, cond_observed_generation = None, cond_last_transition_time = now\<rparr>"
| "get_condition now IPC_NotResolved = \<lparr>cond_type = ''ResolvedRefs'', cond_status = ''False'', cond_reason = ''ResolvedRefs'',
     cond_message = INFERENCE_POOL_CONDITION_MESSAGE, cond_observed_generation = None, cond_last_transition_time = now\<rparr>"

definition has_inference_pool :: "http_route \<Rightarrow> resource_key \<Rightarrow> bool" where
  "has_inference_pool r pool_key \<longleftrightarrow>
     list_ex (\<lambda>rr. list_ex (\<lambda>br. case bor_kind br of
         Some kind \<Rightarrow> kind = ''InferencePool'' \<and> bor_name br = rk_name pool_key \<and>
           (if bor_namespace br \<noteq> None then bor_namespace br = Some (rk_namespace pool_key) else True)
       | None \<Rightarrow> False) (unwrap_or (hrr_backend_refs rr) []))
       (unwrap_or (hrs_rules (hr_spec r)) [])"

definition create_pool_status_with_conditions ::
    "string \<Rightarrow> inference_pool \<Rightarrow> resource_key list \<Rightarrow> condition list \<Rightarrow> inference_pool" where
  "create_pool_status_with_conditions controller pool gateways_ids conditions =
     pool\<lparr>ip_status := Some (Some (map (\<lambda>i.
       \<lparr>ipp_conditions = Some conditions,
        ipp_parent_ref = \<lparr>ir_kind = Some (rk_kind i), ir_name = rk_name i, ir_namespace = Some (rk_namespace i)\<rparr>,
        ipp_controller_name = Some controller\<rparr>) gateways_ids))\<rparr>"

definition create_accepted_pool_status :: "string \<Rightarrow> string \<Rightarrow> inference_pool \<Rightarrow> resource_key list \<Rightarrow> inference_pool" where
  "create_accepted_pool_status now controller pool gateways_ids =
     create_pool_status_with_conditions controller (pool\<lparr>ip_status := None\<rparr>) gateways_ids [get_condition now (IPC_Accepted None)]"

definition update_inference_pool_parents ::
    "string \<Rightarrow> string \<Rightarrow> resource_key list \<Rightarrow> inference_pool \<Rightarrow> bool \<Rightarrow> inference_pool" where
  "update_inference_pool_parents now controller gateways pool resolved_endpoint_picker =
     (let conditions = (if resolved_endpoint_picker
            then [get_condition now (IPC_Accepted (om_generation (ip_metadata pool))), get_condition now IPC_Resolved]
            else [get_condition now (IPC_Accepted (om_generation (ip_metadata pool))), get_condition now IPC_NotResolved]);
          parents = map (\<lambda>g. \<lparr>ipp_conditions = Some conditions,
             ipp_parent_ref = \<lparr>ir_kind = Some ''Gateway'', ir_name = rk_name g, ir_namespace = Some (rk_namespace g)\<rparr>,
             ipp_controller_name = Some controller\<rparr>) gateways
      in pool\<lparr>ip_status := Some (Some (filter (\<lambda>p. ir_kind (ipp_parent_ref p) = Some ''Gateway'') parents))\<rparr>)"

definition clear_managed_fields :: "inference_pool \<Rightarrow> inference_pool" where
  "clear_managed_fields p = p\<lparr>ip_metadata := (ip_metadata p)\<lparr>om_managed_fields := None\<rparr>\<rparr>"

lemma update_parents_metadata [simp]:
  "ip_metadata (update_inference_pool_parents now c gs p b) = ip_metadata p"
  "ip_spec (update_inference_pool_parents now c gs p b) = ip_spec p"
  by (simp_all add: update_inference_pool_parents_def Let_def)

lemma update_parents_names:
  "map_option (map_option (map (\<lambda>p. (ir_namespace (ipp_parent_ref p), ir_name (ipp_parent_ref p)))))
     (ip_status (update_inference_pool_parents now c gs pool b)) =
   Some (Some (map (\<lambda>g. (Some (rk_namespace g), rk_name g)) gs))"
  by (simp add: update_inference_pool_parents_def Let_def filter_map comp_def)

lemma key_of_clear [simp]: "key_of_inference_pool (clear_managed_fields p) = key_of_inference_pool p"
  by (simp add: clear_managed_fields_def key_of_inference_pool_def meta_namespace_def name_any_def split: option.split)

lemma key_of_update [simp]:
  "key_of_inference_pool (update_inference_pool_parents now c gs p b) = key_of_inference_pool p"
  by (simp add: key_of_inference_pool_def)

end
