(* ===== verification/Route_Model.thy ===== *)
theory Route_Model
  imports Kube_Objects
begin

section \<open>Routes and backends\<close>

text \<open>
  The controller's own view of HTTP and GRPC routes
  (\<open>kubvernor-controller/src/common/route/\<close>) and of backends (\<open>common/mod.rs\<close>), with the
  conversions from the API objects. A route is identified by its key alone: the equality and the
  order of \<open>RouteConfig\<close> look at nothing else, so the ordered sets of routes of the other
  components are keyed by \<open>route_key\<close>.
\<close>

subsection \<open>Backends\<close>

record service_type_config =
  stc_resource_key :: resource_key
  stc_endpoint :: string
  stc_port :: "32 word"
  stc_effective_port :: "32 word"
  stc_weight :: "32 word"

record inference_pool_type_config =
  iptc_resource_key :: resource_key
  iptc_endpoint :: string
  iptc_port :: "32 word"
  iptc_target_ports :: "32 word list"
  iptc_weight :: "32 word"
  iptc_inference_config :: "inference_pool_spec option"
  iptc_endpoints :: "string list option"

datatype backend_type =
    BT_Service service_type_config
  | BT_InferencePool inference_pool_type_config
  | BT_Invalid service_type_config

datatype backend =
    B_Resolved backend_type
  | B_Unresolved backend_type
  | B_NotAllowed backend_type
  | B_Maybe backend_type
  | B_Invalid backend_type

fun backend_type_key :: "backend_type \<Rightarrow> resource_key" where
  "backend_type_key (BT_Service c) = stc_resource_key c"
| "backend_type_key (BT_InferencePool c) = iptc_resource_key c"
| "backend_type_key (BT_Invalid c) = stc_resource_key c"

fun backend_type_of :: "backend \<Rightarrow> backend_type" where
  "backend_type_of (B_Resolved t) = t"
| "backend_type_of (B_Unresolved t) = t"
| "backend_type_of (B_NotAllowed t) = t"
| "backend_type_of (B_Maybe t) = t"
| "backend_type_of (B_Invalid t) = t"

fun backend_key :: "backend \<Rightarrow> resource_key" where
  "backend_key (B_Resolved t) = backend_type_key t"
| "backend_key (B_Unresolved t) = backend_type_key t"
| "backend_key (B_NotAllowed t) = backend_type_key t"
| "backend_key (B_Maybe t) = backend_type_key t"
| "backend_key (B_Invalid t) = backend_type_key t"

lemma backend_key_type: "backend_key b = backend_type_key (backend_type_of b)"
  by (cases b) simp_all

definition service_cluster_name :: "service_type_config \<Rightarrow> string" where
  "service_cluster_name c = rk_name (stc_resource_key c) @ ''.'' @ rk_namespace (stc_resource_key c)"

definition inference_pool_cluster_name :: "inference_pool_type_config \<Rightarrow> string" where
  "inference_pool_cluster_name c = rk_name (iptc_resource_key c) @ ''.'' @ rk_namespace (iptc_resource_key c)"

text \<open>
  The in-cluster host name of a backend: the bare service name in the default namespace, otherwise
  name and namespace, the namespace of the reference taking precedence over the route's.
\<close>

definition endpoint_of :: "'a backend_object_reference_scheme \<Rightarrow> string \<Rightarrow> string" where
  "endpoint_of br local_namespace = (case bor_namespace br of
       Some namespace \<Rightarrow> if namespace = DEFAULT_NAMESPACE_NAME then bor_name br
                          else bor_name br @ ''.'' @ namespace
     | None \<Rightarrow> if local_namespace = DEFAULT_NAMESPACE_NAME then bor_name br
               else bor_name br @ ''.'' @ local_namespace)"

definition service_config_from :: "backend_reference \<Rightarrow> string \<Rightarrow> service_type_config" where
  "service_config_from br local_namespace =
     \<lparr>stc_resource_key = key_of_backend_reference br local_namespace,
      stc_endpoint = endpoint_of br local_namespace,
      stc_port = unwrap_or (bor_port br) 0,
      stc_effective_port = unwrap_or (bor_port br) 0,
      stc_weight = unwrap_or (br_weight br) 1\<rparr>"

definition mirror_config_from :: "backend_object_reference \<Rightarrow> string \<Rightarrow> service_type_config" where
  "mirror_config_from br local_namespace =
     \<lparr>stc_resource_key = key_of_backend_reference br local_namespace,
      stc_endpoint = endpoint_of br local_namespace,
      stc_port = unwrap_or (bor_port br) 0,
      stc_effective_port = unwrap_or (bor_port br) 0,
      stc_weight = 1\<rparr>"

definition inference_pool_config_from :: "backend_reference \<Rightarrow> string \<Rightarrow> inference_pool_type_config" where
  "inference_pool_config_from br local_namespace =
     \<lparr>iptc_resource_key = (key_of_backend_reference br local_namespace)\<lparr>rk_group := DEFAULT_INFERENCE_GROUP_NAME\<rparr>,
      iptc_endpoint = endpoint_of br local_namespace,
      iptc_port = unwrap_or (bor_port br) 0,
      iptc_target_ports = [unwrap_or (bor_port br) 0],
      iptc_weight = unwrap_or (br_weight br) 1,
      iptc_inference_config = None,
      iptc_endpoints = None\<rparr>"

subsection \<open>Routes\<close>

record http_routing_rule =
  hru_name :: string
  hru_backends :: "backend list"
  hru_matching_rules :: "route_match list"
  hru_filters :: "http_route_filter list"
  hru_filter_backends :: "backend list"

record grpc_routing_rule =
  gru_name :: string
  gru_backends :: "backend list"
  gru_matching_rules :: "grpc_route_match list"
  gru_filters :: "grpc_route_filter list"
  gru_filter_backends :: "backend list"

datatype route_type = RT_Http "http_routing_rule list" | RT_Grpc "grpc_routing_rule list"

datatype not_resolved_reason = Unknown | NotAllowedByListeners | NoMatchingListenerHostname
  | InvalidBackend | BackendNotFound | RefNotPermitted | NoMatchingParent

datatype resolution_status = RS_Resolved | RS_NotResolved not_resolved_reason

record route =
  route_key :: resource_key
  route_parents :: "parent_reference list option"
  route_hostnames :: "string list"
  route_resolution_status :: resolution_status
  route_type_of :: route_type

fun rules_backends :: "route_type \<Rightarrow> backend list" where
  "rules_backends (RT_Http rules) = concat (map hru_backends rules)"
| "rules_backends (RT_Grpc rules) = concat (map gru_backends rules)"

fun rules_filter_backends :: "route_type \<Rightarrow> backend list" where
  "rules_filter_backends (RT_Http rules) = concat (map hru_filter_backends rules)"
| "rules_filter_backends (RT_Grpc rules) = concat (map gru_filter_backends rules)"

definition route_backends :: "route \<Rightarrow> backend list" where
  "route_backends r = rules_backends (route_type_of r)"

definition route_filter_backends :: "route \<Rightarrow> backend list" where
  "route_filter_backends r = rules_filter_backends (route_type_of r)"

definition route_namespace :: "route \<Rightarrow> string" where
  "route_namespace r = rk_namespace (route_key r)"

definition route_name :: "route \<Rightarrow> string" where
  "route_name r = rk_name (route_key r)"

subsection \<open>Textual values of the standard library\<close>

fun show_nat :: "nat \<Rightarrow> string" where
  "show_nat n = (if n < 10 then [char_of (48 + n)] else show_nat (n div 10) @ [char_of (48 + n mod 10)])"

declare show_nat.simps [simp del]

fun split_on :: "char \<Rightarrow> string \<Rightarrow> string list" where
  "split_on c [] = [ [] ]"
| "split_on c (x # xs) = (case split_on c xs of
      [] \<Rightarrow> [ [] ]
    | p # ps \<Rightarrow> if x = c then [] # p # ps else (x # p) # ps)"

definition is_digit :: "char \<Rightarrow> bool" where
  "is_digit c \<longleftrightarrow> 48 \<le> (of_char c :: nat) \<and> (of_char c :: nat) \<le> 57"

definition is_hex :: "char \<Rightarrow> bool" where
  "is_hex c \<longleftrightarrow> is_digit c \<or> (65 \<le> (of_char c :: nat) \<and> (of_char c :: nat) \<le> 70)
     \<or> (97 \<le> (of_char c :: nat) \<and> (of_char c :: nat) \<le> 102)"

definition digits_value :: "string \<Rightarrow> nat" where
  "digits_value s = fold (\<lambda>c n. n * 10 + (of_char c - 48)) s 0"

text \<open>
  \<open>str::parse::<IpAddr>()\<close>: four decimal octets without leading zeros, or up to eight
  hexadecimal groups with at most one \<open>::\<close>, the last two groups possibly written as octets.
\<close>

definition is_octet :: "string \<Rightarrow> bool" where
  "is_octet p \<longleftrightarrow> p \<noteq> [] \<and> length p \<le> 3 \<and> list_all is_digit p \<and> digits_value p \<le> 255 \<and>
     (length p = 1 \<or> hd p \<noteq> CHR ''0'')"

definition is_ipv4 :: "string \<Rightarrow> bool" where
  "is_ipv4 s \<longleftrightarrow> (let parts = split_on CHR ''.'' s in length parts = 4 \<and> list_all is_octet parts)"

definition is_group :: "string \<Rightarrow> bool" where
  "is_group p \<longleftrightarrow> p \<noteq> [] \<and> length p \<le> 4 \<and> list_all is_hex p"

fun count_groups :: "bool \<Rightarrow> string list \<Rightarrow> nat option" where
  "count_groups v4 [] = None"
| "count_groups v4 [p] = (if is_group p then Some 1 else if v4 \<and> is_ipv4 p then Some 2 else None)"
| "count_groups v4 (p # ps) = (if is_group p then map_option Suc (count_groups v4 ps) else None)"

definition groups_in :: "bool \<Rightarrow> string \<Rightarrow> nat option" where
  "groups_in v4 s = (if s = [] then Some 0 else count_groups v4 (split_on CHR '':'' s))"

fun split_double_colon :: "string \<Rightarrow> (string \<times> string) option" where
  "split_double_colon (a # b # cs) =
     (if a = CHR '':'' \<and> b = CHR '':'' then Some ([], cs)
      else map_option (\<lambda>(l, r). (a # l, r)) (split_double_colon (b # cs)))"
| "split_double_colon _ = None"

definition is_ipv6 :: "string \<Rightarrow> bool" where
  "is_ipv6 s \<longleftrightarrow> (case split_double_colon s of
       None \<Rightarrow> groups_in True s = Some 8
     | Some (l, r) \<Rightarrow> (case (groups_in False l, groups_in True r) of
           (Some n, Some m) \<Rightarrow> n + m \<le> 7
         | _ \<Rightarrow> False))"

definition parses_as_ip :: "string \<Rightarrow> bool" where
  "parses_as_ip s \<longleftrightarrow> is_ipv4 s \<or> is_ipv6 s"

subsection \<open>Conversion of HTTP routes\<close>

definition filter_backend_from :: "string \<Rightarrow> backend_object_reference \<Rightarrow> backend" where
  "filter_backend_from local_namespace br = (case bor_kind br of
       None \<Rightarrow> B_Maybe (BT_Service (mirror_config_from br local_namespace))
     | Some kind \<Rightarrow> if kind = ''Service'' then B_Maybe (BT_Service (mirror_config_from br local_namespace))
                    else B_Invalid (BT_Invalid (mirror_config_from br local_namespace)))"

definition http_backend_from :: "string \<Rightarrow> backend_reference \<Rightarrow> backend" where
  "http_backend_from local_namespace br = (case bor_kind br of
       None \<Rightarrow> B_Maybe (BT_Service (service_config_from br local_namespace))
     | Some kind \<Rightarrow>
         if kind = ''Service'' then B_Maybe (BT_Service (service_config_from br local_namespace))
         else if kind = ''InferencePool'' then B_Maybe (BT_InferencePool (inference_pool_config_from br local_namespace))
         else B_Invalid (BT_Invalid (service_config_from br local_namespace)))"

definition grpc_backend_from :: "string \<Rightarrow> backend_reference \<Rightarrow> backend" where
  "grpc_backend_from local_namespace br =
     (let config = service_config_from br local_namespace
      in if bor_kind br = None \<or> bor_kind br = Some ''Service'' then B_Maybe (BT_Service config)
         else B_Invalid (BT_Invalid config))"

definition hf_mirror_ref :: "http_route_filter \<Rightarrow> backend_object_reference option" where
  "hf_mirror_ref f = map_option rmi_backend_ref (hf_request_mirror f)"

definition gf_mirror_ref :: "grpc_route_filter \<Rightarrow> backend_object_reference option" where
  "gf_mirror_ref f = map_option rmi_backend_ref (gf_request_mirror f)"

definition rule_name :: "string \<Rightarrow> nat \<Rightarrow> string" where
  "rule_name name i = name @ ''-'' @ show_nat i"

definition http_rule_from :: "string \<Rightarrow> string \<Rightarrow> nat \<times> http_route_rule \<Rightarrow> http_routing_rule" where
  "http_rule_from name local_namespace = (\<lambda>(i, rr).
     \<lparr>hru_name = rule_name name i,
      hru_backends = map (http_backend_from local_namespace) (unwrap_or (hrr_backend_refs rr) []),
      hru_matching_rules = unwrap_or (hrr_matches rr) [],
      hru_filters = unwrap_or (hrr_filters rr) [],
      hru_filter_backends = List.map_filter (\<lambda>f. map_option (filter_backend_from local_namespace) (hf_mirror_ref f))
        (unwrap_or (hrr_filters rr) [])\<rparr>)"

definition grpc_rule_from :: "string \<Rightarrow> string \<Rightarrow> nat \<times> grpc_route_rule \<Rightarrow> grpc_routing_rule" where
  "grpc_rule_from name local_namespace = (\<lambda>(i, rr).
     \<lparr>gru_name = rule_name name i,
      gru_backends = map (grpc_backend_from local_namespace) (unwrap_or (grr_backend_refs rr) []),
      gru_matching_rules = unwrap_or (grr_matches rr) [],
      gru_filters = unwrap_or (grr_filters rr) [],
      gru_filter_backends = List.map_filter (\<lambda>f. map_option (filter_backend_from local_namespace) (gf_mirror_ref f))
        (unwrap_or (grr_filters rr) [])\<rparr>)"

fun is_invalid_backend :: "backend \<Rightarrow> bool" where
  "is_invalid_backend (B_Invalid _) = True"
| "is_invalid_backend _ = False"

text \<open>The flag \<open>has_invalid_backends\<close>: set whenever a conversion above takes its last branch.\<close>

definition has_invalid_backends :: "route_type \<Rightarrow> bool" where
  "has_invalid_backends t \<longleftrightarrow> list_ex is_invalid_backend (rules_filter_backends t @ rules_backends t)"

definition hostnames_from :: "string list option \<Rightarrow> string list" where
  "hostnames_from hostnames = unwrap_or (map_option (filter (\<lambda>h. \<not> parses_as_ip h)) hostnames) [DEFAULT_ROUTE_HOSTNAME]"

definition initial_status :: "route_type \<Rightarrow> resolution_status" where
  "initial_status t = (if has_invalid_backends t then RS_NotResolved InvalidBackend else RS_NotResolved Unknown)"

definition route_from_http :: "http_route \<Rightarrow> route" where
  "route_from_http kube_route =
     (let key = key_of_http_route kube_route;
          routing_rules = map (http_rule_from (name_any (hr_metadata kube_route)) (rk_namespace key))
            (enumerate 0 (unwrap_or (hrs_rules (hr_spec kube_route)) []))
      in \<lparr>route_key = key,
          route_parents = hrs_parent_refs (hr_spec kube_route),
          route_hostnames = hostnames_from (hrs_hostnames (hr_spec kube_route)),
          route_resolution_status = initial_status (RT_Http routing_rules),
          route_type_of = RT_Http routing_rules\<rparr>)"

definition route_from_grpc :: "grpc_route \<Rightarrow> route" where
  "route_from_grpc kube_route =
     (let key = key_of_grpc_route kube_route;
          routing_rules = map (grpc_rule_from (name_any (gr_metadata kube_route)) (rk_namespace key))
            (enumerate 0 (unwrap_or (grs_rules (gr_spec kube_route)) []))
      in \<lparr>route_key = key,
          route_parents = grs_parent_refs (gr_spec kube_route),
          route_hostnames = hostnames_from (grs_hostnames (gr_spec kube_route)),
          route_resolution_status = initial_status (RT_Grpc routing_rules),
          route_type_of = RT_Grpc routing_rules\<rparr>)"

subsection \<open>Header filters\<close>

record filter_headers =
  fh_add :: "http_header list"
  fh_remove :: "string list"
  fh_set :: "http_header list"

definition get_add_headers :: "header_modifier option \<Rightarrow> http_header list option" where
  "get_add_headers modifier = Option.bind modifier hm_add"

definition get_set_headers :: "header_modifier option \<Rightarrow> http_header list option" where
  "get_set_headers modifier = Option.bind modifier hm_set"

definition get_remove_headers :: "header_modifier option \<Rightarrow> string list option" where
  "get_remove_headers modifier = Option.bind modifier hm_remove"

definition http_filter_values ::
    "http_routing_rule \<Rightarrow> (header_modifier option \<Rightarrow> 'v list option) \<Rightarrow> http_filter_type \<Rightarrow> 'v list" where
  "http_filter_values routing_rule x filter_type =
     concat (List.map_filter
       (\<lambda>f. case filter_type of
              RequestHeaderModifier \<Rightarrow> x (hf_request_header_modifier f)
            | ResponseHeaderModifier \<Rightarrow> x (hf_response_header_modifier f)
            | _ \<Rightarrow> None)
       (filter (\<lambda>f. hf_type f = filter_type) (hru_filters routing_rule)))"

definition http_filter_headers :: "http_routing_rule \<Rightarrow> http_filter_type \<Rightarrow> filter_headers" where
  "http_filter_headers rule filter_type =
     \<lparr>fh_add = http_filter_values rule get_add_headers filter_type,
      fh_remove = http_filter_values rule get_remove_headers filter_type,
      fh_set = http_filter_values rule get_set_headers filter_type\<rparr>"

definition grpc_filter_values :: "grpc_routing_rule \<Rightarrow> (header_modifier option \<Rightarrow> 'v list option) \<Rightarrow> 'v list" where
  "grpc_filter_values routing_rule x =
     concat (List.map_filter (\<lambda>f. x (gf_request_header_modifier f))
       (filter (\<lambda>f. gf_type f = GrpcRequestHeaderModifier) (gru_filters routing_rule)))"

definition grpc_filter_headers :: "grpc_routing_rule \<Rightarrow> filter_headers" where
  "grpc_filter_headers rule =
     \<lparr>fh_add = grpc_filter_values rule get_add_headers,
      fh_remove = grpc_filter_values rule get_remove_headers,
      fh_set = grpc_filter_values rule get_set_headers\<rparr>"

subsection \<open>Properties of the conversions\<close>

lemma digits_value_append: "digits_value (s @ [c]) = digits_value s * 10 + (of_char c - 48)"
  by (simp add: digits_value_def)

lemma digits_value_show_nat [simp]: "digits_value (show_nat n) = n"
proof (induction n rule: show_nat.induct)
  case (1 n)
  show ?case
  proof (cases "n < 10")
    case True
    then show ?thesis by (subst show_nat.simps) (simp add: digits_value_def of_char_of)
  next
    case False
    then have "digits_value (show_nat n) = n div 10 * 10 + (of_char (char_of (48 + n mod 10) :: char) - 48)"
      by (subst show_nat.simps) (simp add: digits_value_append 1)
    also have "of_char (char_of (48 + n mod 10) :: char) = 48 + n mod 10" by (simp add: of_char_of)
    finally show ?thesis by simp
  qed
qed

lemma show_nat_inject: "show_nat n = show_nat m \<longleftrightarrow> n = m"
  using digits_value_show_nat by metis

lemma rule_name_inject: "rule_name name i = rule_name name j \<longleftrightarrow> i = j"
  by (simp add: rule_name_def show_nat_inject)

lemma enumerate_names_distinct: "distinct (map (\<lambda>p. rule_name name (fst p)) (enumerate n xs))"
proof -
  have "map (\<lambda>p. rule_name name (fst p)) (enumerate n xs) = map (rule_name name) (map fst (enumerate n xs))"
    by (simp only: map_map comp_def)
  also have "\<dots> = map (rule_name name) [n..<n + length xs]" by (simp only: map_fst_enumerate)
  finally have "map (\<lambda>p. rule_name name (fst p)) (enumerate n xs) = map (rule_name name) [n..<n + length xs]" .
  then show ?thesis by (simp add: distinct_map inj_on_def rule_name_inject)
qed

lemma concat_map_enumerate: "concat (map (\<lambda>p. f (snd p)) (enumerate n xs)) = concat (map f xs)"
  by (induction xs arbitrary: n) simp_all

lemma http_rule_backends: "hru_backends (http_rule_from name ns p) = map (http_backend_from ns) (unwrap_or (hrr_backend_refs (snd p)) [])"
  by (simp add: http_rule_from_def split: prod.splits)

lemma grpc_rule_backends: "gru_backends (grpc_rule_from name ns p) = map (grpc_backend_from ns) (unwrap_or (grr_backend_refs (snd p)) [])"
  by (simp add: grpc_rule_from_def split: prod.splits)

lemma map_filter_map_option: "List.map_filter (\<lambda>x. map_option f (g x)) xs = map f (List.map_filter g xs)"
  by (induction xs) (auto simp: List.map_filter_simps split: option.splits)

lemma http_rule_filter_backends: "hru_filter_backends (http_rule_from name ns p) =
    map (filter_backend_from ns) (List.map_filter hf_mirror_ref (unwrap_or (hrr_filters (snd p)) []))"
  by (simp add: http_rule_from_def map_filter_map_option split: prod.splits)

lemma grpc_rule_filter_backends: "gru_filter_backends (grpc_rule_from name ns p) =
    map (filter_backend_from ns) (List.map_filter gf_mirror_ref (unwrap_or (grr_filters (snd p)) []))"
  by (simp add: grpc_rule_from_def map_filter_map_option split: prod.splits)

text \<open>The backend references and the mirror references of a route object, in document order.\<close>

definition http_backend_refs :: "http_route \<Rightarrow> backend_reference list" where
  "http_backend_refs k = concat (map (\<lambda>rr. unwrap_or (hrr_backend_refs rr) []) (unwrap_or (hrs_rules (hr_spec k)) []))"

definition http_mirror_refs :: "http_route \<Rightarrow> backend_object_reference list" where
  "http_mirror_refs k = concat (map (\<lambda>rr. List.map_filter hf_mirror_ref (unwrap_or (hrr_filters rr) []))
     (unwrap_or (hrs_rules (hr_spec k)) []))"

definition grpc_backend_refs :: "grpc_route \<Rightarrow> backend_reference list" where
  "grpc_backend_refs k = concat (map (\<lambda>rr. unwrap_or (grr_backend_refs rr) []) (unwrap_or (grs_rules (gr_spec k)) []))"

definition grpc_mirror_refs :: "grpc_route \<Rightarrow> backend_object_reference list" where
  "grpc_mirror_refs k = concat (map (\<lambda>rr. List.map_filter gf_mirror_ref (unwrap_or (grr_filters rr) []))
     (unwrap_or (grs_rules (gr_spec k)) []))"

lemma route_backends_http:
  "route_backends (route_from_http k) = map (http_backend_from (meta_namespace (hr_metadata k))) (http_backend_refs k)"
proof -
  have "concat (map (\<lambda>p. map (http_backend_from ns) (unwrap_or (hrr_backend_refs (snd p)) [])) (enumerate 0 rules))
      = concat (map (\<lambda>rr. map (http_backend_from ns) (unwrap_or (hrr_backend_refs rr) [])) rules)" for ns rules
    by (rule concat_map_enumerate)
  then show ?thesis
    by (simp add: route_backends_def route_from_http_def Let_def http_backend_refs_def map_concat comp_def
        http_rule_backends key_of_http_route_def)
qed

lemma route_filter_backends_http:
  "route_filter_backends (route_from_http k) =
     map (filter_backend_from (meta_namespace (hr_metadata k))) (http_mirror_refs k)"
proof -
  have "concat (map (\<lambda>p. map (filter_backend_from ns) (List.map_filter hf_mirror_ref (unwrap_or (hrr_filters (snd p)) []))) (enumerate 0 rules))
      = concat (map (\<lambda>rr. map (filter_backend_from ns) (List.map_filter hf_mirror_ref (unwrap_or (hrr_filters rr) []))) rules)" for ns rules
    by (rule concat_map_enumerate)
  then show ?thesis
    by (simp add: route_filter_backends_def route_from_http_def Let_def http_mirror_refs_def map_concat comp_def
        http_rule_filter_backends key_of_http_route_def)
qed

lemma route_backends_grpc:
  "route_backends (route_from_grpc k) = map (grpc_backend_from (meta_namespace (gr_metadata k))) (grpc_backend_refs k)"
proof -
  have "concat (map (\<lambda>p. map (grpc_backend_from ns) (unwrap_or (grr_backend_refs (snd p)) [])) (enumerate 0 rules))
      = concat (map (\<lambda>rr. map (grpc_backend_from ns) (unwrap_or (grr_backend_refs rr) [])) rules)" for ns rules
    by (rule concat_map_enumerate)
  then show ?thesis
    by (simp add: route_backends_def route_from_grpc_def Let_def grpc_backend_refs_def map_concat comp_def
        grpc_rule_backends key_of_grpc_route_def)
qed

lemma route_filter_backends_grpc:
  "route_filter_backends (route_from_grpc k) =
     map (filter_backend_from (meta_namespace (gr_metadata k))) (grpc_mirror_refs k)"
proof -
  have "concat (map (\<lambda>p. map (filter_backend_from ns) (List.map_filter gf_mirror_ref (unwrap_or (grr_filters (snd p)) []))) (enumerate 0 rules))
      = concat (map (\<lambda>rr. map (filter_backend_from ns) (List.map_filter gf_mirror_ref (unwrap_or (grr_filters rr) []))) rules)" for ns rules
    by (rule concat_map_enumerate)
  then show ?thesis
    by (simp add: route_filter_backends_def route_from_grpc_def Let_def grpc_mirror_refs_def map_concat comp_def
        grpc_rule_filter_backends key_of_grpc_route_def)
qed

lemma http_backend_invalid_iff:
  "is_invalid_backend (http_backend_from ns b) \<longleftrightarrow> bor_kind b \<notin> {None, Some ''Service'', Some ''InferencePool''}"
  by (auto simp: http_backend_from_def split: option.splits)

lemma grpc_backend_invalid_iff:
  "is_invalid_backend (grpc_backend_from ns b) \<longleftrightarrow> bor_kind b \<notin> {None, Some ''Service''}"
  by (auto simp: grpc_backend_from_def Let_def)

lemma filter_backend_invalid_iff:
  "is_invalid_backend (filter_backend_from ns b) \<longleftrightarrow> bor_kind b \<notin> {None, Some ''Service''}"
  by (auto simp: filter_backend_from_def split: option.splits)

lemma hostnames_not_ip: "h \<in> set (hostnames_from hs) \<Longrightarrow> \<not> parses_as_ip h"
proof -
  have "\<not> parses_as_ip DEFAULT_ROUTE_HOSTNAME" by code_simp
  then show "h \<in> set (hostnames_from hs) \<Longrightarrow> \<not> parses_as_ip h"
    by (cases hs) (auto simp: hostnames_from_def)
qed

lemma status_of_http: "route_resolution_status (route_from_http k) = initial_status (route_type_of (route_from_http k))"
  by (simp add: route_from_http_def Let_def)

lemma status_of_grpc: "route_resolution_status (route_from_grpc k) = initial_status (route_type_of (route_from_grpc k))"
  by (simp add: route_from_grpc_def Let_def)

lemma bex_map_append:
  "(\<exists>b\<in>set (map f xs @ map g ys). P b) \<longleftrightarrow> (\<exists>x\<in>set ys. P (g x)) \<or> (\<exists>x\<in>set xs. P (f x))"
  by auto

lemma initial_status_invalid:
  "initial_status t = RS_NotResolved InvalidBackend \<longleftrightarrow>
     (\<exists>b\<in>set (rules_filter_backends t @ rules_backends t). is_invalid_backend b)"
  by (simp add: initial_status_def has_invalid_backends_def list_ex_iff)

text \<open>
  Converting an HTTP route keeps every backend reference, in order, in the route's own namespace
  unless the reference names one; the route starts out unresolved, for an invalid backend exactly
  when some backend has a kind other than Service and InferencePool or some mirror has a kind other
  than Service; no host name of the result is an IP address; and the generated rule names are
  distinct, which Envoy and the status code rely on.
\<close>

lemma http_route_conversion:
  "route_key (route_from_http k) = key_of_http_route k \<and>
   route_backends (route_from_http k) = map (http_backend_from (meta_namespace (hr_metadata k))) (http_backend_refs k) \<and>
   (route_resolution_status (route_from_http k) = RS_NotResolved InvalidBackend \<longleftrightarrow>
      (\<exists>b\<in>set (http_backend_refs k). bor_kind b \<notin> {None, Some ''Service'', Some ''InferencePool''}) \<or>
      (\<exists>m\<in>set (http_mirror_refs k). bor_kind m \<notin> {None, Some ''Service''})) \<and>
   list_all (\<lambda>h. \<not> parses_as_ip h) (route_hostnames (route_from_http k)) \<and>
   distinct (map hru_name (case route_type_of (route_from_http k) of RT_Http rules \<Rightarrow> rules | RT_Grpc _ \<Rightarrow> []))"
proof (intro conjI)
  show "route_key (route_from_http k) = key_of_http_route k"
    by (simp add: route_from_http_def Let_def)
  show "route_backends (route_from_http k) = map (http_backend_from (meta_namespace (hr_metadata k))) (http_backend_refs k)"
    by (rule route_backends_http)
  show "route_resolution_status (route_from_http k) = RS_NotResolved InvalidBackend \<longleftrightarrow>
      (\<exists>b\<in>set (http_backend_refs k). bor_kind b \<notin> {None, Some ''Service'', Some ''InferencePool''}) \<or>
      (\<exists>m\<in>set (http_mirror_refs k). bor_kind m \<notin> {None, Some ''Service''})"
    unfolding status_of_http initial_status_invalid route_backends_http [unfolded route_backends_def]
      route_filter_backends_http [unfolded route_filter_backends_def] bex_map_append
      http_backend_invalid_iff filter_backend_invalid_iff by (rule refl)
  show "list_all (\<lambda>h. \<not> parses_as_ip h) (route_hostnames (route_from_http k))"
    by (simp add: route_from_http_def Let_def list_all_iff hostnames_not_ip)
  show "distinct (map hru_name (case route_type_of (route_from_http k) of RT_Http rules \<Rightarrow> rules | RT_Grpc _ \<Rightarrow> []))"
    using enumerate_names_distinct [of "name_any (hr_metadata k)"]
    by (simp add: route_from_http_def Let_def http_rule_from_def comp_def case_prod_beta)
qed

text \<open>
  The same for GRPC routes, which may only reference services: a GRPC route that names an
  inference pool is unresolved with an invalid backend.
\<close>

lemma grpc_route_conversion:
  "route_key (route_from_grpc k) = key_of_grpc_route k \<and>
   route_backends (route_from_grpc k) = map (grpc_backend_from (meta_namespace (gr_metadata k))) (grpc_backend_refs k) \<and>
   (route_resolution_status (route_from_grpc k) = RS_NotResolved InvalidBackend \<longleftrightarrow>
      (\<exists>b\<in>set (grpc_backend_refs k). bor_kind b \<notin> {None, Some ''Service''}) \<or>
      (\<exists>m\<in>set (grpc_mirror_refs k). bor_kind m \<notin> {None, Some ''Service''})) \<and>
   list_all (\<lambda>h. \<not> parses_as_ip h) (route_hostnames (route_from_grpc k)) \<and>
   distinct (map gru_name (case route_type_of (route_from_grpc k) of RT_Grpc rules \<Rightarrow> rules | RT_Http _ \<Rightarrow> []))"
proof (intro conjI)
  show "route_key (route_from_grpc k) = key_of_grpc_route k"
    by (simp add: route_from_grpc_def Let_def)
  show "route_backends (route_from_grpc k) = map (grpc_backend_from (meta_namespace (gr_metadata k))) (grpc_backend_refs k)"
    by (rule route_backends_grpc)
  show "route_resolution_status (route_from_grpc k) = RS_NotResolved InvalidBackend \<longleftrightarrow>
      (\<exists>b\<in>set (grpc_backend_refs k). bor_kind b \<notin> {None, Some ''Service''}) \<or>
      (\<exists>m\<in>set (grpc_mirror_refs k). bor_kind m \<notin> {None, Some ''Service''})"
    unfolding status_of_grpc initial_status_invalid route_backends_grpc [unfolded route_backends_def]
      route_filter_backends_grpc [unfolded route_filter_backends_def] bex_map_append
      grpc_backend_invalid_iff filter_backend_invalid_iff by (rule refl)
  show "list_all (\<lambda>h. \<not> parses_as_ip h) (route_hostnames (route_from_grpc k))"
    by (simp add: route_from_grpc_def Let_def list_all_iff hostnames_not_ip)
  show "distinct (map gru_name (case route_type_of (route_from_grpc k) of RT_Grpc rules \<Rightarrow> rules | RT_Http _ \<Rightarrow> []))"
    using enumerate_names_distinct [of "name_any (gr_metadata k)"]
    by (simp add: route_from_grpc_def Let_def grpc_rule_from_def comp_def case_prod_beta)
qed

lemma http_backends_start_unresolved:
  "b \<in> set (route_backends (route_from_http k)) \<Longrightarrow> (\<exists>t. b = B_Maybe t) \<or> (\<exists>t. b = B_Invalid t)"
  by (auto simp: route_backends_http http_backend_from_def split: option.splits if_splits)

lemma grpc_backends_start_unresolved:
  "b \<in> set (route_backends (route_from_grpc k)) \<Longrightarrow> (\<exists>t. b = B_Maybe t) \<or> (\<exists>t. b = B_Invalid t)"
  by (auto simp: route_backends_grpc grpc_backend_from_def Let_def split: if_splits)

end
