(* ===== verification/Listener_Model.thy ===== *)
theory Listener_Model
  imports Route_Model
begin

section \<open>Listeners and gateways\<close>

text \<open>
  The controller's own view of a gateway: \<open>kubvernor-controller/src/common/listener.rs\<close>,
  \<open>common/gateway.rs\<close>, and the certificates and verification helper of \<open>common/mod.rs\<close>. The
  conditions of a listener are an ordered set keyed by \<open>condition_discriminant\<close>, so a listener has
  at most one condition of each kind and replacing one overwrites it.
\<close>

subsection \<open>Certificates\<close>

record key_data =
  kd_cert :: string
  kd_private_key :: string
  kd_root :: "string option"

datatype certificate =
    C_ResolvedSameSpace resource_key key_data
  | C_ResolvedCrossSpace resource_key key_data
  | C_NotResolved resource_key
  | C_Invalid resource_key

fun certificate_key :: "certificate \<Rightarrow> resource_key" where
  "certificate_key (C_ResolvedSameSpace k _) = k"
| "certificate_key (C_ResolvedCrossSpace k _) = k"
| "certificate_key (C_NotResolved k) = k"
| "certificate_key (C_Invalid k) = k"

definition cert_resolve :: "certificate \<Rightarrow> string \<Rightarrow> string \<Rightarrow> certificate" where
  "cert_resolve c cert key = C_ResolvedSameSpace (certificate_key c) \<lparr>kd_cert = cert, kd_private_key = key, kd_root = None\<rparr>"

definition cert_resolve_cross_space :: "certificate \<Rightarrow> string \<Rightarrow> string \<Rightarrow> certificate" where
  "cert_resolve_cross_space c cert key =
     C_ResolvedCrossSpace (certificate_key c) \<lparr>kd_cert = cert, kd_private_key = key, kd_root = None\<rparr>"

definition cert_not_resolved :: "certificate \<Rightarrow> certificate" where
  "cert_not_resolved c = C_NotResolved (certificate_key c)"

definition cert_invalid :: "certificate \<Rightarrow> certificate" where
  "cert_invalid c = C_Invalid (certificate_key c)"

fun cert_key_data :: "certificate \<Rightarrow> key_data option" where
  "cert_key_data (C_ResolvedSameSpace _ d) = Some d"
| "cert_key_data (C_ResolvedCrossSpace _ d) = Some d"
| "cert_key_data (C_NotResolved _) = None"
| "cert_key_data (C_Invalid _) = None"

lemma certificate_key_transitions [simp]:
  "certificate_key (cert_resolve c a b) = certificate_key c"
  "certificate_key (cert_resolve_cross_space c a b) = certificate_key c"
  "certificate_key (cert_not_resolved c) = certificate_key c"
  "certificate_key (cert_invalid c) = certificate_key c"
  by (simp_all add: cert_resolve_def cert_resolve_cross_space_def cert_not_resolved_def cert_invalid_def)

subsection \<open>Splitting results\<close>

text \<open>\<open>VerifiyItems::verify\<close>: the good items and the errors, each in their order.\<close>

definition verify_items :: "('e + 'i) list \<Rightarrow> 'i list \<times> 'e list" where
  "verify_items xs =
     (List.map_filter (\<lambda>r. case r of Inr i \<Rightarrow> Some i | Inl e \<Rightarrow> None) xs,
      List.map_filter (\<lambda>r. case r of Inl e \<Rightarrow> Some e | Inr i \<Rightarrow> None) xs)"

lemma verify_items_Nil [simp]: "verify_items [] = ([], [])"
  by (simp add: verify_items_def List.map_filter_simps)

lemma verify_items_Inr: "verify_items (Inr i # xs) = (i # fst (verify_items xs), snd (verify_items xs))"
  by (simp add: verify_items_def List.map_filter_simps)

lemma verify_items_Inl: "verify_items (Inl e # xs) = (fst (verify_items xs), e # snd (verify_items xs))"
  by (simp add: verify_items_def List.map_filter_simps)

lemma verify_items_length: "length (fst (verify_items xs)) + length (snd (verify_items xs)) = length xs"
proof (induction xs)
  case (Cons x xs)
  then show ?case by (cases x) (simp_all add: verify_items_Inr verify_items_Inl)
qed simp

lemma verify_items_no_errors: "snd (verify_items xs) = [] \<Longrightarrow> xs = map Inr (fst (verify_items xs))"
proof (induction xs)
  case (Cons x xs)
  then show ?case by (cases x) (simp_all add: verify_items_Inr verify_items_Inl)
qed simp

lemma verify_items_errors_iff: "snd (verify_items xs) = [] \<longleftrightarrow> (\<forall>x\<in>set xs. \<exists>i. x = Inr i)"
proof (induction xs)
  case (Cons x xs)
  then show ?case by (cases x) (simp_all add: verify_items_Inr verify_items_Inl)
qed simp

subsection \<open>Conditions of a listener\<close>

datatype resolved_refs =
    RR_Resolved "string list"
  | RR_ResolvedWithNotAllowedRoutes "string list"
  | RR_InvalidAllowedRoutes
  | RR_InvalidCertificates "string list"
  | RR_InvalidBackend "string list"
  | RR_RefNotPermitted "string list"

datatype listener_condition =
    LC_ResolvedRefs resolved_refs
  | LC_UnresolvedRouteRefs
  | LC_Accepted
  | LC_NotAccepted
  | LC_Programmed
  | LC_NotProgrammed

fun condition_discriminant :: "listener_condition \<Rightarrow> nat" where
  "condition_discriminant (LC_ResolvedRefs _) = 0"
| "condition_discriminant LC_Accepted = 1"
| "condition_discriminant LC_NotAccepted = 1"
| "condition_discriminant LC_Programmed = 2"
| "condition_discriminant LC_NotProgrammed = 2"
| "condition_discriminant LC_UnresolvedRouteRefs = 3"

datatype listener_condition_type = CT_ResolvedRefs | CT_Accepted | CT_Programmed

datatype listener_condition_reason = CR_InvalidRouteKinds | CR_ResolvedRefs | CR_InvalidCertificateRef
  | CR_RefNotPermitted | CR_Accepted | CR_Programmed

fun resolved_type :: "listener_condition \<Rightarrow> string \<times> listener_condition_type \<times> listener_condition_reason" where
  "resolved_type (LC_ResolvedRefs RR_InvalidAllowedRoutes) = (''False'', CT_ResolvedRefs, CR_InvalidRouteKinds)"
| "resolved_type (LC_ResolvedRefs (RR_ResolvedWithNotAllowedRoutes _)) = (''False'', CT_ResolvedRefs, CR_InvalidRouteKinds)"
| "resolved_type (LC_ResolvedRefs (RR_InvalidBackend _)) = (''True'', CT_ResolvedRefs, CR_InvalidRouteKinds)"
| "resolved_type (LC_ResolvedRefs (RR_Resolved _)) = (''True'', CT_ResolvedRefs, CR_ResolvedRefs)"
| "resolved_type (LC_ResolvedRefs (RR_InvalidCertificates _)) = (''False'', CT_ResolvedRefs, CR_InvalidCertificateRef)"
| "resolved_type (LC_ResolvedRefs (RR_RefNotPermitted _)) = (''False'', CT_ResolvedRefs, CR_RefNotPermitted)"
| "resolved_type LC_UnresolvedRouteRefs = (''False'', CT_ResolvedRefs, CR_ResolvedRefs)"
| "resolved_type LC_Accepted = (''True'', CT_Accepted, CR_Accepted)"
| "resolved_type LC_NotAccepted = (''False'', CT_Accepted, CR_Accepted)"
| "resolved_type LC_Programmed = (''True'', CT_Programmed, CR_Programmed)"
| "resolved_type LC_NotProgrammed = (''False'', CT_Programmed, CR_Programmed)"

definition APPROVED_ROUTES :: "string list" where
  "APPROVED_ROUTES = [''GRPCRoute'', ''HTTPRoute'', ''TCPRoute'']"

fun supported_routes :: "listener_condition \<Rightarrow> string list" where
  "supported_routes (LC_ResolvedRefs (RR_Resolved rs)) = rs"
| "supported_routes (LC_ResolvedRefs (RR_ResolvedWithNotAllowedRoutes rs)) = rs"
| "supported_routes (LC_ResolvedRefs (RR_InvalidCertificates rs)) = rs"
| "supported_routes _ = APPROVED_ROUTES"

abbreviation conditions_wf :: "listener_condition list \<Rightarrow> bool" where
  "conditions_wf \<equiv> bset_wf condition_discriminant"

definition replace_condition :: "listener_condition \<Rightarrow> listener_condition list \<Rightarrow> listener_condition list" where
  "replace_condition c cs = bset_replace condition_discriminant c cs"

text \<open>The look-up \<open>conditions.get(&ResolvedRefs(..))\<close> compares by discriminant, so any resolution state is found.\<close>

definition resolved_refs_condition :: "listener_condition list \<Rightarrow> listener_condition option" where
  "resolved_refs_condition cs = bset_get condition_discriminant (condition_discriminant (LC_ResolvedRefs (RR_Resolved []))) cs"

lemma replace_condition_wf [simp, intro]: "conditions_wf cs \<Longrightarrow> conditions_wf (replace_condition c cs)"
  by (simp add: replace_condition_def)

lemma replace_condition_mem: "conditions_wf cs \<Longrightarrow>
    d \<in> set (replace_condition c cs) \<longleftrightarrow> d = c \<or> (d \<in> set cs \<and> condition_discriminant d \<noteq> condition_discriminant c)"
  by (auto simp: replace_condition_def set_bset_replace)

subsection \<open>Listeners\<close>

datatype tls_type = TT_Terminate "certificate list" | TT_Passthrough

record listener_config =
  lc_name :: string
  lc_port :: "32 word"
  lc_hostname :: "string option"
  lc_tls_type :: "tls_type option"

record listener_data =
  ld_config :: listener_config
  ld_conditions :: "listener_condition list"
  ld_resolved_routes :: "route list"
  ld_unresolved_routes :: "route list"
  ld_attached_routes :: nat

datatype protocol_type = P_Http | P_Https | P_Tls | P_Tcp | P_Udp

datatype listener = L_Http listener_data | L_Https listener_data | L_Tcp listener_data
  | L_Tls listener_data | L_Udp listener_data

fun listener_data_of :: "listener \<Rightarrow> listener_data" where
  "listener_data_of (L_Http d) = d"
| "listener_data_of (L_Https d) = d"
| "listener_data_of (L_Tcp d) = d"
| "listener_data_of (L_Tls d) = d"
| "listener_data_of (L_Udp d) = d"

fun map_listener_data :: "(listener_data \<Rightarrow> listener_data) \<Rightarrow> listener \<Rightarrow> listener" where
  "map_listener_data f (L_Http d) = L_Http (f d)"
| "map_listener_data f (L_Https d) = L_Https (f d)"
| "map_listener_data f (L_Tcp d) = L_Tcp (f d)"
| "map_listener_data f (L_Tls d) = L_Tls (f d)"
| "map_listener_data f (L_Udp d) = L_Udp (f d)"

fun listener_protocol :: "listener \<Rightarrow> protocol_type" where
  "listener_protocol (L_Http _) = P_Http"
| "listener_protocol (L_Https _) = P_Https"
| "listener_protocol (L_Tcp _) = P_Tcp"
| "listener_protocol (L_Tls _) = P_Tls"
| "listener_protocol (L_Udp _) = P_Udp"

definition listener_name :: "listener \<Rightarrow> string" where
  "listener_name l = lc_name (ld_config (listener_data_of l))"

definition listener_port :: "listener \<Rightarrow> 32 word" where
  "listener_port l = lc_port (ld_config (listener_data_of l))"

definition listener_hostname :: "listener \<Rightarrow> string option" where
  "listener_hostname l = lc_hostname (ld_config (listener_data_of l))"

definition listener_conditions :: "listener \<Rightarrow> listener_condition list" where
  "listener_conditions l = ld_conditions (listener_data_of l)"

definition listener_routes :: "listener \<Rightarrow> route list \<times> route list" where
  "listener_routes l = (ld_resolved_routes (listener_data_of l), ld_unresolved_routes (listener_data_of l))"

definition listener_attached_routes :: "listener \<Rightarrow> nat" where
  "listener_attached_routes l = ld_attached_routes (listener_data_of l)"

lemma listener_data_of_map [simp]: "listener_data_of (map_listener_data f l) = f (listener_data_of l)"
  by (cases l) simp_all

lemma listener_protocol_map [simp]: "listener_protocol (map_listener_data f l) = listener_protocol l"
  by (cases l) simp_all

definition update_routes_data :: "route list \<Rightarrow> route list \<Rightarrow> listener_data \<Rightarrow> listener_data" where
  "update_routes_data resolved unresolved d =
     (let cs = (if unresolved \<noteq> [] then
                  (case unresolved of
                     route # _ \<Rightarrow>
                       if route_resolution_status route = RS_NotResolved RefNotPermitted
                       then replace_condition (LC_ResolvedRefs (RR_InvalidBackend APPROVED_ROUTES)) (ld_conditions d)
                       else ld_conditions d
                   | [] \<Rightarrow> replace_condition LC_UnresolvedRouteRefs (ld_conditions d))
                else ld_conditions d)
      in d\<lparr>ld_conditions := cs,
           ld_attached_routes := length unresolved + length resolved,
           ld_resolved_routes := resolved,
           ld_unresolved_routes := unresolved\<rparr>)"

definition update_routes :: "route list \<Rightarrow> route list \<Rightarrow> listener \<Rightarrow> listener" where
  "update_routes resolved unresolved l = map_listener_data (update_routes_data resolved unresolved) l"

subsection \<open>Parsing a listener\<close>

datatype listener_error =
    UnknownProtocol string
  | NotDistinct string "32 word" protocol_type "string option"
  | UnknownTlsMode

definition default_kinds :: "string \<Rightarrow> listener_condition" where
  "default_kinds protocol =
     (if protocol = ''HTTP'' \<or> protocol = ''HTTPS'' then LC_ResolvedRefs (RR_Resolved [''HTTPRoute'', ''GRPCRoute''])
      else LC_ResolvedRefs (RR_Resolved []))"

definition validate_allowed_routes :: "listener_spec \<Rightarrow> listener_condition" where
  "validate_allowed_routes l = (case li_allowed_routes l of
       Some ar \<Rightarrow>
         (case ar_kinds ar of
            Some kinds \<Rightarrow>
              (let supported = filter (\<lambda>k. k \<in> set APPROVED_ROUTES) (map ark_kind kinds);
                   invalid = filter (\<lambda>k. k \<notin> set APPROVED_ROUTES) (map ark_kind kinds)
               in if invalid = [] then LC_ResolvedRefs (RR_Resolved supported)
                  else if supported = [] then LC_ResolvedRefs RR_InvalidAllowedRoutes
                  else LC_ResolvedRefs (RR_ResolvedWithNotAllowedRoutes supported))
          | None \<Rightarrow> default_kinds (li_protocol l))
     | None \<Rightarrow> default_kinds (li_protocol l))"

definition tls_config_of :: "listener_tls \<Rightarrow> listener_error + tls_type" where
  "tls_config_of tls = (case lt_mode tls of
       Some Passthrough_Mode \<Rightarrow> Inr TT_Passthrough
     | Some Terminate_Mode \<Rightarrow> Inr (TT_Terminate (map
           (\<lambda>r. C_NotResolved (key_from_parts (sr_group r) (sr_namespace r) (sr_name r) (sr_kind r)))
           (unwrap_or (lt_certificate_refs tls) [])))
     | None \<Rightarrow> Inl UnknownTlsMode)"

fun listener_of_protocol :: "string \<Rightarrow> listener_data \<Rightarrow> listener_error + listener" where
  "listener_of_protocol p d =
     (if p = ''HTTP'' then Inr (L_Http d)
      else if p = ''HTTPS'' then Inr (L_Https d)
      else if p = ''TCP'' then Inr (L_Tcp d)
      else if p = ''TLS'' then Inr (L_Tls d)
      else if p = ''UDP'' then Inr (L_Udp d)
      else Inl (UnknownProtocol p))"

definition listener_from :: "listener_spec \<Rightarrow> listener_error + listener" where
  "listener_from l =
     (let data = (\<lambda>tls. \<lparr>ld_config = \<lparr>lc_name = li_name l, lc_port = li_port l, lc_hostname = li_hostname l, lc_tls_type = tls\<rparr>,
                     ld_conditions = replace_condition (validate_allowed_routes l) [],
                     ld_resolved_routes = [], ld_unresolved_routes = [], ld_attached_routes = 0\<rparr>)
      in case li_tls l of
           None \<Rightarrow> listener_of_protocol (li_protocol l) (data None)
         | Some tls \<Rightarrow> (case tls_config_of tls of
               Inl e \<Rightarrow> Inl e
             | Inr t \<Rightarrow> listener_of_protocol (li_protocol l) (data (Some t))))"

subsection \<open>Gateways\<close>

datatype gateway_address = GA_Hostname string | GA_IPAddress string | GA_NamedAddress string

record gateway =
  gw_id :: string
  gw_resource_key :: resource_key
  gw_addresses :: "gateway_address list"
  gw_listeners :: "(string \<times> listener) list"
  gw_orphaned_routes :: "route list"
  gw_backend_type :: gateway_implementation_type

datatype gateway_error = ConversionProblem string

definition gateway_listeners :: "gateway \<Rightarrow> listener list" where
  "gateway_listeners g = map snd (gw_listeners g)"

definition gateway_listener :: "gateway \<Rightarrow> string \<Rightarrow> listener option" where
  "gateway_listener g name = map_of (gw_listeners g) name"

definition map_listeners :: "(listener \<Rightarrow> listener) \<Rightarrow> gateway \<Rightarrow> gateway" where
  "map_listeners f g = g\<lparr>gw_listeners := map (\<lambda>(n, l). (n, f l)) (gw_listeners g)\<rparr>"

definition update_listener :: "string \<Rightarrow> (listener \<Rightarrow> listener) \<Rightarrow> gateway \<Rightarrow> gateway" where
  "update_listener name f g = g\<lparr>gw_listeners := map (\<lambda>(n, l). (n, if n = name then f l else l)) (gw_listeners g)\<rparr>"

definition gateway_routes :: "gateway \<Rightarrow> route list \<times> route list" where
  "gateway_routes g = fold (\<lambda>l (resolved_routes, unresolved_routes).
       let (resolved, unresolved) = listener_routes l
       in (bset_append route_key resolved_routes (bset_from route_key resolved),
           bset_append route_key unresolved_routes (bset_from route_key unresolved)))
     (gateway_listeners g) ([], [])"

text \<open>
  Building the gateway, with the parser of \<open>uuid\<close> as the parameter \<open>parse_uuid\<close>. Listeners are
  collected into a map by name, so of two listeners with one name the later is kept.
\<close>

definition gateway_from ::
    "(string \<Rightarrow> string option) \<Rightarrow> kube_gateway \<Rightarrow> gateway_implementation_type \<Rightarrow> gateway_error + gateway" where
  "gateway_from parse_uuid kg backend_type =
     (case parse_uuid (unwrap_or (om_uid (kg_metadata kg)) '''') of
        None \<Rightarrow> Inl (ConversionProblem ''Can't parse uuid'')
      | Some i \<Rightarrow>
          (let (listeners, errors) = verify_items (map listener_from (gs_listeners (kg_spec kg)))
           in if errors \<noteq> [] then Inl (ConversionProblem ''Misconfigured listeners'')
              else Inr \<lparr>gw_id = i, gw_resource_key = key_of_gateway kg, gw_addresses = [],
                        gw_listeners = bset_from fst (map (\<lambda>l. (listener_name l, l)) listeners),
                        gw_orphaned_routes = [], gw_backend_type = backend_type\<rparr>))"

text \<open>The conversion without an implementation type assumes Envoy.\<close>

definition gateway_from_default :: "(string \<Rightarrow> string option) \<Rightarrow> kube_gateway \<Rightarrow> gateway_error + gateway" where
  "gateway_from_default parse_uuid kg = gateway_from parse_uuid kg Envoy"

subsection \<open>Properties of listeners and gateways\<close>

lemma map_of_bset_append: "map_of (bset_append fst m ps) = map_of m ++ map_of (rev ps)"
proof (unfold bset_append_def, induction ps arbitrary: m)
  case (Cons p ps)
  obtain k v where p: "p = (k, v)" by (cases p)
  have "map_of (fold (bset_replace fst) ps (bset_replace fst p m)) = map_of (bset_replace fst p m) ++ map_of (rev ps)"
    by (rule Cons.IH)
  then show ?case by (auto simp: p map_add_def fun_eq_iff split: option.splits)
qed simp

lemma map_of_bset_from: "map_of (bset_from fst ps) = map_of (rev ps)"
  by (simp add: bset_from_def map_of_bset_append)

lemma listener_of_protocol_ok_iff:
  "(\<exists>l. listener_of_protocol p d = Inr l) \<longleftrightarrow> p \<in> {''HTTP'', ''HTTPS'', ''TCP'', ''TLS'', ''UDP''}"
  by auto

lemma listener_of_protocol_data: "listener_of_protocol p d = Inr l \<Longrightarrow> listener_data_of l = d"
  by (auto split: if_splits)

definition known_listener :: "listener_spec \<Rightarrow> bool" where
  "known_listener l \<longleftrightarrow> li_protocol l \<in> {''HTTP'', ''HTTPS'', ''TCP'', ''TLS'', ''UDP''} \<and>
     (case li_tls l of None \<Rightarrow> True | Some tls \<Rightarrow> lt_mode tls \<noteq> None)"

lemma listener_from_ok_iff: "(\<exists>x. listener_from l = Inr x) \<longleftrightarrow> known_listener l"
proof (cases "li_tls l")
  case None
  then show ?thesis
    by (simp add: listener_from_def known_listener_def listener_of_protocol_ok_iff del: listener_of_protocol.simps)
next
  case (Some tls)
  then show ?thesis
    by (cases "lt_mode tls")
      (auto simp: listener_from_def known_listener_def tls_config_of_def listener_of_protocol_ok_iff
        simp del: listener_of_protocol.simps split: tls_mode.splits)
qed

lemma listener_from_data:
  assumes "listener_from l = Inr x"
  shows "listener_name x = li_name l" "listener_port x = li_port l" "listener_hostname x = li_hostname l"
    "listener_conditions x = [validate_allowed_routes l]" "listener_routes x = ([], [])"
    "listener_attached_routes x = 0"
  using assms
  by (auto simp: listener_from_def Let_def replace_condition_def listener_name_def listener_port_def
      listener_hostname_def listener_conditions_def listener_routes_def listener_attached_routes_def
      simp del: listener_of_protocol.simps dest!: listener_of_protocol_data split: option.splits sum.splits)

lemma validate_allowed_routes_discriminant: "condition_discriminant (validate_allowed_routes l) = 0"
  by (auto simp: validate_allowed_routes_def default_kinds_def Let_def split: option.splits)

lemma supported_routes_approved:
  "set (supported_routes (validate_allowed_routes l)) \<subseteq> set APPROVED_ROUTES"
  by (auto simp: validate_allowed_routes_def default_kinds_def Let_def APPROVED_ROUTES_def split: option.splits if_splits)

lemma validate_allowed_routes_cases:
  assumes "li_allowed_routes l = Some ar" "ar_kinds ar = Some kinds"
  shows "fst (resolved_type (validate_allowed_routes l)) = ''True'' \<longleftrightarrow> ark_kind ` set kinds \<subseteq> set APPROVED_ROUTES"
  using assms by (auto simp: validate_allowed_routes_def Let_def filter_empty_conv)

lemma gateway_from_ok_iff:
  "(\<exists>g. gateway_from p kg t = Inr g) \<longleftrightarrow>
     p (unwrap_or (om_uid (kg_metadata kg)) '''') \<noteq> None \<and> list_all known_listener (gs_listeners (kg_spec kg))"
proof -
  have "snd (verify_items (map listener_from ls)) = [] \<longleftrightarrow> list_all known_listener ls" for ls
    by (simp add: verify_items_errors_iff list_all_iff listener_from_ok_iff)
  then show ?thesis
    by (cases "p (unwrap_or (om_uid (kg_metadata kg)) '''')")
      (simp_all add: gateway_from_def case_prod_beta Let_def)
qed

lemma map_fst_bset_from_mem: "(n, l) \<in> set (bset_from fst (map (\<lambda>l. (f l, l)) ls)) \<Longrightarrow> l \<in> set ls \<and> n = f l"
  using bset_from_subset [of fst "map (\<lambda>l. (f l, l)) ls"] by auto

definition gateway_wf :: "gateway \<Rightarrow> bool" where
  "gateway_wf g \<longleftrightarrow> bset_wf fst (gw_listeners g) \<and>
     list_all (\<lambda>(n, l). listener_name l = n \<and> conditions_wf (listener_conditions l)) (gw_listeners g)"

lemma gateway_from_wf:
  assumes "gateway_from p kg t = Inr g"
  shows "gateway_wf g"
proof -
  obtain ls where ls: "verify_items (map listener_from (gs_listeners (kg_spec kg))) = (ls, [])"
    and g: "gw_listeners g = bset_from fst (map (\<lambda>l. (listener_name l, l)) ls)"
    using assms by (auto simp: gateway_from_def split: option.splits prod.splits if_splits)
  have all: "map listener_from (gs_listeners (kg_spec kg)) = map Inr ls"
    using verify_items_no_errors [of "map listener_from (gs_listeners (kg_spec kg))"] ls by simp
  have "conditions_wf (listener_conditions x)" if "x \<in> set ls" for x
  proof -
    have "Inr x \<in> listener_from ` set (gs_listeners (kg_spec kg))"
      using that arg_cong [OF all, of set] by force
    then obtain s where "listener_from s = Inr x" by auto
    then show ?thesis by (simp add: listener_from_data)
  qed
  then show ?thesis unfolding gateway_wf_def g by (auto simp: list_all_iff dest!: map_fst_bset_from_mem)
qed

lemma gateway_from_listener:
  assumes "gateway_from p kg t = Inr g"
  shows "gateway_listener g n =
    (case find (\<lambda>l. li_name l = n) (rev (gs_listeners (kg_spec kg))) of
       None \<Rightarrow> None | Some l \<Rightarrow> (case listener_from l of Inr x \<Rightarrow> Some x | Inl e \<Rightarrow> None))"
proof -
  obtain ls where ls: "verify_items (map listener_from (gs_listeners (kg_spec kg))) = (ls, [])"
    and g: "gw_listeners g = bset_from fst (map (\<lambda>l. (listener_name l, l)) ls)"
    using assms by (auto simp: gateway_from_def split: option.splits prod.splits if_splits)
  have all: "map listener_from (gs_listeners (kg_spec kg)) = map Inr ls"
    using verify_items_no_errors [of "map listener_from (gs_listeners (kg_spec kg))"] ls by simp
  have gen: "map_of (map (\<lambda>l. (listener_name l, l)) xs) n =
      (case find (\<lambda>l. li_name l = n) ss of None \<Rightarrow> None
       | Some l \<Rightarrow> (case listener_from l of Inr x \<Rightarrow> Some x | Inl e \<Rightarrow> None))"
    if "map listener_from ss = map Inr xs" for ss xs
    using that
  proof (induction ss arbitrary: xs)
    case (Cons s ss)
    then obtain x xs' where "xs = x # xs'" "listener_from s = Inr x" "map listener_from ss = map Inr xs'"
      by (cases xs) auto
    with Cons.IH show ?case by (auto simp: listener_from_data(1))
  qed simp
  have "map listener_from (rev (gs_listeners (kg_spec kg))) = map Inr (rev ls)"
    using arg_cong [OF all, of rev] by (simp add: rev_map)
  from gen [OF this] show ?thesis by (simp add: gateway_listener_def g map_of_bset_from rev_map)
qed

text \<open>
  C32: a gateway object is accepted exactly when its uid parses and every listener has a known
  protocol and, if it has TLS, a mode; anything else is a conversion error. An accepted gateway is
  well formed: listeners in name order under their own names, of several listeners with one name
  the last one, each with one condition per kind, no routes yet, and the key of the object.
\<close>

theorem gateway_conversion:
  "(case gateway_from parse_uuid kg t of
      Inr g \<Rightarrow> parse_uuid (unwrap_or (om_uid (kg_metadata kg)) '''') = Some (gw_id g) \<and>
        list_all known_listener (gs_listeners (kg_spec kg)) \<and>
        gateway_wf g \<and> gw_resource_key g = key_of_gateway kg \<and> gw_backend_type g = t \<and> gw_orphaned_routes g = [] \<and>
        (\<forall>n. gateway_listener g n =
          (case find (\<lambda>l. li_name l = n) (rev (gs_listeners (kg_spec kg))) of
             None \<Rightarrow> None | Some l \<Rightarrow> (case listener_from l of Inr x \<Rightarrow> Some x | Inl e \<Rightarrow> None)))
    | Inl e \<Rightarrow> parse_uuid (unwrap_or (om_uid (kg_metadata kg)) '''') = None \<or>
        list_ex (\<lambda>l. \<not> known_listener l) (gs_listeners (kg_spec kg)))"
proof (cases "gateway_from parse_uuid kg t")
  case (Inl e)
  then show ?thesis using gateway_from_ok_iff [of parse_uuid kg t] by (auto simp: list_all_iff list_ex_iff)
next
  case (Inr g)
  have ok: "list_all known_listener (gs_listeners (kg_spec kg))" using gateway_from_ok_iff [of parse_uuid kg t] Inr by auto
  have "parse_uuid (unwrap_or (om_uid (kg_metadata kg)) '''') = Some (gw_id g)" "gw_resource_key g = key_of_gateway kg"
    "gw_backend_type g = t" "gw_orphaned_routes g = []"
    using Inr by (auto simp: gateway_from_def split: option.splits prod.splits if_splits)
  with Inr ok gateway_from_wf [OF Inr] gateway_from_listener [OF Inr] show ?thesis by simp
qed

lemma update_routes_conditions_wf:
  "conditions_wf (ld_conditions d) \<Longrightarrow> conditions_wf (ld_conditions (update_routes_data r u d))"
  by (auto simp: update_routes_data_def Let_def split: list.splits)

text \<open>
  Attaching routes to a listener counts resolved and unresolved routes alike, and changes the
  reference condition only through the first unresolved route: when that route's reference is not
  permitted, the condition becomes the one of an invalid backend, whose status is True, whatever the
  condition was before (an invalid certificate included). The state for unresolved route references
  that the code provides is never set, because its branch asks for a non-empty set without a first
  element.
\<close>

lemma update_routes_accounting:
  "let l' = update_routes resolved unresolved l; cs = listener_conditions l
   in listener_attached_routes l' = length resolved + length unresolved \<and>
      listener_routes l' = (resolved, unresolved) \<and>
      listener_protocol l' = listener_protocol l \<and>
      resolved_refs_condition (listener_conditions l') =
        (case unresolved of
           [] \<Rightarrow> resolved_refs_condition cs
         | r # _ \<Rightarrow> if route_resolution_status r = RS_NotResolved RefNotPermitted
                    then Some (LC_ResolvedRefs (RR_InvalidBackend APPROVED_ROUTES)) else resolved_refs_condition cs) \<and>
      bset_get condition_discriminant (condition_discriminant LC_UnresolvedRouteRefs) (listener_conditions l') =
        bset_get condition_discriminant (condition_discriminant LC_UnresolvedRouteRefs) cs \<and>
      fst (resolved_type (LC_ResolvedRefs (RR_InvalidBackend APPROVED_ROUTES))) = ''True''"
  by (auto simp: Let_def update_routes_def update_routes_data_def listener_attached_routes_def listener_routes_def
      listener_conditions_def resolved_refs_condition_def replace_condition_def split: list.splits)

end
