(* ===== verification/Messages.thy ===== *)
theory Messages
  imports Listener_Model
begin

section \<open>Messages between the components\<close>

text \<open>
  The messages of \<open>common/mod.rs\<close> and \<open>services/patchers/patcher.rs\<close>: requests to the reference
  validator, requests to the gateway deployer, operations of the patcher services and events of the
  backend deployers. A component that sends on a channel returns the messages it sends, in order;
  the reply a sender waits for on a one-shot channel is an argument of the step that follows it.
\<close>

record request_context =
  rc_gateway :: gateway
  rc_kube_gateway :: kube_gateway
  rc_gateway_class_name :: string

datatype reference_validate_request =
    AddGateway request_context
  | AddRoute resource_key "resource_key list"
  | UpdatedGateways resource_key "resource_key list"
  | UpdatedRoutes resource_key "resource_key list"
  | DeleteRoute resource_key "resource_key list"
  | DeleteGateway gateway

datatype gateway_deploy_request = Deploy request_context

record finalizer_context =
  fc_resource_key :: resource_key
  fc_controller_name :: string
  fc_finalizer_name :: string

datatype 'r operation =
    PatchStatus resource_key 'r string
  | PatchFinalizer finalizer_context
  | Delete_Resource resource_key 'r string

datatype backend_gateway_event =
    Changed gateway kube_gateway string
  | Deleted gateway

datatype backend_gateway_response =
    Processed gateway
  | ProcessedWithContext gateway kube_gateway string
  | DeletedResponse
  | ProcessingError

definition add_finalizer :: "resource_key \<Rightarrow> string \<Rightarrow> kube_gateway operation" where
  "add_finalizer gateway_id controller = PatchFinalizer
     \<lparr>fc_resource_key = gateway_id, fc_controller_name = controller, fc_finalizer_name = controller\<rparr>"

definition GATEWAY_CLASS_FINALIZER_NAME :: string where
  "GATEWAY_CLASS_FINALIZER_NAME = ''gateway-exists-finalizer.gateway.networking.k8s.io''"

definition add_finalizer_to_gateway_class :: "string \<Rightarrow> string \<Rightarrow> gateway_class operation" where
  "add_finalizer_to_gateway_class class_name controller = PatchFinalizer
     \<lparr>fc_resource_key = new_key class_name, fc_controller_name = controller,
      fc_finalizer_name = GATEWAY_CLASS_FINALIZER_NAME\<rparr>"

end
