(* ===== verification/Resource_Handling.thy ===== *)
theory Resource_Handling
  imports Inference_Status Messages
begin

section \<open>Handling a resource event\<close>

text \<open>
  The frame all controllers share: \<open>controllers/mod.rs\<close> (errors, finalizers),
  \<open>controllers/utils/mod.rs\<close> (\<open>ResourceStateChecker\<close>), \<open>controllers/handlers/resource_handler.rs\<close>
  (the trait \<open>ResourceHandler\<close> with its dispatch). A handler is the record of the trait's
  methods, \<open>default_handler\<close> the trait's default methods; an \<open>impl\<close> block is a record update of
  it. A controller works on a \<open>system\<close>: the shared store and, per channel, the messages sent so far.

  A handler runs here as one step. In the program other tasks may use the store between two
  of its operations on the store; each of those is atomic, and the messages of a handler keep their order.
\<close>

subsection \<open>Errors and actions\<close>

datatype controller_error =
    PatchFailed | AlreadyAdded | InvalidPayload string | InvalidRecipent | FinalizerPatchFailed string
  | BackendError | UnknownResource | UnknownGatewayClass string | UnknownGatewayType
  | ResourceInWrongState | ResourceHasWrongStatus

datatype action = Await_Change | Requeue nat

text \<open>What a reconciliation ends with: an action, an error, or a failed \<open>expect\<close>.\<close>

datatype outcome = Acted action | Failed controller_error | Panicked

definition RECONCILE_LONG_WAIT :: nat where
  "RECONCILE_LONG_WAIT = 3600"

definition RECONCILE_ERROR_WAIT :: nat where
  "RECONCILE_ERROR_WAIT = 100"

text \<open>Routes and pools wait long after every error, gateways and their classes look at the error.\<close>

definition route_error_policy :: "controller_error \<Rightarrow> action" where
  "route_error_policy err = Requeue RECONCILE_LONG_WAIT"

fun gateway_error_policy :: "controller_error \<Rightarrow> action" where
  "gateway_error_policy (UnknownGatewayClass _) = Requeue RECONCILE_ERROR_WAIT"
| "gateway_error_policy UnknownGatewayType = Requeue RECONCILE_ERROR_WAIT"
| "gateway_error_policy ResourceInWrongState = Requeue RECONCILE_ERROR_WAIT"
| "gateway_error_policy ResourceHasWrongStatus = Requeue RECONCILE_ERROR_WAIT"
| "gateway_error_policy _ = Requeue RECONCILE_LONG_WAIT"

definition needs_finalizer :: "resource_key \<Rightarrow> string \<Rightarrow> object_meta \<Rightarrow> 'r operation option" where
  "needs_finalizer k controller meta =
     (let has_finalizer = (case om_finalizers meta of Some finalizers \<Rightarrow> controller \<in> set finalizers | None \<Rightarrow> False)
      in if has_finalizer then None
         else Some (PatchFinalizer \<lparr>fc_resource_key = k, fc_controller_name = controller, fc_finalizer_name = controller\<rparr>))"

subsection \<open>The state of a resource\<close>

datatype resource_state = State_New | State_SpecNotChanged | State_Deleted | State_SpecChanged
  | State_VersionNotChanged | State_StatusChanged | State_StatusNotChanged

definition check_status ::
    "('r \<Rightarrow> object_meta) \<Rightarrow> 'r \<Rightarrow> 'r option \<Rightarrow> ('r \<Rightarrow> 'r \<Rightarrow> resource_state) \<Rightarrow> ('r \<Rightarrow> 'r \<Rightarrow> resource_state) \<Rightarrow> resource_state" where
  "check_status meta r maybe_stored spec_checker status_checker =
     (if unwrap_or (om_finalizers (meta r)) [] \<noteq> [] \<and> om_deletion_timestamp (meta r) \<noteq> None then State_Deleted
      else case maybe_stored of
        Some stored \<Rightarrow>
          if om_resource_version (meta stored) = om_resource_version (meta r) then State_VersionNotChanged
          else (let status = spec_checker r stored
                in if status = State_SpecNotChanged then status_checker r stored else status)
      | None \<Rightarrow> State_New)"

text \<open>The checkers of all four controllers compare a field of the two objects.\<close>

definition check_spec_by :: "('r \<Rightarrow> 'a) \<Rightarrow> 'r \<Rightarrow> 'r \<Rightarrow> resource_state" where
  "check_spec_by spec r stored = (if spec r = spec stored then State_SpecNotChanged else State_SpecChanged)"

definition check_status_by :: "('r \<Rightarrow> 'a) \<Rightarrow> 'r \<Rightarrow> 'r \<Rightarrow> resource_state" where
  "check_status_by status r stored = (if status r = status stored then State_StatusNotChanged else State_StatusChanged)"

subsection \<open>Handlers\<close>

record ('r, 's) resource_handler =
  on_version_not_changed :: "resource_key \<Rightarrow> 'r \<Rightarrow> 's \<Rightarrow> outcome \<times> 's"
  on_spec_not_changed :: "resource_key \<Rightarrow> 'r \<Rightarrow> 's \<Rightarrow> outcome \<times> 's"
  on_new :: "resource_key \<Rightarrow> 'r \<Rightarrow> 's \<Rightarrow> outcome \<times> 's"
  on_spec_changed :: "resource_key \<Rightarrow> 'r \<Rightarrow> 's \<Rightarrow> outcome \<times> 's"
  on_status_changed :: "resource_key \<Rightarrow> 'r \<Rightarrow> 's \<Rightarrow> outcome \<times> 's"
  on_status_not_changed :: "resource_key \<Rightarrow> 'r \<Rightarrow> 's \<Rightarrow> outcome \<times> 's"
  on_deleted :: "resource_key \<Rightarrow> 'r \<Rightarrow> 's \<Rightarrow> outcome \<times> 's"

definition already_added :: "resource_key \<Rightarrow> 'r \<Rightarrow> 's \<Rightarrow> outcome \<times> 's" where
  "already_added k r s = (Failed AlreadyAdded, s)"

definition default_handler :: "('r, 's) resource_handler" where
  "default_handler = \<lparr>on_version_not_changed = already_added, on_spec_not_changed = already_added, on_new = already_added,
     on_spec_changed = already_added, on_status_changed = already_added, on_status_not_changed = already_added,
     on_deleted = already_added\<rparr>"

fun dispatch :: "('r, 's) resource_handler \<Rightarrow> resource_state \<Rightarrow> resource_key \<Rightarrow> 'r \<Rightarrow> 's \<Rightarrow> outcome \<times> 's" where
  "dispatch h State_VersionNotChanged = on_version_not_changed h"
| "dispatch h State_SpecNotChanged = on_spec_not_changed h"
| "dispatch h State_New = on_new h"
| "dispatch h State_SpecChanged = on_spec_changed h"
| "dispatch h State_StatusChanged = on_status_changed h"
| "dispatch h State_StatusNotChanged = on_status_not_changed h"
| "dispatch h State_Deleted = on_deleted h"

definition process ::
    "('r, 's) resource_handler \<Rightarrow> ('r \<Rightarrow> object_meta) \<Rightarrow> resource_key \<Rightarrow> 'r \<Rightarrow> 'r option \<Rightarrow>
     ('r \<Rightarrow> 'r \<Rightarrow> resource_state) \<Rightarrow> ('r \<Rightarrow> 'r \<Rightarrow> resource_state) \<Rightarrow> 's \<Rightarrow> outcome \<times> 's" where
  "process h meta k r stored spec_checker status_checker s =
     dispatch h (check_status meta r stored spec_checker status_checker) k r s"

text \<open>The call every controller ends with: the object it has stored, and its two checkers.\<close>

definition process_stored ::
    "('r, 's) resource_handler \<Rightarrow> ('r \<Rightarrow> object_meta) \<Rightarrow> (resource_key \<Rightarrow> 's \<Rightarrow> 'r option) \<Rightarrow> ('r \<Rightarrow> 'a) \<Rightarrow> ('r \<Rightarrow> 'b) \<Rightarrow>
     resource_key \<Rightarrow> 'r \<Rightarrow> 's \<Rightarrow> outcome \<times> 's" where
  "process_stored h meta stored spec status k r s =
     process h meta k r (stored k s) (check_spec_by spec) (check_status_by status) s"

subsection \<open>The system a controller works on\<close>

record system =
  sys_state :: state
  sys_requests :: "reference_validate_request list"
  sys_gateway_ops :: "kube_gateway operation list"
  sys_class_ops :: "gateway_class operation list"
  sys_http_ops :: "http_route operation list"
  sys_grpc_ops :: "grpc_route operation list"
  sys_pool_ops :: "inference_pool operation list"
  sys_events :: "(gateway_implementation_type \<times> backend_gateway_event) list"

definition send_request :: "reference_validate_request \<Rightarrow> system \<Rightarrow> system" where
  "send_request x sys = sys\<lparr>sys_requests := sys_requests sys @ [x]\<rparr>"

definition send_gateway_op :: "kube_gateway operation \<Rightarrow> system \<Rightarrow> system" where
  "send_gateway_op x sys = sys\<lparr>sys_gateway_ops := sys_gateway_ops sys @ [x]\<rparr>"

definition send_class_op :: "gateway_class operation \<Rightarrow> system \<Rightarrow> system" where
  "send_class_op x sys = sys\<lparr>sys_class_ops := sys_class_ops sys @ [x]\<rparr>"

definition send_http_op :: "http_route operation \<Rightarrow> system \<Rightarrow> system" where
  "send_http_op x sys = sys\<lparr>sys_http_ops := sys_http_ops sys @ [x]\<rparr>"

definition send_grpc_op :: "grpc_route operation \<Rightarrow> system \<Rightarrow> system" where
  "send_grpc_op x sys = sys\<lparr>sys_grpc_ops := sys_grpc_ops sys @ [x]\<rparr>"

definition send_pool_op :: "inference_pool operation \<Rightarrow> system \<Rightarrow> system" where
  "send_pool_op x sys = sys\<lparr>sys_pool_ops := sys_pool_ops sys @ [x]\<rparr>"

definition send_event :: "gateway_implementation_type \<Rightarrow> backend_gateway_event \<Rightarrow> system \<Rightarrow> system" where
  "send_event t x sys = sys\<lparr>sys_events := sys_events sys @ [(t, x)]\<rparr>"

definition on_store :: "(state \<Rightarrow> state) \<Rightarrow> system \<Rightarrow> system" where
  "on_store f sys = sys\<lparr>sys_state := f (sys_state sys)\<rparr>"

lemmas send_defs = send_request_def send_gateway_op_def send_class_op_def send_http_op_def send_grpc_op_def
  send_pool_op_def send_event_def

lemma sys_state_send [simp]:
  "sys_state (send_request x s) = sys_state s" "sys_state (send_gateway_op y s) = sys_state s"
  "sys_state (send_class_op z s) = sys_state s" "sys_state (send_http_op u s) = sys_state s"
  "sys_state (send_grpc_op v s) = sys_state s" "sys_state (send_pool_op w s) = sys_state s"
  "sys_state (send_event t e s) = sys_state s" "sys_state (on_store f s) = f (sys_state s)"
  by (simp_all add: send_defs on_store_def)

lemma on_store_frame [simp]:
  "sys_requests (on_store f s) = sys_requests s" "sys_gateway_ops (on_store f s) = sys_gateway_ops s"
  "sys_class_ops (on_store f s) = sys_class_ops s" "sys_http_ops (on_store f s) = sys_http_ops s"
  "sys_grpc_ops (on_store f s) = sys_grpc_ops s" "sys_pool_ops (on_store f s) = sys_pool_ops s"
  "sys_events (on_store f s) = sys_events s"
  by (simp_all add: on_store_def)

lemma sys_requests_send [simp]:
  "sys_requests (send_request x s) = sys_requests s @ [x]" "sys_requests (send_gateway_op y s) = sys_requests s"
  "sys_requests (send_class_op z s) = sys_requests s" "sys_requests (send_http_op u s) = sys_requests s"
  "sys_requests (send_grpc_op v s) = sys_requests s" "sys_requests (send_pool_op w s) = sys_requests s"
  "sys_requests (send_event t e s) = sys_requests s"
  by (simp_all add: send_defs)

subsection \<open>Reconciling the same object again\<close>

text \<open>
  What a controller needs so that an object it has handled is not handled again: an event either
  leaves the system alone or records the object's version under its key.
\<close>

lemma check_status_never_spec_not_changed:
  "check_status meta r stored (check_spec_by spec) (check_status_by status) \<noteq> State_SpecNotChanged"
  by (simp add: check_status_def check_spec_by_def check_status_by_def Let_def split: option.split)

text \<open>The handler of an event may depend on the time \<open>t\<close> of the clock when it runs.\<close>

locale settling_handler =
  fixes h :: "'t \<Rightarrow> ('r, 's) resource_handler"
    and meta :: "'r \<Rightarrow> object_meta"
    and stored :: "resource_key \<Rightarrow> 's \<Rightarrow> 'r option"
    and spec :: "'r \<Rightarrow> 'a"
    and status :: "'r \<Rightarrow> 'b"
  assumes version_not_changed: "snd (on_version_not_changed (h t) k r s) = s"
    and new_settles: "(\<forall>t. snd (on_new (h t) k r s) = s) \<or>
      (\<forall>t. map_option (\<lambda>r'. om_resource_version (meta r')) (stored k (snd (on_new (h t) k r s))) = Some (om_resource_version (meta r)))"
    and spec_changed_settles: "(\<forall>t. snd (on_spec_changed (h t) k r s) = s) \<or>
      (\<forall>t. map_option (\<lambda>r'. om_resource_version (meta r')) (stored k (snd (on_spec_changed (h t) k r s))) =
        Some (om_resource_version (meta r)))"
    and status_changed_ignored: "snd (on_status_changed (h t) k r s) = s"
    and status_not_changed_settles: "stored k s \<noteq> None \<Longrightarrow> (\<forall>t. snd (on_status_not_changed (h t) k r s) = s) \<or>
      (\<forall>t. map_option (\<lambda>r'. om_resource_version (meta r')) (stored k (snd (on_status_not_changed (h t) k r s))) =
        Some (om_resource_version (meta r)))"
begin

lemma run_settles:
  assumes "check_status meta r (stored k s) (check_spec_by spec) (check_status_by status) \<noteq> State_Deleted"
  shows "(\<forall>t. snd (process_stored (h t) meta stored spec status k r s) = s) \<or>
    (\<forall>t. map_option (\<lambda>r'. om_resource_version (meta r')) (stored k (snd (process_stored (h t) meta stored spec status k r s))) =
      Some (om_resource_version (meta r)))"
proof -
  let ?state = "check_status meta r (stored k s) (check_spec_by spec) (check_status_by status)"
  have "?state \<noteq> State_SpecNotChanged" by (rule check_status_never_spec_not_changed)
  moreover have "stored k s \<noteq> None" if "?state = State_StatusNotChanged"
    using that by (cases "stored k s") (auto simp: check_status_def split: if_splits)
  ultimately show ?thesis
    using assms version_not_changed new_settles [of k r s] spec_changed_settles [of k r s] status_changed_ignored
      status_not_changed_settles [of k s r]
    by (cases ?state) (simp_all add: process_stored_def process_def)
qed

text \<open>A second reconciliation of an object that is not being deleted changes nothing.\<close>

lemma run_twice:
  assumes "om_deletion_timestamp (meta r) = None"
  shows "snd (process_stored (h t') meta stored spec status k r (snd (process_stored (h t) meta stored spec status k r s))) =
    snd (process_stored (h t) meta stored spec status k r s)"
proof -
  have nd: "check_status meta r x (check_spec_by spec) (check_status_by status) \<noteq> State_Deleted" for x
    using assms by (auto simp: check_status_def check_spec_by_def check_status_by_def Let_def split: option.split)
  consider "\<forall>t. snd (process_stored (h t) meta stored spec status k r s) = s"
    | "map_option (\<lambda>r'. om_resource_version (meta r')) (stored k (snd (process_stored (h t) meta stored spec status k r s))) =
        Some (om_resource_version (meta r))"
    using run_settles [OF nd] by blast
  then show ?thesis
  proof cases
    case 2
    then have "check_status meta r (stored k (snd (process_stored (h t) meta stored spec status k r s)))
        (check_spec_by spec) (check_status_by status) = State_VersionNotChanged"
      using assms by (auto simp: check_status_def)
    then show ?thesis
      by (simp add: process_stored_def [of "h t'" meta stored spec status k r "snd (process_stored (h t) meta stored spec status k r s)"]
        process_def version_not_changed)
  qed simp
qed

end

end
