(* ===== verification/Listener_Matching.thy ===== *)
theory Listener_Matching
  imports Listener_Model State_Store
begin

section \<open>Matching routes to listeners\<close>

text \<open>
  Which listeners of a gateway a route attaches to:
  \<open>controllers/utils/route_listener_matcher.rs\<close> and \<open>controllers/utils/hostname_match_filter.rs\<close>.
  The pattern matcher of the crate \<open>eater_domainmatcher\<close> is the parameter \<open>dp\<close>: it parses a
  pattern and, when it is valid, yields the predicate on host names. The namespaces of the cluster
  and their labels are the answer of the API server, an argument of the matching functions.
\<close>

subsection \<open>Host names\<close>

fun strip_prefix :: "string \<Rightarrow> string \<Rightarrow> string option" where
  "strip_prefix [] s = Some s"
| "strip_prefix (p # ps) [] = None"
| "strip_prefix (p # ps) (c # cs) = (if p = c then strip_prefix ps cs else None)"

definition starts_with :: "string \<Rightarrow> string \<Rightarrow> bool" where
  "starts_with p s \<longleftrightarrow> strip_prefix p s \<noteq> None"

definition listener_pattern :: "string \<Rightarrow> string" where
  "listener_pattern lhost = (case strip_prefix ''*.'' lhost of
       Some stripped \<Rightarrow> ''**+.'' @ stripped
     | None \<Rightarrow> lhost)"

fun wildcard_matches :: "(string \<Rightarrow> (string \<Rightarrow> bool) option) \<Rightarrow> string \<Rightarrow> string list \<Rightarrow> bool" where
  "wildcard_matches dp lhost [] = False"
| "wildcard_matches dp lhost (w # ws) = (case dp w of
       Some pattern \<Rightarrow> if pattern lhost then True else wildcard_matches dp lhost ws
     | None \<Rightarrow> wildcard_matches dp lhost ws)"

definition hostname_filter :: "(string \<Rightarrow> (string \<Rightarrow> bool) option) \<Rightarrow> string \<Rightarrow> string list \<Rightarrow> bool" where
  "hostname_filter dp lhost rhosts =
     (if rhosts \<noteq> [] \<and> lhost = [] then True
      else case rhosts of
        [] \<Rightarrow> True
      | hostname # _ \<Rightarrow>
          if hostname = DEFAULT_ROUTE_HOSTNAME then True
          else case dp (listener_pattern lhost) of
            None \<Rightarrow> False
          | Some pattern \<Rightarrow>
              if filter pattern rhosts \<noteq> [] then True
              else (let wildcard_route_hostnames = filter (starts_with ''*.'') rhosts
                    in if wildcard_route_hostnames = [] then False
                       else wildcard_matches dp lhost wildcard_route_hostnames))"

subsection \<open>Listeners a route may attach to\<close>

record route_to_listeners =
  rtl_route :: route
  rtl_listeners :: "listener_spec list"

type_synonym namespace_labels = "(string \<times> (string \<times> string) list) list"

definition labels_select :: "(string \<times> string) list \<Rightarrow> (string \<times> string) list \<Rightarrow> bool" where
  "labels_select selector_labels labels =
     fold (\<lambda>(selector_k, selector_v) is_allowed. if map_of labels selector_k = Some selector_v then True else is_allowed)
       selector_labels False"

definition listener_allows ::
    "namespace_labels \<Rightarrow> resource_key \<Rightarrow> resource_key \<Rightarrow> listener_spec \<Rightarrow> bool" where
  "listener_allows resolved_namespaces gateway_key rkey l = (case li_allowed_routes l of
       None \<Rightarrow> True
     | Some allowed_routes \<Rightarrow>
         (let is_allowed = (case ar_kinds allowed_routes of
                Some allowed_kinds \<Rightarrow>
                  if allowed_kinds \<noteq> [] then list_ex (\<lambda>f. f = ''HTTPRoute'') (map ark_kind allowed_kinds) else True
              | None \<Rightarrow> True)
          in case ar_namespaces allowed_routes of
               None \<Rightarrow> is_allowed
             | Some ns \<Rightarrow> (case arn_from ns of
                   None \<Rightarrow> is_allowed
                 | Some All \<Rightarrow> is_allowed
                 | Some Selector \<Rightarrow> (case Option.bind (arn_selector ns) ls_match_labels of
                       None \<Rightarrow> False
                     | Some selector_labels \<Rightarrow> (case map_of resolved_namespaces (rk_namespace rkey) of
                           None \<Rightarrow> False
                         | Some labels \<Rightarrow> labels_select selector_labels labels))
                 | Some Same \<Rightarrow> if rk_namespace rkey \<noteq> rk_namespace gateway_key then False else is_allowed)))"

definition listener_hostname_matches ::
    "(string \<Rightarrow> (string \<Rightarrow> bool) option) \<Rightarrow> route \<Rightarrow> listener_spec \<Rightarrow> bool" where
  "listener_hostname_matches dp r l = (case li_hostname l of
       Some hostname \<Rightarrow> if hostname = [] then True else hostname_filter dp hostname (route_hostnames r)
     | None \<Rightarrow> True)"

definition parent_selects :: "parent_reference \<Rightarrow> listener_spec \<Rightarrow> bool" where
  "parent_selects route_parent gl = (case (pr_port route_parent, pr_section_name route_parent) of
       (Some port, Some section_name) \<Rightarrow> li_port gl = port \<and> li_name gl = section_name
     | (Some port, None) \<Rightarrow> li_port gl = port
     | (None, Some section_name) \<Rightarrow> li_name gl = section_name
     | (None, None) \<Rightarrow> True)"

definition parent_is_gateway :: "kube_gateway \<Rightarrow> resource_key \<Rightarrow> parent_reference \<Rightarrow> bool" where
  "parent_is_gateway kg rkey route_parent \<longleftrightarrow>
     (let parent = rrk_resource_key (route_ref_key_from route_parent (rk_namespace rkey))
      in rk_name parent = rk_name (key_of_gateway kg) \<and> rk_namespace parent = rk_namespace (key_of_gateway kg))"

text \<open>One round of the loop over the parents: the listeners it appends and the status it sets.\<close>

definition match_parent ::
    "(string \<Rightarrow> (string \<Rightarrow> bool) option) \<Rightarrow> namespace_labels \<Rightarrow> kube_gateway \<Rightarrow> route \<Rightarrow> parent_reference \<Rightarrow>
     listener_spec list \<times> resolution_status option \<Rightarrow> listener_spec list \<times> resolution_status option" where
  "match_parent dp resolved_namespaces kg r route_parent = (\<lambda>(found, status).
     if parent_is_gateway kg (route_key r) route_parent then
       (let allowed = filter (listener_allows resolved_namespaces (key_of_gateway kg) (route_key r)) (gs_listeners (kg_spec kg))
        in if allowed = [] then (found, Some (RS_NotResolved NotAllowedByListeners))
           else (let hosts = filter (listener_hostname_matches dp r) allowed
                 in if hosts = [] then (found, Some (RS_NotResolved NoMatchingListenerHostname))
                    else (let matched = filter (parent_selects route_parent) hosts
                          in (found @ matched,
                              if matched = [] \<and> pr_section_name route_parent \<noteq> None
                              then Some (RS_NotResolved NoMatchingParent) else status))))
     else (found, status))"

definition filter_matching_route ::
    "(string \<Rightarrow> (string \<Rightarrow> bool) option) \<Rightarrow> namespace_labels \<Rightarrow> kube_gateway \<Rightarrow> route \<Rightarrow>
     listener_spec list \<times> resolution_status option" where
  "filter_matching_route dp resolved_namespaces kg r = (case route_parents r of
       Some parents \<Rightarrow> fold (match_parent dp resolved_namespaces kg r) parents ([], None)
     | None \<Rightarrow> ([], None))"

definition updated_route :: "resolution_status option \<Rightarrow> route \<Rightarrow> route" where
  "updated_route status r = (case status of Some s \<Rightarrow> r\<lparr>route_resolution_status := s\<rparr> | None \<Rightarrow> r)"

fun filter_matching_routes ::
    "(string \<Rightarrow> (string \<Rightarrow> bool) option) \<Rightarrow> namespace_labels \<Rightarrow> kube_gateway \<Rightarrow> route list \<Rightarrow>
     route_to_listeners list \<times> route list" where
  "filter_matching_routes dp resolved_namespaces kg [] = ([], [])"
| "filter_matching_routes dp resolved_namespaces kg (r # rs) =
     (let (listeners, status) = filter_matching_route dp resolved_namespaces kg r;
          (mapped, no_listeners) = filter_matching_routes dp resolved_namespaces kg rs
      in if listeners = [] then (mapped, updated_route status r # no_listeners)
         else (\<lparr>rtl_route = updated_route status r, rtl_listeners = listeners\<rparr> # mapped, no_listeners))"

definition filter_matching_gateways ::
    "state \<Rightarrow> (parent_reference \<times> kube_gateway option) list \<Rightarrow> kube_gateway list" where
  "filter_matching_gateways s resolved_gateways =
     List.map_filter (\<lambda>(parent_ref, maybe_gateway). case maybe_gateway of
         Some g \<Rightarrow> (let gateway_key = key_of_gateway g;
                        parent_ref_key = route_ref_key_from parent_ref (rk_namespace gateway_key)
                    in if rrk_resource_key parent_ref_key = gateway_key then get_gateway gateway_key s else None)
       | None \<Rightarrow> None) resolved_gateways"

subsection \<open>What the loops compute\<close>

lemma wildcard_matches_iff:
  "wildcard_matches dp h ws \<longleftrightarrow> (\<exists>w\<in>set ws. \<exists>p. dp w = Some p \<and> p h)"
  by (induction ws) (auto split: option.splits)

lemma hostname_filter_iff:
  "hostname_filter dp h rs \<longleftrightarrow> h = [] \<or> rs = [] \<or> hd rs = DEFAULT_ROUTE_HOSTNAME \<or>
     (\<exists>p. dp (listener_pattern h) = Some p \<and>
        ((\<exists>r\<in>set rs. p r) \<or> (\<exists>r\<in>set rs. starts_with ''*.'' r \<and> (\<exists>q. dp r = Some q \<and> q h))))"
  by (cases rs) (auto simp: hostname_filter_def wildcard_matches_iff Let_def filter_empty_conv split: option.splits)

lemma labels_select_iff: "labels_select sel labels \<longleftrightarrow> (\<exists>(k, v)\<in>set sel. map_of labels k = Some v)"
proof -
  have "fold (\<lambda>(k, v) b. if map_of labels k = Some v then True else b) sel b \<longleftrightarrow>
      b \<or> (\<exists>(k, v)\<in>set sel. map_of labels k = Some v)" for b
    by (induction sel arbitrary: b) auto
  then show ?thesis by (simp add: labels_select_def)
qed

definition attaches ::
    "(string \<Rightarrow> (string \<Rightarrow> bool) option) \<Rightarrow> namespace_labels \<Rightarrow> kube_gateway \<Rightarrow> route \<Rightarrow> parent_reference \<Rightarrow>
     listener_spec \<Rightarrow> bool" where
  "attaches dp namespaces kg r p l \<longleftrightarrow>
     parent_is_gateway kg (route_key r) p \<and> listener_allows namespaces (key_of_gateway kg) (route_key r) l \<and>
     listener_hostname_matches dp r l \<and> parent_selects p l"

lemma match_parent_listeners:
  "fst (match_parent dp ns kg r p acc) = fst acc @ filter (attaches dp ns kg r p) (gs_listeners (kg_spec kg))"
  by (cases acc) (auto simp: match_parent_def attaches_def Let_def filter_empty_conv conj_commute intro!: filter_cong)

lemma filter_matching_route_listeners:
  "fst (filter_matching_route dp ns kg r) =
     concat (map (\<lambda>p. filter (attaches dp ns kg r p) (gs_listeners (kg_spec kg))) (unwrap_or (route_parents r) []))"
proof -
  have "fst (fold (match_parent dp ns kg r) ps acc) =
      fst acc @ concat (map (\<lambda>p. filter (attaches dp ns kg r p) (gs_listeners (kg_spec kg))) ps)" for ps acc
    by (induction ps arbitrary: acc) (simp_all add: match_parent_listeners)
  then show ?thesis by (cases "route_parents r") (simp_all add: filter_matching_route_def)
qed

text \<open>The status a parent contributes, if it names the gateway and a filter leaves nothing.\<close>

definition parent_failure ::
    "(string \<Rightarrow> (string \<Rightarrow> bool) option) \<Rightarrow> namespace_labels \<Rightarrow> kube_gateway \<Rightarrow> route \<Rightarrow> parent_reference \<Rightarrow>
     not_resolved_reason option" where
  "parent_failure dp ns kg r p =
     (let ls = gs_listeners (kg_spec kg); ok = listener_allows ns (key_of_gateway kg) (route_key r) in
      if \<not> parent_is_gateway kg (route_key r) p then None
      else if \<not> list_ex ok ls then Some NotAllowedByListeners
      else if \<not> list_ex (\<lambda>l. ok l \<and> listener_hostname_matches dp r l) ls then Some NoMatchingListenerHostname
      else if pr_section_name p \<noteq> None \<and> \<not> list_ex (attaches dp ns kg r p) ls then Some NoMatchingParent
      else None)"

lemma match_parent_status:
  "snd (match_parent dp ns kg r p acc) =
     (case parent_failure dp ns kg r p of Some e \<Rightarrow> Some (RS_NotResolved e) | None \<Rightarrow> snd acc)"
  by (cases acc) (auto simp: match_parent_def parent_failure_def attaches_def Let_def filter_empty_conv list_ex_iff)

lemma filter_matching_route_status:
  "snd (filter_matching_route dp ns kg r) =
     (case List.map_filter (parent_failure dp ns kg r) (rev (unwrap_or (route_parents r) [])) of
        [] \<Rightarrow> None | e # _ \<Rightarrow> Some (RS_NotResolved e))"
proof -
  have mf: "List.map_filter f (xs @ ys) = List.map_filter f xs @ List.map_filter f ys" for f and xs ys :: "parent_reference list"
    by (simp add: List.map_filter_def)
  have "snd (fold (match_parent dp ns kg r) ps acc) =
      (case List.map_filter (parent_failure dp ns kg r) (rev ps) of [] \<Rightarrow> snd acc | e # _ \<Rightarrow> Some (RS_NotResolved e))" for ps acc
    by (induction ps arbitrary: acc)
      (auto simp: mf match_parent_status List.map_filter_simps split: option.splits list.splits)
  then show ?thesis by (cases "route_parents r") (simp_all add: filter_matching_route_def List.map_filter_simps split: list.split)
qed

lemma filter_matching_routes_split:
  "filter_matching_routes dp ns kg rs =
     (map (\<lambda>r. \<lparr>rtl_route = updated_route (snd (filter_matching_route dp ns kg r)) r,
               rtl_listeners = fst (filter_matching_route dp ns kg r)\<rparr>)
        (filter (\<lambda>r. fst (filter_matching_route dp ns kg r) \<noteq> []) rs),
      map (\<lambda>r. updated_route (snd (filter_matching_route dp ns kg r)) r)
        (filter (\<lambda>r. fst (filter_matching_route dp ns kg r) = []) rs))"
  by (induction rs) (auto split: prod.splits)

lemma updated_route_key [simp]: "route_key (updated_route st r) = route_key r"
  by (cases st) (simp_all add: updated_route_def)

subsection \<open>Properties\<close>

text \<open>
  C10: a route attaches, for each of its parents that is the gateway by name and namespace, to
  exactly the listeners that admit its kind and namespace, share a host name with it and fit the
  parent's section name and port; the routes are split, in order, into those with and those without
  a listener; and a route's status is overridden by the reason of the last parent whose filters
  left no listener (nothing allowed, no host name in common, no such section).
\<close>

theorem route_attachment:
  "filter_matching_routes dp ns kg rs =
     (map (\<lambda>r. \<lparr>rtl_route = updated_route (snd (filter_matching_route dp ns kg r)) r,
               rtl_listeners = fst (filter_matching_route dp ns kg r)\<rparr>)
        (filter (\<lambda>r. fst (filter_matching_route dp ns kg r) \<noteq> []) rs),
      map (\<lambda>r. updated_route (snd (filter_matching_route dp ns kg r)) r)
        (filter (\<lambda>r. fst (filter_matching_route dp ns kg r) = []) rs)) \<and>
   fst (filter_matching_route dp ns kg r) =
     concat (map (\<lambda>p. filter (attaches dp ns kg r p) (gs_listeners (kg_spec kg))) (unwrap_or (route_parents r) [])) \<and>
   snd (filter_matching_route dp ns kg r) =
     (case List.map_filter (parent_failure dp ns kg r) (rev (unwrap_or (route_parents r) [])) of
        [] \<Rightarrow> None | e # _ \<Rightarrow> Some (RS_NotResolved e))"
  by (intro conjI filter_matching_routes_split filter_matching_route_listeners filter_matching_route_status)

definition namespaces_from_of :: "listener_spec \<Rightarrow> namespaces_from option" where
  "namespaces_from_of l = Option.bind (li_allowed_routes l) (\<lambda>ar. Option.bind (ar_namespaces ar) arn_from)"

lemma listener_allows_same:
  "listener_allows ns gk rk l \<Longrightarrow> namespaces_from_of l = Some Same \<Longrightarrow> rk_namespace rk = rk_namespace gk"
  by (auto simp: listener_allows_def namespaces_from_of_def Let_def split: option.splits if_splits)

lemma listener_allows_selector:
  "listener_allows ns gk rk l \<Longrightarrow> namespaces_from_of l = Some Selector \<Longrightarrow> map_of ns (rk_namespace rk) \<noteq> None"
  by (auto simp: listener_allows_def namespaces_from_of_def Let_def split: option.splits if_splits)


lemma listener_allows_namespace:
  "rk_namespace a = rk_namespace b \<Longrightarrow> listener_allows ns gk a l = listener_allows ns gk b l"
  by (simp only: listener_allows_def)

text \<open>
  The kinds a listener allows are compared with HTTPRoute whatever the route is: the decision
  does not depend on the kind of the route, and a listener that allows GRPC routes only refuses
  every route, GRPC routes included.
\<close>

lemma kinds_ignore_route_kind:
  "listener_allows ns gk (rk\<lparr>rk_kind := kind\<rparr>) l = listener_allows ns gk rk l \<and>
   listener_allows ns gk (rk\<lparr>rk_kind := ''GRPCRoute''\<rparr>) (l\<lparr>li_allowed_routes := Some
     \<lparr>ar_kinds = Some [\<lparr>ark_group = None, ark_kind = ''GRPCRoute''\<rparr>], ar_namespaces = None\<rparr>\<rparr>) = False"
proof
  show "listener_allows ns gk (rk\<lparr>rk_kind := kind\<rparr>) l = listener_allows ns gk rk l"
    by (rule listener_allows_namespace) simp
qed (simp add: listener_allows_def)

text \<open>
  With a namespace selector one matching label is enough, where the selector of the API asks
  for all of them, and a match readmits a route that the listener's kinds had excluded.
\<close>

lemma selector_needs_one_label:
  "listener_allows ns gk rk (l\<lparr>li_allowed_routes := Some \<lparr>ar_kinds = kinds, ar_namespaces = Some
       \<lparr>arn_from = Some Selector, arn_selector = Some \<lparr>ls_match_labels = Some selector\<rparr>\<rparr>\<rparr>\<rparr>) \<longleftrightarrow>
     (\<exists>labels k v. map_of ns (rk_namespace rk) = Some labels \<and> (k, v) \<in> set selector \<and> map_of labels k = Some v)"
  by (auto simp: listener_allows_def labels_select_iff split: option.splits)

text \<open>
  The host name test. A listener and a route with host names share one exactly when the
  listener has none, the route has none or starts with the catch-all, or the listener's host name
  is a valid pattern that matches one of the route's, or that one of the route's wildcards matches.
\<close>

lemma hostname_filter_spec:
  "hostname_filter dp h rs \<longleftrightarrow> h = [] \<or> rs = [] \<or> hd rs = DEFAULT_ROUTE_HOSTNAME \<or>
     (\<exists>p. dp (listener_pattern h) = Some p \<and>
        ((\<exists>r\<in>set rs. p r) \<or> (\<exists>r\<in>set rs. starts_with ''*.'' r \<and> (\<exists>q. dp r = Some q \<and> q h))))"
  by (rule hostname_filter_iff)

end
