(* ===== verification/Route_Controllers.thy ===== *)
theory Route_Controllers
  imports Resource_Handling Listener_Matching
begin

section \<open>The controllers of routes\<close>

text \<open>
  \<open>controllers/route/routes_common.rs\<close>, \<open>http_route.rs\<close> and \<open>grpc_route.rs\<close>. A reconciliation of a
  route stores it, attaches it and its inference pools to the gateways it names, and announces its
  references and those gateways to the reference validator; a deletion undoes that. The common
  handler is generic in the kind of the route: \<open>route_env\<close> holds what the builder and the type
  parameter of \<open>CommonRouteHandler\<close> give it. The UUID parser (crate \<open>uuid\<close>) and the clock are parameters.
\<close>

subsection \<open>The common handler\<close>

record 'r route_env =
  ce_controller_name :: string
  ce_now :: string
  ce_parse_uuid :: "string \<Rightarrow> string option"
  ce_has_pool_patcher :: bool
  ce_to_route :: "'r \<Rightarrow> route"
  ce_meta :: "'r \<Rightarrow> object_meta"
  ce_send_route :: "'r operation \<Rightarrow> system \<Rightarrow> system"

definition ROUTE_CONDITION_MESSAGE :: string where
  "ROUTE_CONDITION_MESSAGE = ''Route updated by controller''"

definition generate_status_for_unknown_gateways ::
    "string \<Rightarrow> string \<Rightarrow> (parent_reference \<times> kube_gateway option) list \<Rightarrow> int option \<Rightarrow> parent_route_status list" where
  "generate_status_for_unknown_gateways now controller gateways generation = map (\<lambda>(g, _).
     \<lparr>prs_conditions = [\<lparr>cond_type = ''ResolvedRefs'', cond_status = ''False'', cond_reason = ''BackendNotFound'',
        cond_message = ROUTE_CONDITION_MESSAGE, cond_observed_generation = generation, cond_last_transition_time = now\<rparr>],
      prs_controller_name = controller,
      prs_parent_ref = \<lparr>pr_group = pr_group g, pr_kind = pr_kind g, pr_name = pr_name g, pr_namespace = pr_namespace g,
        pr_port = pr_port g, pr_section_name = pr_section_name g\<rparr>\<rparr>) gateways"

definition extract_references :: "route \<Rightarrow> resource_key list" where
  "extract_references r = fold (\<lambda>b ks. case b of
       B_Maybe t \<Rightarrow> bset_insert (\<lambda>k. k) (backend_type_key t) ks | _ \<Rightarrow> ks) (route_backends r) []"

definition pool_keys_of :: "route \<Rightarrow> resource_key list" where
  "pool_keys_of r = List.map_filter (\<lambda>b. case backend_type_of b of
       BT_InferencePool config \<Rightarrow> Some (iptc_resource_key config) | _ \<Rightarrow> None) (route_backends r)"

definition parent_keys :: "resource_key \<Rightarrow> parent_reference list \<Rightarrow> (parent_reference \<times> resource_key) list" where
  "parent_keys route_rk parent_refs =
     map (\<lambda>p. (p, rrk_resource_key (route_ref_key_from p (rk_namespace route_rk)))) parent_refs"

definition lookup_parents ::
    "state \<Rightarrow> (parent_reference \<times> resource_key) list \<Rightarrow>
     (parent_reference \<times> kube_gateway option) list \<times> (parent_reference \<times> kube_gateway option) list" where
  "lookup_parents s parents = verify_items
     (map (\<lambda>(p, k). case get_gateway k s of Some g \<Rightarrow> Inr (p, Some g) | None \<Rightarrow> Inl (p, None)) parents)"

definition attach_to_parents ::
    "resource_key \<Rightarrow> resource_key list \<Rightarrow> (parent_reference \<times> resource_key) list \<Rightarrow> state \<Rightarrow> state" where
  "attach_to_parents route_rk pools parents = fold (\<lambda>(p, k) s.
     attach_inference_pool_to_gateway k route_rk pools (attach_http_route_to_gateway k route_rk s)) parents"

definition add_route_finalizer :: "'r route_env \<Rightarrow> resource_key \<Rightarrow> 'r \<Rightarrow> system \<Rightarrow> system" where
  "add_route_finalizer env route_rk r sys = (case needs_finalizer route_rk (ce_controller_name env) (ce_meta env r) of
       Some finalizer \<Rightarrow> ce_send_route env finalizer sys | None \<Rightarrow> sys)"

text \<open>The loop over the known parents; a stored gateway that does not convert fails the \<open>expect\<close>.\<close>

fun announce_gateways :: "(string \<Rightarrow> string option) \<Rightarrow> kube_gateway list \<Rightarrow> system \<Rightarrow> outcome \<times> system" where
  "announce_gateways parse_uuid [] sys = (Acted Await_Change, sys)"
| "announce_gateways parse_uuid (kg # kgs) sys =
     (let class_name = gs_gateway_class_name (kg_spec kg)
      in if \<not> list_ex (\<lambda>gc. om_name (gc_metadata gc) = Some class_name) (get_gateway_classes (sys_state sys))
         then (Failed (UnknownGatewayClass class_name), sys)
         else case gateway_from_default parse_uuid kg of
           Inl _ \<Rightarrow> (Panicked, sys)
         | Inr g \<Rightarrow> (case get_gateway_type (gw_resource_key g) (sys_state sys) of
               None \<Rightarrow> (Failed UnknownGatewayType, sys)
             | Some t \<Rightarrow> announce_gateways parse_uuid kgs (send_request (AddGateway
                 \<lparr>rc_gateway = g\<lparr>gw_backend_type := t\<rparr>, rc_kube_gateway = kg, rc_gateway_class_name = class_name\<rparr>) sys)))"

definition route_new_or_changed ::
    "'r route_env \<Rightarrow> resource_key \<Rightarrow> 'r \<Rightarrow> parent_reference list \<Rightarrow> int option \<Rightarrow>
     (parent_route_status list option \<Rightarrow> state \<Rightarrow> state) \<Rightarrow> system \<Rightarrow> outcome \<times> system" where
  "route_new_or_changed env route_rk r parent_refs generation save_route sys =
     (let rt = ce_to_route env r;
          parents = parent_keys route_rk parent_refs;
          (resolved_gateways, unknown_gateways) = lookup_parents (sys_state sys) parents;
          inference_pools = pool_keys_of rt;
          sys1 = on_store (attach_to_parents route_rk inference_pools parents) sys;
          matching_gateways = filter_matching_gateways (sys_state sys1) resolved_gateways;
          unknown_status = generate_status_for_unknown_gateways (ce_now env) (ce_controller_name env) unknown_gateways generation;
          sys2 = on_store (save_route (Some unknown_status)) sys1;
          sys3 = add_route_finalizer env route_rk r sys2;
          sys4 = send_request (AddRoute route_rk (extract_references rt)) sys3
      in announce_gateways (ce_parse_uuid env) matching_gateways sys4)"

fun update_pools_of_route ::
    "'r route_env \<Rightarrow> resource_key list \<Rightarrow> resource_key list \<Rightarrow> system \<Rightarrow> system" where
  "update_pools_of_route env gateway_ids [] sys = sys"
| "update_pools_of_route env gateway_ids (pool_rk # pool_rks) sys =
     (case get_inference_pool pool_rk (sys_state sys) of
        None \<Rightarrow> update_pools_of_route env gateway_ids pool_rks sys
      | Some pool \<Rightarrow>
          (let pool' = clear_managed_fields
                 (update_inference_pool_parents (ce_now env) (ce_controller_name env) gateway_ids pool True);
               k = key_of_inference_pool pool'
           in update_pools_of_route env gateway_ids pool_rks
                (send_pool_op (PatchStatus k pool' (ce_controller_name env)) (on_store (maybe_save_inference_pool k pool') sys))))"

definition detach_from_parents :: "resource_key \<Rightarrow> resource_key list \<Rightarrow> state \<Rightarrow> state" where
  "detach_from_parents route_rk gateway_ids = fold (\<lambda>g s.
     snd (detach_inference_pool_from_gateway g route_rk (detach_http_route_from_gateway g route_rk s))) gateway_ids"

definition route_deleted ::
    "'r route_env \<Rightarrow> resource_key \<Rightarrow> 'r \<Rightarrow> parent_reference list \<Rightarrow> system \<Rightarrow> outcome \<times> system" where
  "route_deleted env route_rk r parent_refs sys =
     (let gateway_ids = bset_from (\<lambda>k. k) (map snd (parent_keys route_rk parent_refs));
          sys1 = on_store (detach_from_parents route_rk gateway_ids) sys;
          gateways_with_pools = find_gateways_by_route_and_inference_pool route_rk (sys_state sys1);
          (removed, s2) = delete_http_route route_rk (sys_state sys1);
          sys2 = on_store (\<lambda>_. s2) sys1
      in case removed of
           None \<Rightarrow> (Failed (InvalidPayload ''Route doesn't exist''), sys2)
         | Some stored \<Rightarrow>
             (let rt = route_from_http stored;
                  sys3 = (if ce_has_pool_patcher env
                          then update_pools_of_route env gateways_with_pools (pool_keys_of rt) sys2 else sys2);
                  sys4 = ce_send_route env (Delete_Resource route_rk r (ce_controller_name env)) sys3
              in (Acted Await_Change, send_request (DeleteRoute route_rk (extract_references rt)) sys4)))"

subsection \<open>HTTP routes\<close>

definition http_env :: "string \<Rightarrow> string \<Rightarrow> (string \<Rightarrow> string option) \<Rightarrow> http_route route_env" where
  "http_env now controller parse_uuid = \<lparr>ce_controller_name = controller, ce_now = now, ce_parse_uuid = parse_uuid,
     ce_has_pool_patcher = True, ce_to_route = route_from_http, ce_meta = hr_metadata, ce_send_route = send_http_op\<rparr>"

definition http_new_or_changed :: "http_route route_env \<Rightarrow> resource_key \<Rightarrow> http_route \<Rightarrow> system \<Rightarrow> outcome \<times> system" where
  "http_new_or_changed env route_rk r sys = (case hrs_parent_refs (hr_spec r) of
       None \<Rightarrow> (Failed (InvalidPayload ''Route with no parents''), sys)
     | Some parent_refs \<Rightarrow> route_new_or_changed env route_rk r parent_refs (om_generation (hr_metadata r))
         (\<lambda>status. save_http_route route_rk (r\<lparr>hr_status := status\<rparr>)) sys)"

definition http_deleted :: "http_route route_env \<Rightarrow> resource_key \<Rightarrow> http_route \<Rightarrow> system \<Rightarrow> outcome \<times> system" where
  "http_deleted env route_rk r sys = (case hrs_parent_refs (hr_spec r) of
       None \<Rightarrow> (Failed (InvalidPayload ''Route with no parents''),
                send_http_op (Delete_Resource route_rk r (ce_controller_name env)) sys)
     | Some parent_refs \<Rightarrow> route_deleted env route_rk r parent_refs sys)"

definition http_route_handler :: "http_route route_env \<Rightarrow> (http_route, system) resource_handler" where
  "http_route_handler env = default_handler
     \<lparr>on_spec_not_changed := (\<lambda>k r sys. (Failed AlreadyAdded, on_store (save_http_route k r) sys)),
      on_status_not_changed := (\<lambda>k r sys. (Failed AlreadyAdded, on_store (maybe_save_http_route k r) sys)),
      on_new := http_new_or_changed env,
      on_status_changed := (\<lambda>k r sys. (Acted Await_Change, sys)),
      on_spec_changed := http_new_or_changed env,
      on_deleted := http_deleted env\<rparr>"

text \<open>The check of the uid all controllers begin with.\<close>

definition check_uid :: "(string \<Rightarrow> string option) \<Rightarrow> object_meta \<Rightarrow> controller_error option" where
  "check_uid parse_uuid meta = (case om_uid meta of
       None \<Rightarrow> Some (InvalidPayload ''Uid must be present'')
     | Some maybe_id \<Rightarrow> (case parse_uuid maybe_id of
           None \<Rightarrow> Some (InvalidPayload ''Uid in wrong format'') | Some _ \<Rightarrow> None))"

definition reconcile_http_route :: "http_route route_env \<Rightarrow> http_route \<Rightarrow> system \<Rightarrow> outcome \<times> system" where
  "reconcile_http_route env r sys = (case check_uid (ce_parse_uuid env) (hr_metadata r) of
       Some e \<Rightarrow> (Failed e, sys)
     | None \<Rightarrow> process_stored (http_route_handler env) hr_metadata (\<lambda>k sys. get_http_route_by_id k (sys_state sys))
         hr_spec hr_status (key_of_http_route r) r sys)"

subsection \<open>GRPC routes\<close>

definition grpc_env :: "string \<Rightarrow> string \<Rightarrow> (string \<Rightarrow> string option) \<Rightarrow> grpc_route route_env" where
  "grpc_env now controller parse_uuid = \<lparr>ce_controller_name = controller, ce_now = now, ce_parse_uuid = parse_uuid,
     ce_has_pool_patcher = False, ce_to_route = route_from_grpc, ce_meta = gr_metadata, ce_send_route = send_grpc_op\<rparr>"

definition grpc_new_or_changed :: "grpc_route route_env \<Rightarrow> resource_key \<Rightarrow> grpc_route \<Rightarrow> system \<Rightarrow> outcome \<times> system" where
  "grpc_new_or_changed env route_rk r sys = (case grs_parent_refs (gr_spec r) of
       None \<Rightarrow> (Failed (InvalidPayload ''Route with no parents''), sys)
     | Some parent_refs \<Rightarrow> route_new_or_changed env route_rk r parent_refs (om_generation (gr_metadata r))
         (\<lambda>status. save_grpc_route route_rk (r\<lparr>gr_status := status\<rparr>)) sys)"

definition grpc_deleted :: "grpc_route route_env \<Rightarrow> resource_key \<Rightarrow> grpc_route \<Rightarrow> system \<Rightarrow> outcome \<times> system" where
  "grpc_deleted env route_rk r sys = (case grs_parent_refs (gr_spec r) of
       None \<Rightarrow> (Failed (InvalidPayload ''Route with no parents''),
                send_grpc_op (Delete_Resource route_rk r (ce_controller_name env)) sys)
     | Some parent_refs \<Rightarrow> route_deleted env route_rk r parent_refs sys)"

definition grpc_route_handler :: "grpc_route route_env \<Rightarrow> (grpc_route, system) resource_handler" where
  "grpc_route_handler env = default_handler
     \<lparr>on_spec_not_changed := (\<lambda>k r sys. (Failed AlreadyAdded, on_store (save_grpc_route k r) sys)),
      on_status_not_changed := (\<lambda>k r sys. (Failed AlreadyAdded, on_store (maybe_save_grpc_route k r) sys)),
      on_new := grpc_new_or_changed env,
      on_status_changed := (\<lambda>k r sys. (Acted Await_Change, sys)),
      on_spec_changed := grpc_new_or_changed env,
      on_deleted := grpc_deleted env\<rparr>"

definition reconcile_grpc_route :: "grpc_route route_env \<Rightarrow> grpc_route \<Rightarrow> system \<Rightarrow> outcome \<times> system" where
  "reconcile_grpc_route env r sys = (case check_uid (ce_parse_uuid env) (gr_metadata r) of
       Some e \<Rightarrow> (Failed e, sys)
     | None \<Rightarrow> process_stored (grpc_route_handler env) gr_metadata (\<lambda>k sys. get_grpc_route_by_id k (sys_state sys))
         gr_spec gr_status (key_of_grpc_route r) r sys)"

subsection \<open>What the common handler does\<close>

lemma announce_state [simp]: "sys_state (snd (announce_gateways p gs sys)) = sys_state sys"
  by (induction gs arbitrary: sys) (auto simp: Let_def split: option.split sum.split)

lemma announce_frame [simp]:
  "sys_http_ops (snd (announce_gateways p gs sys)) = sys_http_ops sys"
  "sys_grpc_ops (snd (announce_gateways p gs sys)) = sys_grpc_ops sys"
  "sys_pool_ops (snd (announce_gateways p gs sys)) = sys_pool_ops sys"
  by (induction gs arbitrary: sys) (auto simp: Let_def send_request_def split: option.split sum.split)

text \<open>The request a stored gateway is announced with, or why it is not.\<close>

definition announcement :: "(string \<Rightarrow> string option) \<Rightarrow> state \<Rightarrow> kube_gateway \<Rightarrow> outcome + request_context" where
  "announcement p s kg =
     (if \<not> list_ex (\<lambda>gc. om_name (gc_metadata gc) = Some (gs_gateway_class_name (kg_spec kg))) (get_gateway_classes s)
      then Inl (Failed (UnknownGatewayClass (gs_gateway_class_name (kg_spec kg))))
      else case gateway_from_default p kg of
        Inl _ \<Rightarrow> Inl Panicked
      | Inr g \<Rightarrow> (case get_gateway_type (key_of_gateway kg) s of
            None \<Rightarrow> Inl (Failed UnknownGatewayType)
          | Some t \<Rightarrow> Inr \<lparr>rc_gateway = g\<lparr>gw_backend_type := t\<rparr>, rc_kube_gateway = kg,
              rc_gateway_class_name = gs_gateway_class_name (kg_spec kg)\<rparr>))"

lemma gateway_from_default_key: "gateway_from_default p kg = Inr g \<Longrightarrow> gw_resource_key g = key_of_gateway kg"
  by (auto simp: gateway_from_default_def gateway_from_def Let_def split: option.splits prod.splits if_splits)

fun announced :: "(outcome + request_context) list \<Rightarrow> request_context list" where
  "announced (Inr c # as) = c # announced as"
| "announced _ = []"

fun first_failure :: "(outcome + request_context) list \<Rightarrow> outcome" where
  "first_failure (Inr c # as) = first_failure as"
| "first_failure (Inl e # as) = e"
| "first_failure [] = Acted Await_Change"

lemma announce_gateways_Cons:
  "announce_gateways p (kg # kgs) sys = (case announcement p (sys_state sys) kg of
     Inl e \<Rightarrow> (e, sys) | Inr c \<Rightarrow> announce_gateways p kgs (send_request (AddGateway c) sys))"
  by (auto simp: announcement_def Let_def gateway_from_default_key split: sum.split option.split)

lemma announce_gateways_eq:
  "fst (announce_gateways p gs sys) = first_failure (map (announcement p (sys_state sys)) gs)"
  "sys_requests (snd (announce_gateways p gs sys)) =
     sys_requests sys @ map AddGateway (announced (map (announcement p (sys_state sys)) gs))"
proof (induction gs arbitrary: sys)
  case (Cons kg kgs)
  {
    case 1
    show ?case using Cons.IH(1) by (cases "announcement p (sys_state sys) kg") (simp_all add: announce_gateways_Cons del: announce_gateways.simps)
  next
    case 2
    show ?case using Cons.IH(2) by (cases "announcement p (sys_state sys) kg") (simp_all add: announce_gateways_Cons del: announce_gateways.simps)
  }
qed simp_all

lemma lookup_parents_eq:
  "lookup_parents s ps =
     (List.map_filter (\<lambda>(p, k). map_option (\<lambda>g. (p, Some g)) (get_gateway k s)) ps,
      map (\<lambda>(p, k). (p, None)) (filter (\<lambda>(p, k). get_gateway k s = None) ps))"
proof (induction ps)
  case Nil
  show ?case by (simp add: lookup_parents_def List.map_filter_simps)
next
  case (Cons pk ps)
  obtain p k where pk: "pk = (p, k)" by (cases pk)
  show ?case using Cons
    by (cases "get_gateway k s")
      (simp_all add: pk lookup_parents_def verify_items_Inl verify_items_Inr List.map_filter_simps prod_eq_iff)
qed

lemma attach_to_parents_attached:
  "attached (attach_to_parents rk pools ps s) g k \<longleftrightarrow> (k = rk \<and> g \<in> snd ` set ps) \<or> attached s g k"
proof (induction ps arbitrary: s)
  case (Cons x ps)
  then show ?case
    by (cases x) (auto simp: attach_to_parents_def attach_inference_pool_to_gateway_def http_attachment.related_attach)
qed (simp add: attach_to_parents_def)

lemma attach_to_parents_pools:
  "pools_of (attach_to_parents rk pools ps s) g k =
     (if k = rk \<and> g \<in> snd ` set ps \<and> pools_of s g k = None then Some pools else pools_of s g k)"
proof (induction ps arbitrary: s)
  case (Cons x ps)
  have "pools_of (attach_http_route_to_gateway a rk s) = pools_of s" for a s
    by (simp add: attach_http_route_to_gateway_def)
  with Cons show ?case by (cases x) (auto simp: attach_to_parents_def pools_of_attach)
qed (simp add: attach_to_parents_def)

text \<open>Attachments touch none of the other collections.\<close>

definition same_objects :: "state \<Rightarrow> state \<Rightarrow> bool" where
  "same_objects s s' \<longleftrightarrow> st_gateways s' = st_gateways s \<and> st_gateway_classes s' = st_gateway_classes s \<and>
     st_gateway_implementation_types s' = st_gateway_implementation_types s \<and> st_http_routes s' = st_http_routes s \<and>
     st_grpc_routes s' = st_grpc_routes s \<and> st_inference_pools s' = st_inference_pools s"

lemma same_objects_refl [simp]: "same_objects s s"
  by (simp add: same_objects_def)

lemma attach_to_parents_objects: "same_objects s (attach_to_parents rk pools ps s)"
proof (induction ps arbitrary: s)
  case (Cons x ps)
  then show ?case
    by (cases x) (auto simp: attach_to_parents_def same_objects_def attach_inference_pool_to_gateway_def
        attach_http_route_to_gateway_def Let_def)
qed (simp add: attach_to_parents_def)

lemma attach_to_parents_wf: "state_wf s \<Longrightarrow> state_wf (attach_to_parents rk pools ps s)"
proof (induction ps arbitrary: s)
  case (Cons x ps)
  then show ?case by (cases x) (simp add: attach_to_parents_def state_wf_attach_pools state_wf_attach_routes)
qed (simp add: attach_to_parents_def)

lemma detach_from_parents_attached:
  "attached (detach_from_parents rk gs s) g k \<longleftrightarrow> \<not> (k = rk \<and> g \<in> set gs) \<and> attached s g k"
proof (induction gs arbitrary: s)
  case (Cons x gs)
  have "attached (snd (detach_inference_pool_from_gateway x rk s)) = attached s" for s
    by (auto simp: detach_inference_pool_from_gateway_def Let_def split: option.split)
  with Cons show ?case by (auto simp: detach_from_parents_def http_attachment.related_detach)
qed (simp add: detach_from_parents_def)

lemma detach_from_parents_pools:
  "pools_of (detach_from_parents rk gs s) g k = (if k = rk \<and> g \<in> set gs then None else pools_of s g k)"
proof (induction gs arbitrary: s)
  case (Cons x gs)
  have "pools_of (detach_http_route_from_gateway x rk s) = pools_of s" for s
    by (auto simp: detach_http_route_from_gateway_def split: option.split)
  with Cons show ?case by (auto simp: detach_from_parents_def pools_of_detach)
qed (simp add: detach_from_parents_def)

lemma detach_from_parents_objects: "same_objects s (detach_from_parents rk gs s)"
proof (induction gs arbitrary: s)
  case (Cons x gs)
  have "same_objects s (snd (detach_inference_pool_from_gateway x rk (detach_http_route_from_gateway x rk s)))"
    by (auto simp: same_objects_def detach_inference_pool_from_gateway_def detach_http_route_from_gateway_def
        Let_def split: option.split)
  with Cons show ?case by (auto simp: detach_from_parents_def same_objects_def)
qed (simp add: detach_from_parents_def)

lemma detach_from_parents_wf: "state_wf s \<Longrightarrow> state_wf (detach_from_parents rk gs s)"
  by (induction gs arbitrary: s) (simp_all add: detach_from_parents_def state_wf_detach_pools state_wf_detach_routes)

text \<open>An operation that sets the parents in the status of a pool to the gateways \<open>gs\<close>.\<close>

definition patches_parents :: "resource_key list \<Rightarrow> inference_pool operation \<Rightarrow> bool" where
  "patches_parents gs x = (case x of
     PatchStatus _ pool _ \<Rightarrow>
       map_option (map_option (map (\<lambda>p. (ir_namespace (ipp_parent_ref p), ir_name (ipp_parent_ref p))))) (ip_status pool) =
         Some (Some (map (\<lambda>g. (Some (rk_namespace g), rk_name g)) gs))
   | _ \<Rightarrow> False)"

lemma patches_no_parents: "patches_parents [] (PatchStatus k pool c) \<longleftrightarrow> ip_status pool = Some (Some [])"
  by (auto simp: patches_parents_def)

subsection \<open>The contract of the common handler\<close>

text \<open>
  A kind of route gives the common handler a channel for the operations of its patcher; all the
  common handler relies on is that sending on it touches neither the store nor the other channels.
\<close>

locale common_route_handler =
  fixes env :: "'r route_env"
  assumes send_state: "sys_state (ce_send_route env x sys) = sys_state sys"
    and send_requests: "sys_requests (ce_send_route env x sys) = sys_requests sys"
    and send_pools: "sys_pool_ops (ce_send_route env x sys) = sys_pool_ops sys"
begin

lemma finalizer_state [simp]: "sys_state (add_route_finalizer env rk r sys) = sys_state sys"
  by (simp add: add_route_finalizer_def send_state split: option.split)

lemma finalizer_requests [simp]: "sys_requests (add_route_finalizer env rk r sys) = sys_requests sys"
  by (simp add: add_route_finalizer_def send_requests split: option.split)

lemma on_store_const: "on_store (\<lambda>_. s) (on_store f sys) = on_store (\<lambda>_. s) sys"
  by (simp add: on_store_def)

lemma change_state:
  "sys_state (snd (route_new_or_changed env rk r ps gen save_route sys)) =
     save_route (Some (generate_status_for_unknown_gateways (ce_now env) (ce_controller_name env)
         (snd (lookup_parents (sys_state sys) (parent_keys rk ps))) gen))
       (attach_to_parents rk (pool_keys_of (ce_to_route env r)) (parent_keys rk ps) (sys_state sys))"
  by (simp add: route_new_or_changed_def Let_def case_prod_beta)

lemma change_announces:
  assumes "\<And>st s. get_gateway_classes (save_route st s) = get_gateway_classes s"
    "\<And>st s k. get_gateway_type k (save_route st s) = get_gateway_type k s"
  shows "let gs = map (announcement (ce_parse_uuid env) (sys_state sys))
        (filter_matching_gateways (sys_state sys) (fst (lookup_parents (sys_state sys) (parent_keys rk ps))))
     in fst (route_new_or_changed env rk r ps gen save_route sys) = first_failure gs \<and>
        sys_requests (snd (route_new_or_changed env rk r ps gen save_route sys)) =
          sys_requests sys @ [AddRoute rk (extract_references (ce_to_route env r))] @ map AddGateway (announced gs)"
proof -
  let ?s = "attach_to_parents rk (pool_keys_of (ce_to_route env r)) (parent_keys rk ps) (sys_state sys)"
  have o: "same_objects (sys_state sys) ?s" by (rule attach_to_parents_objects)
  have g: "get_gateway k ?s = get_gateway k (sys_state sys)" for k
    using o by (simp add: get_gateway_def same_objects_def)
  have m: "filter_matching_gateways ?s = filter_matching_gateways (sys_state sys)"
    by (intro ext, unfold filter_matching_gateways_def g) (rule refl)
  have c: "get_gateway_classes (save_route st ?s) = get_gateway_classes (sys_state sys)" for st
    using o assms by (simp add: get_gateway_classes_def same_objects_def)
  have t: "get_gateway_type k (save_route st ?s) = get_gateway_type k (sys_state sys)" for k st
    using o assms by (simp add: get_gateway_type_def same_objects_def)
  have a: "announcement p (save_route st ?s) = announcement p (sys_state sys)" for p st
    by (intro ext, unfold announcement_def c t) (rule refl)
  show ?thesis
    by (simp add: route_new_or_changed_def Let_def case_prod_beta m announce_gateways_eq a)
qed

lemma pools_update_state:
  "get_http_route_by_id k (sys_state (update_pools_of_route env gs ks sys)) = get_http_route_by_id k (sys_state sys)"
  "get_grpc_route_by_id k (sys_state (update_pools_of_route env gs ks sys)) = get_grpc_route_by_id k (sys_state sys)"
  "attached (sys_state (update_pools_of_route env gs ks sys)) = attached (sys_state sys)"
  "pools_of (sys_state (update_pools_of_route env gs ks sys)) = pools_of (sys_state sys)"
  "get_gateway k (sys_state (update_pools_of_route env gs ks sys)) = get_gateway k (sys_state sys)"
  "sys_requests (update_pools_of_route env gs ks sys) = sys_requests sys"
  "sys_http_ops (update_pools_of_route env gs ks sys) = sys_http_ops sys"
  by (induction ks arbitrary: sys)
    (simp_all add: Let_def maybe_save_inference_pool_def get_http_route_by_id_def get_grpc_route_by_id_def get_gateway_def
      send_pool_op_def split: option.split)

lemma pools_update_sent:
  "\<exists>ops. sys_pool_ops (update_pools_of_route env gs ks sys) = sys_pool_ops sys @ ops \<and> list_all (patches_parents gs) ops"
proof (induction ks arbitrary: sys)
  case (Cons k ks)
  show ?case
  proof (cases "get_inference_pool k (sys_state sys)")
    case None
    then show ?thesis using Cons.IH by simp
  next
    case (Some pool)
    define pool' where "pool' = clear_managed_fields
        (update_inference_pool_parents (ce_now env) (ce_controller_name env) gs pool True)"
    let ?op = "PatchStatus (key_of_inference_pool pool') pool' (ce_controller_name env)"
    let ?sys' = "send_pool_op ?op (on_store (maybe_save_inference_pool (key_of_inference_pool pool') pool') sys)"
    have "ip_status pool' = ip_status (update_inference_pool_parents (ce_now env) (ce_controller_name env) gs pool True)"
      by (simp add: pool'_def clear_managed_fields_def)
    then have op: "patches_parents gs ?op"
      by (simp only: patches_parents_def operation.case update_parents_names)
    obtain ops where "sys_pool_ops (update_pools_of_route env gs ks ?sys') = sys_pool_ops ?sys' @ ops"
      and "list_all (patches_parents gs) ops"
      using Cons.IH [of ?sys'] by blast
    moreover have "update_pools_of_route env gs (k # ks) sys = update_pools_of_route env gs ks ?sys'"
      using Some by (simp add: pool'_def Let_def)
    moreover have "sys_pool_ops ?sys' = sys_pool_ops sys @ [?op]" by (simp add: send_pool_op_def)
    ultimately have "sys_pool_ops (update_pools_of_route env gs (k # ks) sys) = sys_pool_ops sys @ (?op # ops) \<and>
        list_all (patches_parents gs) (?op # ops)" using op by simp
    then show ?thesis by blast
  qed
qed simp

lemma deleted_unknown:
  assumes "get_http_route_by_id rk (sys_state sys) = None"
  shows "route_deleted env rk r ps sys =
    (Failed (InvalidPayload ''Route doesn't exist''),
     on_store (\<lambda>s. snd (delete_http_route rk (detach_from_parents rk (bset_from (\<lambda>k. k) (map snd (parent_keys rk ps))) s))) sys)"
proof -
  let ?s = "detach_from_parents rk (bset_from (\<lambda>k. k) (map snd (parent_keys rk ps))) (sys_state sys)"
  have "get_http_route_by_id rk ?s = None"
    using assms detach_from_parents_objects [of "sys_state sys"] by (simp add: same_objects_def get_http_route_by_id_def)
  then have "fst (delete_http_route rk ?s) = None" by (simp add: http_routes.remove_returns)
  then show ?thesis by (simp add: route_deleted_def Let_def case_prod_beta on_store_def)
qed

lemma deleted_known:
  assumes stored: "get_http_route_by_id rk (sys_state sys) = Some x"
    and s1_def: "s1 = detach_from_parents rk (bset_from (\<lambda>k. k) (map snd (parent_keys rk ps))) (sys_state sys)"
    and sys2_def: "sys2 = on_store (\<lambda>_. snd (delete_http_route rk s1)) sys"
  shows "route_deleted env rk r ps sys = (Acted Await_Change, send_request (DeleteRoute rk (extract_references (route_from_http x)))
      (ce_send_route env (Delete_Resource rk r (ce_controller_name env))
        (if ce_has_pool_patcher env
         then update_pools_of_route env (find_gateways_by_route_and_inference_pool rk s1) (pool_keys_of (route_from_http x)) sys2
         else sys2)))"
proof -
  have "get_http_route_by_id rk s1 = Some x"
    using stored detach_from_parents_objects [of "sys_state sys"]
    by (simp add: s1_def same_objects_def get_http_route_by_id_def)
  then have "fst (delete_http_route rk s1) = Some x" by (simp add: http_routes.remove_returns)
  then show ?thesis by (simp add: route_deleted_def Let_def case_prod_beta s1_def sys2_def on_store_const)
qed

end

interpretation http_handler: common_route_handler "http_env now controller parse_uuid"
  by unfold_locales (simp_all add: http_env_def send_http_op_def)

interpretation grpc_handler: common_route_handler "grpc_env now controller parse_uuid"
  by unfold_locales (simp_all add: grpc_env_def send_grpc_op_def)

subsection \<open>Properties\<close>

text \<open>
  C16: a new or changed HTTP route with parents is stored with a status for exactly the parents whose
  gateway is not known; it is attached to all gateways it names and its pools are recorded for
  those that have none of this route yet; every other object, attachment and record stays. It is
  never detached from a gateway it no longer names.
\<close>

theorem http_route_recorded:
  "case hrs_parent_refs (hr_spec r) of
     None \<Rightarrow> http_new_or_changed (http_env now controller parse_uuid) rk r sys =
       (Failed (InvalidPayload ''Route with no parents''), sys)
   | Some parents \<Rightarrow>
       (let s = sys_state sys;
            s' = sys_state (snd (http_new_or_changed (http_env now controller parse_uuid) rk r sys));
            key = (\<lambda>p. rrk_resource_key (route_ref_key_from p (rk_namespace rk)))
        in (\<forall>k. get_http_route_by_id k s' = (if k = rk
              then Some (r\<lparr>hr_status := Some (generate_status_for_unknown_gateways now controller
                     (map (\<lambda>p. (p, None)) (filter (\<lambda>p. get_gateway (key p) s = None) parents)) (om_generation (hr_metadata r)))\<rparr>)
              else get_http_route_by_id k s)) \<and>
           (\<forall>g k. attached s' g k \<longleftrightarrow> (k = rk \<and> g \<in> key ` set parents) \<or> attached s g k) \<and>
           (\<forall>g k. pools_of s' g k = (if k = rk \<and> g \<in> key ` set parents \<and> pools_of s g k = None
              then Some (pool_keys_of (route_from_http r)) else pools_of s g k)) \<and>
           st_gateways s' = st_gateways s \<and> st_grpc_routes s' = st_grpc_routes s \<and> st_inference_pools s' = st_inference_pools s)"
proof (cases "hrs_parent_refs (hr_spec r)")
  case None
  then show ?thesis by (simp add: http_new_or_changed_def)
next
  case (Some parents)
  let ?pk = "parent_keys rk parents"
  let ?s1 = "attach_to_parents rk (pool_keys_of (route_from_http r)) ?pk (sys_state sys)"
  have o: "same_objects (sys_state sys) ?s1" by (rule attach_to_parents_objects)
  have keys: "snd ` set ?pk = (\<lambda>p. rrk_resource_key (route_ref_key_from p (rk_namespace rk))) ` set parents"
    by (simp add: parent_keys_def image_image)
  have unknown: "snd (lookup_parents (sys_state sys) ?pk) = map (\<lambda>p. (p, None))
      (filter (\<lambda>p. get_gateway (rrk_resource_key (route_ref_key_from p (rk_namespace rk))) (sys_state sys) = None) parents)"
    by (simp add: lookup_parents_eq parent_keys_def filter_map comp_def)
  have s': "sys_state (snd (http_new_or_changed (http_env now controller parse_uuid) rk r sys)) =
      save_http_route rk (r\<lparr>hr_status := Some (generate_status_for_unknown_gateways now controller
        (snd (lookup_parents (sys_state sys) ?pk)) (om_generation (hr_metadata r)))\<rparr>) ?s1"
    using Some by (simp add: http_new_or_changed_def http_handler.change_state) (simp add: http_env_def)
  have same: "get_http_route_by_id k ?s1 = get_http_route_by_id k (sys_state sys)" for k
    using o by (simp add: same_objects_def get_http_route_by_id_def)
  have others: "attached (save_http_route rk v ?s1) = attached ?s1" "pools_of (save_http_route rk v ?s1) = pools_of ?s1"
    "st_gateways (save_http_route rk v ?s1) = st_gateways (sys_state sys)"
    "st_grpc_routes (save_http_route rk v ?s1) = st_grpc_routes (sys_state sys)"
    "st_inference_pools (save_http_route rk v ?s1) = st_inference_pools (sys_state sys)" for v
    using o by (simp_all add: save_http_route_def same_objects_def)
  show ?thesis
    unfolding Some option.case Let_def s' others http_routes.lookup_save same unknown
      attach_to_parents_attached attach_to_parents_pools keys
    by simp
qed

text \<open>
  It is announced with the references of its backends, then every known gateway it names, in
  order, with the implementation type stored for it, up to the first that has an unknown class, an
  unknown type or a configuration that does not convert; the reconciliation ends with that error.
\<close>

lemma route_announced:
  "let gs = map (announcement parse_uuid (sys_state sys))
        (filter_matching_gateways (sys_state sys) (fst (lookup_parents (sys_state sys) (parent_keys rk parents))))
   in fst (route_new_or_changed (http_env now controller parse_uuid) rk r parents gen
             (\<lambda>st. save_http_route rk (r\<lparr>hr_status := st\<rparr>)) sys) = first_failure gs \<and>
      sys_requests (snd (route_new_or_changed (http_env now controller parse_uuid) rk r parents gen
             (\<lambda>st. save_http_route rk (r\<lparr>hr_status := st\<rparr>)) sys)) =
        sys_requests sys @ [AddRoute rk (extract_references (route_from_http r))] @ map AddGateway (announced gs)"
  using http_handler.change_announces [of "\<lambda>st. save_http_route rk (r\<lparr>hr_status := st\<rparr>)" now controller parse_uuid sys rk parents r gen]
  by (simp add: save_http_route_def get_gateway_classes_def get_gateway_type_def)
    (simp add: http_env_def)

lemma filter_matching_single:
  assumes "get_gateway (rrk_resource_key (route_ref_key_from p ns)) s = Some kg"
    "key_of_gateway kg = rrk_resource_key (route_ref_key_from p ns)"
  shows "filter_matching_gateways s [(p, Some kg)] = [kg]"
proof -
  have "rrk_resource_key (route_ref_key_from p (rk_namespace (key_of_gateway kg))) = key_of_gateway kg"
    using assms(2) by (cases "pr_namespace p") (simp_all add: route_ref_key_from_def)
  then show ?thesis
    using assms by (simp add: filter_matching_gateways_def List.map_filter_simps Let_def)
qed

text \<open>
  A route naming a known gateway that has a listener of an unknown protocol makes the route
  controller panic. The gateway controller stores such gateways before it rejects them.
\<close>

lemma misconfigured_gateway_panics:
  "case get_gateway (rrk_resource_key (route_ref_key_from p (rk_namespace rk))) (sys_state sys) of
     Some kg \<Rightarrow>
       if key_of_gateway kg = rrk_resource_key (route_ref_key_from p (rk_namespace rk)) \<and>
          list_ex (\<lambda>gc. om_name (gc_metadata gc) = Some (gs_gateway_class_name (kg_spec kg))) (get_gateway_classes (sys_state sys)) \<and>
          \<not> list_all known_listener (gs_listeners (kg_spec kg))
       then fst (route_new_or_changed (http_env now controller parse_uuid) rk r [p] gen
              (\<lambda>st. save_http_route rk (r\<lparr>hr_status := st\<rparr>)) sys) = Panicked
       else True
   | None \<Rightarrow> True"
proof (cases "get_gateway (rrk_resource_key (route_ref_key_from p (rk_namespace rk))) (sys_state sys)")
  case (Some kg)
  let ?k = "rrk_resource_key (route_ref_key_from p (rk_namespace rk))"
  have look: "fst (lookup_parents (sys_state sys) (parent_keys rk [p])) = [(p, Some kg)]"
    using Some by (simp add: lookup_parents_eq parent_keys_def List.map_filter_simps)
  show ?thesis
  proof (cases "key_of_gateway kg = ?k \<and>
      list_ex (\<lambda>gc. om_name (gc_metadata gc) = Some (gs_gateway_class_name (kg_spec kg))) (get_gateway_classes (sys_state sys)) \<and>
      \<not> list_all known_listener (gs_listeners (kg_spec kg))")
    case True
    then have "gateway_from_default parse_uuid kg \<noteq> Inr g" for g
      using gateway_from_ok_iff [of parse_uuid kg Envoy] by (auto simp: gateway_from_default_def)
    then obtain e where "gateway_from_default parse_uuid kg = Inl e" by (cases "gateway_from_default parse_uuid kg") auto
    with True have "announcement parse_uuid (sys_state sys) kg = Inl Panicked"
      by (simp add: announcement_def)
    moreover have "filter_matching_gateways (sys_state sys) [(p, Some kg)] = [kg]"
      using Some True by (intro filter_matching_single) auto
    moreover have "fst (route_new_or_changed (http_env now controller parse_uuid) rk r [p] gen
        (\<lambda>st. save_http_route rk (r\<lparr>hr_status := st\<rparr>)) sys) =
      first_failure (map (announcement parse_uuid (sys_state sys))
        (filter_matching_gateways (sys_state sys) (fst (lookup_parents (sys_state sys) (parent_keys rk [p])))))"
      using http_handler.change_announces [of "\<lambda>st. save_http_route rk (r\<lparr>hr_status := st\<rparr>)" now controller parse_uuid sys rk "[p]" r gen]
      by (simp add: save_http_route_def get_gateway_classes_def get_gateway_type_def Let_def) (simp add: http_env_def)
    ultimately show ?thesis using Some True look by simp
  qed (use Some in auto)
qed simp


text \<open>
  The gateways left for the pools of a deleted route are computed after the route was detached
  from them. When the deleted object names every gateway the route's pools are recorded for, every
  pool status sent has an empty list of parents, also for pools that other routes still use.
\<close>

lemma deletion_clears_pool_parents:
  "if state_wf (sys_state sys) \<and>
      {g. pools_of (sys_state sys) g rk \<noteq> None} \<subseteq> (\<lambda>p. rrk_resource_key (route_ref_key_from p (rk_namespace rk))) ` set parents
   then list_all (patches_parents [])
          (drop (length (sys_pool_ops sys)) (sys_pool_ops (snd (route_deleted (http_env now controller parse_uuid) rk r parents sys))))
   else True"
proof (cases "state_wf (sys_state sys) \<and>
      {g. pools_of (sys_state sys) g rk \<noteq> None} \<subseteq> (\<lambda>p. rrk_resource_key (route_ref_key_from p (rk_namespace rk))) ` set parents")
  case True
  let ?env = "http_env now controller parse_uuid"
  let ?gs = "bset_from (\<lambda>k. k) (map snd (parent_keys rk parents))"
  let ?s1 = "detach_from_parents rk ?gs (sys_state sys)"
  let ?sys2 = "on_store (\<lambda>_. snd (delete_http_route rk ?s1)) sys"
  have gs: "set ?gs = (\<lambda>p. rrk_resource_key (route_ref_key_from p (rk_namespace rk))) ` set parents"
    by (simp add: parent_keys_def image_image)
  have "pools_of ?s1 g rk = None" for g
    using True by (auto simp: detach_from_parents_pools gs simp del: set_bset_from_id)
  then have "set (find_gateways_by_route_and_inference_pool rk ?s1) = {}"
    using True by (simp add: set_find_gateways_by_route_and_inference_pool detach_from_parents_wf)
  then have empty: "find_gateways_by_route_and_inference_pool rk ?s1 = []" by simp
  show ?thesis
  proof (cases "get_http_route_by_id rk (sys_state sys)")
    case None
    show ?thesis
      unfolding http_handler.deleted_unknown [OF None] by simp
  next
    case (Some stored)
    have send: "ce_send_route ?env = send_http_op" "ce_has_pool_patcher ?env"
      by (simp_all add: http_env_def)
    have keep: "sys_pool_ops (send_request x (send_http_op y sys')) = sys_pool_ops sys'" for x y sys'
      by (simp add: send_defs)
    obtain ops where "sys_pool_ops (update_pools_of_route ?env [] (pool_keys_of (route_from_http stored)) ?sys2) =
        sys_pool_ops ?sys2 @ ops" and "list_all (patches_parents []) ops"
      using http_handler.pools_update_sent [of now controller parse_uuid "[]" "pool_keys_of (route_from_http stored)" ?sys2] by blast
    then show ?thesis
      using True by (simp add: http_handler.deleted_known [OF Some refl refl] empty send keep)
  qed
qed auto

interpretation http_settling: settling_handler
    "\<lambda>now. http_route_handler (http_env now controller parse_uuid)" hr_metadata
    "\<lambda>k sys. get_http_route_by_id k (sys_state sys)" hr_spec hr_status
proof unfold_locales
  fix k r s
  show "(\<forall>now. snd (on_new (http_route_handler (http_env now controller parse_uuid)) k r s) = s) \<or>
    (\<forall>now. map_option (\<lambda>r'. om_resource_version (hr_metadata r')) (get_http_route_by_id k
      (sys_state (snd (on_new (http_route_handler (http_env now controller parse_uuid)) k r s)))) =
      Some (om_resource_version (hr_metadata r)))"
    by (cases "hrs_parent_refs (hr_spec r)")
      (simp_all add: http_route_handler_def http_new_or_changed_def http_handler.change_state http_routes.lookup_save)
  show "(\<forall>now. snd (on_spec_changed (http_route_handler (http_env now controller parse_uuid)) k r s) = s) \<or>
    (\<forall>now. map_option (\<lambda>r'. om_resource_version (hr_metadata r')) (get_http_route_by_id k
      (sys_state (snd (on_spec_changed (http_route_handler (http_env now controller parse_uuid)) k r s)))) =
      Some (om_resource_version (hr_metadata r)))"
    by (cases "hrs_parent_refs (hr_spec r)")
      (simp_all add: http_route_handler_def http_new_or_changed_def http_handler.change_state http_routes.lookup_save)
qed (auto simp: http_route_handler_def default_handler_def already_added_def http_routes.lookup_maybe_save)

interpretation grpc_settling: settling_handler
    "\<lambda>now. grpc_route_handler (grpc_env now controller parse_uuid)" gr_metadata
    "\<lambda>k sys. get_grpc_route_by_id k (sys_state sys)" gr_spec gr_status
proof unfold_locales
  fix k r s
  show "(\<forall>now. snd (on_new (grpc_route_handler (grpc_env now controller parse_uuid)) k r s) = s) \<or>
    (\<forall>now. map_option (\<lambda>r'. om_resource_version (gr_metadata r')) (get_grpc_route_by_id k
      (sys_state (snd (on_new (grpc_route_handler (grpc_env now controller parse_uuid)) k r s)))) =
      Some (om_resource_version (gr_metadata r)))"
    by (cases "grs_parent_refs (gr_spec r)")
      (simp_all add: grpc_route_handler_def grpc_new_or_changed_def grpc_handler.change_state grpc_routes.lookup_save)
  show "(\<forall>now. snd (on_spec_changed (grpc_route_handler (grpc_env now controller parse_uuid)) k r s) = s) \<or>
    (\<forall>now. map_option (\<lambda>r'. om_resource_version (gr_metadata r')) (get_grpc_route_by_id k
      (sys_state (snd (on_spec_changed (grpc_route_handler (grpc_env now controller parse_uuid)) k r s)))) =
      Some (om_resource_version (gr_metadata r)))"
    by (cases "grs_parent_refs (gr_spec r)")
      (simp_all add: grpc_route_handler_def grpc_new_or_changed_def grpc_handler.change_state grpc_routes.lookup_save)
qed (auto simp: grpc_route_handler_def default_handler_def already_added_def grpc_routes.lookup_maybe_save)


text \<open>The same for a GRPC route.\<close>

lemma grpc_route_settles:
  "if om_deletion_timestamp (gr_metadata r) = None
   then snd (reconcile_grpc_route (grpc_env now' controller parse_uuid) r
          (snd (reconcile_grpc_route (grpc_env now controller parse_uuid) r sys))) =
        snd (reconcile_grpc_route (grpc_env now controller parse_uuid) r sys)
   else True"
proof -
  have "ce_parse_uuid (grpc_env t controller parse_uuid) = parse_uuid" for t by (simp add: grpc_env_def)
  then show ?thesis
    by (cases "check_uid parse_uuid (gr_metadata r)") (simp_all add: reconcile_grpc_route_def grpc_settling.run_twice)
qed

text \<open>
  The deletion of a GRPC route looks for an HTTP route of its key: without one it fails, keeps the
  GRPC route in the store and sends neither the deletion to its patcher nor its references to the
  reference validator.
\<close>

lemma grpc_route_not_removed:
  "if get_http_route_by_id rk (sys_state sys) = None \<and> grs_parent_refs (gr_spec r) \<noteq> None
   then (let result = grpc_deleted (grpc_env now controller parse_uuid) rk r sys
         in fst result = Failed (InvalidPayload ''Route doesn't exist'') \<and>
            (\<forall>k. get_grpc_route_by_id k (sys_state (snd result)) = get_grpc_route_by_id k (sys_state sys)) \<and>
            sys_grpc_ops (snd result) = sys_grpc_ops sys \<and> sys_requests (snd result) = sys_requests sys)
   else True"
proof (cases "get_http_route_by_id rk (sys_state sys)")
  case None
  have s1: "get_grpc_route_by_id k (detach_from_parents rk gs s) = get_grpc_route_by_id k s" for k gs s
    using detach_from_parents_objects [of s] by (simp add: same_objects_def get_grpc_route_by_id_def)
  have s2: "get_grpc_route_by_id k (snd (delete_http_route rk s)) = get_grpc_route_by_id k s" for k s
    by (simp add: delete_http_route_def get_grpc_route_by_id_def)
  show ?thesis
    by (auto simp: grpc_deleted_def grpc_handler.deleted_unknown [OF None] s1 s2 Let_def)
qed simp

end
