(* ===== verification/Gateway_Controllers.thy ===== *)
theory Gateway_Controllers
  imports Route_Controllers
begin

section \<open>The controllers of gateways, gateway classes and inference pools\<close>

text \<open>
  \<open>controllers/gateway.rs\<close>, \<open>controllers/gateway_class.rs\<close> and the handlers of
  \<open>controllers/inference_pool.rs\<close>. Parameters are the UUID parser, the clock, the answers of the API
  server to a status patch and to the lookup of a \<open>KubvernorConfig\<close>, and the implementation types a
  backend deployer runs for. The names of condition types are those of the constants of the Gateway API crate.
\<close>

subsection \<open>Gateways\<close>

record gateway_env =
  ge_controller_name :: string
  ge_parse_uuid :: "string \<Rightarrow> string option"
  ge_senders :: "gateway_implementation_type list"
  ge_class_name :: string
  ge_backend_type :: gateway_implementation_type

definition gateway_new_or_changed :: "gateway_env \<Rightarrow> kube_gateway \<Rightarrow> system \<Rightarrow> outcome \<times> system" where
  "gateway_new_or_changed env kg sys = (case gateway_from (ge_parse_uuid env) kg (ge_backend_type env) of
       Inl _ \<Rightarrow> (Failed (InvalidPayload ''Misconfigured gateway''), sys)
     | Inr g \<Rightarrow>
         (Acted (Requeue RECONCILE_LONG_WAIT),
          send_request (AddGateway \<lparr>rc_gateway = g, rc_kube_gateway = kg, rc_gateway_class_name = ge_class_name env\<rparr>)
            (on_store (\<lambda>s. snd (save_gateway_type (gw_resource_key g) (ge_backend_type env) s)) sys)))"

text \<open>\<open>delete_gateway\<close>: an error is ignored by its caller, a type without a deployer fails the \<open>expect\<close>.\<close>

definition delete_backend_gateway :: "gateway_env \<Rightarrow> kube_gateway \<Rightarrow> gateway_implementation_type \<Rightarrow> system \<Rightarrow> system option" where
  "delete_backend_gateway env kg t sys = (case gateway_from_default (ge_parse_uuid env) kg of
       Inl _ \<Rightarrow> Some sys
     | Inr g \<Rightarrow> (let g' = g\<lparr>gw_backend_type := t\<rparr>
         in if t \<in> set (ge_senders env) then Some (send_event t (Deleted g') (send_request (DeleteGateway g') sys)) else None))"

definition gateway_deleted :: "gateway_env \<Rightarrow> resource_key \<Rightarrow> kube_gateway \<Rightarrow> system \<Rightarrow> outcome \<times> system" where
  "gateway_deleted env k kg sys =
     (let sys1 = on_store (\<lambda>s. snd (delete_gateway k s)) sys;
          (gateway_type, s2) = delete_gateway_type k (sys_state sys1);
          sys2 = on_store (\<lambda>_. s2) sys1
      in case (case gateway_type of Some t \<Rightarrow> delete_backend_gateway env kg t sys2 | None \<Rightarrow> Some sys2) of
           None \<Rightarrow> (Panicked, sys2)
         | Some sys3 \<Rightarrow> (Acted (Requeue RECONCILE_LONG_WAIT), send_gateway_op (Delete_Resource k kg (ge_controller_name env)) sys3))"

definition gateway_status_changed :: "gateway_env \<Rightarrow> resource_key \<Rightarrow> kube_gateway \<Rightarrow> system \<Rightarrow> outcome \<times> system" where
  "gateway_status_changed env k kg sys =
     (case (case kg_status kg of Some st \<Rightarrow> gst_conditions st | None \<Rightarrow> None) of
        None \<Rightarrow> (Failed ResourceHasWrongStatus, sys)
      | Some conditions \<Rightarrow>
          if list_ex (\<lambda>c. cond_type c = ''Ready'') conditions then
            (let sys1 = send_class_op (add_finalizer_to_gateway_class (ge_class_name env) (ge_controller_name env))
                   (on_store (save_gateway k kg) sys);
                 has_finalizer = (case om_finalizers (kg_metadata kg) of
                     Some finalizers \<Rightarrow> list_ex (\<lambda>f. f = ge_controller_name env) finalizers | None \<Rightarrow> False)
             in (Acted (Requeue RECONCILE_LONG_WAIT),
                 if has_finalizer then sys1 else send_gateway_op (add_finalizer k (ge_controller_name env)) sys1))
          else if list_ex (\<lambda>c. cond_type c = ''Programmed'' \<and> cond_status c = ''Pending'') conditions
               then gateway_new_or_changed env kg sys
               else (Failed ResourceHasWrongStatus, sys))"

definition gateway_handler :: "gateway_env \<Rightarrow> (kube_gateway, system) resource_handler" where
  "gateway_handler env = default_handler
     \<lparr>on_spec_not_changed := (\<lambda>k kg sys. (Failed AlreadyAdded, on_store (save_gateway k kg) sys)),
      on_new := (\<lambda>k kg sys. gateway_new_or_changed env kg (on_store (save_gateway k kg) sys)),
      on_spec_changed := (\<lambda>k kg sys. gateway_new_or_changed env kg sys),
      on_status_changed := gateway_status_changed env,
      on_deleted := gateway_deleted env,
      on_status_not_changed := (\<lambda>k kg sys. (Failed AlreadyAdded, on_store (maybe_save_gateway k kg) sys))\<rparr>"

text \<open>
  The implementation type of a gateway: the one its class's configuration names, Envoy without one.
  The answer to the lookup of a configuration by namespace and name is its \<open>backendtype\<close> field.
\<close>

definition configured_backend_type ::
    "(string \<Rightarrow> string \<Rightarrow> string option option) \<Rightarrow> string \<Rightarrow> string \<Rightarrow> state \<Rightarrow> controller_error + gateway_implementation_type" where
  "configured_backend_type config_api namespace class_name s =
     (case find (\<lambda>gc. om_name (gc_metadata gc) = Some class_name) (get_gateway_classes s) of
        None \<Rightarrow> Inl (UnknownGatewayClass class_name)
      | Some gc \<Rightarrow> (case gcs_parameters_ref (gc_spec gc) of
            None \<Rightarrow> Inr Envoy
          | Some config_reference \<Rightarrow> (case config_api namespace (par_name config_reference) of
                None \<Rightarrow> Inl (InvalidPayload ''Unable to find KubernorConfig'')
              | Some backendtype \<Rightarrow> (case parse_implementation_type backendtype of
                    Inl _ \<Rightarrow> Inl (InvalidPayload ''Invalid backend type'')
                  | Inr t \<Rightarrow> Inr t))))"

definition reconcile_gateway ::
    "string \<Rightarrow> (string \<Rightarrow> string option) \<Rightarrow> gateway_implementation_type list \<Rightarrow>
     (string \<Rightarrow> string \<Rightarrow> string option option) \<Rightarrow> kube_gateway \<Rightarrow> system \<Rightarrow> outcome \<times> system" where
  "reconcile_gateway controller parse_uuid senders config_api kg sys =
     (if om_name (kg_metadata kg) = None then (Failed (InvalidPayload ''Resource name is not provided''), sys)
      else case check_uid parse_uuid (kg_metadata kg) of
        Some e \<Rightarrow> (Failed e, sys)
      | None \<Rightarrow> (case configured_backend_type config_api (rk_namespace (key_of_gateway kg))
                        (gs_gateway_class_name (kg_spec kg)) (sys_state sys) of
            Inl e \<Rightarrow> (Failed e, sys)
          | Inr t \<Rightarrow> process_stored
              (gateway_handler \<lparr>ge_controller_name = controller, ge_parse_uuid = parse_uuid, ge_senders = senders,
                 ge_class_name = gs_gateway_class_name (kg_spec kg), ge_backend_type = t\<rparr>)
              kg_metadata (\<lambda>k sys. get_gateway k (sys_state sys)) kg_spec kg_status (key_of_gateway kg) kg sys))"

subsection \<open>Gateway classes\<close>

definition update_class_status :: "string \<Rightarrow> gateway_class \<Rightarrow> gateway_class" where
  "update_class_status now gc = gc
     \<lparr>gc_status := Some \<lparr>gcst_conditions = Some [\<lparr>cond_type = ''Accepted'', cond_status = ''True'', cond_reason = ''AcceptedByController'',
        cond_message = ''Updated by controller'', cond_observed_generation = om_generation (gc_metadata gc),
        cond_last_transition_time = now\<rparr>], gcst_supported_features = None\<rparr>,
      gc_metadata := (gc_metadata gc)\<lparr>om_managed_fields := None\<rparr>\<rparr>"

text \<open>\<open>patch_reply\<close> is the patched object, or none when the patch failed.\<close>

definition class_new_or_changed ::
    "string \<Rightarrow> string \<Rightarrow> (gateway_class \<Rightarrow> gateway_class option) \<Rightarrow> resource_key \<Rightarrow> gateway_class \<Rightarrow> system \<Rightarrow> outcome \<times> system" where
  "class_new_or_changed now controller patch_reply k gc sys =
     (let updated = update_class_status now gc;
          sys1 = send_class_op (PatchStatus k updated controller) (on_store (\<lambda>s. snd (save_gateway_class k gc s)) sys)
      in (Acted (Requeue RECONCILE_LONG_WAIT),
          case patch_reply updated of
            Some patched \<Rightarrow> on_store (\<lambda>s. snd (save_gateway_class k patched s)) sys1
          | None \<Rightarrow> sys1))"

definition class_deleted :: "string \<Rightarrow> resource_key \<Rightarrow> gateway_class \<Rightarrow> system \<Rightarrow> outcome \<times> system" where
  "class_deleted controller k gc sys =
     (Acted (Requeue RECONCILE_LONG_WAIT), send_class_op (Delete_Resource k gc controller)
        (on_store (\<lambda>s. snd (delete_gateway_type k s)) (on_store (\<lambda>s. snd (delete_gateway k s)) sys)))"

definition gateway_class_handler ::
    "string \<Rightarrow> string \<Rightarrow> (gateway_class \<Rightarrow> gateway_class option) \<Rightarrow> (gateway_class, system) resource_handler" where
  "gateway_class_handler now controller patch_reply = default_handler
     \<lparr>on_spec_not_changed := (\<lambda>k gc sys. (Failed AlreadyAdded, on_store (\<lambda>s. snd (save_gateway_class k gc s)) sys)),
      on_new := class_new_or_changed now controller patch_reply,
      on_spec_changed := class_new_or_changed now controller patch_reply,
      on_deleted := class_deleted controller\<rparr>"

definition reconcile_gateway_class ::
    "string \<Rightarrow> string \<Rightarrow> (string \<Rightarrow> string option) \<Rightarrow> (gateway_class \<Rightarrow> gateway_class option) \<Rightarrow> gateway_class \<Rightarrow> system \<Rightarrow>
     outcome \<times> system" where
  "reconcile_gateway_class now configured_name parse_uuid patch_reply gc sys =
     (case check_uid parse_uuid (gc_metadata gc) of
        Some e \<Rightarrow> (Failed e, sys)
      | None \<Rightarrow>
          if configured_name \<noteq> gcs_controller_name (gc_spec gc) then (Failed InvalidRecipent, sys)
          else process_stored (gateway_class_handler now (gcs_controller_name (gc_spec gc)) patch_reply) gc_metadata
                 (\<lambda>k sys. get_gateway_class_by_id k (sys_state sys)) gc_spec gc_status (key_of_gateway_class gc) gc sys)"

subsection \<open>Inference pools\<close>

definition routes_with_pool :: "resource_key \<Rightarrow> state \<Rightarrow> resource_key list" where
  "routes_with_pool k s = bset_from (\<lambda>k. k) (map key_of_http_route (filter (\<lambda>r. has_inference_pool r k) (get_http_routes s)))"

definition add_pool_finalizer :: "string \<Rightarrow> resource_key \<Rightarrow> inference_pool \<Rightarrow> system \<Rightarrow> system" where
  "add_pool_finalizer controller k pool sys = (case needs_finalizer k controller (ip_metadata pool) of
       Some finalizer \<Rightarrow> send_pool_op finalizer sys | None \<Rightarrow> sys)"

definition pool_new_or_changed :: "string \<Rightarrow> string \<Rightarrow> resource_key \<Rightarrow> inference_pool \<Rightarrow> system \<Rightarrow> outcome \<times> system" where
  "pool_new_or_changed now controller k pool sys =
     (let routes = routes_with_pool k (sys_state sys)
      in if routes = [] then (Acted (Requeue 20), sys)
         else (let gateways_ids = get_gateways_with_http_routes routes (sys_state sys);
                   pool' = create_accepted_pool_status now controller pool gateways_ids;
                   sys1 = on_store (save_inference_pool k pool') sys;
                   sys2 = send_pool_op (PatchStatus k (clear_managed_fields pool') controller) sys1;
                   sys3 = add_pool_finalizer controller k pool sys2
               in (Acted Await_Change, send_request (UpdatedGateways k gateways_ids) sys3)))"

definition pool_deleted :: "string \<Rightarrow> resource_key \<Rightarrow> inference_pool \<Rightarrow> system \<Rightarrow> outcome \<times> system" where
  "pool_deleted controller k pool sys =
     (let sys1 = send_pool_op (Delete_Resource k pool controller) (on_store (\<lambda>s. snd (delete_inference_pool k s)) sys);
          routes = routes_with_pool k (sys_state sys1)
      in (Acted Await_Change,
          if routes = [] then sys1
          else send_request (UpdatedGateways k (get_gateways_with_http_routes routes (sys_state sys1))) sys1))"

definition inference_pool_handler :: "string \<Rightarrow> string \<Rightarrow> (inference_pool, system) resource_handler" where
  "inference_pool_handler now controller = default_handler
     \<lparr>on_spec_not_changed := already_added, on_status_not_changed := already_added,
      on_new := pool_new_or_changed now controller,
      on_status_changed := already_added,
      on_spec_changed := pool_new_or_changed now controller,
      on_deleted := pool_deleted controller\<rparr>"

definition reconcile_inference_pool ::
    "string \<Rightarrow> string \<Rightarrow> (string \<Rightarrow> string option) \<Rightarrow> inference_pool \<Rightarrow> system \<Rightarrow> outcome \<times> system" where
  "reconcile_inference_pool now controller parse_uuid pool sys =
     (case check_uid parse_uuid (ip_metadata pool) of
        Some e \<Rightarrow> (Failed e, sys)
      | None \<Rightarrow> process_stored (inference_pool_handler now controller) ip_metadata
          (\<lambda>k sys. get_inference_pool k (sys_state sys)) ip_spec ip_status (key_of_inference_pool pool) pool sys)"

subsection \<open>Properties\<close>

text \<open>A pool that is reconciled again is not handled again.\<close>

interpretation pool_settling: settling_handler
    "\<lambda>now. inference_pool_handler now controller" ip_metadata
    "\<lambda>k sys. get_inference_pool k (sys_state sys)" ip_spec ip_status
proof unfold_locales
  fix k r s
  have pool: "(\<forall>now. snd (pool_new_or_changed now controller k r s) = s) \<or>
    (\<forall>now. map_option (\<lambda>r'. om_resource_version (ip_metadata r')) (get_inference_pool k
      (sys_state (snd (pool_new_or_changed now controller k r s)))) = Some (om_resource_version (ip_metadata r)))"
    by (cases "routes_with_pool k (sys_state s) = []")
      (simp_all add: pool_new_or_changed_def Let_def add_pool_finalizer_def inference_pools.lookup_save
        create_accepted_pool_status_def create_pool_status_with_conditions_def split: option.split)
  show "(\<forall>now. snd (on_new (inference_pool_handler now controller) k r s) = s) \<or>
    (\<forall>now. map_option (\<lambda>r'. om_resource_version (ip_metadata r')) (get_inference_pool k
      (sys_state (snd (on_new (inference_pool_handler now controller) k r s)))) = Some (om_resource_version (ip_metadata r)))"
    using pool by (simp add: inference_pool_handler_def)
  show "(\<forall>now. snd (on_spec_changed (inference_pool_handler now controller) k r s) = s) \<or>
    (\<forall>now. map_option (\<lambda>r'. om_resource_version (ip_metadata r')) (get_inference_pool k
      (sys_state (snd (on_spec_changed (inference_pool_handler now controller) k r s)))) = Some (om_resource_version (ip_metadata r)))"
    using pool by (simp add: inference_pool_handler_def)
qed (simp_all add: inference_pool_handler_def default_handler_def already_added_def)

text \<open>
  A new gateway is stored under its key even when it is rejected; a new or changed gateway is
  announced to the reference validator, with the implementation type recorded for it, exactly when
  its configuration converts, and a change is not stored until the gateway has been processed.
\<close>

lemma gateway_announced:
  "let new = on_new (gateway_handler env) k kg sys;
       changed = on_spec_changed (gateway_handler env) k kg sys
   in get_gateway k (sys_state (snd new)) = Some kg \<and>
      (\<forall>j. get_gateway j (sys_state (snd changed)) = get_gateway j (sys_state sys)) \<and>
      (case gateway_from (ge_parse_uuid env) kg (ge_backend_type env) of
         Inl _ \<Rightarrow> fst new = Failed (InvalidPayload ''Misconfigured gateway'') \<and>
           changed = (Failed (InvalidPayload ''Misconfigured gateway''), sys) \<and> sys_requests (snd new) = sys_requests sys
       | Inr g \<Rightarrow> list_all (\<lambda>result. fst result = Acted (Requeue RECONCILE_LONG_WAIT) \<and>
             get_gateway_type (key_of_gateway kg) (sys_state (snd result)) = Some (ge_backend_type env) \<and>
             sys_requests (snd result) = sys_requests sys @
               [AddGateway \<lparr>rc_gateway = g, rc_kube_gateway = kg, rc_gateway_class_name = ge_class_name env\<rparr>]) [new, changed])"
proof -
  have key: "gateway_from p kg t = Inr g \<Longrightarrow> gw_resource_key g = key_of_gateway kg" for p t g
    by (auto simp: gateway_from_def Let_def split: option.splits prod.splits if_splits)
  have type: "get_gateway j (snd (save_gateway_type i t s)) = get_gateway j s" for i j t s
    by (simp add: get_gateway_def save_gateway_type_def)
  show ?thesis
    by (cases "gateway_from (ge_parse_uuid env) kg (ge_backend_type env)")
      (simp_all add: Let_def gateway_handler_def gateway_new_or_changed_def key type gateways.lookup_save
        gateway_types.lookup_save)
qed

text \<open>
  A deleted gateway leaves the store together with its implementation type, its attached routes
  stay; the deployer of its type and the reference validator are told exactly when the type was
  recorded and the object converts, and the patcher deletes the object.
\<close>

lemma gateway_removed:
  "let result = gateway_deleted env k kg sys; s' = sys_state (snd result)
   in (\<forall>j. get_gateway j s' = (if j = k then None else get_gateway j (sys_state sys))) \<and>
      (\<forall>j. get_gateway_type j s' = (if j = k then None else get_gateway_type j (sys_state sys))) \<and>
      attached s' = attached (sys_state sys) \<and>
      (case (get_gateway_type k (sys_state sys), gateway_from_default (ge_parse_uuid env) kg) of
         (Some t, Inr g) \<Rightarrow>
           (if t \<in> set (ge_senders env)
            then sys_events (snd result) = sys_events sys @ [(t, Deleted (g\<lparr>gw_backend_type := t\<rparr>))] \<and>
                 sys_requests (snd result) = sys_requests sys @ [DeleteGateway (g\<lparr>gw_backend_type := t\<rparr>)] \<and>
                 sys_gateway_ops (snd result) = sys_gateway_ops sys @ [Delete_Resource k kg (ge_controller_name env)]
            else fst result = Panicked)
       | _ \<Rightarrow> sys_events (snd result) = sys_events sys \<and> sys_requests (snd result) = sys_requests sys \<and>
              sys_gateway_ops (snd result) = sys_gateway_ops sys @ [Delete_Resource k kg (ge_controller_name env)])"
proof -
  have frame: "get_gateway j (snd (delete_gateway_type i s)) = get_gateway j s"
    "attached (snd (delete_gateway_type i s)) = attached s" "attached (snd (delete_gateway i s)) = attached s"
    "get_gateway_type j (snd (delete_gateway i s)) = get_gateway_type j s" for i j s
    by (simp_all add: get_gateway_def delete_gateway_type_def delete_gateway_def get_gateway_type_def)
  have ret: "fst (delete_gateway_type k (snd (delete_gateway k s))) = get_gateway_type k s" for s
    by (simp add: gateway_types.remove_returns frame)
  show ?thesis
    by (cases "get_gateway_type k (sys_state sys)"; cases "gateway_from_default (ge_parse_uuid env) kg")
      (simp_all add: gateway_deleted_def delete_backend_gateway_def Let_def case_prod_beta ret frame
        gateways.lookup_remove gateway_types.lookup_remove send_event_def send_request_def send_gateway_op_def)
qed

text \<open>
  The deletion of a gateway class deletes a gateway and an implementation type of its key, never
  the class: it stays in the store, and gateways of the class are still accepted.
\<close>

lemma gateway_class_stays:
  "get_gateway_classes (sys_state (snd (class_deleted controller k gc sys))) = get_gateway_classes (sys_state sys) \<and>
   configured_backend_type config_api namespace class_name (sys_state (snd (class_deleted controller k gc sys))) =
     configured_backend_type config_api namespace class_name (sys_state sys)"
proof -
  have "get_gateway_classes (sys_state (snd (class_deleted controller k gc sys))) = get_gateway_classes (sys_state sys)"
    by (simp add: class_deleted_def get_gateway_classes_def delete_gateway_type_def delete_gateway_def)
  then show ?thesis by (simp add: configured_backend_type_def)
qed

text \<open>
  An inference pool is accepted only when a stored HTTP route refers to it; it is then stored
  with exactly the gateways its routes are attached to as parents, and those gateways are announced
  for a new validation; without such a route nothing happens.
\<close>

lemma pool_accepted:
  "let result = pool_new_or_changed now controller k pool sys; routes = routes_with_pool k (sys_state sys) in
   if list_ex (\<lambda>r. has_inference_pool r k) (get_http_routes (sys_state sys))
   then map_option (\<lambda>p. map_option (map_option (map (\<lambda>p. ir_name (ipp_parent_ref p)))) (ip_status p))
          (get_inference_pool k (sys_state (snd result))) =
        Some (Some (Some (map rk_name (get_gateways_with_http_routes routes (sys_state sys))))) \<and>
        sys_requests (snd result) = sys_requests sys @ [UpdatedGateways k (get_gateways_with_http_routes routes (sys_state sys))]
   else result = (Acted (Requeue 20), sys)"
proof -
  have empty: "routes_with_pool k s = [] \<longleftrightarrow> \<not> list_ex (\<lambda>r. has_inference_pool r k) (get_http_routes s)" for s
  proof -
    have "routes_with_pool k s = [] \<longleftrightarrow> set (routes_with_pool k s) = {}" by simp
    also have "\<dots> \<longleftrightarrow> \<not> list_ex (\<lambda>r. has_inference_pool r k) (get_http_routes s)"
      by (auto simp: routes_with_pool_def list_ex_iff filter_empty_conv)
    finally show ?thesis .
  qed
  show ?thesis
    by (auto simp: Let_def pool_new_or_changed_def empty add_pool_finalizer_def inference_pools.lookup_save
        create_accepted_pool_status_def create_pool_status_with_conditions_def comp_def split: option.split)
qed

end
