(* ===== verification/Gateway_Deployment.thy ===== *)
theory Gateway_Deployment
  imports Gateway_Controllers
begin

section \<open>Deploying gateways and reporting their status\<close>

text \<open>
  The gateway deployer service: \<open>services/gateway_deployer/gateway_deployer_internal.rs\<close> (the status
  of the listeners of a validated gateway, the event for the deployer of its implementation type),
  \<open>gateway_processed_handler.rs\<close> (the status of a deployed gateway and of its routes) and \<open>mod.rs\<close>
  (the two kinds of messages the service handles). Names of condition types and reasons are those of
  the constants of the Gateway API crate.
\<close>

subsection \<open>Status of listeners\<close>

text \<open>\<open>BTreeSet::insert\<close>, \<open>remove\<close> and \<open>contains\<close> on conditions compare by discriminant.\<close>

definition insert_condition :: "listener_condition \<Rightarrow> listener_condition list \<Rightarrow> listener_condition list" where
  "insert_condition c cs = bset_insert condition_discriminant c cs"

definition remove_condition :: "listener_condition \<Rightarrow> listener_condition list \<Rightarrow> listener_condition list" where
  "remove_condition c cs = bset_remove condition_discriminant (condition_discriminant c) cs"

definition adjust_resolved_refs :: "listener_condition list \<Rightarrow> listener_condition list" where
  "adjust_resolved_refs cs = (case resolved_refs_condition cs of
       Some (LC_ResolvedRefs (RR_Resolved _)) \<Rightarrow> replace_condition LC_Programmed (replace_condition LC_Accepted cs)
     | Some (LC_ResolvedRefs (RR_ResolvedWithNotAllowedRoutes _)) \<Rightarrow> replace_condition LC_Programmed (replace_condition LC_Accepted cs)
     | Some (LC_ResolvedRefs (RR_InvalidBackend _)) \<Rightarrow> replace_condition LC_Programmed (replace_condition LC_Accepted cs)
     | Some (LC_ResolvedRefs RR_InvalidAllowedRoutes) \<Rightarrow> replace_condition LC_NotAccepted (insert_condition LC_NotProgrammed cs)
     | Some (LC_ResolvedRefs (RR_RefNotPermitted _)) \<Rightarrow> replace_condition LC_NotAccepted (insert_condition LC_NotProgrammed cs)
     | Some (LC_ResolvedRefs (RR_InvalidCertificates _)) \<Rightarrow> replace_condition LC_NotProgrammed (remove_condition LC_Accepted cs)
     | _ \<Rightarrow> cs)"

definition adjust_listener :: "listener_data \<Rightarrow> listener_data" where
  "adjust_listener d =
     (let cs = adjust_resolved_refs (ld_conditions d)
      in d\<lparr>ld_conditions :=
           (if list_ex (\<lambda>c. condition_discriminant c = condition_discriminant LC_UnresolvedRouteRefs) cs
            then remove_condition (LC_ResolvedRefs RR_InvalidAllowedRoutes)
              (if length (ld_resolved_routes d) = 0
               then replace_condition LC_NotAccepted (replace_condition LC_NotProgrammed cs) else cs)
            else cs)\<rparr>)"

definition adjust_statuses :: "gateway \<Rightarrow> gateway" where
  "adjust_statuses = map_listeners (map_listener_data adjust_listener)"

definition DEPLOYER_CONDITION_MESSAGE :: string where
  "DEPLOYER_CONDITION_MESSAGE = ''Gateway updated by controller''"

fun condition_type_name :: "listener_condition_type \<Rightarrow> string" where
  "condition_type_name CT_ResolvedRefs = ''ResolvedRefs''"
| "condition_type_name CT_Accepted = ''Accepted''"
| "condition_type_name CT_Programmed = ''Programmed''"

fun condition_reason_name :: "listener_condition_reason \<Rightarrow> string" where
  "condition_reason_name CR_InvalidRouteKinds = ''InvalidRouteKinds''"
| "condition_reason_name CR_ResolvedRefs = ''ResolvedRefs''"
| "condition_reason_name CR_InvalidCertificateRef = ''InvalidCertificateRef''"
| "condition_reason_name CR_RefNotPermitted = ''RefNotPermitted''"
| "condition_reason_name CR_Accepted = ''Accepted''"
| "condition_reason_name CR_Programmed = ''Programmed''"

text \<open>One condition of a listener: it replaces the conditions of its type.\<close>

definition report_condition :: "string \<Rightarrow> int option \<Rightarrow> listener_condition \<Rightarrow> listener_status \<Rightarrow> listener_status" where
  "report_condition now generation c st =
     (let (status, ctype, reason) = resolved_type c;
          entry = \<lparr>cond_type = condition_type_name ctype, cond_status = status, cond_reason = condition_reason_name reason,
            cond_message = DEPLOYER_CONDITION_MESSAGE, cond_observed_generation = generation, cond_last_transition_time = now\<rparr>;
          st' = st\<lparr>lst_conditions := filter (\<lambda>x. cond_type x \<noteq> condition_type_name ctype) (lst_conditions st) @ [entry]\<rparr>;
          kinds = Some (map (\<lambda>r. \<lparr>ark_group = None, ark_kind = r\<rparr>) (supported_routes c))
      in case c of
           LC_ResolvedRefs RR_InvalidAllowedRoutes \<Rightarrow> st'
         | LC_ResolvedRefs _ \<Rightarrow> st'\<lparr>lst_supported_kinds := kinds\<rparr>
         | LC_UnresolvedRouteRefs \<Rightarrow> st'\<lparr>lst_supported_kinds := kinds\<rparr>
         | _ \<Rightarrow> st')"

text \<open>\<open>i32::try_from(count).unwrap_or_default()\<close>\<close>

definition attached_count :: "nat \<Rightarrow> 32 word" where
  "attached_count n = (if n < 2 ^ 31 then of_nat n else 0)"

definition listener_status_of :: "string \<Rightarrow> int option \<Rightarrow> listener \<Rightarrow> listener_status" where
  "listener_status_of now generation l = fold (report_condition now generation) (listener_conditions l)
     \<lparr>lst_name = listener_name l, lst_attached_routes = attached_count (listener_attached_routes l),
      lst_conditions = [], lst_supported_kinds = None\<rparr>"

definition empty_gateway_status :: gateway_status where
  "empty_gateway_status = \<lparr>gst_addresses = None, gst_conditions = None, gst_listeners = None\<rparr>"

definition resolve_listeners_statuses :: "string \<Rightarrow> gateway \<Rightarrow> kube_gateway \<Rightarrow> kube_gateway" where
  "resolve_listeners_statuses now g kg =
     kg\<lparr>kg_status := Some ((unwrap_or (kg_status kg) empty_gateway_status)
        \<lparr>gst_listeners := Some (map (listener_status_of now (om_generation (kg_metadata kg))) (gateway_listeners g))\<rparr>)\<rparr>"

text \<open>\<open>GatewayDeployer::deploy_gateway\<close>; a type without a deployer fails the \<open>expect\<close>.\<close>

definition deploy_gateway :: "string \<Rightarrow> gateway_implementation_type list \<Rightarrow> request_context \<Rightarrow> system \<Rightarrow> system option" where
  "deploy_gateway now senders ctx sys =
     (let backend_type = gw_backend_type (rc_gateway ctx);
          g = adjust_statuses (rc_gateway ctx);
          kg = resolve_listeners_statuses now g (rc_kube_gateway ctx)
      in if backend_type \<in> set senders
         then Some (send_event backend_type (Changed g kg (rc_gateway_class_name ctx)) sys) else None)"

subsection \<open>Status of routes\<close>

definition ROUTE_STATUS_MESSAGE :: string where
  "ROUTE_STATUS_MESSAGE = ''Route status updated by controller''"

definition route_condition :: "string \<Rightarrow> string \<Rightarrow> string \<Rightarrow> string \<Rightarrow> condition" where
  "route_condition now ctype status reason =
     \<lparr>cond_type = ctype, cond_status = status, cond_reason = reason, cond_message = ROUTE_STATUS_MESSAGE,
      cond_observed_generation = None, cond_last_transition_time = now\<rparr>"

definition attached_conditions :: "string \<Rightarrow> condition list" where
  "attached_conditions now = [route_condition now ''Accepted'' ''True'' ''Accepted'',
     route_condition now ''ResolvedRefs'' ''True'' ''ResolvedRefs'']"

fun unresolved_conditions :: "string \<Rightarrow> resolution_status \<Rightarrow> condition list" where
  "unresolved_conditions now RS_Resolved = [route_condition now ''Conflicted'' ''False'' ''Invalid'']"
| "unresolved_conditions now (RS_NotResolved InvalidBackend) =
     [route_condition now ''ResolvedRefs'' ''False'' ''InvalidKind'', route_condition now ''Programmed'' ''False'' ''Programmed'',
      route_condition now ''Accepted'' ''True'' ''Accepted'']"
| "unresolved_conditions now (RS_NotResolved BackendNotFound) =
     [route_condition now ''ResolvedRefs'' ''False'' ''BackendNotFound'', route_condition now ''Programmed'' ''False'' ''Programmed'',
      route_condition now ''Accepted'' ''True'' ''Accepted'']"
| "unresolved_conditions now (RS_NotResolved RefNotPermitted) =
     [route_condition now ''ResolvedRefs'' ''False'' ''RefNotPermitted'', route_condition now ''Accepted'' ''True'' ''Accepted'']"
| "unresolved_conditions now (RS_NotResolved NoMatchingParent) =
     [route_condition now ''ResolvedRefs'' ''True'' ''NoMatchingParent'', route_condition now ''Accepted'' ''False'' ''NoMatchingParent'']"
| "unresolved_conditions now (RS_NotResolved _) =
     [route_condition now ''ResolvedRefs'' ''False'' ''ResolvedRefs'', route_condition now ''Programmed'' ''False'' ''Programmed'']"

fun non_attached_conditions :: "string \<Rightarrow> resolution_status \<Rightarrow> condition list" where
  "non_attached_conditions now RS_Resolved = [route_condition now ''Accepted'' ''True'' ''Accepted'',
     route_condition now ''ResolvedRefs'' ''True'' ''ResolvedRefs'']"
| "non_attached_conditions now (RS_NotResolved Unknown) = [route_condition now ''Programmed'' ''False'' ''Uknown reason'']"
| "non_attached_conditions now (RS_NotResolved NotAllowedByListeners) =
     [route_condition now ''Accepted'' ''False'' ''NotAllowedByListeners'', route_condition now ''ResolvedRefs'' ''True'' ''ResolvedRefs'']"
| "non_attached_conditions now (RS_NotResolved RefNotPermitted) =
     [route_condition now ''Accepted'' ''False'' ''RefNotPermitted'', route_condition now ''ResolvedRefs'' ''False'' ''RefNotPermitted'']"
| "non_attached_conditions now (RS_NotResolved NoMatchingListenerHostname) =
     [route_condition now ''Accepted'' ''False'' ''NoMatchingListenerHostname'', route_condition now ''ResolvedRefs'' ''True'' ''ResolvedRefs'']"
| "non_attached_conditions now (RS_NotResolved NoMatchingParent) =
     [route_condition now ''ResolvedRefs'' ''True'' ''NoMatchingParent'', route_condition now ''Accepted'' ''False'' ''NoMatchingParent'']"
| "non_attached_conditions now (RS_NotResolved InvalidBackend) =
     [route_condition now ''ResolvedRefs'' ''False'' ''ResolvedRefs'', route_condition now ''Programmed'' ''False'' ''Programmed'']"
| "non_attached_conditions now (RS_NotResolved BackendNotFound) =
     [route_condition now ''ResolvedRefs'' ''False'' ''ResolvedRefs'', route_condition now ''Programmed'' ''False'' ''Programmed'']"

text \<open>The tables for GRPC routes are functions of their own; a lemma below shows that they agree.\<close>

definition grpc_attached_conditions :: "string \<Rightarrow> condition list" where
  "grpc_attached_conditions now = [route_condition now ''Accepted'' ''True'' ''Accepted'',
     route_condition now ''ResolvedRefs'' ''True'' ''ResolvedRefs'']"

fun grpc_unresolved_conditions :: "string \<Rightarrow> resolution_status \<Rightarrow> condition list" where
  "grpc_unresolved_conditions now RS_Resolved = [route_condition now ''Conflicted'' ''False'' ''Invalid'']"
| "grpc_unresolved_conditions now (RS_NotResolved InvalidBackend) =
     [route_condition now ''ResolvedRefs'' ''False'' ''InvalidKind'', route_condition now ''Programmed'' ''False'' ''Programmed'',
      route_condition now ''Accepted'' ''True'' ''Accepted'']"
| "grpc_unresolved_conditions now (RS_NotResolved BackendNotFound) =
     [route_condition now ''ResolvedRefs'' ''False'' ''BackendNotFound'', route_condition now ''Programmed'' ''False'' ''Programmed'',
      route_condition now ''Accepted'' ''True'' ''Accepted'']"
| "grpc_unresolved_conditions now (RS_NotResolved RefNotPermitted) =
     [route_condition now ''ResolvedRefs'' ''False'' ''RefNotPermitted'', route_condition now ''Accepted'' ''True'' ''Accepted'']"
| "grpc_unresolved_conditions now (RS_NotResolved NoMatchingParent) =
     [route_condition now ''ResolvedRefs'' ''True'' ''NoMatchingParent'', route_condition now ''Accepted'' ''False'' ''NoMatchingParent'']"
| "grpc_unresolved_conditions now (RS_NotResolved _) =
     [route_condition now ''ResolvedRefs'' ''False'' ''ResolvedRefs'', route_condition now ''Programmed'' ''False'' ''Programmed'']"

fun grpc_non_attached_conditions :: "string \<Rightarrow> resolution_status \<Rightarrow> condition list" where
  "grpc_non_attached_conditions now RS_Resolved = [route_condition now ''Accepted'' ''True'' ''Accepted'',
     route_condition now ''ResolvedRefs'' ''True'' ''ResolvedRefs'']"
| "grpc_non_attached_conditions now (RS_NotResolved Unknown) = [route_condition now ''Programmed'' ''False'' ''Uknown reason'']"
| "grpc_non_attached_conditions now (RS_NotResolved NotAllowedByListeners) =
     [route_condition now ''Accepted'' ''False'' ''NotAllowedByListeners'', route_condition now ''ResolvedRefs'' ''True'' ''ResolvedRefs'']"
| "grpc_non_attached_conditions now (RS_NotResolved RefNotPermitted) =
     [route_condition now ''Accepted'' ''False'' ''RefNotPermitted'', route_condition now ''ResolvedRefs'' ''False'' ''RefNotPermitted'']"
| "grpc_non_attached_conditions now (RS_NotResolved NoMatchingListenerHostname) =
     [route_condition now ''Accepted'' ''False'' ''NoMatchingListenerHostname'', route_condition now ''ResolvedRefs'' ''True'' ''ResolvedRefs'']"
| "grpc_non_attached_conditions now (RS_NotResolved NoMatchingParent) =
     [route_condition now ''ResolvedRefs'' ''True'' ''NoMatchingParent'', route_condition now ''Accepted'' ''False'' ''NoMatchingParent'']"
| "grpc_non_attached_conditions now (RS_NotResolved InvalidBackend) =
     [route_condition now ''ResolvedRefs'' ''False'' ''ResolvedRefs'', route_condition now ''Programmed'' ''False'' ''Programmed'']"
| "grpc_non_attached_conditions now (RS_NotResolved BackendNotFound) =
     [route_condition now ''ResolvedRefs'' ''False'' ''ResolvedRefs'', route_condition now ''Programmed'' ''False'' ''Programmed'']"

lemma grpc_same_conditions [simp]:
  "grpc_attached_conditions = attached_conditions" "grpc_unresolved_conditions = unresolved_conditions"
  "grpc_non_attached_conditions = non_attached_conditions"
proof -
  show "grpc_attached_conditions = attached_conditions" by (simp add: fun_eq_iff grpc_attached_conditions_def attached_conditions_def)
  have "grpc_unresolved_conditions now st = unresolved_conditions now st" for now st
    by (cases "(now, st)" rule: unresolved_conditions.cases) simp_all
  then show "grpc_unresolved_conditions = unresolved_conditions" by (simp add: fun_eq_iff)
  have "grpc_non_attached_conditions now st = non_attached_conditions now st" for now st
    by (cases "(now, st)" rule: non_attached_conditions.cases) simp_all
  then show "grpc_non_attached_conditions = non_attached_conditions" by (simp add: fun_eq_iff)
qed

text \<open>The statuses \<open>retain\<close> drops: those this controller wrote for the gateway.\<close>

definition own_status :: "string \<Rightarrow> resource_key \<Rightarrow> parent_route_status \<Rightarrow> bool" where
  "own_status controller gateway_id p \<longleftrightarrow>
     (if pr_namespace (prs_parent_ref p) \<noteq> None
      then prs_controller_name p = controller \<and> pr_namespace (prs_parent_ref p) = Some (rk_namespace gateway_id) \<and>
           rk_name gateway_id = pr_name (prs_parent_ref p)
      else prs_controller_name p = controller \<and> rk_name gateway_id = pr_name (prs_parent_ref p))"

definition report_parents ::
    "string \<Rightarrow> resource_key \<Rightarrow> int option \<Rightarrow> condition list \<Rightarrow> parent_reference list option \<Rightarrow> parent_route_status list option \<Rightarrow>
     parent_route_status list" where
  "report_parents controller gateway_id generation new_conditions parent_refs status =
     filter (\<lambda>p. \<not> own_status controller gateway_id p) (unwrap_or status []) @
     map (\<lambda>p. \<lparr>prs_conditions = map (\<lambda>c. c\<lparr>cond_observed_generation := generation\<rparr>) new_conditions,
              prs_controller_name = controller, prs_parent_ref = p\<rparr>) (unwrap_or parent_refs [])"

definition update_http_route_parents ::
    "string \<Rightarrow> state \<Rightarrow> resource_key \<Rightarrow> route \<Rightarrow> condition list \<Rightarrow> http_route option" where
  "update_http_route_parents controller s gateway_id r new_conditions =
     (case get_http_routes_attached_to_gateway gateway_id s of
        None \<Rightarrow> None
      | Some kube_routes \<Rightarrow>
          map_option (\<lambda>k. k\<lparr>hr_status := Some (report_parents controller gateway_id (om_generation (hr_metadata k)) new_conditions
                 (hrs_parent_refs (hr_spec k)) (hr_status k)),
              hr_metadata := (hr_metadata k)\<lparr>om_managed_fields := None\<rparr>\<rparr>)
            (find (\<lambda>f. om_name (hr_metadata f) = Some (route_name r) \<and> om_namespace (hr_metadata f) = Some (route_namespace r))
               kube_routes))"

definition update_grpc_route_parents ::
    "string \<Rightarrow> state \<Rightarrow> resource_key \<Rightarrow> route \<Rightarrow> condition list \<Rightarrow> grpc_route option" where
  "update_grpc_route_parents controller s gateway_id r new_conditions =
     (case get_grpc_routes_attached_to_gateway gateway_id s of
        None \<Rightarrow> None
      | Some kube_routes \<Rightarrow>
          map_option (\<lambda>k. k\<lparr>gr_status := Some (report_parents controller gateway_id (om_generation (gr_metadata k)) new_conditions
                 (grs_parent_refs (gr_spec k)) (gr_status k)),
              gr_metadata := (gr_metadata k)\<lparr>om_managed_fields := None\<rparr>\<rparr>)
            (find (\<lambda>f. om_name (gr_metadata f) = Some (route_name r) \<and> om_namespace (gr_metadata f) = Some (route_namespace r))
               kube_routes))"

fun only_http_routes :: "route_type \<Rightarrow> bool" where
  "only_http_routes (RT_Http _) = True"
| "only_http_routes (RT_Grpc _) = False"

fun only_grpc_routes :: "route_type \<Rightarrow> bool" where
  "only_grpc_routes (RT_Http _) = False"
| "only_grpc_routes (RT_Grpc _) = True"

text \<open>The routes of a gateway with the conditions reported for each, in the order of the three loops.\<close>

definition reported_routes :: "string \<Rightarrow> (route_type \<Rightarrow> bool) \<Rightarrow> gateway \<Rightarrow> (route \<times> condition list) list" where
  "reported_routes now only g =
     (let (attached_routes, unresolved_routes) = gateway_routes g
      in map (\<lambda>r. (r, attached_conditions now)) (filter (\<lambda>r. only (route_type_of r)) attached_routes) @
         map (\<lambda>r. (r, unresolved_conditions now (route_resolution_status r))) (filter (\<lambda>r. only (route_type_of r)) unresolved_routes) @
         map (\<lambda>r. (r, non_attached_conditions now (route_resolution_status r))) (gw_orphaned_routes g))"

definition reported_grpc_routes :: "string \<Rightarrow> gateway \<Rightarrow> (route \<times> condition list) list" where
  "reported_grpc_routes now g =
     (let (attached_routes, unresolved_routes) = gateway_routes g
      in map (\<lambda>r. (r, grpc_attached_conditions now)) (filter (\<lambda>r. only_grpc_routes (route_type_of r)) attached_routes) @
         map (\<lambda>r. (r, grpc_unresolved_conditions now (route_resolution_status r)))
           (filter (\<lambda>r. only_grpc_routes (route_type_of r)) unresolved_routes) @
         map (\<lambda>r. (r, grpc_non_attached_conditions now (route_resolution_status r))) (gw_orphaned_routes g))"

lemma reported_grpc_routes_same [simp]: "reported_grpc_routes now g = reported_routes now only_grpc_routes g"
  by (simp add: reported_grpc_routes_def reported_routes_def)

definition update_http_routes :: "string \<Rightarrow> string \<Rightarrow> gateway \<Rightarrow> system \<Rightarrow> system" where
  "update_http_routes now controller g sys = fold (\<lambda>(r, conditions) sys.
       case update_http_route_parents controller (sys_state sys) (gw_resource_key g) r conditions of
         Some k \<Rightarrow> send_http_op (PatchStatus (key_of_http_route k) k controller) sys
       | None \<Rightarrow> sys) (reported_routes now only_http_routes g) sys"

definition update_grpc_routes :: "string \<Rightarrow> string \<Rightarrow> gateway \<Rightarrow> system \<Rightarrow> system" where
  "update_grpc_routes now controller g sys = fold (\<lambda>(r, conditions) sys.
       case update_grpc_route_parents controller (sys_state sys) (gw_resource_key g) r conditions of
         Some k \<Rightarrow> send_grpc_op (PatchStatus (key_of_grpc_route k) k controller) sys
       | None \<Rightarrow> sys) (reported_grpc_routes now g) sys"

subsection \<open>Status of a gateway\<close>

definition GATEWAY_CONDITION_MESSAGE :: string where
  "GATEWAY_CONDITION_MESSAGE = ''Gateway status updated by controller''"

fun address_value :: "gateway_address \<Rightarrow> string" where
  "address_value (GA_Hostname hostname) = hostname"
| "address_value (GA_IPAddress ip_addr) = ip_addr"
| "address_value (GA_NamedAddress addr) = addr"

definition update_gateway_status_addresses :: "gateway \<Rightarrow> kube_gateway \<Rightarrow> kube_gateway" where
  "update_gateway_status_addresses g kg =
     kg\<lparr>kg_status := Some ((unwrap_or (kg_status kg) empty_gateway_status)
        \<lparr>gst_addresses := Some (map (\<lambda>a. \<lparr>gsa_type = None, gsa_value = address_value a\<rparr>) (gw_addresses g))\<rparr>)\<rparr>"

definition update_gateway_status_conditions :: "string \<Rightarrow> kube_gateway \<Rightarrow> kube_gateway" where
  "update_gateway_status_conditions now kg =
     (let generation = om_generation (kg_metadata kg);
          status = unwrap_or (kg_status kg) empty_gateway_status;
          kept = filter (\<lambda>f. cond_type f \<noteq> ''Ready'') (unwrap_or (gst_conditions status) []);
          updated = map (\<lambda>f. f\<lparr>cond_last_transition_time := now, cond_observed_generation := generation,
             cond_status := ''True'', cond_reason := ''Ready''\<rparr>) kept;
          ready = \<lparr>cond_type = ''Ready'', cond_status = ''True'', cond_reason = ''Ready'',
             cond_message = GATEWAY_CONDITION_MESSAGE, cond_observed_generation = generation, cond_last_transition_time = now\<rparr>
      in kg\<lparr>kg_status := Some (status\<lparr>gst_conditions := Some (updated @ [ready])\<rparr>)\<rparr>)"

definition clear_gateway_meta :: "kube_gateway \<Rightarrow> kube_gateway" where
  "clear_gateway_meta kg = kg\<lparr>kg_metadata := (kg_metadata kg)\<lparr>om_managed_fields := None\<rparr>\<rparr>"

definition update_gateway_resource :: "string \<Rightarrow> gateway \<Rightarrow> kube_gateway \<Rightarrow> kube_gateway" where
  "update_gateway_resource now g kg =
     clear_gateway_meta (update_gateway_status_conditions now (update_gateway_status_addresses g kg))"

subsection \<open>The service\<close>

text \<open>\<open>GatewayDeployerServiceInternal::on_version_not_changed\<close>\<close>

definition deployer_version_not_changed :: "string \<Rightarrow> resource_key \<Rightarrow> string \<Rightarrow> kube_gateway \<Rightarrow> system \<Rightarrow> system" where
  "deployer_version_not_changed controller gateway_id class_name kg sys =
     (case (case kg_status kg of Some st \<Rightarrow> gst_conditions st | None \<Rightarrow> None) of
        None \<Rightarrow> sys
      | Some conditions \<Rightarrow>
          if list_ex (\<lambda>c. cond_type c = ''Ready'') conditions then
            (let sys1 = send_class_op (add_finalizer_to_gateway_class class_name controller)
                   (on_store (save_gateway gateway_id kg) sys);
                 has_finalizer = (case om_finalizers (kg_metadata kg) of
                     Some finalizers \<Rightarrow> list_ex (\<lambda>f. f = controller) finalizers | None \<Rightarrow> False)
             in if has_finalizer then sys1 else send_gateway_op (add_finalizer gateway_id controller) sys1)
          else sys)"

text \<open>
  A response of a backend deployer. \<open>patch_reply\<close> is the answer to the status patch: the patched
  gateway, or none when it failed.
\<close>

definition gateway_processed ::
    "string \<Rightarrow> string \<Rightarrow> (kube_gateway \<Rightarrow> kube_gateway option) \<Rightarrow> gateway \<Rightarrow> kube_gateway \<Rightarrow> string \<Rightarrow> system \<Rightarrow> system" where
  "gateway_processed now controller patch_reply g kg class_name sys =
     (let gateway_id = gw_resource_key g;
          updated = update_gateway_resource now g kg;
          sys1 = update_grpc_routes now controller g (update_http_routes now controller g sys);
          sys2 = send_gateway_op (PatchStatus gateway_id updated controller) (on_store (save_gateway gateway_id kg) sys1)
      in case patch_reply updated of
           None \<Rightarrow> sys2
         | Some patched \<Rightarrow> deployer_version_not_changed controller gateway_id class_name patched
             (on_store (save_gateway gateway_id patched) sys2))"

fun handle_response ::
    "string \<Rightarrow> string \<Rightarrow> (kube_gateway \<Rightarrow> kube_gateway option) \<Rightarrow> backend_gateway_response \<Rightarrow> system \<Rightarrow> system" where
  "handle_response now controller patch_reply (Processed g) sys = sys"
| "handle_response now controller patch_reply (ProcessedWithContext g kg class_name) sys =
     gateway_processed now controller patch_reply g kg class_name sys"
| "handle_response now controller patch_reply ProcessingError sys = sys"
| "handle_response now controller patch_reply DeletedResponse sys = sys"

subsection \<open>Properties\<close>

text \<open>
  A status reported for a route. The specification: the entry of a parent reference is about the
  gateway whose key the reference has.
\<close>

text \<open>
  C36: the status reported for a stored HTTP route keeps, in order, every entry this controller did
  not write for the gateway, and adds one entry with the new conditions for each parent reference of
  the route; nothing else of the stored object changes apart from the managed fields. So the entry is
  also added for parents that are other gateways, beside the entry they already have.
\<close>

theorem reported_http_status:
  "case update_http_route_parents controller s gateway_id r new_conditions of
     None \<Rightarrow> list_all (\<lambda>k. \<not> (attached s gateway_id (key_of_http_route k) \<and> get_http_route_by_id (key_of_http_route k) s = Some k \<and>
         om_name (hr_metadata k) = Some (route_name r) \<and> om_namespace (hr_metadata k) = Some (route_namespace r)))
       (get_http_routes s)
   | Some k' \<Rightarrow> (\<exists>i k. attached s gateway_id i \<and> get_http_route_by_id i s = Some k \<and>
       om_name (hr_metadata k) = Some (route_name r) \<and> om_namespace (hr_metadata k) = Some (route_namespace r) \<and>
       hr_spec k' = hr_spec k \<and> hr_metadata k' = (hr_metadata k)\<lparr>om_managed_fields := None\<rparr> \<and>
       (case hr_status k' of None \<Rightarrow> False | Some entries \<Rightarrow>
         entries = filter (\<lambda>p. \<not> own_status controller gateway_id p) (unwrap_or (hr_status k) []) @
           drop (length entries - length (unwrap_or (hrs_parent_refs (hr_spec k)) [])) entries \<and>
         map prs_parent_ref (drop (length entries - length (unwrap_or (hrs_parent_refs (hr_spec k)) [])) entries) =
           unwrap_or (hrs_parent_refs (hr_spec k)) [] \<and>
         list_all (\<lambda>e. prs_controller_name e = controller \<and> prs_conditions e =
             map (\<lambda>c. c\<lparr>cond_observed_generation := om_generation (hr_metadata k)\<rparr>) new_conditions)
           (drop (length entries - length (unwrap_or (hrs_parent_refs (hr_spec k)) [])) entries)))"
proof -
  let ?P = "\<lambda>f. om_name (hr_metadata f) = Some (route_name r) \<and> om_namespace (hr_metadata f) = Some (route_namespace r)"
  show ?thesis
  proof (cases "get_http_routes_attached_to_gateway gateway_id s")
    case None
    then have "\<not> attached s gateway_id i" for i
      by (simp add: get_http_routes_attached_to_gateway_def attached_def)
    then show ?thesis using None by (simp add: update_http_route_parents_def list_all_iff)
  next
    case (Some ks)
    show ?thesis
    proof (cases "find ?P ks")
      case None
      then have "\<not> ?P k" if "k \<in> set ks" for k using that by (auto simp: find_None_iff)
      then have "\<not> ?P k" if "attached s gateway_id i" "get_http_route_by_id i s = Some k" for i k
        using that http_routes_attached_mem [OF Some] by blast
      then show ?thesis using Some None by (auto simp: update_http_route_parents_def list_all_iff)
    next
      case found: (Some k)
      from find_Some_mem [OF found] have P: "?P k" and "k \<in> set ks" by auto
      then obtain i where i: "attached s gateway_id i" "get_http_route_by_id i s = Some k"
        using http_routes_attached_mem [OF Some] by blast
      show ?thesis
        unfolding update_http_route_parents_def Some found option.case option.map
        by (intro exI [of _ i] exI [of _ k]) (use i P in \<open>simp add: report_parents_def comp_def list_all_iff\<close>)
    qed
  qed
qed

text \<open>
  A deployed gateway is reported ready: its conditions are those it had except an earlier
  \<open>Ready\<close>, all turned to status true, followed by one \<open>Ready\<close> condition; its addresses are those of
  the deployer, and its specification and listeners stay.
\<close>

lemma deployed_gateway_status:
  "let kg' = update_gateway_resource now g kg in
   kg_spec kg' = kg_spec kg \<and> kg_metadata kg' = (kg_metadata kg)\<lparr>om_managed_fields := None\<rparr> \<and>
   (case kg_status kg' of None \<Rightarrow> False | Some st \<Rightarrow>
      gst_listeners st = (case kg_status kg of Some old \<Rightarrow> gst_listeners old | None \<Rightarrow> None) \<and>
      map_option (map gsa_value) (gst_addresses st) = Some (map address_value (gw_addresses g)) \<and>
      (case gst_conditions st of None \<Rightarrow> False | Some cs \<Rightarrow>
         map cond_type cs = filter (\<lambda>t. t \<noteq> ''Ready'')
           (map cond_type (case kg_status kg of Some old \<Rightarrow> unwrap_or (gst_conditions old) [] | None \<Rightarrow> [])) @ [''Ready''] \<and>
         list_all (\<lambda>c. cond_status c = ''True'' \<and> cond_reason c = ''Ready'' \<and>
           cond_observed_generation c = om_generation (kg_metadata kg)) cs))"
  by (cases "kg_status kg")
    (auto simp: update_gateway_resource_def clear_gateway_meta_def update_gateway_status_conditions_def Let_def
      update_gateway_status_addresses_def empty_gateway_status_def comp_def filter_map list_all_iff)

lemma report_condition_types:
  "distinct (map cond_type (lst_conditions st)) \<Longrightarrow> distinct (map cond_type (lst_conditions (report_condition now gen c st)))"
  by (auto simp: report_condition_def Let_def case_prod_beta distinct_map_filter
      split: listener_condition.split resolved_refs.split)

lemma report_conditions_types:
  "distinct (map cond_type (lst_conditions st)) \<Longrightarrow> distinct (map cond_type (lst_conditions (fold (report_condition now gen) cs st)))"
  by (induction cs arbitrary: st) (simp_all add: report_condition_types)

lemma report_condition_frame [simp]:
  "lst_name (report_condition now gen c st) = lst_name st"
  "lst_attached_routes (report_condition now gen c st) = lst_attached_routes st"
  by (auto simp: report_condition_def Let_def case_prod_beta split: listener_condition.split resolved_refs.split)

lemma report_conditions_frame [simp]:
  "lst_name (fold (report_condition now gen) cs st) = lst_name st"
  "lst_attached_routes (fold (report_condition now gen) cs st) = lst_attached_routes st"
  by (induction cs arbitrary: st) simp_all

lemma adjust_resolved_refs_wf: "conditions_wf cs \<Longrightarrow> conditions_wf (adjust_resolved_refs cs)"
  by (auto simp: adjust_resolved_refs_def insert_condition_def remove_condition_def
      split: option.split listener_condition.split resolved_refs.split)

lemma bset_insert_Nil_simps [simp]:
  "insert_condition c [] = [c]" "replace_condition c [] = [c]"
  by (simp_all add: insert_condition_def replace_condition_def)

text \<open>
  What is reported for a listener whose only condition is the state of its references, which is
  the state after validation: whether it is accepted and programmed, by that state; each condition
  type is reported once, and the number of its attached routes up to the largest 32-bit integer.
\<close>

lemma listener_reported:
  "case ld_conditions d of
     [LC_ResolvedRefs rr] \<Rightarrow>
       (let st = listener_status_of now generation (map_listener_data (\<lambda>_. adjust_listener d) l)
        in lst_name st = lc_name (ld_config d) \<and>
           (if ld_attached_routes d < 2 ^ 31 then unat (lst_attached_routes st) = ld_attached_routes d
            else lst_attached_routes st = 0) \<and>
           map (\<lambda>c. (cond_type c, cond_status c)) (lst_conditions st) =
             (case rr of
                RR_InvalidCertificates _ \<Rightarrow> [(''ResolvedRefs'', ''False''), (''Programmed'', ''False'')]
              | RR_InvalidAllowedRoutes \<Rightarrow> [(''ResolvedRefs'', ''False''), (''Accepted'', ''False''), (''Programmed'', ''False'')]
              | RR_RefNotPermitted _ \<Rightarrow> [(''ResolvedRefs'', ''False''), (''Accepted'', ''False''), (''Programmed'', ''False'')]
              | RR_ResolvedWithNotAllowedRoutes _ \<Rightarrow> [(''ResolvedRefs'', ''False''), (''Accepted'', ''True''), (''Programmed'', ''True'')]
              | RR_Resolved _ \<Rightarrow> [(''ResolvedRefs'', ''True''), (''Accepted'', ''True''), (''Programmed'', ''True'')]
              | RR_InvalidBackend _ \<Rightarrow> [(''ResolvedRefs'', ''True''), (''Accepted'', ''True''), (''Programmed'', ''True'')]))
   | _ \<Rightarrow> True"
proof -
  have count: "if n < 2 ^ 31 then unat (attached_count n) = n else attached_count n = 0" for n
    by (auto simp: attached_count_def unat_of_nat take_bit_eq_mod intro!: mod_less)
  have conds: "map (\<lambda>c. (cond_type c, cond_status c)) (lst_conditions (listener_status_of now generation
        (map_listener_data (\<lambda>_. adjust_listener d) l))) =
      (case rr of
         RR_InvalidCertificates _ \<Rightarrow> [(''ResolvedRefs'', ''False''), (''Programmed'', ''False'')]
       | RR_InvalidAllowedRoutes \<Rightarrow> [(''ResolvedRefs'', ''False''), (''Accepted'', ''False''), (''Programmed'', ''False'')]
       | RR_RefNotPermitted _ \<Rightarrow> [(''ResolvedRefs'', ''False''), (''Accepted'', ''False''), (''Programmed'', ''False'')]
       | RR_ResolvedWithNotAllowedRoutes _ \<Rightarrow> [(''ResolvedRefs'', ''False''), (''Accepted'', ''True''), (''Programmed'', ''True'')]
       | RR_Resolved _ \<Rightarrow> [(''ResolvedRefs'', ''True''), (''Accepted'', ''True''), (''Programmed'', ''True'')]
       | RR_InvalidBackend _ \<Rightarrow> [(''ResolvedRefs'', ''True''), (''Accepted'', ''True''), (''Programmed'', ''True'')])"
    if "ld_conditions d = [LC_ResolvedRefs rr]" for rr
    using that
    by (cases rr) (simp_all add: listener_status_of_def listener_conditions_def adjust_listener_def adjust_resolved_refs_def
        resolved_refs_condition_def bset_get_def insert_condition_def replace_condition_def remove_condition_def bset_remove_def
        Let_def report_condition_def)
  have name: "lst_name (listener_status_of now generation (map_listener_data (\<lambda>_. adjust_listener d) l)) = lc_name (ld_config d)"
    "lst_attached_routes (listener_status_of now generation (map_listener_data (\<lambda>_. adjust_listener d) l)) =
       attached_count (ld_attached_routes d)"
    by (simp_all add: listener_status_of_def listener_name_def listener_attached_routes_def adjust_listener_def Let_def)
  show ?thesis
    using conds name count by (simp split: list.split listener_condition.split add: Let_def)
qed

lemma update_http_routes_eq:
  "fold (\<lambda>(r, conditions) sys. case update_http_route_parents controller (sys_state sys) gid r conditions of
       Some k \<Rightarrow> send_http_op (PatchStatus (key_of_http_route k) k controller) sys | None \<Rightarrow> sys) rs sys =
   sys\<lparr>sys_http_ops := sys_http_ops sys @ map (\<lambda>k. PatchStatus (key_of_http_route k) k controller)
     (List.map_filter (\<lambda>(r, conditions). update_http_route_parents controller (sys_state sys) gid r conditions) rs)\<rparr>"
  by (induction rs arbitrary: sys) (auto simp: List.map_filter_simps send_http_op_def split: option.split)

lemma update_grpc_routes_eq:
  "fold (\<lambda>(r, conditions) sys. case update_grpc_route_parents controller (sys_state sys) gid r conditions of
       Some k \<Rightarrow> send_grpc_op (PatchStatus (key_of_grpc_route k) k controller) sys | None \<Rightarrow> sys) rs sys =
   sys\<lparr>sys_grpc_ops := sys_grpc_ops sys @ map (\<lambda>k. PatchStatus (key_of_grpc_route k) k controller)
     (List.map_filter (\<lambda>(r, conditions). update_grpc_route_parents controller (sys_state sys) gid r conditions) rs)\<rparr>"
  by (induction rs arbitrary: sys) (auto simp: List.map_filter_simps send_grpc_op_def split: option.split)

lemma deployer_version_state:
  "get_gateway k (sys_state (deployer_version_not_changed c i n kg sys)) =
     (if k = i \<and> (case (case kg_status kg of Some st \<Rightarrow> gst_conditions st | None \<Rightarrow> None) of
          Some conditions \<Rightarrow> list_ex (\<lambda>c. cond_type c = ''Ready'') conditions | None \<Rightarrow> False)
      then Some kg else get_gateway k (sys_state sys))"
  by (auto simp: deployer_version_not_changed_def Let_def gateways.lookup_save split: option.split)

lemma processed_gateway:
  "get_gateway k (sys_state (gateway_processed now controller patch_reply g kg class_name sys)) =
     (if k = gw_resource_key g
      then Some (case patch_reply (update_gateway_resource now g kg) of Some patched \<Rightarrow> patched | None \<Rightarrow> kg)
      else get_gateway k (sys_state sys))"
  by (auto simp: gateway_processed_def Let_def update_http_routes_def update_grpc_routes_def update_http_routes_eq
      update_grpc_routes_eq deployer_version_state gateways.lookup_save split: option.split)

text \<open>
  When a deployed gateway is processed, the status of every route it carries that is still stored
  is sent to the patcher of its kind, in the order attached, unresolved, without listener, and the
  status of the gateway itself to the gateway patcher; the attachments and all other objects stay.
\<close>

lemma processed_gateway_reported:
  "let s = sys_state sys; sys' = gateway_processed now controller patch_reply g kg class_name sys in
   sys_http_ops sys' = sys_http_ops sys @ map (\<lambda>k. PatchStatus (key_of_http_route k) k controller)
     (List.map_filter (\<lambda>(r, conditions). update_http_route_parents controller s (gw_resource_key g) r conditions)
       (reported_routes now only_http_routes g)) \<and>
   sys_grpc_ops sys' = sys_grpc_ops sys @ map (\<lambda>k. PatchStatus (key_of_grpc_route k) k controller)
     (List.map_filter (\<lambda>(r, conditions). update_grpc_route_parents controller s (gw_resource_key g) r conditions)
       (reported_routes now only_grpc_routes g)) \<and>
   take (Suc (length (sys_gateway_ops sys))) (sys_gateway_ops sys') =
     sys_gateway_ops sys @ [PatchStatus (gw_resource_key g) (update_gateway_resource now g kg) controller] \<and>
   attached (sys_state sys') = attached s \<and> st_http_routes (sys_state sys') = st_http_routes s \<and>
   st_grpc_routes (sys_state sys') = st_grpc_routes s"
proof -
  have frame: "attached (save_gateway i x s) = attached s" "st_http_routes (save_gateway i x s) = st_http_routes s"
    "st_grpc_routes (save_gateway i x s) = st_grpc_routes s" for i x s
    by (simp_all add: save_gateway_def)
  have dep: "sys_http_ops (deployer_version_not_changed c i n kg sys) = sys_http_ops sys"
    "sys_grpc_ops (deployer_version_not_changed c i n kg sys) = sys_grpc_ops sys"
    "attached (sys_state (deployer_version_not_changed c i n kg sys)) = attached (sys_state sys)"
    "st_http_routes (sys_state (deployer_version_not_changed c i n kg sys)) = st_http_routes (sys_state sys)"
    "st_grpc_routes (sys_state (deployer_version_not_changed c i n kg sys)) = st_grpc_routes (sys_state sys)"
    "\<exists>ops. sys_gateway_ops (deployer_version_not_changed c i n kg sys) = sys_gateway_ops sys @ ops" for c i n kg sys
    by (auto simp: deployer_version_not_changed_def Let_def frame send_class_op_def send_gateway_op_def on_store_def split: option.split)
  have take: "take (Suc (length xs)) (sys_gateway_ops (deployer_version_not_changed c i n kg sys)) = xs @ [x]"
    if "sys_gateway_ops sys = xs @ [x]" for xs x c i n kg sys
    using dep(6) [of c i n kg sys] that by auto
  show ?thesis
    by (auto simp: gateway_processed_def Let_def update_http_routes_def update_grpc_routes_def update_http_routes_eq
        update_grpc_routes_eq dep frame take send_gateway_op_def on_store_def split: option.split)
qed

text \<open>
  A response of a backend deployer stores the gateway it is about even when the gateway has been
  deleted while the deployer worked on it: the deleted gateway is back in the store.
\<close>

lemma processed_gateway_resurrected:
  "get_gateway (gw_resource_key g) (sys_state (handle_response now controller patch_reply (ProcessedWithContext g kg class_name)
     (snd (gateway_deleted env (gw_resource_key g) kg' sys)))) =
   Some (case patch_reply (update_gateway_resource now g kg) of Some patched \<Rightarrow> patched | None \<Rightarrow> kg)"
  by (simp add: processed_gateway)

end
