(* ===== verification/Reference_Grants.thy ===== *)
theory Reference_Grants
  imports Messages State_Store
begin

section \<open>Reference grants\<close>

text \<open>
  \<open>common/references_resolver/reference_grants_resolver.rs\<close>: the references that gateways make
  across namespaces, the reference grants the API server lists for them every ten seconds, and the
  resulting set of allowed references. The resolver tells the validator which gateways are affected
  when that set changes. The listing is the argument \<open>list_grants\<close> of a round: the grants of a
  namespace, or \<open>None\<close> when the request fails. The three sets are ordered sets keyed by
  \<open>grant_key\<close>, the derived order of \<open>ReferenceGrantRef\<close>.
\<close>

subsection \<open>Routes linked to a gateway\<close>

definition find_linked_routes :: "state \<Rightarrow> resource_key \<Rightarrow> route list" where
  "find_linked_routes s gateway_id =
     unwrap_or (map_option (map route_from_http) (get_http_routes_attached_to_gateway gateway_id s)) [] @
     unwrap_or (map_option (map route_from_grpc) (get_grpc_routes_attached_to_gateway gateway_id s)) []"

subsection \<open>References\<close>

record from_resource_key =
  fk_group :: string
  fk_namespace :: string
  fk_kind :: string

record to_resource_key =
  tk_group :: string
  tk_name :: "string option"
  tk_kind :: string

record reference_grant_ref =
  rgr_from :: from_resource_key
  rgr_to :: to_resource_key
  rgr_gateway_key :: resource_key
  rgr_namespace :: string

definition from_key :: "resource_key \<Rightarrow> from_resource_key" where
  "from_key rk = \<lparr>fk_group = rk_group rk, fk_namespace = rk_namespace rk, fk_kind = rk_kind rk\<rparr>"

definition from_key_of_grant :: "reference_grant_from \<Rightarrow> from_resource_key" where
  "from_key_of_grant f = \<lparr>fk_group = rgf_group f, fk_namespace = rgf_namespace f, fk_kind = rgf_kind f\<rparr>"

definition to_key :: "resource_key \<Rightarrow> to_resource_key" where
  "to_key rk = \<lparr>tk_group = (if rk_group rk = [] then DEFAULT_GROUP_NAME else rk_group rk),
     tk_name = (if rk_name rk = [] then None else Some (rk_name rk)), tk_kind = rk_kind rk\<rparr>"

definition to_key_of_grant :: "reference_grant_to \<Rightarrow> to_resource_key" where
  "to_key_of_grant t = \<lparr>tk_group = (if rgt_group t = [] then DEFAULT_GROUP_NAME else rgt_group t),
     tk_name = rgt_name t, tk_kind = rgt_kind t\<rparr>"

definition reference_ref :: "resource_key \<Rightarrow> resource_key \<Rightarrow> resource_key \<Rightarrow> reference_grant_ref" where
  "reference_ref from_rk to_rk gateway_key =
     \<lparr>rgr_from = from_key from_rk, rgr_to = to_key to_rk, rgr_gateway_key = gateway_key,
      rgr_namespace = rk_namespace to_rk\<rparr>"

definition grant_key ::
    "reference_grant_ref \<Rightarrow> string \<times> string \<times> string \<times> string \<times> string option \<times> string \<times> resource_key \<times> string" where
  "grant_key r = (fk_group (rgr_from r), fk_namespace (rgr_from r), fk_kind (rgr_from r),
     tk_group (rgr_to r), tk_name (rgr_to r), tk_kind (rgr_to r), rgr_gateway_key r, rgr_namespace r)"

lemma grant_key_inject: "grant_key a = grant_key b \<longleftrightarrow> a = b"
  by (cases a; cases b; cases "rgr_from a"; cases "rgr_from b"; cases "rgr_to a"; cases "rgr_to b")
    (auto simp: grant_key_def)

subsection \<open>The resolver\<close>

record grants_resolver =
  gres_references :: "reference_grant_ref list"
  gres_resolved :: "reference_grant_ref list"

definition new_grants_resolver :: grants_resolver where
  "new_grants_resolver = \<lparr>gres_references = [], gres_resolved = []\<rparr>"

fun service_reference_of :: "backend \<Rightarrow> resource_key option" where
  "service_reference_of (B_Maybe (BT_Service config)) = Some (stc_resource_key config)"
| "service_reference_of (B_Maybe (BT_Invalid config)) = Some (stc_resource_key config)"
| "service_reference_of _ = None"

definition terminated_certificates :: "gateway \<Rightarrow> certificate list" where
  "terminated_certificates g = concat (map
     (\<lambda>l. case lc_tls_type (ld_config (listener_data_of l)) of Some (TT_Terminate cs) \<Rightarrow> cs | _ \<Rightarrow> [])
     (filter (\<lambda>l. listener_protocol l = P_Https \<or> listener_protocol l = P_Tls) (gateway_listeners g)))"

definition search_references :: "state \<Rightarrow> gateway \<Rightarrow> reference_grant_ref list" where
  "search_references s g =
     (let gateway_key = gw_resource_key g;
          backend_references = fold (\<lambda>r acc. fold (\<lambda>b acc'. case service_reference_of b of
                Some to_rk \<Rightarrow> bset_insert grant_key (reference_ref (route_key r) to_rk gateway_key) acc'
              | None \<Rightarrow> acc') (route_backends r) acc) (find_linked_routes s gateway_key) [];
          secrets_references = fold (\<lambda>c. bset_insert grant_key (reference_ref gateway_key (certificate_key c) gateway_key))
            (terminated_certificates g) []
      in bset_append grant_key backend_references secrets_references)"

definition add_references_by_gateway :: "state \<Rightarrow> gateway \<Rightarrow> grants_resolver \<Rightarrow> grants_resolver" where
  "add_references_by_gateway s g v =
     v\<lparr>gres_references := bset_append grant_key (gres_references v) (search_references s g)\<rparr>"

definition delete_references_by_gateway :: "state \<Rightarrow> gateway \<Rightarrow> grants_resolver \<Rightarrow> grants_resolver" where
  "delete_references_by_gateway s g v =
     v\<lparr>gres_references := filter (\<lambda>r. r \<notin> set (search_references s g)) (gres_references v)\<rparr>"

definition configured_of_grant :: "resource_key \<Rightarrow> reference_grant \<Rightarrow> reference_grant_ref list" where
  "configured_of_grant gateway_key grant = concat (map (\<lambda>f. map (\<lambda>t.
       \<lparr>rgr_from = from_key_of_grant f, rgr_to = to_key_of_grant t, rgr_gateway_key = gateway_key,
        rgr_namespace = unwrap_or (om_namespace (rg_metadata grant)) []\<rparr>) (rg_to grant)) (rg_from grant))"

definition configured_grants ::
    "(string \<Rightarrow> reference_grant list option) \<Rightarrow> reference_grant_ref list \<Rightarrow> reference_grant_ref list" where
  "configured_grants list_grants references = fold (\<lambda>r acc.
       case list_grants (rgr_namespace r) of
         Some grants \<Rightarrow> fold (bset_insert grant_key) (concat (map (configured_of_grant (rgr_gateway_key r)) grants)) acc
       | None \<Rightarrow> acc) references []"

definition drop_name :: "reference_grant_ref \<Rightarrow> reference_grant_ref" where
  "drop_name r = r\<lparr>rgr_to := (rgr_to r)\<lparr>tk_name := None\<rparr>\<rparr>"

definition allowed_grants ::
    "(string \<Rightarrow> reference_grant list option) \<Rightarrow> reference_grant_ref list \<Rightarrow> reference_grant_ref list" where
  "allowed_grants list_grants references =
     (let configured = configured_grants list_grants references
      in fold (\<lambda>r acc. if list_ex (\<lambda>rgr. rgr = r \<or> rgr = drop_name r) configured
                         then bset_insert grant_key r acc else acc) references [])"

definition grant_notice_reference :: resource_key where
  "grant_notice_reference = default_resource_key\<lparr>rk_group := ''ReferenceGrant'', rk_kind := ''ReferenceGrant''\<rparr>"

definition resolve_internal ::
    "(string \<Rightarrow> reference_grant list option) \<Rightarrow> grants_resolver \<Rightarrow> grants_resolver \<times> reference_validate_request list" where
  "resolve_internal list_grants v =
     (let allowed = allowed_grants list_grants (gres_references v);
          removed = filter (\<lambda>r. r \<notin> set allowed) (gres_resolved v);
          added = filter (\<lambda>r. r \<notin> set (gres_resolved v)) allowed;
          changed = bset_from grant_key (added @ removed);
          messages = (if changed \<noteq> [] then
              [UpdatedGateways grant_notice_reference (bset_from (\<lambda>k. k) (map rgr_gateway_key changed))] else [])
      in (v\<lparr>gres_resolved := bset_from grant_key allowed\<rparr>, messages))"

definition is_allowed :: "grants_resolver \<Rightarrow> resource_key \<Rightarrow> resource_key \<Rightarrow> resource_key \<Rightarrow> bool" where
  "is_allowed v from_rk to_rk gateway_key \<longleftrightarrow>
     reference_ref from_rk to_rk gateway_key \<in> set (gres_resolved v)"

subsection \<open>Characterisations\<close>

text \<open>
  A reference is granted when some listing made for its gateway holds a grant in the reference's
  namespace from the referring kind and namespace to the target's kind, by name or for all names.
\<close>

definition granted ::
    "(string \<Rightarrow> reference_grant list option) \<Rightarrow> reference_grant_ref list \<Rightarrow> reference_grant_ref \<Rightarrow> bool" where
  "granted list_grants references r \<longleftrightarrow>
     (\<exists>r'\<in>set references. rgr_gateway_key r = rgr_gateway_key r' \<and>
        (\<exists>grants. list_grants (rgr_namespace r') = Some grants \<and>
          (\<exists>g\<in>set grants. rgr_namespace r = unwrap_or (om_namespace (rg_metadata g)) [] \<and>
             (\<exists>f\<in>set (rg_from g). from_key_of_grant f = rgr_from r) \<and>
             (\<exists>t\<in>set (rg_to g). to_key_of_grant t = rgr_to r \<or> to_key_of_grant t = (rgr_to r)\<lparr>tk_name := None\<rparr>))))"

lemma set_insert_grant: "bset_wf grant_key xs \<Longrightarrow> set (bset_insert grant_key x xs) = insert x (set xs)"
  by (auto simp: set_bset_insert image_iff grant_key_inject)

lemma set_replace_grant: "bset_wf grant_key xs \<Longrightarrow> set (bset_replace grant_key x xs) = insert x (set xs)"
  by (auto simp: set_bset_replace grant_key_inject)

lemma fold_insert_grants:
  "bset_wf grant_key acc \<Longrightarrow>
     bset_wf grant_key (fold (bset_insert grant_key) xs acc) \<and> set (fold (bset_insert grant_key) xs acc) = set xs \<union> set acc"
  by (induction xs arbitrary: acc) (auto simp: set_insert_grant)

lemma set_append_grants: "bset_wf grant_key xs \<Longrightarrow> set (bset_append grant_key xs ys) = set xs \<union> set ys"
  unfolding bset_append_def by (induction ys arbitrary: xs) (auto simp: set_replace_grant)

lemma set_from_grants [simp]: "set (bset_from grant_key ys) = set ys"
  by (simp add: bset_from_def set_append_grants)

lemma configured_of_grant_mem:
  "c \<in> set (configured_of_grant gk g) \<longleftrightarrow> rgr_gateway_key c = gk \<and>
     rgr_namespace c = unwrap_or (om_namespace (rg_metadata g)) [] \<and>
     (\<exists>f\<in>set (rg_from g). from_key_of_grant f = rgr_from c) \<and> (\<exists>t\<in>set (rg_to g). to_key_of_grant t = rgr_to c)"
  by (cases c) (auto simp: configured_of_grant_def)

lemma configured_grants_wf_set:
  "bset_wf grant_key (configured_grants lg rs) \<and>
   set (configured_grants lg rs) =
     {c. \<exists>r\<in>set rs. \<exists>grants. lg (rgr_namespace r) = Some grants \<and> (\<exists>g\<in>set grants. c \<in> set (configured_of_grant (rgr_gateway_key r) g))}"
proof -
  let ?f = "\<lambda>r acc. case lg (rgr_namespace r) of
         Some grants \<Rightarrow> fold (bset_insert grant_key) (concat (map (configured_of_grant (rgr_gateway_key r)) grants)) acc
       | None \<Rightarrow> acc"
  have "bset_wf grant_key (fold ?f rs acc) \<and> set (fold ?f rs acc) = set acc \<union>
     {c. \<exists>r\<in>set rs. \<exists>grants. lg (rgr_namespace r) = Some grants \<and> (\<exists>g\<in>set grants. c \<in> set (configured_of_grant (rgr_gateway_key r) g))}"
    if "bset_wf grant_key acc" for acc
    using that
  proof (induction rs arbitrary: acc)
    case (Cons r rs)
    show ?case
    proof (cases "lg (rgr_namespace r)")
      case None
      then show ?thesis using Cons by simp
    next
      case (Some grants)
      let ?cs = "concat (map (configured_of_grant (rgr_gateway_key r)) grants)"
      from Some fold_insert_grants [OF Cons.prems, of ?cs] Cons.IH [of "fold (bset_insert grant_key) ?cs acc"]
      show ?thesis by auto
    qed
  qed simp
  from this [of "[]"] show ?thesis by (simp add: configured_grants_def)
qed

lemma granted_iff_configured:
  "granted lg rs r \<longleftrightarrow> (\<exists>c\<in>set (configured_grants lg rs). c = r \<or> c = drop_name r)"
proof -
  have "x \<in> set (configured_grants lg rs) \<longleftrightarrow>
     (\<exists>r'\<in>set rs. rgr_gateway_key x = rgr_gateway_key r' \<and>
        (\<exists>grants. lg (rgr_namespace r') = Some grants \<and>
          (\<exists>g\<in>set grants. rgr_namespace x = unwrap_or (om_namespace (rg_metadata g)) [] \<and>
             (\<exists>f\<in>set (rg_from g). from_key_of_grant f = rgr_from x) \<and>
             (\<exists>t\<in>set (rg_to g). to_key_of_grant t = rgr_to x))))" for x
    unfolding conjunct2 [OF configured_grants_wf_set] mem_Collect_eq configured_of_grant_mem by blast
  note mem = this [of r] this [of "drop_name r"]
  have drop: "rgr_gateway_key (drop_name r) = rgr_gateway_key r" "rgr_namespace (drop_name r) = rgr_namespace r"
    "rgr_from (drop_name r) = rgr_from r" "rgr_to (drop_name r) = (rgr_to r)\<lparr>tk_name := None\<rparr>"
    by (simp_all add: drop_name_def)
  have "granted lg rs r \<longleftrightarrow> r \<in> set (configured_grants lg rs) \<or> drop_name r \<in> set (configured_grants lg rs)"
    unfolding granted_def mem drop by blast
  then show ?thesis by blast
qed

lemma allowed_grants_wf_set:
  "bset_wf grant_key (allowed_grants lg rs) \<and> set (allowed_grants lg rs) = {r \<in> set rs. granted lg rs r}"
proof -
  let ?P = "\<lambda>r. list_ex (\<lambda>rgr. rgr = r \<or> rgr = drop_name r) (configured_grants lg rs)"
  have "bset_wf grant_key (fold (\<lambda>r acc. if ?P r then bset_insert grant_key r acc else acc) xs acc) \<and>
     set (fold (\<lambda>r acc. if ?P r then bset_insert grant_key r acc else acc) xs acc) = set acc \<union> {r \<in> set xs. ?P r}"
    if "bset_wf grant_key acc" for xs acc
    using that by (induction xs arbitrary: acc) (auto simp: set_insert_grant)
  from this [of "[]" rs] show ?thesis
    by (simp add: allowed_grants_def Let_def granted_iff_configured list_ex_iff)
qed

definition grants_wf :: "grants_resolver \<Rightarrow> bool" where
  "grants_wf v \<longleftrightarrow> bset_wf grant_key (gres_references v) \<and> bset_wf grant_key (gres_resolved v)"

lemma resolved_after: "set (gres_resolved (fst (resolve_internal lg v))) = {r \<in> set (gres_references v). granted lg (gres_references v) r}"
  using allowed_grants_wf_set [of lg "gres_references v"] by (simp add: resolve_internal_def Let_def)

lemma references_after: "gres_references (fst (resolve_internal lg v)) = gres_references v"
  by (simp add: resolve_internal_def Let_def)

lemma grants_wf_ops:
  assumes "grants_wf v"
  shows "grants_wf (add_references_by_gateway s g v)" "grants_wf (delete_references_by_gateway s g v)"
    "grants_wf (fst (resolve_internal lg v))"
  using assms by (auto simp: grants_wf_def add_references_by_gateway_def delete_references_by_gateway_def
      resolve_internal_def Let_def)

definition changed_refs :: "grants_resolver \<Rightarrow> grants_resolver \<Rightarrow> reference_grant_ref set" where
  "changed_refs v v' = (set (gres_resolved v) - set (gres_resolved v')) \<union> (set (gres_resolved v') - set (gres_resolved v))"

lemma bset_from_Nil_iff: "bset_from key xs = [] \<longleftrightarrow> xs = []"
  using keys_bset_from [of key xs] by (metis image_is_empty set_empty)

lemma resolve_messages:
  "snd (resolve_internal lg v) =
     (if changed_refs v (fst (resolve_internal lg v)) = {} then []
      else [UpdatedGateways grant_notice_reference
              (sorted_list_of_set (rgr_gateway_key ` changed_refs v (fst (resolve_internal lg v))))])"
proof -
  let ?allowed = "allowed_grants lg (gres_references v)"
  let ?delta = "filter (\<lambda>r. r \<notin> set (gres_resolved v)) ?allowed @ filter (\<lambda>r. r \<notin> set ?allowed) (gres_resolved v)"
  let ?changed = "bset_from grant_key ?delta"
  have set: "set ?delta = changed_refs v (fst (resolve_internal lg v))"
    by (auto simp: changed_refs_def resolve_internal_def Let_def)
  have empty: "?changed = [] \<longleftrightarrow> changed_refs v (fst (resolve_internal lg v)) = {}"
    unfolding bset_from_Nil_iff set [symmetric] by (simp only: set_empty)
  have "set (bset_from (\<lambda>k. k) (map rgr_gateway_key ?changed)) = rgr_gateway_key ` changed_refs v (fst (resolve_internal lg v))"
    unfolding set_bset_from_id set_map set_from_grants set ..
  then have sorted: "bset_from (\<lambda>k. k) (map rgr_gateway_key ?changed) =
      sorted_list_of_set (rgr_gateway_key ` changed_refs v (fst (resolve_internal lg v)))"
    by (rule bset_eq_sorted_list_of_set [OF bset_wf_from])
  show ?thesis
    unfolding empty [symmetric] sorted [symmetric] by (simp add: resolve_internal_def Let_def)
qed

subsection \<open>Properties\<close>

text \<open>
  C9: after a round a reference of a gateway is allowed exactly when the gateway has registered it
  and a listed grant covers it: a grant in the target's namespace that names the referring group,
  kind and namespace and the target's group and kind, by name or for every name. Nothing else, in
  particular no earlier round, is enough.
\<close>

theorem grants_decide_references:
  "is_allowed (fst (resolve_internal list_grants v)) from_rk to_rk gateway_key \<longleftrightarrow>
     reference_ref from_rk to_rk gateway_key \<in> set (gres_references v) \<and>
     granted list_grants (gres_references v) (reference_ref from_rk to_rk gateway_key)"
  by (auto simp: is_allowed_def resolved_after)

text \<open>
  A round notifies the validator exactly when the set of allowed references changed, with the
  gateways of the references that were gained or lost, each once; a further round with the same
  listing changes nothing and sends nothing.
\<close>

lemma grants_notify_changes:
  "snd (resolve_internal list_grants v) =
     (if changed_refs v (fst (resolve_internal list_grants v)) = {} then []
      else [UpdatedGateways grant_notice_reference
              (sorted_list_of_set (rgr_gateway_key ` changed_refs v (fst (resolve_internal list_grants v))))]) \<and>
   resolve_internal list_grants (fst (resolve_internal list_grants v)) = (fst (resolve_internal list_grants v), [])"
proof
  show "snd (resolve_internal list_grants v) =
     (if changed_refs v (fst (resolve_internal list_grants v)) = {} then []
      else [UpdatedGateways grant_notice_reference
              (sorted_list_of_set (rgr_gateway_key ` changed_refs v (fst (resolve_internal list_grants v))))])"
    by (rule resolve_messages)
  let ?v = "fst (resolve_internal list_grants v)"
  have stable: "fst (resolve_internal list_grants ?v) = ?v"
    by (simp add: resolve_internal_def Let_def)
  have "snd (resolve_internal list_grants ?v) = []"
    unfolding resolve_messages [of list_grants ?v] stable by (simp add: changed_refs_def)
  with stable show "resolve_internal list_grants ?v = (?v, [])" by (simp add: prod_eq_iff)
qed

text \<open>
  A backend reference that leaves its kind out, which the API defines to mean a service, is
  never allowed by a grant that names a kind: its key has the empty kind and grants are compared
  with that.
\<close>

lemma unkinded_backend_not_granted:
  assumes kinds: "\<And>ns grants g t. list_grants ns = Some grants \<Longrightarrow> g \<in> set grants \<Longrightarrow> t \<in> set (rg_to g) \<Longrightarrow> rgt_kind t \<noteq> []"
    and unkinded: "bor_kind br = None"
  shows "\<not> is_allowed (fst (resolve_internal list_grants v)) from_rk (key_of_backend_reference br ns) gateway_key"
proof
  let ?r = "reference_ref from_rk (key_of_backend_reference br ns) gateway_key"
  assume "is_allowed (fst (resolve_internal list_grants v)) from_rk (key_of_backend_reference br ns) gateway_key"
  then have "granted list_grants (gres_references v) ?r" by (auto simp: is_allowed_def resolved_after)
  then obtain ns' grants g t where t: "list_grants ns' = Some grants" "g \<in> set grants" "t \<in> set (rg_to g)"
    and eq: "to_key_of_grant t = rgr_to ?r \<or> to_key_of_grant t = (rgr_to ?r)\<lparr>tk_name := None\<rparr>"
    unfolding granted_def by blast
  have "rgt_kind t = tk_kind (to_key_of_grant t)" by (simp add: to_key_of_grant_def)
  also have "\<dots> = tk_kind (rgr_to ?r)" using eq by (elim disjE) simp_all
  also have "\<dots> = []" using unkinded by (simp add: reference_ref_def to_key_def key_of_backend_reference_def)
  finally show False using kinds [OF t] by simp
qed

text \<open>A route in \<open>apps\<close>, a service in \<open>data\<close> and a grant between them: with the kind spelled out the reference is allowed.\<close>

definition example_route :: resource_key where
  "example_route = \<lparr>rk_group = DEFAULT_GROUP_NAME, rk_namespace = ''apps'', rk_name = ''r'', rk_kind = ''HTTPRoute''\<rparr>"

definition example_backend :: "string option \<Rightarrow> backend_object_reference" where
  "example_backend kind = \<lparr>bor_group = None, bor_kind = kind, bor_name = ''db'', bor_namespace = Some ''data'', bor_port = None\<rparr>"

definition example_grants :: "string \<Rightarrow> reference_grant list option" where
  "example_grants ns = (if ns = ''data'' then Some [\<lparr>rg_metadata = empty_meta\<lparr>om_namespace := Some ''data''\<rparr>,
     rg_from = [\<lparr>rgf_group = DEFAULT_GROUP_NAME, rgf_kind = ''HTTPRoute'', rgf_namespace = ''apps''\<rparr>],
     rg_to = [\<lparr>rgt_group = [], rgt_kind = ''Service'', rgt_name = None\<rparr>]\<rparr>] else None)"

definition example_resolver :: "string option \<Rightarrow> grants_resolver" where
  "example_resolver kind = \<lparr>gres_references =
     [reference_ref example_route (key_of_backend_reference (example_backend kind) ''apps'') (new_key ''gw'')], gres_resolved = []\<rparr>"

theorem unkinded_backend_not_granted_witness:
  "\<not> is_allowed (fst (resolve_internal example_grants (example_resolver None))) example_route
       (key_of_backend_reference (example_backend None) ''apps'') (new_key ''gw'') \<and>
   is_allowed (fst (resolve_internal example_grants (example_resolver (Some ''Service'')))) example_route
       (key_of_backend_reference (example_backend (Some ''Service'')) ''apps'') (new_key ''gw'')"
proof
  show "\<not> is_allowed (fst (resolve_internal example_grants (example_resolver None))) example_route
       (key_of_backend_reference (example_backend None) ''apps'') (new_key ''gw'')"
    by (rule unkinded_backend_not_granted) (auto simp: example_grants_def example_backend_def split: if_splits)
  show "is_allowed (fst (resolve_internal example_grants (example_resolver (Some ''Service'')))) example_route
       (key_of_backend_reference (example_backend (Some ''Service'')) ''apps'') (new_key ''gw'')"
    by code_simp
qed

end
