(* ===== verification/Reference_Counts.thy ===== *)
theory Reference_Counts
  imports Reference_Grants "HOL-Library.Multiset"
begin

section \<open>Counting references to services and inference pools\<close>

text \<open>
  \<open>common/references_resolver/multi_references_resolver.rs\<close> and \<open>backends_resolver.rs\<close>. A resolver
  remembers, per gateway and route, the objects the route refers to; \<open>parents\<close> counts the
  references to each object and decides which objects are polled; \<open>resolved\<close> holds the last answer
  for each. A counter is a \<open>usize\<close>, so decrementing a zero counter is a panic: \<open>decrement\<close> and
  everything built on it return an option, and the theorems show that \<open>None\<close> is never returned.
  The request to the API server is the argument \<open>answer\<close> of a resolution step; \<open>strip\<close> blanks an
  object's metadata, which the comparison of answers ignores.

  \<^item> locale \<open>reference_tracker\<close>: what the gateway services rely on: references of a gateway that
    was added are tracked until that gateway or the route goes away. Interpreted on this
    resolver, and on the secrets resolver in \<open>Secret_References\<close>.
\<close>

subsection \<open>State\<close>

type_synonym route_mapping = "(resource_key \<times> resource_key list) list"

record 'r multi_refs =
  mr_mapping :: "(resource_key \<times> route_mapping) list"
  mr_parents :: "(resource_key \<times> nat) list"
  mr_resolved :: "(resource_key \<times> 'r) list"

definition new_multi_refs :: "'r multi_refs" where
  "new_multi_refs = \<lparr>mr_mapping = [], mr_parents = [], mr_resolved = []\<rparr>"

definition refs_of_routes :: "route_mapping \<Rightarrow> resource_key list" where
  "refs_of_routes m = concat (map snd m)"

fun increment :: "resource_key \<Rightarrow> (resource_key \<times> nat) list \<Rightarrow> (resource_key \<times> nat) list" where
  "increment k p = (case map_of p k of Some n \<Rightarrow> bset_replace fst (k, n + 1) p | None \<Rightarrow> bset_replace fst (k, 1) p)"

fun decrement :: "resource_key \<Rightarrow> (resource_key \<times> nat) list \<Rightarrow> (resource_key \<times> nat) list option" where
  "decrement k p = (case map_of p k of
       None \<Rightarrow> Some p
     | Some n \<Rightarrow> if n = 0 then None else Some (bset_replace fst (k, n - 1) p))"

fun decrement_all :: "resource_key list \<Rightarrow> (resource_key \<times> nat) list \<Rightarrow> (resource_key \<times> nat) list option" where
  "decrement_all [] p = Some p"
| "decrement_all (k # ks) p = Option.bind (decrement k p) (decrement_all ks)"

definition increment_all :: "resource_key list \<Rightarrow> (resource_key \<times> nat) list \<Rightarrow> (resource_key \<times> nat) list" where
  "increment_all ks p = fold increment ks p"

text \<open>The clean-up that ends every operation: objects with no reference left are forgotten.\<close>

definition purge :: "'r multi_refs \<Rightarrow> 'r multi_refs" where
  "purge st = fold (\<lambda>k st'. st'\<lparr>mr_parents := bset_remove fst k (mr_parents st'),
                                  mr_resolved := bset_remove fst k (mr_resolved st')\<rparr>)
     (map fst (filter (\<lambda>(k, n). n < 1) (mr_parents st))) st"

subsection \<open>Operations\<close>

definition add_references_for_gateway ::
    "resource_key \<Rightarrow> route_mapping \<Rightarrow> 'r multi_refs \<Rightarrow> 'r multi_refs option" where
  "add_references_for_gateway gateway_key mapping st =
     (if mapping = [] then Some st
      else (let mappings_to_delete = (case map_of (mr_mapping st) gateway_key of Some old \<Rightarrow> old | None \<Rightarrow> [])
            in case decrement_all (refs_of_routes mappings_to_delete) (mr_parents st) of
                 None \<Rightarrow> None
               | Some parents \<Rightarrow> Some (purge (st\<lparr>mr_mapping := bset_replace fst (gateway_key, mapping) (mr_mapping st),
                     mr_parents := increment_all (refs_of_routes mapping) parents\<rparr>))))"

definition delete_references_for_gateway :: "resource_key \<Rightarrow> 'r multi_refs \<Rightarrow> 'r multi_refs option" where
  "delete_references_for_gateway gateway_key st = (case map_of (mr_mapping st) gateway_key of
       None \<Rightarrow> Some st
     | Some old_mappings \<Rightarrow> (case decrement_all (refs_of_routes old_mappings) (mr_parents st) of
           None \<Rightarrow> None
         | Some parents \<Rightarrow> Some (purge (st\<lparr>mr_mapping := bset_remove fst gateway_key (mr_mapping st),
               mr_parents := parents\<rparr>))))"

text \<open>
  Deleting a route collects the references of the route on all gateways into one set, so an object
  the route refers to is decremented once, however many gateways carry the route.
\<close>

definition delete_route_references ::
    "resource_key \<Rightarrow> 'r multi_refs \<Rightarrow> (resource_key list \<times> 'r multi_refs) option" where
  "delete_route_references rkey st =
     (let affected = List.map_filter (\<lambda>(g, rm). map_option (\<lambda>refs. (g, refs)) (map_of rm rkey)) (mr_mapping st);
          affected_gateways = bset_from (\<lambda>k. k) (map fst affected);
          resources_to_delete = bset_from (\<lambda>k. k) (concat (map snd affected))
      in case decrement_all resources_to_delete (mr_parents st) of
           None \<Rightarrow> None
         | Some parents \<Rightarrow> Some (affected_gateways,
             purge (st\<lparr>mr_mapping := map (\<lambda>(g, rm). (g, bset_remove fst rkey rm)) (mr_mapping st), mr_parents := parents\<rparr>)))"

definition get_reference :: "resource_key \<Rightarrow> 'r multi_refs \<Rightarrow> 'r option" where
  "get_reference k st = map_of (mr_resolved st) k"

definition polled_references :: "'r multi_refs \<Rightarrow> resource_key list" where
  "polled_references st = bset_from (\<lambda>k. k) (map fst (mr_parents st))"

definition add_resolved_reference ::
    "('r \<Rightarrow> 'r) \<Rightarrow> resource_key \<Rightarrow> 'r \<Rightarrow> 'r multi_refs \<Rightarrow> 'r multi_refs \<times> bool" where
  "add_resolved_reference strip k reference st = (case map_of (mr_resolved st) k of
       Some f \<Rightarrow> if strip f \<noteq> strip reference
                 then (st\<lparr>mr_resolved := bset_replace fst (k, reference) (mr_resolved st)\<rparr>, True) else (st, False)
     | None \<Rightarrow> (st\<lparr>mr_resolved := bset_replace fst (k, reference) (mr_resolved st)\<rparr>, True))"

definition update_gateways :: "resource_key \<Rightarrow> 'r multi_refs \<Rightarrow> reference_validate_request list" where
  "update_gateways k st =
     (let using_key = filter (\<lambda>(g, rm). list_ex (\<lambda>(r, refs). k \<in> set refs) rm) (mr_mapping st)
      in [UpdatedGateways k (bset_from (\<lambda>x. x) (map fst using_key)),
          UpdatedRoutes k (bset_from (\<lambda>x. x) (concat (map (\<lambda>(g, rm). map fst rm) using_key)))])"

text \<open>The task that polls one object: the answer is the object, or \<open>None\<close> for any error.\<close>

definition resolve_answer ::
    "('r \<Rightarrow> 'r) \<Rightarrow> resource_key \<Rightarrow> 'r option \<Rightarrow> 'r multi_refs \<Rightarrow> 'r multi_refs \<times> reference_validate_request list" where
  "resolve_answer strip k answer st = (case answer of
       Some reference \<Rightarrow>
         (let (st', update_gateway) = add_resolved_reference strip k reference st
          in (st', if update_gateway then update_gateways k st' else []))
     | None \<Rightarrow>
         (let st' = st\<lparr>mr_resolved := bset_remove fst k (mr_resolved st)\<rparr>
          in (st', if map_of (mr_resolved st) k \<noteq> None then update_gateways k st' else [])))"

subsection \<open>The backend resolver\<close>

record backend_resolver =
  bres_services :: "service multi_refs"
  bres_pools :: "inference_pool multi_refs"

definition new_backend_resolver :: backend_resolver where
  "new_backend_resolver = \<lparr>bres_services = new_multi_refs, bres_pools = new_multi_refs\<rparr>"

fun maybe_reference :: "backend \<Rightarrow> resource_key option" where
  "maybe_reference (B_Maybe t) = Some (backend_type_key t)"
| "maybe_reference _ = None"

definition service_references :: "state \<Rightarrow> resource_key \<Rightarrow> route_mapping" where
  "service_references s gateway_key = bset_from fst (map
     (\<lambda>r. (route_key r, bset_from (\<lambda>k. k) (filter (\<lambda>k. rk_kind k = ''Service'')
             (List.map_filter maybe_reference (route_backends r @ route_filter_backends r)))))
     (find_linked_routes s gateway_key))"

definition inference_pool_references :: "state \<Rightarrow> resource_key \<Rightarrow> route_mapping" where
  "inference_pool_references s gateway_key = bset_from fst (map
     (\<lambda>r. (route_key r, bset_from (\<lambda>k. k) (filter (\<lambda>k. rk_kind k = ''InferencePool'')
             (List.map_filter maybe_reference (route_backends r)))))
     (find_linked_routes s gateway_key))"

definition add_backend_references :: "state \<Rightarrow> resource_key \<Rightarrow> backend_resolver \<Rightarrow> backend_resolver option" where
  "add_backend_references s gateway_key b =
     Option.bind (add_references_for_gateway gateway_key (service_references s gateway_key) (bres_services b))
       (\<lambda>sv. Option.bind (add_references_for_gateway gateway_key (inference_pool_references s gateway_key) (bres_pools b))
         (\<lambda>pl. Some \<lparr>bres_services = sv, bres_pools = pl\<rparr>))"

definition delete_backend_route_references ::
    "resource_key \<Rightarrow> backend_resolver \<Rightarrow> (resource_key list \<times> backend_resolver) option" where
  "delete_backend_route_references rkey b =
     Option.bind (delete_route_references rkey (bres_services b))
       (\<lambda>(gs, sv). Option.bind (delete_route_references rkey (bres_pools b))
         (\<lambda>(gp, pl). Some (bset_from (\<lambda>k. k) (gs @ gp), \<lparr>bres_services = sv, bres_pools = pl\<rparr>)))"

definition delete_backend_references :: "resource_key \<Rightarrow> backend_resolver \<Rightarrow> backend_resolver option" where
  "delete_backend_references gateway_key b =
     Option.bind (delete_references_for_gateway gateway_key (bres_services b))
       (\<lambda>sv. Option.bind (delete_references_for_gateway gateway_key (bres_pools b))
         (\<lambda>pl. Some \<lparr>bres_services = sv, bres_pools = pl\<rparr>))"

definition get_service_reference :: "resource_key \<Rightarrow> backend_resolver \<Rightarrow> service option" where
  "get_service_reference k b = get_reference k (bres_services b)"

definition get_inference_pool_reference :: "resource_key \<Rightarrow> backend_resolver \<Rightarrow> inference_pool option" where
  "get_inference_pool_reference k b = get_reference k (bres_pools b)"

subsection \<open>Counters\<close>

definition counter :: "(resource_key \<times> nat) list \<Rightarrow> resource_key \<Rightarrow> nat" where
  "counter p k = (case map_of p k of Some n \<Rightarrow> n | None \<Rightarrow> 0)"

lemma counter_increment: "counter (increment k p) k' = counter p k' + (if k' = k then 1 else 0)"
  by (auto simp: counter_def split: option.splits)

lemma counter_increment_all: "counter (increment_all ks p) k = counter p k + count (mset ks) k"
  unfolding increment_all_def
  by (induction ks arbitrary: p) (simp_all add: counter_increment del: increment.simps)

lemma decrement_Some:
  "counter p k > 0 \<Longrightarrow> \<exists>p'. decrement k p = Some p' \<and> counter p' = (counter p)(k := counter p k - 1)"
  by (auto simp: counter_def fun_eq_iff split: option.splits)

lemma decrement_all_Some:
  assumes "\<And>k. count (mset ks) k \<le> counter p k"
  shows "\<exists>p'. decrement_all ks p = Some p' \<and> (\<forall>k. counter p' k = counter p k - count (mset ks) k)"
  using assms
proof (induction ks arbitrary: p)
  case (Cons x ks)
  have "counter p x > 0" using Cons.prems [of x] by simp
  then obtain p' where p': "decrement x p = Some p'" "counter p' = (counter p)(x := counter p x - 1)"
    using decrement_Some by blast
  have "count (mset ks) k \<le> counter p' k" for k
    using Cons.prems [of k] p'(2) by (auto split: if_splits)
  from Cons.IH [OF this] obtain p'' where
    "decrement_all ks p' = Some p''" "\<forall>k. counter p'' k = counter p' k - count (mset ks) k" by blast
  with p' show ?case by (auto simp del: decrement.simps)
qed simp

lemma purge_mapping [simp]: "mr_mapping (purge st) = mr_mapping st"
proof -
  have "mr_mapping (fold (\<lambda>k st'. st'\<lparr>mr_parents := bset_remove fst k (mr_parents st'),
      mr_resolved := bset_remove fst k (mr_resolved st')\<rparr>) ks st) = mr_mapping st" for ks
    by (induction ks arbitrary: st) simp_all
  then show ?thesis by (simp add: purge_def)
qed

lemma purge_maps:
  "map_of (mr_parents (fold (\<lambda>k st'. st'\<lparr>mr_parents := bset_remove fst k (mr_parents st'),
      mr_resolved := bset_remove fst k (mr_resolved st')\<rparr>) ks st)) k =
     (if k \<in> set ks then None else map_of (mr_parents st) k)"
  "map_of (mr_resolved (fold (\<lambda>k st'. st'\<lparr>mr_parents := bset_remove fst k (mr_parents st'),
      mr_resolved := bset_remove fst k (mr_resolved st')\<rparr>) ks st)) k =
     (if k \<in> set ks then None else map_of (mr_resolved st) k)"
  by (induction ks arbitrary: st) auto

subsection \<open>The references in the mapping\<close>

text \<open>\<open>live\<close>: how many routes of gateways in the mapping refer to an object.\<close>

definition live :: "(resource_key \<times> route_mapping) list \<Rightarrow> resource_key multiset" where
  "live m = mset (concat (map (\<lambda>(g, rm). refs_of_routes rm) m))"

lemma live_Nil [simp]: "live [] = {#}"
  by (simp add: live_def)

lemma live_Cons [simp]: "live ((g, rm) # m) = mset (refs_of_routes rm) + live m"
  by (simp add: live_def)

lemma live_remove:
  "bset_wf fst m \<Longrightarrow> map_of m g = Some rm \<Longrightarrow> live (bset_remove fst g m) + mset (refs_of_routes rm) = live m"
proof (induction m)
  case (Cons x m)
  obtain g' rm' where x: "x = (g', rm')" by (cases x)
  show ?case
  proof (cases "g' = g")
    case True
    have "\<forall>y\<in>set m. fst y \<noteq> g" using Cons.prems(1) True x by fastforce
    then have "bset_remove fst g m = m" by (simp add: bset_remove_def filter_id_conv)
    with True Cons.prems(2) x show ?thesis by (simp add: bset_remove_def)
  next
    case False
    with Cons x show ?thesis by (simp add: bset_remove_def)
  qed
qed simp

lemma live_replace:
  "bset_wf fst m \<Longrightarrow>
     live (bset_replace fst (g, new) m) + mset (refs_of_routes (case map_of m g of Some old \<Rightarrow> old | None \<Rightarrow> [])) =
     live m + mset (refs_of_routes new)"
proof (induction m)
  case Nil
  then show ?case by (simp add: refs_of_routes_def)
next
  case (Cons x m)
  obtain g' rm' where x: "x = (g', rm')" by (cases x)
  have none: "map_of m g = None" if "g < g'"
    using that Cons.prems x by (fastforce simp: map_of_eq_None_iff)
  from Cons x none show ?case by (auto simp: refs_of_routes_def)
qed

definition removed_refs :: "resource_key \<Rightarrow> (resource_key \<times> route_mapping) list \<Rightarrow> resource_key multiset" where
  "removed_refs r m = mset (concat (map snd (List.map_filter (\<lambda>(g, rm). map_option (\<lambda>refs. (g, refs)) (map_of rm r)) m)))"

lemma refs_remove:
  "bset_wf fst rm \<Longrightarrow> map_of rm r = Some refs \<Longrightarrow>
     mset (refs_of_routes (bset_remove fst r rm)) + mset refs = mset (refs_of_routes rm)"
proof (induction rm)
  case (Cons x rm)
  obtain r' refs' where x: "x = (r', refs')" by (cases x)
  show ?case
  proof (cases "r' = r")
    case True
    have "\<forall>y\<in>set rm. fst y \<noteq> r" using Cons.prems(1) True x by fastforce
    then have "bset_remove fst r rm = rm" by (simp add: bset_remove_def filter_id_conv)
    with True Cons.prems(2) x show ?thesis by (simp add: bset_remove_def refs_of_routes_def)
  next
    case False
    with Cons x show ?thesis by (simp add: bset_remove_def refs_of_routes_def)
  qed
qed simp

lemma bset_remove_absent: "map_of rm r = None \<Longrightarrow> bset_remove fst r rm = rm"
  by (auto simp: bset_remove_def filter_id_conv map_of_eq_None_iff)

lemma live_remove_route:
  "list_all (\<lambda>(g, rm). bset_wf fst rm) m \<Longrightarrow>
     live (map (\<lambda>(g, rm). (g, bset_remove fst r rm)) m) + removed_refs r m = live m"
proof (induction m)
  case (Cons x m)
  obtain g rm where x: "x = (g, rm)" by (cases x)
  show ?case
  proof (cases "map_of rm r")
    case None
    with Cons x show ?thesis by (simp add: removed_refs_def List.map_filter_simps bset_remove_absent)
  next
    case (Some refs)
    with Cons x refs_remove [of rm r refs] show ?thesis
      by (simp add: removed_refs_def List.map_filter_simps ac_simps)
  qed
qed (simp add: removed_refs_def List.map_filter_simps)

subsection \<open>The invariant\<close>

text \<open>
  Every object has at least as many counted references as the mapping holds, and what is not
  counted is neither polled nor kept.
\<close>

definition mapping_wf :: "(resource_key \<times> route_mapping) list \<Rightarrow> bool" where
  "mapping_wf m \<longleftrightarrow> bset_wf fst m \<and> list_all (\<lambda>(g, rm). bset_wf fst rm) m"

definition counts_ok :: "'r multi_refs \<Rightarrow> bool" where
  "counts_ok st \<longleftrightarrow> mapping_wf (mr_mapping st) \<and>
     (\<forall>k. count (live (mr_mapping st)) k \<le> counter (mr_parents st) k) \<and>
     (\<forall>k n. map_of (mr_parents st) k = Some n \<longrightarrow> 0 < n) \<and> bset_wf fst (mr_parents st)"

definition counts_exact :: "'r multi_refs \<Rightarrow> bool" where
  "counts_exact st \<longleftrightarrow> counts_ok st \<and> counter (mr_parents st) = count (live (mr_mapping st))"

lemma mapping_wf_replace: "mapping_wf m \<Longrightarrow> bset_wf fst new \<Longrightarrow> mapping_wf (bset_replace fst (g, new) m)"
  using bset_replace_subset [of fst "(g, new)" m] by (fastforce simp: mapping_wf_def list_all_iff)

lemma mapping_wf_remove: "mapping_wf m \<Longrightarrow> mapping_wf (bset_remove fst g m)"
  by (auto simp: mapping_wf_def list_all_iff)

lemma bset_wf_map_values: "bset_wf fst (map (\<lambda>(g, rm). (g, f rm)) m) = bset_wf fst m"
  by (induction m) auto

lemma mapping_wf_remove_route: "mapping_wf m \<Longrightarrow> mapping_wf (map (\<lambda>(g, rm). (g, bset_remove fst r rm)) m)"
  by (auto simp: mapping_wf_def list_all_iff bset_wf_map_values)

lemma purge_parents:
  "bset_wf fst (mr_parents st) \<Longrightarrow>
     map_of (mr_parents (purge st)) k = (if counter (mr_parents st) k = 0 then None else map_of (mr_parents st) k)"
proof -
  assume wf: "bset_wf fst (mr_parents st)"
  have "k \<in> set (map fst (filter (\<lambda>(k, n). n < 1) (mr_parents st))) \<longleftrightarrow> map_of (mr_parents st) k = Some 0"
    using bset_wf_distinct [OF wf] by (force simp: map_of_eq_Some_iff)
  then show ?thesis
    unfolding purge_def purge_maps(1) by (auto simp: counter_def split: option.splits)
qed

lemma purge_counter: "bset_wf fst (mr_parents st) \<Longrightarrow> counter (mr_parents (purge st)) = counter (mr_parents st)"
  by (auto simp: fun_eq_iff counter_def purge_parents split: option.splits)

lemma purge_wf: "bset_wf fst (mr_parents st) \<Longrightarrow> bset_wf fst (mr_parents (purge st))"
proof -
  have "bset_wf fst (mr_parents s) \<Longrightarrow> bset_wf fst (mr_parents (fold (\<lambda>k st'. st'\<lparr>mr_parents := bset_remove fst k (mr_parents st'),
      mr_resolved := bset_remove fst k (mr_resolved st')\<rparr>) ks s))" for ks and s :: "'a multi_refs"
    by (induction ks arbitrary: s) auto
  then show "bset_wf fst (mr_parents st) \<Longrightarrow> ?thesis" by (simp add: purge_def)
qed

lemma increment_wf: "bset_wf fst p \<Longrightarrow> bset_wf fst (increment k p)"
  by (auto split: option.splits)

lemma increment_all_wf: "bset_wf fst p \<Longrightarrow> bset_wf fst (increment_all ks p)"
  unfolding increment_all_def by (induction ks arbitrary: p) (auto simp: increment_wf simp del: increment.simps)

lemma decrement_wf: "decrement k p = Some p' \<Longrightarrow> bset_wf fst p \<Longrightarrow> bset_wf fst p'"
  by (auto split: option.splits if_splits)

lemma decrement_all_wf: "decrement_all ks p = Some p' \<Longrightarrow> bset_wf fst p \<Longrightarrow> bset_wf fst p'"
  by (induction ks arbitrary: p) (auto simp del: decrement.simps simp: bind_eq_Some_conv dest: decrement_wf)

lemma counts_ok_purge:
  assumes "mapping_wf (mr_mapping st)" "bset_wf fst (mr_parents st)"
    "\<And>k. count (live (mr_mapping st)) k \<le> counter (mr_parents st) k"
  shows "counts_ok (purge st)"
  using assms by (auto simp: counts_ok_def purge_counter purge_wf purge_parents counter_def split: if_splits)

lemma live_part_le:
  assumes "counts_ok st" "live m + x = live (mr_mapping st)"
  shows "count x k \<le> counter (mr_parents st) k"
proof -
  have "count (live m) k + count x k = count (live (mr_mapping st)) k"
    using arg_cong [OF assms(2), of "\<lambda>m. count m k"] by simp
  moreover have "count (live (mr_mapping st)) k \<le> counter (mr_parents st) k"
    using assms(1) by (simp add: counts_ok_def)
  ultimately show ?thesis by linarith
qed

lemma counts_ok_wf: "counts_ok st \<Longrightarrow> mapping_wf (mr_mapping st)" "counts_ok st \<Longrightarrow> bset_wf fst (mr_parents st)"
  by (simp_all add: counts_ok_def)

lemma old_refs_le:
  assumes "counts_ok st"
  shows "count (mset (refs_of_routes (case map_of (mr_mapping st) g of Some old \<Rightarrow> old | None \<Rightarrow> []))) k \<le> counter (mr_parents st) k"
proof (cases "map_of (mr_mapping st) g")
  case None
  then show ?thesis by (simp add: refs_of_routes_def)
next
  case (Some old)
  have "bset_wf fst (mr_mapping st)" using assms by (simp add: counts_ok_def mapping_wf_def)
  from live_part_le [OF assms live_remove [OF this Some]] Some show ?thesis by simp
qed

text \<open>What adding a gateway's references does to the counters, and that it never underflows.\<close>

lemma add_references_Some:
  assumes "counts_ok st" "bset_wf fst mapping"
  obtains st' where "add_references_for_gateway g mapping st = Some st'" "counts_ok st'"
    "mr_mapping st' = (if mapping = [] then mr_mapping st else bset_replace fst (g, mapping) (mr_mapping st))"
    "counts_exact st \<Longrightarrow> counts_exact st'"
proof (cases "mapping = []")
  case True
  with assms that show ?thesis by (simp add: add_references_for_gateway_def)
next
  case False
  let ?old = "refs_of_routes (case map_of (mr_mapping st) g of Some old \<Rightarrow> old | None \<Rightarrow> [])"
  let ?new = "refs_of_routes mapping"
  let ?m = "bset_replace fst (g, mapping) (mr_mapping st)"
  note wf = counts_ok_wf [OF assms(1)]
  obtain p where p: "decrement_all ?old (mr_parents st) = Some p"
    "\<And>k. counter p k = counter (mr_parents st) k - count (mset ?old) k"
    using decrement_all_Some [of ?old "mr_parents st"] old_refs_le [OF assms(1), of g] by blast
  let ?st = "st\<lparr>mr_mapping := ?m, mr_parents := increment_all ?new p\<rparr>"
  have bal: "count (live ?m) k + count (mset ?old) k = count (live (mr_mapping st)) k + count (mset ?new) k" for k
    using arg_cong [OF live_replace [of "mr_mapping st" g mapping], of "\<lambda>m. count m k"] wf
    by (simp add: mapping_wf_def)
  have cnt: "counter (increment_all ?new p) k = counter (mr_parents st) k - count (mset ?old) k + count (mset ?new) k" for k
    by (simp add: counter_increment_all p(2))
  have ok: "counts_ok (purge ?st)"
  proof (rule counts_ok_purge)
    show "mapping_wf (mr_mapping ?st)" using wf assms(2) by (simp add: mapping_wf_replace)
    show "bset_wf fst (mr_parents ?st)" using decrement_all_wf [OF p(1) wf(2)] by (simp add: increment_all_wf)
    fix k
    have "count (live (mr_mapping st)) k \<le> counter (mr_parents st) k" using assms(1) by (simp add: counts_ok_def)
    with bal [of k] show "count (live (mr_mapping ?st)) k \<le> counter (mr_parents ?st) k" by (simp add: cnt)
  qed
  have res: "add_references_for_gateway g mapping st = Some (purge ?st)"
    using False p(1) by (simp add: add_references_for_gateway_def Let_def)
  have "counts_exact (purge ?st)" if "counts_exact st"
  proof -
    have "bset_wf fst (mr_parents ?st)" using decrement_all_wf [OF p(1) wf(2)] by (simp add: increment_all_wf)
    then have "counter (mr_parents (purge ?st)) k = count (live ?m) k" for k
      using that bal [of k] old_refs_le [OF assms(1), of g k]
      by (simp add: purge_counter cnt counts_exact_def)
    with ok show ?thesis by (simp add: counts_exact_def fun_eq_iff)
  qed
  with that [OF res ok] False show ?thesis by simp
qed

lemma delete_references_Some:
  assumes "counts_ok st"
  obtains st' where "delete_references_for_gateway g st = Some st'" "counts_ok st'"
    "mr_mapping st' = bset_remove fst g (mr_mapping st)" "counts_exact st \<Longrightarrow> counts_exact st'"
proof (cases "map_of (mr_mapping st) g")
  case None
  with assms that show ?thesis by (simp add: delete_references_for_gateway_def bset_remove_absent)
next
  case (Some old)
  let ?m = "bset_remove fst g (mr_mapping st)"
  note wf = counts_ok_wf [OF assms]
  have le: "count (mset (refs_of_routes old)) k \<le> counter (mr_parents st) k" for k
    using old_refs_le [OF assms, of g k] Some by simp
  obtain p where p: "decrement_all (refs_of_routes old) (mr_parents st) = Some p"
    "\<And>k. counter p k = counter (mr_parents st) k - count (mset (refs_of_routes old)) k"
    using decrement_all_Some [OF le] by blast
  let ?st = "st\<lparr>mr_mapping := ?m, mr_parents := p\<rparr>"
  have bal: "count (live ?m) k + count (mset (refs_of_routes old)) k = count (live (mr_mapping st)) k" for k
    using arg_cong [OF live_remove [of "mr_mapping st" g old], of "\<lambda>m. count m k"] wf Some by (simp add: mapping_wf_def)
  have pwf: "bset_wf fst p" using decrement_all_wf [OF p(1) wf(2)] .
  have ok: "counts_ok (purge ?st)"
  proof (rule counts_ok_purge)
    show "mapping_wf (mr_mapping ?st)" using wf by (simp add: mapping_wf_remove)
    show "bset_wf fst (mr_parents ?st)" using pwf by simp
    fix k
    have "count (live (mr_mapping st)) k \<le> counter (mr_parents st) k" using assms by (simp add: counts_ok_def)
    with bal [of k] show "count (live (mr_mapping ?st)) k \<le> counter (mr_parents ?st) k" by (simp add: p(2))
  qed
  have res: "delete_references_for_gateway g st = Some (purge ?st)"
    using Some p(1) by (simp add: delete_references_for_gateway_def)
  have "counts_exact (purge ?st)" if "counts_exact st"
  proof -
    have "counter (mr_parents (purge ?st)) k = count (live ?m) k" for k
      using that bal [of k] pwf by (simp add: purge_counter p(2) counts_exact_def)
    with ok show ?thesis by (simp add: counts_exact_def fun_eq_iff)
  qed
  with that [OF res ok] show ?thesis by simp
qed

lemma count_bset_from: "count (mset (bset_from (\<lambda>k. k) xs)) k = (if k \<in> set xs then 1 else 0)"
proof -
  have "distinct (bset_from (\<lambda>k. k) xs)" using bset_wf_distinct [OF bset_wf_from, of "\<lambda>k. k" xs] by simp
  then show ?thesis by (simp add: distinct_count_atmost_1)
qed

lemma delete_route_Some:
  assumes "counts_ok st"
  obtains gs st' where "delete_route_references r st = Some (gs, st')" "counts_ok st'"
    "mr_mapping st' = map (\<lambda>(g, rm). (g, bset_remove fst r rm)) (mr_mapping st)"
    "gs = bset_from (\<lambda>k. k) (map fst (filter (\<lambda>(g, rm). map_of rm r \<noteq> None) (mr_mapping st)))"
proof -
  let ?aff = "List.map_filter (\<lambda>(g, rm). map_option (\<lambda>refs. (g, refs)) (map_of rm r)) (mr_mapping st)"
  let ?del = "bset_from (\<lambda>k. k) (concat (map snd ?aff))"
  let ?m = "map (\<lambda>(g, rm). (g, bset_remove fst r rm)) (mr_mapping st)"
  note wf = counts_ok_wf [OF assms]
  have part: "live ?m + removed_refs r (mr_mapping st) = live (mr_mapping st)"
    by (rule live_remove_route) (use wf in \<open>simp add: mapping_wf_def\<close>)
  have del: "count (mset ?del) k \<le> count (removed_refs r (mr_mapping st)) k" for k
    unfolding removed_refs_def count_bset_from by (auto simp: count_mset_0_iff Suc_le_eq)
  have le: "count (mset ?del) k \<le> counter (mr_parents st) k" for k
    using del [of k] live_part_le [OF assms part, of k] by linarith
  obtain p where p: "decrement_all ?del (mr_parents st) = Some p"
    "\<And>k. counter p k = counter (mr_parents st) k - count (mset ?del) k"
    using decrement_all_Some [OF le] by blast
  let ?st = "st\<lparr>mr_mapping := ?m, mr_parents := p\<rparr>"
  have ok: "counts_ok (purge ?st)"
  proof (rule counts_ok_purge)
    show "mapping_wf (mr_mapping ?st)" using wf by (simp add: mapping_wf_remove_route)
    show "bset_wf fst (mr_parents ?st)" using decrement_all_wf [OF p(1) wf(2)] by simp
    fix k
    have "count (live (mr_mapping st)) k \<le> counter (mr_parents st) k" using assms by (simp add: counts_ok_def)
    moreover have "count (live ?m) k + count (removed_refs r (mr_mapping st)) k = count (live (mr_mapping st)) k"
      using arg_cong [OF part, of "\<lambda>m. count m k"] by simp
    ultimately show "count (live (mr_mapping ?st)) k \<le> counter (mr_parents ?st) k"
      using del [of k] by (simp add: p(2))
  qed
  have "map fst (List.map_filter (\<lambda>(g, rm). map_option (\<lambda>refs. (g, refs)) (map_of rm r)) m) =
      map fst (filter (\<lambda>(g, rm). map_of rm r \<noteq> None) m)" for m :: "(resource_key \<times> route_mapping) list"
    by (induction m) (auto simp: List.map_filter_simps split: option.splits)
  then have gs: "map fst (List.map_filter (\<lambda>(g, rm). map_option (Pair g) (map_of rm r)) (mr_mapping st)) =
      map fst (filter (\<lambda>(g, rm). map_of rm r \<noteq> None) (mr_mapping st))" by simp
  have "delete_route_references r st = Some (bset_from (\<lambda>k. k) (map fst ?aff), purge ?st)"
    using p(1) by (simp add: delete_route_references_def Let_def)
  from that [OF this ok] gs show ?thesis by simp
qed

lemma resolve_answer_counts [simp]:
  "mr_mapping (fst (resolve_answer strip k a st)) = mr_mapping st"
  "mr_parents (fst (resolve_answer strip k a st)) = mr_parents st"
  by (auto simp: resolve_answer_def add_resolved_reference_def Let_def split: option.splits)

lemma counts_ok_resolve: "counts_ok st \<Longrightarrow> counts_ok (fst (resolve_answer strip k a st))"
  by (simp add: counts_ok_def)


subsection \<open>Contract of a reference tracker\<close>

datatype ('g, 'm) tracker_event = Register 'g 'm | Unregister 'g 'm

fun run_events :: "('e \<Rightarrow> 's \<Rightarrow> 's option) \<Rightarrow> 'e list \<Rightarrow> 's \<Rightarrow> 's option" where
  "run_events step [] s = Some s"
| "run_events step (e # es) s = Option.bind (step e s) (run_events step es)"

fun event_gateway :: "('g, 'm) tracker_event \<Rightarrow> 'g" where
  "event_gateway (Register g _) = g"
| "event_gateway (Unregister g _) = g"

fun tracker_step :: "('g \<Rightarrow> 'm \<Rightarrow> 's \<Rightarrow> 's option) \<Rightarrow> ('g \<Rightarrow> 'm \<Rightarrow> 's \<Rightarrow> 's option) \<Rightarrow>
    ('g, 'm) tracker_event \<Rightarrow> 's \<Rightarrow> 's option" where
  "tracker_step reg unreg (Register g m) s = reg g m s"
| "tracker_step reg unreg (Unregister g m) s = unreg g m s"

locale reference_tracker =
  fixes inv :: "'s \<Rightarrow> bool"
    and ok :: "'m \<Rightarrow> bool"
    and refs :: "'m \<Rightarrow> 'k set"
    and holds :: "'s \<Rightarrow> 'g \<Rightarrow> 'k \<Rightarrow> bool"
    and tracked :: "'s \<Rightarrow> 'k \<Rightarrow> bool"
    and reg :: "'g \<Rightarrow> 'm \<Rightarrow> 's \<Rightarrow> 's option"
    and unreg :: "'g \<Rightarrow> 'm \<Rightarrow> 's \<Rightarrow> 's option"
  assumes held_tracked: "inv s \<Longrightarrow> holds s g k \<Longrightarrow> tracked s k"
    and reg_total: "inv s \<Longrightarrow> ok m \<Longrightarrow> \<exists>s'. reg g m s = Some s' \<and> inv s' \<and> (\<forall>k\<in>refs m. holds s' g k) \<and>
          (\<forall>g' k. g' \<noteq> g \<longrightarrow> holds s' g' k = holds s g' k)"
    and unreg_total: "inv s \<Longrightarrow> \<exists>s'. unreg g m s = Some s' \<and> inv s' \<and>
          (\<forall>g' k. g' \<noteq> g \<longrightarrow> holds s' g' k = holds s g' k)"
begin

lemma others_keep:
  assumes "inv s" "\<And>g m. Register g m \<in> set es \<Longrightarrow> ok m" "\<And>e. e \<in> set es \<Longrightarrow> event_gateway e \<noteq> g"
  shows "\<exists>s'. run_events (tracker_step reg unreg) es s = Some s' \<and> inv s' \<and> (\<forall>k. holds s' g k = holds s g k)"
  using assms
proof (induction es arbitrary: s)
  case (Cons e es)
  have "\<exists>s'. tracker_step reg unreg e s = Some s' \<and> inv s' \<and> (\<forall>k. holds s' g k = holds s g k)"
  proof (cases e)
    case (Register g' m)
    then have "ok m" "g' \<noteq> g" using Cons.prems(2) [of g' m] Cons.prems(3) [of e] by auto
    with Register reg_total [OF Cons.prems(1), of m g'] show ?thesis by auto
  next
    case (Unregister g' m)
    then have "g' \<noteq> g" using Cons.prems(3) [of e] by auto
    with Unregister unreg_total [OF Cons.prems(1), of g' m] show ?thesis by auto
  qed
  then obtain s1 where s1: "tracker_step reg unreg e s = Some s1" "inv s1" "\<forall>k. holds s1 g k = holds s g k" by blast
  from Cons.IH [OF s1(2)] Cons.prems obtain s2 where
    "run_events (tracker_step reg unreg) es s1 = Some s2" "inv s2" "\<forall>k. holds s2 g k = holds s1 g k"
    by (metis list.set_intros(2))
  with s1 show ?case by auto
qed simp

text \<open>What a gateway registers stays tracked while only other gateways come and go.\<close>

lemma tracked_until_dropped:
  assumes "inv s" "ok m" "k \<in> refs m" "\<And>g m. Register g m \<in> set es \<Longrightarrow> ok m" "\<And>e. e \<in> set es \<Longrightarrow> event_gateway e \<noteq> g"
  shows "\<exists>s'. run_events (tracker_step reg unreg) (Register g m # es) s = Some s' \<and> inv s' \<and> holds s' g k \<and> tracked s' k"
proof -
  obtain s1 where s1: "reg g m s = Some s1" "inv s1" "holds s1 g k" using reg_total [OF assms(1,2), of g] assms(3) by blast
  obtain s2 where "run_events (tracker_step reg unreg) es s1 = Some s2" "inv s2" "\<forall>k. holds s2 g k = holds s1 g k"
    using others_keep [OF s1(2), of es g] assms(4,5) by blast
  with s1 held_tracked show ?thesis by auto
qed

end

definition gateway_refers :: "'r multi_refs \<Rightarrow> resource_key \<Rightarrow> resource_key \<Rightarrow> bool" where
  "gateway_refers st g k \<longleftrightarrow> (case map_of (mr_mapping st) g of None \<Rightarrow> False | Some rm \<Rightarrow> k \<in> set (refs_of_routes rm))"

definition is_polled :: "'r multi_refs \<Rightarrow> resource_key \<Rightarrow> bool" where
  "is_polled st k \<longleftrightarrow> k \<in> set (polled_references st)"

lemma is_polled_iff: "is_polled st k \<longleftrightarrow> map_of (mr_parents st) k \<noteq> None"
  by (simp add: is_polled_def polled_references_def map_of_eq_None_iff)

lemma live_mem: "(g, rm) \<in> set m \<Longrightarrow> k \<in> set (refs_of_routes rm) \<Longrightarrow> k \<in># live m"
  by (auto simp: live_def)

lemma gateway_refers_live: "gateway_refers st g k \<Longrightarrow> k \<in># live (mr_mapping st)"
  by (auto simp: gateway_refers_def split: option.splits dest!: map_of_SomeD intro: live_mem)

lemma counts_ok_polled:
  assumes "counts_ok st" "k \<in># live (mr_mapping st)"
  shows "is_polled st k"
proof -
  have "0 < count (live (mr_mapping st)) k" using assms(2) by simp
  also have "\<dots> \<le> counter (mr_parents st) k" using assms(1) by (simp add: counts_ok_def)
  finally show ?thesis by (auto simp: is_polled_iff counter_def split: option.splits)
qed

interpretation backends: reference_tracker "counts_ok :: 'r multi_refs \<Rightarrow> bool" "bset_wf fst"
    "\<lambda>m. if m = [] then {} else set (refs_of_routes m)" gateway_refers is_polled
    add_references_for_gateway "\<lambda>g m. delete_references_for_gateway g"
proof
  fix s :: "'r multi_refs" and g k
  assume "counts_ok s" "gateway_refers s g k"
  then show "is_polled s k" by (intro counts_ok_polled gateway_refers_live)
next
  fix s :: "'r multi_refs" and m :: route_mapping and g
  assume "counts_ok s" "bset_wf fst m"
  then show "\<exists>s'. add_references_for_gateway g m s = Some s' \<and> counts_ok s' \<and>
      (\<forall>k\<in>if m = [] then {} else set (refs_of_routes m). gateway_refers s' g k) \<and>
      (\<forall>g' k. g' \<noteq> g \<longrightarrow> gateway_refers s' g' k = gateway_refers s g' k)"
    by (rule add_references_Some [of s m g]) (auto simp: gateway_refers_def)
next
  fix s :: "'r multi_refs" and g and m :: "(resource_key \<times> resource_key list) list"
  assume "counts_ok s"
  then show "\<exists>s'. delete_references_for_gateway g s = Some s' \<and> counts_ok s' \<and>
      (\<forall>g' k. g' \<noteq> g \<longrightarrow> gateway_refers s' g' k = gateway_refers s g' k)"
    by (rule delete_references_Some [of s g]) (auto simp: gateway_refers_def)
qed

subsection \<open>Properties\<close>

datatype 'r refs_event =
    Ev_Add resource_key "(resource_key \<times> resource_key list) list"
  | Ev_Delete resource_key
  | Ev_Delete_Route resource_key
  | Ev_Answer resource_key "'r option"

fun refs_step :: "('r \<Rightarrow> 'r) \<Rightarrow> 'r refs_event \<Rightarrow> 'r multi_refs \<Rightarrow> 'r multi_refs option" where
  "refs_step strip (Ev_Add g routes) st = add_references_for_gateway g (bset_from fst routes) st"
| "refs_step strip (Ev_Delete g) st = delete_references_for_gateway g st"
| "refs_step strip (Ev_Delete_Route r) st = map_option snd (delete_route_references r st)"
| "refs_step strip (Ev_Answer k a) st = Some (fst (resolve_answer strip k a st))"

fun is_delete_route :: "'r refs_event \<Rightarrow> bool" where
  "is_delete_route (Ev_Delete_Route _) = True"
| "is_delete_route _ = False"

lemma refs_step_ok:
  assumes "counts_ok st"
  shows "\<exists>st'. refs_step strip e st = Some st' \<and> counts_ok st' \<and> (counts_exact st \<and> \<not> is_delete_route e \<longrightarrow> counts_exact st')"
proof (cases e)
  case (Ev_Add g routes)
  then show ?thesis using add_references_Some [OF assms bset_wf_from, of g routes] by auto
next
  case (Ev_Delete g)
  then show ?thesis using delete_references_Some [OF assms, of g] by auto
next
  case (Ev_Delete_Route r)
  then show ?thesis using delete_route_Some [OF assms, of r] by fastforce
next
  case (Ev_Answer k a)
  with assms show ?thesis by (simp add: counts_ok_resolve counts_exact_def)
qed

lemma run_refs_ok:
  "counts_ok st \<Longrightarrow> \<exists>st'. run_events (refs_step strip) es st = Some st' \<and> counts_ok st' \<and>
     (counts_exact st \<and> list_all (\<lambda>e. \<not> is_delete_route e) es \<longrightarrow> counts_exact st')"
proof (induction es arbitrary: st)
  case (Cons e es)
  from refs_step_ok [OF Cons.prems, of strip e] obtain st1 where
    1: "refs_step strip e st = Some st1" "counts_ok st1" "counts_exact st \<and> \<not> is_delete_route e \<longrightarrow> counts_exact st1" by blast
  from Cons.IH [OF 1(2)] 1 show ?case by auto
qed simp

lemma counts_new: "counts_ok new_multi_refs" "counts_exact new_multi_refs"
  by (simp_all add: counts_ok_def counts_exact_def new_multi_refs_def mapping_wf_def counter_def fun_eq_iff)

text \<open>
  C7: no sequence of gateway additions and deletions, route deletions and answers of the API server
  makes a reference counter underflow, and in the state it leads to every object some route of a
  registered gateway refers to is still polled.
\<close>

theorem references_never_lost:
  "(case run_events (refs_step strip) events new_multi_refs of
      None \<Rightarrow> False
    | Some st \<Rightarrow> set_mset (live (mr_mapping st)) \<subseteq> set (polled_references st) \<and>
        list_all (\<lambda>(k, n). 0 < n \<and> count (live (mr_mapping st)) k \<le> n) (mr_parents st))"
proof -
  obtain st where st: "run_events (refs_step strip) events new_multi_refs = Some st" "counts_ok st"
    using run_refs_ok [OF counts_new(1)] by blast
  have "set_mset (live (mr_mapping st)) \<subseteq> set (polled_references st)"
    using counts_ok_polled [OF st(2)] by (auto simp: is_polled_def)
  moreover have "list_all (\<lambda>(k, n). 0 < n \<and> count (live (mr_mapping st)) k \<le> n) (mr_parents st)"
  proof (unfold list_all_iff, rule ballI)
    fix x assume x: "x \<in> set (mr_parents st)"
    obtain k n where kn: "x = (k, n)" by (cases x)
    with x st(2) have "map_of (mr_parents st) k = Some n"
      by (simp add: counts_ok_def map_of_eq_Some_iff bset_wf_distinct)
    moreover have "count (live (mr_mapping st)) k \<le> counter (mr_parents st) k" using st(2) by (simp add: counts_ok_def)
    ultimately show "case x of (k, n) \<Rightarrow> 0 < n \<and> count (live (mr_mapping st)) k \<le> n"
      using st(2) kn by (auto simp: counts_ok_def counter_def)
  qed
  ultimately show ?thesis by (simp add: st(1))
qed

text \<open>
  C33: as long as no route is deleted the counters are exact: each object is counted once for every
  route of every registered gateway that refers to it, and only objects still referred to are polled.
\<close>

theorem references_counted_exactly:
  "(case run_events (refs_step strip) (filter (\<lambda>e. \<not> is_delete_route e) events) new_multi_refs of
      None \<Rightarrow> False
    | Some st \<Rightarrow> counter (mr_parents st) = count (live (mr_mapping st)) \<and>
        set (polled_references st) = set_mset (live (mr_mapping st)))"
proof -
  let ?es = "filter (\<lambda>e. \<not> is_delete_route e) events"
  have "list_all (\<lambda>e. \<not> is_delete_route e) ?es" by (simp add: list_all_iff)
  then obtain st where st: "run_events (refs_step strip) ?es new_multi_refs = Some st" "counts_ok st" "counts_exact st"
    using run_refs_ok [OF counts_new(1), of strip ?es] counts_new(2) by blast
  have "k \<in> set (polled_references st) \<longleftrightarrow> k \<in># live (mr_mapping st)" for k
  proof -
    have "k \<in> set (polled_references st) \<longleftrightarrow> 0 < counter (mr_parents st) k"
      using st(2) is_polled_iff [of st k] by (auto simp: is_polled_def counts_ok_def counter_def split: option.splits)
    also have "\<dots> \<longleftrightarrow> k \<in># live (mr_mapping st)" using st(3) by (simp add: counts_exact_def)
    finally show ?thesis .
  qed
  with st show ?thesis by (auto simp: counts_exact_def)
qed

text \<open>
  Deleting a route leaks its references when two gateways carry it. The references of the two
  gateways are collected into one set and decremented once, so the object stays counted, and polled
  every second, although no route of any gateway refers to it; deleting the gateways afterwards does
  not help.
\<close>

definition leak_key :: "string \<Rightarrow> resource_key" where
  "leak_key n = new_key n"

lemma deleted_route_leaks_references:
  "map_option (\<lambda>st. (mset (concat (map (refs_of_routes \<circ> snd) (mr_mapping st))), polled_references st))
     (run_events (refs_step (\<lambda>r :: service. r))
       [Ev_Add (leak_key ''gw1'') [(leak_key ''route'', [leak_key ''svc''])],
        Ev_Add (leak_key ''gw2'') [(leak_key ''route'', [leak_key ''svc''])],
        Ev_Delete_Route (leak_key ''route''),
        Ev_Delete (leak_key ''gw1''), Ev_Delete (leak_key ''gw2'')] new_multi_refs) =
   Some ({#}, [leak_key ''svc''])"
  by code_simp

lemma bset_from_id_sorted: "bset_from (\<lambda>k. k) xs = sorted_list_of_set (set xs)"
  by (rule bset_eq_sorted_list_of_set [OF bset_wf_from set_bset_from_id])

text \<open>
  An answer of the API server is announced exactly when it changes what is known of the object
  apart from its metadata (its first appearance and its disappearance included), to the gateways
  with a route that refers to it.
\<close>

lemma answers_announced:
  "snd (resolve_answer strip k answer st) =
     (if map_option strip (get_reference k (fst (resolve_answer strip k answer st))) = map_option strip (get_reference k st)
      then [] else update_gateways k st) \<and>
   map_option strip (get_reference k (fst (resolve_answer strip k answer st))) = map_option strip answer \<and>
   update_gateways k st = [UpdatedGateways k (sorted_list_of_set {g. \<exists>rm. (g, rm) \<in> set (mr_mapping st) \<and> k \<in> set (refs_of_routes rm)}),
     UpdatedRoutes k (sorted_list_of_set {r. \<exists>g rm. (g, rm) \<in> set (mr_mapping st) \<and> k \<in> set (refs_of_routes rm) \<and> r \<in> fst ` set rm})]"
proof (intro conjI)
  have upd: "update_gateways k (st\<lparr>mr_resolved := x\<rparr>) = update_gateways k st" for x
    by (simp add: update_gateways_def)
  show "snd (resolve_answer strip k answer st) =
     (if map_option strip (get_reference k (fst (resolve_answer strip k answer st))) = map_option strip (get_reference k st)
      then [] else update_gateways k st)"
    by (auto simp: resolve_answer_def add_resolved_reference_def get_reference_def upd Let_def split: option.splits)
  show "map_option strip (get_reference k (fst (resolve_answer strip k answer st))) = map_option strip answer"
    by (auto simp: resolve_answer_def add_resolved_reference_def get_reference_def Let_def split: option.splits)
  have ex: "list_ex (\<lambda>(r, refs). k \<in> set refs) rm \<longleftrightarrow> k \<in> set (refs_of_routes rm)" for rm
    by (induction rm) (auto simp: refs_of_routes_def)
  have g: "set (map fst (filter (\<lambda>(g, rm). list_ex (\<lambda>(r, refs). k \<in> set refs) rm) (mr_mapping st))) =
      {g. \<exists>rm. (g, rm) \<in> set (mr_mapping st) \<and> k \<in> set (refs_of_routes rm)}"
    unfolding ex by (auto simp: image_iff)
  have r: "set (concat (map (\<lambda>(g, rm). map fst rm) (filter (\<lambda>(g, rm). list_ex (\<lambda>(r, refs). k \<in> set refs) rm) (mr_mapping st)))) =
      {r. \<exists>g rm. (g, rm) \<in> set (mr_mapping st) \<and> k \<in> set (refs_of_routes rm) \<and> r \<in> fst ` set rm}"
    unfolding ex by auto
  show "update_gateways k st = [UpdatedGateways k (sorted_list_of_set {g. \<exists>rm. (g, rm) \<in> set (mr_mapping st) \<and> k \<in> set (refs_of_routes rm)}),
     UpdatedRoutes k (sorted_list_of_set {r. \<exists>g rm. (g, rm) \<in> set (mr_mapping st) \<and> k \<in> set (refs_of_routes rm) \<and> r \<in> fst ` set rm})]"
    unfolding update_gateways_def Let_def bset_from_id_sorted g r by (rule refl)
qed

end
