(* ===== verification/Backend_Resolution.thy ===== *)
theory Backend_Resolution
  imports Reference_Counts Listener_Matching Inference_Status
begin

section \<open>Resolving the backends of routes\<close>

text \<open>
  \<open>controllers/utils/routes_resolver.rs\<close>: for every route linked to a gateway, whether each of its
  backends may be used and exists, and then which listeners carry the route. The answers of the
  API server are the record \<open>cluster\<close>. Resolving an inference pool also saves the pool's status and
  sends it to the pool patcher: \<open>world\<close> is the shared state with the operations sent so far. The
  source resolves the routes of one gateway as concurrent futures; here they run one after the
  other, in the order of the list.
\<close>

subsection \<open>Environment\<close>

record cluster =
  cl_pods :: "string \<Rightarrow> (string \<times> string) list \<Rightarrow> string option list option"
  cl_service_exists :: "string \<Rightarrow> string \<Rightarrow> bool"
  cl_patch_pool :: "inference_pool \<Rightarrow> bool"
  cl_namespaces :: "object_meta list option"

record resolve_env =
  re_gateway_key :: resource_key
  re_backends :: backend_resolver
  re_grants :: grants_resolver
  re_controller_name :: string
  re_now :: string
  re_cluster :: cluster

type_synonym world = "state \<times> inference_pool operation list"

definition resolve_namespaces :: "object_meta list option \<Rightarrow> namespace_labels" where
  "resolve_namespaces answer = (case answer of
       None \<Rightarrow> []
     | Some namespaces \<Rightarrow> fold (\<lambda>meta namespace_map. case om_labels meta of
           None \<Rightarrow> namespace_map
         | Some labels \<Rightarrow> (case map_of labels ''kubernetes.io/metadata.name'' of
               None \<Rightarrow> namespace_map
             | Some name \<Rightarrow> bset_replace fst (name, labels) namespace_map)) namespaces [])"

subsection \<open>Services\<close>

definition is_permitted :: "string \<Rightarrow> string \<Rightarrow> string \<Rightarrow> bool" where
  "is_permitted gateway_ns route_ns backend_ns \<longleftrightarrow> gateway_ns \<noteq> route_ns \<or> backend_ns = gateway_ns"

definition backend_remap_port :: "32 word \<Rightarrow> service \<Rightarrow> 32 word" where
  "backend_remap_port port svc = (case svc_spec svc of
       None \<Rightarrow> port
     | Some spec \<Rightarrow>
         if (case ssp_cluster_ip spec of Some cluster_ip \<Rightarrow> cluster_ip \<noteq> KUBERNETES_NONE | None \<Rightarrow> False) then port
         else (case find (\<lambda>sp. sp_port sp = port) (unwrap_or (ssp_ports spec) []) of
             Some sp \<Rightarrow> (case sp_target_port sp of
                 Some (IOS_Int port_value) \<Rightarrow> port_value
               | Some (IOS_String _) \<Rightarrow> port
               | None \<Rightarrow> port)
           | None \<Rightarrow> port))"

definition resolve_service ::
    "resolve_env \<Rightarrow> resource_key \<Rightarrow> service_type_config \<Rightarrow> backend \<times> resolution_status" where
  "resolve_service env route_rk config =
     (let backend_rk = stc_resource_key config in
      if is_allowed (re_grants env) route_rk backend_rk (re_gateway_key env) \<or>
         is_permitted (rk_namespace (re_gateway_key env)) (rk_namespace route_rk) (rk_namespace backend_rk)
      then (case get_service_reference backend_rk (re_backends env) of
              Some svc \<Rightarrow> (B_Resolved (BT_Service (config\<lparr>stc_effective_port := backend_remap_port (stc_port config) svc\<rparr>)), RS_Resolved)
            | None \<Rightarrow> (B_Unresolved (BT_Service config), RS_NotResolved BackendNotFound))
      else (B_NotAllowed (BT_Service config), RS_NotResolved RefNotPermitted))"

fun process_service_backend :: "resolve_env \<Rightarrow> resource_key \<Rightarrow> backend \<Rightarrow> backend \<times> resolution_status" where
  "process_service_backend env route_rk (B_Maybe (BT_Service config)) = resolve_service env route_rk config"
| "process_service_backend env route_rk (B_Maybe (BT_Invalid config)) = resolve_service env route_rk config"
| "process_service_backend env route_rk (B_Unresolved t) = (B_Unresolved t, RS_NotResolved InvalidBackend)"
| "process_service_backend env route_rk (B_NotAllowed t) = (B_NotAllowed t, RS_NotResolved InvalidBackend)"
| "process_service_backend env route_rk (B_Invalid t) = (B_Invalid t, RS_NotResolved InvalidBackend)"
| "process_service_backend env route_rk (B_Maybe t) = (B_Maybe t, RS_NotResolved InvalidBackend)"
| "process_service_backend env route_rk (B_Resolved t) = (B_Resolved t, RS_Resolved)"

subsection \<open>Inference pools\<close>

definition get_inference_extension :: "cluster \<Rightarrow> string \<Rightarrow> inference_pool_spec \<Rightarrow> bool" where
  "get_inference_extension cl namespace spec = cl_service_exists cl namespace (epr_name (ips_endpoint_picker_ref spec))"

definition get_model_endpoints :: "cluster \<Rightarrow> string \<Rightarrow> inference_pool_spec \<Rightarrow> string list" where
  "get_model_endpoints cl namespace spec = (case cl_pods cl namespace (ips_selector spec) of
       Some pods \<Rightarrow> List.map_filter (\<lambda>ip. ip) pods
     | None \<Rightarrow> [])"

definition resolve_inference_pool ::
    "resolve_env \<Rightarrow> resource_key \<Rightarrow> inference_pool_type_config \<Rightarrow> world \<Rightarrow> (backend \<times> resolution_status) \<times> world" where
  "resolve_inference_pool env route_rk config = (\<lambda>(s, sent).
     let backend_rk = iptc_resource_key config;
         unresolved = (\<lambda>c. (B_Unresolved (BT_InferencePool c), RS_NotResolved BackendNotFound))
     in if is_permitted (rk_namespace (re_gateway_key env)) (rk_namespace route_rk) (rk_namespace backend_rk) then
       (case get_inference_pool_reference backend_rk (re_backends env) of
          Some resolved_pool \<Rightarrow>
            (let pool_rk = key_of_inference_pool resolved_pool;
                 pool = unwrap_or (get_inference_pool pool_rk s) resolved_pool;
                 spec = ip_spec pool;
                 model_endpoints = get_model_endpoints (re_cluster env) (rk_namespace route_rk) spec;
                 resolved_picker = (case epr_kind (ips_endpoint_picker_ref spec) of
                     None \<Rightarrow> get_inference_extension (re_cluster env) (rk_namespace route_rk) spec
                   | Some val \<Rightarrow> if val = ''Service'' then get_inference_extension (re_cluster env) (rk_namespace route_rk) spec
                                 else False);
                 config' = config\<lparr>iptc_inference_config := Some spec, iptc_target_ports := ips_target_ports spec,
                                  iptc_endpoints := Some model_endpoints\<rparr>;
                 gateways = find_gateways_by_inference_pool pool_rk s
             in if om_name (ip_metadata pool) \<noteq> None then
                  (let pool' = clear_managed_fields
                         (update_inference_pool_parents (re_now env) (re_controller_name env) gateways pool resolved_picker);
                       w' = (save_inference_pool pool_rk pool' s, sent @ [PatchStatus pool_rk pool' (re_controller_name env)])
                   in if cl_patch_pool (re_cluster env) pool'
                      then ((B_Resolved (BT_InferencePool config'), RS_Resolved), w')
                      else (unresolved config', w'))
                else (unresolved config', (s, sent)))
        | None \<Rightarrow> (unresolved config, (s, sent)))
     else ((B_NotAllowed (BT_InferencePool config), RS_NotResolved RefNotPermitted), (s, sent)))"

fun process_inference_pool_backend ::
    "resolve_env \<Rightarrow> resource_key \<Rightarrow> backend \<Rightarrow> world \<Rightarrow> (backend \<times> resolution_status) \<times> world" where
  "process_inference_pool_backend env route_rk (B_Maybe (BT_InferencePool config)) w = resolve_inference_pool env route_rk config w"
| "process_inference_pool_backend env route_rk (B_Unresolved t) w = ((B_Unresolved t, RS_NotResolved InvalidBackend), w)"
| "process_inference_pool_backend env route_rk (B_NotAllowed t) w = ((B_NotAllowed t, RS_NotResolved InvalidBackend), w)"
| "process_inference_pool_backend env route_rk (B_Invalid t) w = ((B_Invalid t, RS_NotResolved InvalidBackend), w)"
| "process_inference_pool_backend env route_rk (B_Maybe t) w = ((B_Maybe t, RS_NotResolved InvalidBackend), w)"
| "process_inference_pool_backend env route_rk (B_Resolved t) w = ((B_Resolved t, RS_Resolved), w)"

subsection \<open>Backends of a rule\<close>

fun is_service_backend :: "backend_type \<Rightarrow> bool" where
  "is_service_backend (BT_Service _) = True"
| "is_service_backend (BT_Invalid _) = True"
| "is_service_backend (BT_InferencePool _) = False"

definition worse :: "resolution_status \<Rightarrow> resolution_status \<Rightarrow> resolution_status" where
  "worse current new = (if new \<noteq> RS_Resolved then new else current)"

fun process_pools ::
    "resolve_env \<Rightarrow> resource_key \<Rightarrow> backend list \<Rightarrow> world \<Rightarrow> (backend \<times> resolution_status) list \<times> world" where
  "process_pools env route_rk [] w = ([], w)"
| "process_pools env route_rk (b # bs) w =
     (let (r, w1) = process_inference_pool_backend env route_rk b w; (rs, w2) = process_pools env route_rk bs w1
      in (r # rs, w2))"

definition process_backends ::
    "resolve_env \<Rightarrow> resource_key \<Rightarrow> backend list \<Rightarrow> world \<Rightarrow> (backend list \<times> resolution_status) \<times> world" where
  "process_backends env route_rk bs w =
     (let service_backends = filter (\<lambda>b. is_service_backend (backend_type_of b)) bs;
          pool_backends = filter (\<lambda>b. \<not> is_service_backend (backend_type_of b)) bs;
          (pools, w') = process_pools env route_rk pool_backends w;
          results = map (process_service_backend env route_rk) service_backends @ pools
      in ((map fst results, fold (\<lambda>r st. worse st (snd r)) results RS_Resolved), w'))"

fun resolve_http_rules ::
    "resolve_env \<Rightarrow> resource_key \<Rightarrow> http_routing_rule list \<Rightarrow> resolution_status \<Rightarrow> world \<Rightarrow>
     (http_routing_rule list \<times> resolution_status) \<times> world" where
  "resolve_http_rules env route_rk [] st w = (([], st), w)"
| "resolve_http_rules env route_rk (rule # rules) st w =
     (let ((new_backends, st1), w1) = process_backends env route_rk (hru_backends rule) w;
          ((new_filter_backends, st2), w2) = process_backends env route_rk (hru_filter_backends rule) w1;
          ((rules', st'), w') = resolve_http_rules env route_rk rules (worse (worse st st1) st2) w2
      in ((rule\<lparr>hru_backends := new_backends, hru_filter_backends := new_filter_backends\<rparr> # rules', st'), w'))"

fun resolve_grpc_rules ::
    "resolve_env \<Rightarrow> resource_key \<Rightarrow> grpc_routing_rule list \<Rightarrow> resolution_status \<Rightarrow> world \<Rightarrow>
     (grpc_routing_rule list \<times> resolution_status) \<times> world" where
  "resolve_grpc_rules env route_rk [] st w = (([], st), w)"
| "resolve_grpc_rules env route_rk (rule # rules) st w =
     (let ((new_backends, st1), w1) = process_backends env route_rk (gru_backends rule) w;
          ((rules', st'), w') = resolve_grpc_rules env route_rk rules (worse st st1) w1
      in ((rule\<lparr>gru_backends := new_backends\<rparr> # rules', st'), w'))"

definition resolve_route :: "resolve_env \<Rightarrow> route \<Rightarrow> world \<Rightarrow> route \<times> world" where
  "resolve_route env r w = (case route_type_of r of
       RT_Http rules \<Rightarrow> (let ((rules', st), w') = resolve_http_rules env (route_key r) rules RS_Resolved w
                         in (r\<lparr>route_type_of := RT_Http rules', route_resolution_status := st\<rparr>, w'))
     | RT_Grpc rules \<Rightarrow> (let ((rules', st), w') = resolve_grpc_rules env (route_key r) rules RS_Resolved w
                         in (r\<lparr>route_type_of := RT_Grpc rules', route_resolution_status := st\<rparr>, w')))"

fun resolve_routes :: "resolve_env \<Rightarrow> route list \<Rightarrow> world \<Rightarrow> route list \<times> world" where
  "resolve_routes env [] w = ([], w)"
| "resolve_routes env (r # rs) w =
     (let (r', w1) = resolve_route env r w; (rs', w2) = resolve_routes env rs w1 in (r' # rs', w2))"

subsection \<open>Routes of a gateway\<close>

definition attach_to_listener :: "route \<Rightarrow> string \<Rightarrow> (string \<times> route list) list \<Rightarrow> (string \<times> route list) list" where
  "attach_to_listener r name m = (case map_of m name of
       Some routes \<Rightarrow> AList.update name (bset_insert route_key r routes) m
     | None \<Rightarrow> AList.update name (bset_insert route_key r []) m)"

definition calculate_attached_routes :: "route_to_listeners list \<Rightarrow> (string \<times> route list) list" where
  "calculate_attached_routes mapped_routes =
     fold (\<lambda>mapping. fold (\<lambda>l. attach_to_listener (rtl_route mapping) (li_name l)) (rtl_listeners mapping)) mapped_routes []"

definition is_resolved_route :: "route \<Rightarrow> bool" where
  "is_resolved_route r \<longleftrightarrow> route_resolution_status r = RS_Resolved"

definition validate_routes ::
    "(string \<Rightarrow> (string \<Rightarrow> bool) option) \<Rightarrow> resolve_env \<Rightarrow> kube_gateway \<Rightarrow> gateway \<Rightarrow> world \<Rightarrow> gateway \<times> world" where
  "validate_routes dp env kg g w =
     (let (linked_routes, w') = resolve_routes env (find_linked_routes (fst w) (gw_resource_key g)) w;
          (mapped, no_listeners) = filter_matching_routes dp (resolve_namespaces (cl_namespaces (re_cluster env))) kg linked_routes;
          g' = fold (\<lambda>(k, routes). update_listener k (update_routes
                  (bset_from route_key (filter is_resolved_route routes))
                  (bset_from route_key (filter (\<lambda>r. \<not> is_resolved_route r) routes))))
                (calculate_attached_routes mapped) g
      in (g'\<lparr>gw_orphaned_routes := bset_from route_key no_listeners\<rparr>, w'))"

subsection \<open>Backends keep their identity\<close>

lemma resolve_service_key [simp]:
  "backend_key (fst (resolve_service env rk c)) = stc_resource_key c"
  by (auto simp: resolve_service_def Let_def split: option.splits)

lemma process_service_key [simp]: "backend_key (fst (process_service_backend env rk b)) = backend_key b"
  by (cases "(env, rk, b)" rule: process_service_backend.cases) simp_all

lemma resolve_pool_key [simp]: "backend_key (fst (fst (resolve_inference_pool env rk c w))) = iptc_resource_key c"
  by (cases w) (auto simp: resolve_inference_pool_def Let_def split: option.splits)

lemma process_pool_key [simp]: "backend_key (fst (fst (process_inference_pool_backend env rk b w))) = backend_key b"
  by (cases "(env, rk, b, w)" rule: process_inference_pool_backend.cases) simp_all

lemma process_pools_keys: "map (\<lambda>r. backend_key (fst r)) (fst (process_pools env rk bs w)) = map backend_key bs"
proof (induction bs arbitrary: w)
  case (Cons b bs)
  obtain r w1 where r: "process_inference_pool_backend env rk b w = (r, w1)" by (metis surj_pair)
  obtain rs w2 where rs: "process_pools env rk bs w1 = (rs, w2)" by (metis surj_pair)
  have "backend_key (fst r) = backend_key b" using process_pool_key [of env rk b w] by (simp add: r)
  moreover have "map (\<lambda>r. backend_key (fst r)) rs = map backend_key bs" using Cons.IH [of w1] by (simp add: rs)
  ultimately show ?case by (simp add: r rs)
qed simp

definition services_first :: "backend list \<Rightarrow> backend list" where
  "services_first bs = filter (\<lambda>b. is_service_backend (backend_type_of b)) bs @
     filter (\<lambda>b. \<not> is_service_backend (backend_type_of b)) bs"

lemma process_backends_keys:
  "map backend_key (fst (fst (process_backends env rk bs w))) = map backend_key (services_first bs)"
proof -
  let ?pb = "filter (\<lambda>b. \<not> is_service_backend (backend_type_of b)) bs"
  have "map backend_key (map fst (fst (process_pools env rk ?pb w))) = map backend_key ?pb"
    using process_pools_keys [of env rk ?pb w] by (simp add: comp_def)
  then show ?thesis by (simp add: process_backends_def services_first_def Let_def comp_def case_prod_beta)
qed

subsection \<open>Status and resolved backends\<close>

fun is_resolved_backend :: "backend \<Rightarrow> bool" where
  "is_resolved_backend (B_Resolved _) = True"
| "is_resolved_backend _ = False"

lemma process_service_status:
  "snd (process_service_backend env rk b) = RS_Resolved \<longleftrightarrow> is_resolved_backend (fst (process_service_backend env rk b))"
  by (cases "(env, rk, b)" rule: process_service_backend.cases)
    (auto simp: resolve_service_def Let_def split: option.splits)

lemma process_pool_status:
  "snd (fst (process_inference_pool_backend env rk b w)) = RS_Resolved \<longleftrightarrow>
     is_resolved_backend (fst (fst (process_inference_pool_backend env rk b w)))"
  by (cases "(env, rk, b, w)" rule: process_inference_pool_backend.cases)
    (auto simp: resolve_inference_pool_def Let_def split: option.splits prod.splits)

lemma process_pools_status:
  "list_all (\<lambda>r. snd r = RS_Resolved \<longleftrightarrow> is_resolved_backend (fst r)) (fst (process_pools env rk bs w))"
proof (induction bs arbitrary: w)
  case (Cons b bs)
  obtain r w1 where r: "process_inference_pool_backend env rk b w = (r, w1)" by (metis surj_pair)
  obtain rs w2 where rs: "process_pools env rk bs w1 = (rs, w2)" by (metis surj_pair)
  from Cons.IH [of w1] process_pool_status [of env rk b w] show ?case by (simp add: r rs)
qed simp

lemma worse_resolved [simp]: "worse a b = RS_Resolved \<longleftrightarrow> a = RS_Resolved \<and> b = RS_Resolved"
  by (simp add: worse_def)

lemma fold_worse_resolved:
  "fold (\<lambda>r st. worse st (f r)) rs st = RS_Resolved \<longleftrightarrow> st = RS_Resolved \<and> list_all (\<lambda>r. f r = RS_Resolved) rs"
  by (induction rs arbitrary: st) auto

lemma process_backends_status:
  "snd (fst (process_backends env rk bs w)) = RS_Resolved \<longleftrightarrow>
     list_all is_resolved_backend (fst (fst (process_backends env rk bs w)))"
proof -
  let ?sb = "filter (\<lambda>b. is_service_backend (backend_type_of b)) bs"
  let ?pb = "filter (\<lambda>b. \<not> is_service_backend (backend_type_of b)) bs"
  let ?rs = "map (process_service_backend env rk) ?sb @ fst (process_pools env rk ?pb w)"
  have "list_all (\<lambda>r. snd r = RS_Resolved \<longleftrightarrow> is_resolved_backend (fst r)) ?rs"
    using process_pools_status [of env rk ?pb w] by (auto simp: list_all_iff process_service_status)
  then have "list_all (\<lambda>r. snd r = RS_Resolved) ?rs \<longleftrightarrow> list_all is_resolved_backend (map fst ?rs)"
    by (simp add: list_all_iff) blast
  then show ?thesis
    by (simp add: process_backends_def Let_def case_prod_beta fold_worse_resolved)
qed

lemma resolve_http_status:
  "snd (fst (resolve_http_rules env rk rules st w)) = RS_Resolved \<longleftrightarrow> st = RS_Resolved \<and>
     list_all is_resolved_backend (rules_backends (RT_Http (fst (fst (resolve_http_rules env rk rules st w)))) @
       rules_filter_backends (RT_Http (fst (fst (resolve_http_rules env rk rules st w)))))"
proof (induction rules arbitrary: st w)
  case (Cons rule rules)
  obtain bs st1 w1 where 1: "process_backends env rk (hru_backends rule) w = ((bs, st1), w1)" by (metis surj_pair)
  obtain fs st2 w2 where 2: "process_backends env rk (hru_filter_backends rule) w1 = ((fs, st2), w2)" by (metis surj_pair)
  obtain rs st3 w3 where 3: "resolve_http_rules env rk rules (worse (worse st st1) st2) w2 = ((rs, st3), w3)" by (metis surj_pair)
  from Cons.IH [of "worse (worse st st1) st2" w2] process_backends_status [of env rk "hru_backends rule" w]
    process_backends_status [of env rk "hru_filter_backends rule" w1]
  show ?case by (auto simp: 1 2 3)
qed simp

lemma resolve_grpc_status:
  "snd (fst (resolve_grpc_rules env rk rules st w)) = RS_Resolved \<longleftrightarrow> st = RS_Resolved \<and>
     list_all is_resolved_backend (rules_backends (RT_Grpc (fst (fst (resolve_grpc_rules env rk rules st w)))))"
proof (induction rules arbitrary: st w)
  case (Cons rule rules)
  obtain bs st1 w1 where 1: "process_backends env rk (gru_backends rule) w = ((bs, st1), w1)" by (metis surj_pair)
  obtain rs st3 w3 where 3: "resolve_grpc_rules env rk rules (worse st st1) w1 = ((rs, st3), w3)" by (metis surj_pair)
  from Cons.IH [of "worse st st1" w1] process_backends_status [of env rk "gru_backends rule" w]
  show ?case by (auto simp: 1 3)
qed simp

lemma resolve_http_keys:
  "map (map backend_key \<circ> hru_backends) (fst (fst (resolve_http_rules env rk rules st w))) =
     map (map backend_key \<circ> services_first \<circ> hru_backends) rules"
proof (induction rules arbitrary: st w)
  case (Cons rule rules)
  obtain bs st1 w1 where 1: "process_backends env rk (hru_backends rule) w = ((bs, st1), w1)" by (metis surj_pair)
  obtain fs st2 w2 where 2: "process_backends env rk (hru_filter_backends rule) w1 = ((fs, st2), w2)" by (metis surj_pair)
  obtain rs st3 w3 where 3: "resolve_http_rules env rk rules (worse (worse st st1) st2) w2 = ((rs, st3), w3)" by (metis surj_pair)
  from Cons.IH [of "worse (worse st st1) st2" w2] process_backends_keys [of env rk "hru_backends rule" w]
  show ?case by (auto simp: 1 2 3)
qed simp

lemma resolve_grpc_mirrors:
  "map gru_filter_backends (fst (fst (resolve_grpc_rules env rk rules st w))) = map gru_filter_backends rules"
proof (induction rules arbitrary: st w)
  case (Cons rule rules)
  obtain bs st1 w1 where 1: "process_backends env rk (gru_backends rule) w = ((bs, st1), w1)" by (metis surj_pair)
  obtain rs st3 w3 where 3: "resolve_grpc_rules env rk rules (worse st st1) w1 = ((rs, st3), w3)" by (metis surj_pair)
  from Cons.IH [of "worse st st1" w1] show ?case by (auto simp: 1 3)
qed simp

subsection \<open>Who may use a backend\<close>

text \<open>
  \<open>may_use\<close>: the decision for a service: a grant covers the reference, or the route lives outside
  the gateway's namespace, or the service lives inside it.
\<close>

definition may_use :: "resolve_env \<Rightarrow> resource_key \<Rightarrow> resource_key \<Rightarrow> bool" where
  "may_use env route_rk backend_rk \<longleftrightarrow> is_allowed (re_grants env) route_rk backend_rk (re_gateway_key env) \<or>
     rk_namespace route_rk \<noteq> rk_namespace (re_gateway_key env) \<or> rk_namespace backend_rk = rk_namespace (re_gateway_key env)"

fun unresolved_before :: "backend \<Rightarrow> bool" where
  "unresolved_before (B_Resolved _) = False"
| "unresolved_before _ = True"

lemma process_service_may_use:
  "unresolved_before b \<Longrightarrow> is_resolved_backend (fst (process_service_backend env rk b)) \<Longrightarrow> may_use env rk (backend_key b)"
  by (cases "(env, rk, b)" rule: process_service_backend.cases)
    (auto simp: resolve_service_def Let_def may_use_def is_permitted_def split: option.splits if_splits)

lemma process_pool_may_use:
  "unresolved_before b \<Longrightarrow> is_resolved_backend (fst (fst (process_inference_pool_backend env rk b w))) \<Longrightarrow> may_use env rk (backend_key b)"
  by (cases "(env, rk, b, w)" rule: process_inference_pool_backend.cases)
    (auto simp: resolve_inference_pool_def Let_def may_use_def is_permitted_def split: option.splits if_splits prod.splits)

lemma process_pools_may_use:
  "list_all unresolved_before bs \<Longrightarrow>
     list_all (\<lambda>r. is_resolved_backend (fst r) \<longrightarrow> may_use env rk (backend_key (fst r))) (fst (process_pools env rk bs w))"
proof (induction bs arbitrary: w)
  case (Cons b bs)
  obtain r w1 where r: "process_inference_pool_backend env rk b w = (r, w1)" by (metis surj_pair)
  obtain rs w2 where rs: "process_pools env rk bs w1 = (rs, w2)" by (metis surj_pair)
  from Cons process_pool_may_use [of b env rk w] process_pool_key [of env rk b w] Cons.IH [of w1] show ?case
    by (simp add: r rs)
qed simp

lemma process_backends_may_use:
  assumes "list_all unresolved_before bs"
  shows "list_all (\<lambda>b. is_resolved_backend b \<longrightarrow> may_use env rk (backend_key b)) (fst (fst (process_backends env rk bs w)))"
proof -
  let ?pb = "filter (\<lambda>b. \<not> is_service_backend (backend_type_of b)) bs"
  have "list_all (\<lambda>r. is_resolved_backend (fst r) \<longrightarrow> may_use env rk (backend_key (fst r))) (fst (process_pools env rk ?pb w))"
    by (rule process_pools_may_use) (use assms in \<open>simp add: list_all_iff\<close>)
  moreover have "is_resolved_backend (fst (process_service_backend env rk b)) \<longrightarrow> may_use env rk (backend_key b)"
    if "b \<in> set bs" for b
    using that assms process_service_may_use [of b env rk] by (auto simp: list_all_iff)
  ultimately show ?thesis
    by (auto simp: process_backends_def Let_def case_prod_beta list_all_iff)
qed

lemma resolve_http_may_use:
  assumes "list_all unresolved_before (rules_backends (RT_Http rules) @ rules_filter_backends (RT_Http rules))"
  shows "list_all (\<lambda>b. is_resolved_backend b \<longrightarrow> may_use env rk (backend_key b))
     (rules_backends (RT_Http (fst (fst (resolve_http_rules env rk rules st w)))) @
       rules_filter_backends (RT_Http (fst (fst (resolve_http_rules env rk rules st w)))))"
  using assms
proof (induction rules arbitrary: st w)
  case (Cons rule rules)
  obtain bs st1 w1 where 1: "process_backends env rk (hru_backends rule) w = ((bs, st1), w1)" by (metis surj_pair)
  obtain fs st2 w2 where 2: "process_backends env rk (hru_filter_backends rule) w1 = ((fs, st2), w2)" by (metis surj_pair)
  obtain rs st3 w3 where 3: "resolve_http_rules env rk rules (worse (worse st st1) st2) w2 = ((rs, st3), w3)" by (metis surj_pair)
  from Cons.prems have p: "list_all unresolved_before (hru_backends rule)" "list_all unresolved_before (hru_filter_backends rule)"
    "list_all unresolved_before (rules_backends (RT_Http rules) @ rules_filter_backends (RT_Http rules))" by simp_all
  from Cons.IH [OF p(3), of "worse (worse st st1) st2" w2] process_backends_may_use [OF p(1), of env rk w]
    process_backends_may_use [OF p(2), of env rk w1]
  show ?case by (simp add: 1 2 3)
qed simp

lemma start_unresolved: "(\<exists>t. b = B_Maybe t) \<or> (\<exists>t. b = B_Invalid t) \<Longrightarrow> unresolved_before b"
  by auto


lemma resolve_route_http_rules:
  assumes "route_type_of r = RT_Http rules"
  shows "route_type_of (fst (resolve_route env r w)) = RT_Http (fst (fst (resolve_http_rules env (route_key r) rules RS_Resolved w)))"
    "route_resolution_status (fst (resolve_route env r w)) = snd (fst (resolve_http_rules env (route_key r) rules RS_Resolved w))"
  using assms by (simp_all add: resolve_route_def case_prod_beta Let_def)

lemma resolve_route_grpc_rules:
  assumes "route_type_of r = RT_Grpc rules"
  shows "route_type_of (fst (resolve_route env r w)) = RT_Grpc (fst (fst (resolve_grpc_rules env (route_key r) rules RS_Resolved w)))"
    "route_resolution_status (fst (resolve_route env r w)) = snd (fst (resolve_grpc_rules env (route_key r) rules RS_Resolved w))"
  using assms by (simp_all add: resolve_route_def case_prod_beta Let_def)

lemma resolve_route_key [simp]: "route_key (fst (resolve_route env r w)) = route_key r"
  by (cases "route_type_of r") (simp_all add: resolve_route_def case_prod_beta Let_def)

subsection \<open>Properties of resolution\<close>



fun is_refused_backend :: "backend \<Rightarrow> bool" where
  "is_refused_backend (B_NotAllowed _) = True"
| "is_refused_backend _ = False"

lemma process_service_foreign:
  "rk_namespace rk \<noteq> rk_namespace (re_gateway_key env) \<Longrightarrow>
     is_refused_backend (fst (process_service_backend env rk b)) \<longleftrightarrow> is_refused_backend b"
  by (cases "(env, rk, b)" rule: process_service_backend.cases)
    (auto simp: resolve_service_def Let_def is_permitted_def split: option.splits)

text \<open>
  A route outside the gateway's namespace is never refused a service: whatever namespace the
  service is in and without any grant, the backend comes out resolved when the service exists. A
  route inside the gateway's namespace is refused a service of another namespace without a grant.
\<close>

lemma foreign_routes_bypass_grants:
  "fst (process_service_backend env rk (B_Maybe (BT_Service c))) =
     (if \<not> is_allowed (re_grants env) rk (stc_resource_key c) (re_gateway_key env) \<and>
         rk_namespace rk = rk_namespace (re_gateway_key env) \<and>
         rk_namespace (stc_resource_key c) \<noteq> rk_namespace (re_gateway_key env)
      then B_NotAllowed (BT_Service c)
      else case get_service_reference (stc_resource_key c) (re_backends env) of
             Some svc \<Rightarrow> B_Resolved (BT_Service (c\<lparr>stc_effective_port := backend_remap_port (stc_port c) svc\<rparr>))
           | None \<Rightarrow> B_Unresolved (BT_Service c))"
  by (auto simp: resolve_service_def Let_def is_permitted_def split: option.splits)

text \<open>
  The mirrors of a GRPC route are never resolved, and a mirror of an invalid kind, which makes
  the converted route unresolved, no longer counts once the backends are resolved.
\<close>

lemma grpc_mirrors_ignored:
  "route_filter_backends (fst (resolve_route env (route_from_grpc k) w)) = route_filter_backends (route_from_grpc k) \<and>
   (route_resolution_status (fst (resolve_route env (route_from_grpc k) w)) = RS_Resolved \<longleftrightarrow>
      list_all is_resolved_backend (route_backends (fst (resolve_route env (route_from_grpc k) w))))"
proof -
  obtain rules where rules: "route_type_of (route_from_grpc k) = RT_Grpc rules"
    by (simp add: route_from_grpc_def Let_def)
  show ?thesis
    using resolve_grpc_status [of env "route_key (route_from_grpc k)" rules RS_Resolved w]
      resolve_grpc_mirrors [of env "route_key (route_from_grpc k)" rules RS_Resolved w]
    by (simp add: route_backends_def route_filter_backends_def resolve_route_grpc_rules [OF rules] rules)
qed

subsection \<open>Routes attached to listeners\<close>

definition attached_wf :: "(string \<times> route list) list \<Rightarrow> bool" where
  "attached_wf m \<longleftrightarrow> hash_wf m \<and> all_values (bset_wf route_key) m"

definition routes_at :: "(string \<times> route list) list \<Rightarrow> string \<Rightarrow> route list" where
  "routes_at m n = (case map_of m n of Some rs \<Rightarrow> rs | None \<Rightarrow> [])"

lemma attach_wf: "attached_wf m \<Longrightarrow> attached_wf (attach_to_listener r n m)"
  by (auto simp: attached_wf_def attach_to_listener_def split: option.splits dest: all_values_get)

lemma attach_keys: "route_key ` set (routes_at (attach_to_listener r n m) n') =
    (if n' = n then insert (route_key r) (route_key ` set (routes_at m n)) else route_key ` set (routes_at m n'))"
  by (auto simp: routes_at_def attach_to_listener_def update_conv' keys_bset_insert split: option.splits)

lemma attach_dom: "map_of (attach_to_listener r n m) n' = None \<longleftrightarrow> n' \<noteq> n \<and> map_of m n' = None"
  by (auto simp: attach_to_listener_def update_conv' split: option.splits)

lemma attach_all:
  "attached_wf m \<Longrightarrow> attached_wf (fold (\<lambda>l. attach_to_listener r (li_name l)) ls m) \<and>
   route_key ` set (routes_at (fold (\<lambda>l. attach_to_listener r (li_name l)) ls m) n) =
     route_key ` set (routes_at m n) \<union> (if n \<in> li_name ` set ls then {route_key r} else {}) \<and>
   (map_of (fold (\<lambda>l. attach_to_listener r (li_name l)) ls m) n = None \<longleftrightarrow> n \<notin> li_name ` set ls \<and> map_of m n = None)"
proof (induction ls arbitrary: m)
  case (Cons l ls)
  from Cons.IH [OF attach_wf [OF Cons.prems, of r "li_name l"]] show ?case
    by (auto simp: attach_keys attach_dom)
qed simp

lemma calculate_attached_spec:
  "attached_wf (calculate_attached_routes ms) \<and>
   route_key ` set (routes_at (calculate_attached_routes ms) n) =
     {route_key (rtl_route x) | x. x \<in> set ms \<and> n \<in> li_name ` set (rtl_listeners x)} \<and>
   (map_of (calculate_attached_routes ms) n = None \<longleftrightarrow> (\<forall>x\<in>set ms. n \<notin> li_name ` set (rtl_listeners x)))"
proof -
  let ?f = "\<lambda>mapping. fold (\<lambda>l. attach_to_listener (rtl_route mapping) (li_name l)) (rtl_listeners mapping)"
  have "attached_wf m \<Longrightarrow> attached_wf (fold ?f ms m) \<and>
     route_key ` set (routes_at (fold ?f ms m) n) = route_key ` set (routes_at m n) \<union>
       {route_key (rtl_route x) | x. x \<in> set ms \<and> n \<in> li_name ` set (rtl_listeners x)} \<and>
     (map_of (fold ?f ms m) n = None \<longleftrightarrow> (\<forall>x\<in>set ms. n \<notin> li_name ` set (rtl_listeners x)) \<and> map_of m n = None)" for m
  proof (induction ms arbitrary: m)
    case (Cons x ms)
    note one = attach_all [OF Cons.prems, of "rtl_route x" "rtl_listeners x" n]
    from Cons.IH [of "?f x m"] one show ?case by auto
  qed simp
  moreover have "attached_wf []" "routes_at [] n = []" "map_of [] n = None"
    by (simp_all add: attached_wf_def hash_wf_def all_values_def routes_at_def)
  ultimately show ?thesis unfolding calculate_attached_routes_def by simp
qed

lemma gateway_listener_update:
  "gateway_listener (update_listener k f g) n = map_option (\<lambda>l. if n = k then f l else l) (gateway_listener g n)"
proof -
  have "map_of (map (\<lambda>(n, l). (n, if n = k then f l else l)) ls) n = map_option (\<lambda>l. if n = k then f l else l) (map_of ls n)" for ls
    by (induction ls) auto
  then show ?thesis by (simp add: gateway_listener_def update_listener_def)
qed

lemma fold_update_listener:
  "distinct (map fst m) \<Longrightarrow>
     gateway_listener (fold (\<lambda>(k, rs). update_listener k (F rs)) m g) n =
       map_option (\<lambda>l. case map_of m n of None \<Rightarrow> l | Some rs \<Rightarrow> F rs l) (gateway_listener g n)"
proof (induction m arbitrary: g)
  case Nil
  then show ?case by (simp add: option.map_id0 [unfolded id_def])
next
  case (Cons x m)
  obtain k rs where x: "x = (k, rs)" by (cases x)
  have none: "map_of m k = None" using Cons.prems x by (simp add: map_of_eq_None_iff)
  from Cons.IH [of "update_listener k (F rs) g"] Cons.prems x none show ?case
    by (auto simp: gateway_listener_update option.map_comp comp_def intro!: option.map_cong0 split: option.splits)
qed

lemma bset_from_keys_length: "distinct (map key xs) \<Longrightarrow> length (bset_from key xs) = length xs"
  by (metis bset_wf_from distinct_card keys_bset_from length_bset_wf length_map list.set_map)

lemma set_bset_from_filter: "bset_wf route_key rs \<Longrightarrow> set (bset_from route_key (filter P rs)) = set (filter P rs)"
  by (intro set_bset_from_distinct bset_wf_distinct bset_wf_filter)

lemma partition_counts:
  assumes "bset_wf route_key rs"
  shows "length (bset_from route_key (filter P rs)) + length (bset_from route_key (filter (\<lambda>r. \<not> P r) rs)) = card (route_key ` set rs)"
proof -
  have "distinct (map route_key (filter Q rs))" for Q using assms by (intro bset_wf_distinct bset_wf_filter)
  then have "length (bset_from route_key (filter Q rs)) = length (filter Q rs)" for Q by (rule bset_from_keys_length)
  then show ?thesis using sum_length_filter_compl [of P rs] length_bset_wf [OF assms] by simp
qed

definition linked_and_resolved :: "resolve_env \<Rightarrow> gateway \<Rightarrow> world \<Rightarrow> route list" where
  "linked_and_resolved env g w = fst (resolve_routes env (find_linked_routes (fst w) (gw_resource_key g)) w)"

text \<open>The keys of the linked routes that attach to a listener of the given name.\<close>

definition attached_keys ::
    "(string \<Rightarrow> (string \<Rightarrow> bool) option) \<Rightarrow> resolve_env \<Rightarrow> kube_gateway \<Rightarrow> gateway \<Rightarrow> world \<Rightarrow> string \<Rightarrow> resource_key set" where
  "attached_keys dp env kg g w n =
     {route_key r | r. r \<in> set (linked_and_resolved env g w) \<and>
        n \<in> li_name ` set (fst (filter_matching_route dp (resolve_namespaces (cl_namespaces (re_cluster env))) kg r))}"

lemma listeners_carry_routes:
  "(case gateway_listener g n of
      None \<Rightarrow> gateway_listener (fst (validate_routes dp env kg g w)) n = None
    | Some l \<Rightarrow> (case gateway_listener (fst (validate_routes dp env kg g w)) n of
        None \<Rightarrow> False
      | Some l' \<Rightarrow>
          if attached_keys dp env kg g w n = {} then l' = l
          else route_key ` (set (fst (listener_routes l')) \<union> set (snd (listener_routes l'))) = attached_keys dp env kg g w n \<and>
            list_all is_resolved_route (fst (listener_routes l')) \<and>
            list_all (\<lambda>r. \<not> is_resolved_route r) (snd (listener_routes l')) \<and>
            listener_attached_routes l' = card (attached_keys dp env kg g w n)))"
proof -
  let ?ns = "resolve_namespaces (cl_namespaces (re_cluster env))"
  let ?linked = "linked_and_resolved env g w"
  let ?mapped = "fst (filter_matching_routes dp ?ns kg ?linked)"
  let ?att = "calculate_attached_routes ?mapped"
  define F where "F = (\<lambda>routes. update_routes (bset_from route_key (filter is_resolved_route routes))
                  (bset_from route_key (filter (\<lambda>r. \<not> is_resolved_route r) routes)))"
  note spec = calculate_attached_spec [of ?mapped n]
  have wf: "attached_wf ?att" using spec by blast
  have fst_validate: "gateway_listener (fst (validate_routes dp env kg g w)) n =
      map_option (\<lambda>l. case map_of ?att n of None \<Rightarrow> l | Some rs \<Rightarrow> F rs l) (gateway_listener g n)"
    using wf fold_update_listener [of ?att F g n]
    by (simp add: validate_routes_def Let_def case_prod_beta F_def linked_and_resolved_def attached_wf_def
        hash_wf_def gateway_listener_def)
  have keys: "{route_key (rtl_route x) | x. x \<in> set ?mapped \<and> n \<in> li_name ` set (rtl_listeners x)} = attached_keys dp env kg g w n"
    unfolding attached_keys_def filter_matching_routes_split by auto force
  have none: "map_of ?att n = None \<longleftrightarrow> attached_keys dp env kg g w n = {}"
    using spec unfolding keys [symmetric] by blast
  show ?thesis
  proof (cases "gateway_listener g n")
    case None
    then show ?thesis by (simp add: fst_validate)
  next
    case (Some l)
    show ?thesis
    proof (cases "map_of ?att n")
      case None
      with Some none show ?thesis by (simp add: fst_validate)
    next
      case att: (Some rs)
      have rs: "bset_wf route_key rs" using wf att by (auto simp: attached_wf_def dest: all_values_get)
      have k: "route_key ` set rs = attached_keys dp env kg g w n"
        using spec att unfolding keys by (simp add: routes_at_def)
      have "listener_routes (F rs l) = (bset_from route_key (filter is_resolved_route rs), bset_from route_key (filter (\<lambda>r. \<not> is_resolved_route r) rs))"
        "listener_attached_routes (F rs l) = card (route_key ` set rs)"
        using partition_counts [OF rs, of is_resolved_route]
        by (simp_all add: F_def update_routes_def update_routes_data_def listener_routes_def listener_attached_routes_def Let_def)
      moreover have "set (bset_from route_key (filter is_resolved_route rs)) \<union> set (bset_from route_key (filter (\<lambda>r. \<not> is_resolved_route r) rs)) = set rs"
        by (auto simp: set_bset_from_filter [OF rs])
      moreover have "list_all is_resolved_route (bset_from route_key (filter is_resolved_route rs))"
        "list_all (\<lambda>r. \<not> is_resolved_route r) (bset_from route_key (filter (\<lambda>r. \<not> is_resolved_route r) rs))"
        by (simp_all add: list_all_iff set_bset_from_filter [OF rs])
      ultimately show ?thesis using Some att none k by (simp add: fst_validate)
    qed
  qed
qed

text \<open>
  Validating the routes of a gateway leaves every listener without a matching route as it was;
  every other listener carries exactly the routes that attach to it, each once, those resolved and
  those not kept apart, and its count of attached routes is their number.
\<close>

lemma listeners_carry_attached_routes:
  "(case gateway_listener g n of
      None \<Rightarrow> gateway_listener (fst (validate_routes dp env kg g w)) n = None
    | Some l \<Rightarrow> (case gateway_listener (fst (validate_routes dp env kg g w)) n of
        None \<Rightarrow> False
      | Some l' \<Rightarrow>
          if attached_keys dp env kg g w n = {} then l' = l
          else route_key ` (set (fst (listener_routes l')) \<union> set (snd (listener_routes l'))) = attached_keys dp env kg g w n \<and>
            list_all is_resolved_route (fst (listener_routes l')) \<and>
            list_all (\<lambda>r. \<not> is_resolved_route r) (snd (listener_routes l')) \<and>
            listener_attached_routes l' = card (attached_keys dp env kg g w n)))"
  by (rule listeners_carry_routes)

end
