(* ===== verification/Secret_References.thy ===== *)
theory Secret_References
  imports Reference_Counts
begin

section \<open>References to secrets\<close>

text \<open>
  \<open>common/references_resolver/secrets_resolver/\<close>: the secrets named by the terminating listeners of
  the gateways. A secret is polled as long as its multiset of gateways is not empty. The crate type
  \<open>HashMultiSet\<close> is a multiset: \<open>insert\<close> adds one occurrence, \<open>remove\<close> takes one away and says
  whether there was one.
\<close>

record secret =
  sec_metadata :: object_meta
  sec_type :: "string option"
  sec_data :: "(string \<times> string) list option"

record 'r secret_refs =
  ser_references :: "(resource_key \<times> resource_key multiset) list"
  ser_resolved :: "(resource_key \<times> 'r) list"

definition new_secret_refs :: "'r secret_refs" where
  "new_secret_refs = \<lparr>ser_references = [], ser_resolved = []\<rparr>"

subsection \<open>Operations\<close>

definition certificate_references :: "gateway \<Rightarrow> resource_key list" where
  "certificate_references g = bset_from (\<lambda>k. k) (map certificate_key (terminated_certificates g))"

definition add_secret_reference :: "resource_key \<Rightarrow> resource_key \<Rightarrow> 'r secret_refs \<Rightarrow> 'r secret_refs" where
  "add_secret_reference gateway_key k st = st\<lparr>ser_references := (case map_of (ser_references st) k of
       Some gs \<Rightarrow> bset_replace fst (k, add_mset gateway_key gs) (ser_references st)
     | None \<Rightarrow> bset_replace fst (k, {#gateway_key#}) (ser_references st))\<rparr>"

definition add_secret_references :: "resource_key \<Rightarrow> resource_key list \<Rightarrow> 'r secret_refs \<Rightarrow> 'r secret_refs" where
  "add_secret_references gateway_key reference_keys st =
     (if reference_keys = [] then st else fold (add_secret_reference gateway_key) reference_keys st)"

definition delete_secret_reference :: "resource_key \<Rightarrow> resource_key \<Rightarrow> 'r secret_refs \<Rightarrow> 'r secret_refs" where
  "delete_secret_reference gateway_key k st = (case map_of (ser_references st) k of
       None \<Rightarrow> st
     | Some gs \<Rightarrow>
         if gateway_key \<in># gs then
           (if gs - {#gateway_key#} = {#}
            then st\<lparr>ser_references := bset_remove fst k (ser_references st), ser_resolved := bset_remove fst k (ser_resolved st)\<rparr>
            else st\<lparr>ser_references := bset_replace fst (k, gs - {#gateway_key#}) (ser_references st)\<rparr>)
         else st)"

definition delete_secret_references :: "resource_key \<Rightarrow> resource_key list \<Rightarrow> 'r secret_refs \<Rightarrow> 'r secret_refs" where
  "delete_secret_references gateway_key reference_keys st =
     fold (delete_secret_reference gateway_key) reference_keys st"

definition add_secrets_by_gateway :: "gateway \<Rightarrow> 'r secret_refs \<Rightarrow> 'r secret_refs" where
  "add_secrets_by_gateway g st = add_secret_references (gw_resource_key g) (certificate_references g) st"

definition delete_secrets_by_gateway :: "gateway \<Rightarrow> 'r secret_refs \<Rightarrow> 'r secret_refs" where
  "delete_secrets_by_gateway g st = delete_secret_references (gw_resource_key g) (certificate_references g) st"

definition get_secret_reference :: "resource_key \<Rightarrow> 'r secret_refs \<Rightarrow> 'r option" where
  "get_secret_reference k st = map_of (ser_resolved st) k"

definition polled_secrets :: "'r secret_refs \<Rightarrow> resource_key list" where
  "polled_secrets st = map fst (ser_references st)"

definition secret_gateways :: "'r secret_refs \<Rightarrow> resource_key \<Rightarrow> resource_key multiset" where
  "secret_gateways st k = (case map_of (ser_references st) k of Some gs \<Rightarrow> gs | None \<Rightarrow> {#})"

definition update_secret_gateways :: "resource_key \<Rightarrow> 'r secret_refs \<Rightarrow> reference_validate_request list" where
  "update_secret_gateways k st = [UpdatedGateways k (sorted_list_of_set (set_mset (secret_gateways st k)))]"

definition resolve_secret_answer ::
    "('r \<Rightarrow> 'r) \<Rightarrow> resource_key \<Rightarrow> 'r option \<Rightarrow> 'r secret_refs \<Rightarrow> 'r secret_refs \<times> reference_validate_request list" where
  "resolve_secret_answer strip k answer st = (case answer of
       Some reference \<Rightarrow>
         (let update_gateway = (case map_of (ser_resolved st) k of Some f \<Rightarrow> strip f \<noteq> strip reference | None \<Rightarrow> True);
              st' = (if update_gateway then st\<lparr>ser_resolved := bset_replace fst (k, reference) (ser_resolved st)\<rparr> else st)
          in (st', if update_gateway then update_secret_gateways k st' else []))
     | None \<Rightarrow>
         (let st' = st\<lparr>ser_resolved := bset_remove fst k (ser_resolved st)\<rparr>
          in (st', if map_of (ser_resolved st) k \<noteq> None then update_secret_gateways k st' else [])))"

subsection \<open>Occurrences\<close>

definition secrets_wf :: "'r secret_refs \<Rightarrow> bool" where
  "secrets_wf st \<longleftrightarrow> bset_wf fst (ser_references st) \<and> (\<forall>k. map_of (ser_references st) k \<noteq> Some {#})"

lemma gateways_add: "secret_gateways (add_secret_reference g k st) k' =
    (if k' = k then add_mset g (secret_gateways st k) else secret_gateways st k')"
  by (auto simp: secret_gateways_def add_secret_reference_def split: option.splits)

lemma gateways_delete: "secret_gateways (delete_secret_reference g k st) k' =
    (if k' = k then secret_gateways st k - {#g#} else secret_gateways st k')"
  by (auto simp: secret_gateways_def delete_secret_reference_def diff_single_trivial split: option.splits)

lemma secrets_wf_add: "secrets_wf st \<Longrightarrow> secrets_wf (add_secret_reference g k st)"
  by (auto simp: secrets_wf_def add_secret_reference_def split: option.splits)

lemma secrets_wf_delete: "secrets_wf st \<Longrightarrow> secrets_wf (delete_secret_reference g k st)"
  by (auto simp: secrets_wf_def delete_secret_reference_def split: option.splits)

lemma gateways_adds: "distinct ks \<Longrightarrow> secret_gateways (add_secret_references g ks st) k =
    (if k \<in> set ks then add_mset g (secret_gateways st k) else secret_gateways st k)"
proof -
  have "distinct ks \<Longrightarrow> secret_gateways (fold (add_secret_reference g) ks st) k =
      (if k \<in> set ks then add_mset g (secret_gateways st k) else secret_gateways st k)"
    by (induction ks arbitrary: st) (auto simp: gateways_add)
  then show "distinct ks \<Longrightarrow> ?thesis" by (auto simp: add_secret_references_def)
qed

lemma gateways_deletes: "distinct ks \<Longrightarrow> secret_gateways (delete_secret_references g ks st) k =
    (if k \<in> set ks then secret_gateways st k - {#g#} else secret_gateways st k)"
  unfolding delete_secret_references_def by (induction ks arbitrary: st) (auto simp: gateways_delete)

lemma secrets_wf_adds: "secrets_wf st \<Longrightarrow> secrets_wf (add_secret_references g ks st)"
proof -
  have "secrets_wf st \<Longrightarrow> secrets_wf (fold (add_secret_reference g) ks st)"
    by (induction ks arbitrary: st) (auto simp: secrets_wf_add)
  then show "secrets_wf st \<Longrightarrow> ?thesis" by (auto simp: add_secret_references_def)
qed

lemma secrets_wf_deletes: "secrets_wf st \<Longrightarrow> secrets_wf (delete_secret_references g ks st)"
  unfolding delete_secret_references_def by (induction ks arbitrary: st) (auto simp: secrets_wf_delete)

lemma polled_secrets_iff: "secrets_wf st \<Longrightarrow> k \<in> set (polled_secrets st) \<longleftrightarrow> secret_gateways st k \<noteq> {#}"
  by (auto simp: polled_secrets_def secret_gateways_def secrets_wf_def map_of_eq_None_iff split: option.splits)
    (metis (no_types, lifting) list.set_map map_of_eq_None_iff option.distinct(1) option.exhaust option.inject)+

lemma secrets_wf_new: "secrets_wf new_secret_refs"
  by (simp add: secrets_wf_def new_secret_refs_def)

definition secret_register :: "resource_key \<Rightarrow> resource_key list \<Rightarrow> 'r secret_refs \<Rightarrow> 'r secret_refs option" where
  "secret_register g ks st = Some (add_secret_references g (bset_from (\<lambda>k. k) ks) st)"

definition secret_unregister :: "resource_key \<Rightarrow> resource_key list \<Rightarrow> 'r secret_refs \<Rightarrow> 'r secret_refs option" where
  "secret_unregister g ks st = Some (delete_secret_references g (bset_from (\<lambda>k. k) ks) st)"

lemma distinct_bset_from: "distinct (bset_from (\<lambda>k. k) xs)"
  using bset_wf_distinct [OF bset_wf_from, of "\<lambda>k. k" xs] by simp

interpretation secrets: reference_tracker secrets_wf "\<lambda>_. True" set "\<lambda>st g k. g \<in># secret_gateways st k"
    "\<lambda>st k. k \<in> set (polled_secrets st)" secret_register secret_unregister
proof
  fix s :: "'a secret_refs" and g k
  assume "secrets_wf s" "g \<in># secret_gateways s k"
  then show "k \<in> set (polled_secrets s)" by (auto simp: polled_secrets_iff)
next
  fix s :: "'a secret_refs" and m g
  assume "secrets_wf s"
  then show "\<exists>s'. secret_register g m s = Some s' \<and> secrets_wf s' \<and> (\<forall>k\<in>set m. g \<in># secret_gateways s' k) \<and>
      (\<forall>g' k. g' \<noteq> g \<longrightarrow> (g' \<in># secret_gateways s' k) = (g' \<in># secret_gateways s k))"
    by (auto simp: secret_register_def secrets_wf_adds gateways_adds distinct_bset_from)
next
  fix s :: "'a secret_refs" and g and m :: "resource_key list"
  assume "secrets_wf s"
  then show "\<exists>s'. secret_unregister g m s = Some s' \<and> secrets_wf s' \<and>
      (\<forall>g' k. g' \<noteq> g \<longrightarrow> (g' \<in># secret_gateways s' k) = (g' \<in># secret_gateways s k))"
    by (auto simp: secret_unregister_def secrets_wf_deletes gateways_deletes distinct_bset_from in_diff_count)
qed

subsection \<open>Properties\<close>

abbreviation run_secrets :: "(resource_key, resource_key list) tracker_event list \<Rightarrow> 'r secret_refs \<Rightarrow> 'r secret_refs option" where
  "run_secrets \<equiv> run_events (tracker_step secret_register secret_unregister)"

text \<open>How often a gateway counts for a secret after a sequence of reconciliations and deletions.\<close>

fun occurrences :: "resource_key \<Rightarrow> resource_key \<Rightarrow> (resource_key, resource_key list) tracker_event list \<Rightarrow> nat \<Rightarrow> nat" where
  "occurrences g k [] n = n"
| "occurrences g k (Register g' ks # es) n = occurrences g k es (if g' = g \<and> k \<in> set ks then n + 1 else n)"
| "occurrences g k (Unregister g' ks # es) n = occurrences g k es (if g' = g \<and> k \<in> set ks then n - 1 else n)"

lemma run_secrets_counts:
  "secrets_wf st \<Longrightarrow> \<exists>st'. run_secrets es st = Some st' \<and> secrets_wf st' \<and>
     (\<forall>g k. count (secret_gateways st' k) g = occurrences g k es (count (secret_gateways st k) g))"
proof (induction es arbitrary: st)
  case (Cons e es)
  show ?case
  proof (cases e)
    case (Register g ks)
    let ?st = "add_secret_references g (bset_from (\<lambda>k. k) ks) st"
    have "\<forall>g' k. count (secret_gateways ?st k) g' = count (secret_gateways st k) g' + (if g' = g \<and> k \<in> set ks then 1 else 0)"
      by (auto simp: gateways_adds distinct_bset_from)
    with Cons.IH [of ?st] Cons.prems Register show ?thesis
      by (auto simp: secret_register_def secrets_wf_adds)
  next
    case (Unregister g ks)
    let ?st = "delete_secret_references g (bset_from (\<lambda>k. k) ks) st"
    have "\<forall>g' k. count (secret_gateways ?st k) g' = count (secret_gateways st k) g' - (if g' = g \<and> k \<in> set ks then 1 else 0)"
      by (auto simp: gateways_deletes distinct_bset_from)
    with Cons.IH [of ?st] Cons.prems Unregister show ?thesis
      by (auto simp: secret_unregister_def secrets_wf_deletes)
  qed
qed simp

text \<open>
  A secret is polled exactly while some gateway counts for it: every reconciliation of a gateway
  that names the secret adds one, every deletion takes one away and never goes below zero.
\<close>

lemma secrets_polled_while_counted:
  "(case run_secrets events new_secret_refs of
      None \<Rightarrow> False
    | Some st \<Rightarrow> set (polled_secrets st) = {k. \<exists>g. 0 < occurrences g k events 0})"
proof -
  obtain st :: "'a secret_refs" where st: "run_secrets events new_secret_refs = Some st" "secrets_wf st"
    "\<forall>g k. count (secret_gateways st k) g = occurrences g k events (count (secret_gateways (new_secret_refs :: 'a secret_refs) k) g)"
    using run_secrets_counts [OF secrets_wf_new] by blast
  have "count (secret_gateways (new_secret_refs :: 'a secret_refs) k) g = 0" for k g
    by (simp add: secret_gateways_def new_secret_refs_def)
  with st(3) have cnt: "count (secret_gateways st k) g = occurrences g k events 0" for k g by simp
  have "k \<in> set (polled_secrets st) \<longleftrightarrow> (\<exists>g. 0 < occurrences g k events 0)" for k
    unfolding polled_secrets_iff [OF st(2)] cnt [symmetric] by (auto simp: multiset_nonemptyE multiset_eq_iff)
  with st(1) show ?thesis by auto
qed

text \<open>
  A gateway that is reconciled twice before it is deleted leaves its secrets behind: the second
  reconciliation adds a second occurrence, the deletion removes one, and the secret is polled for
  good.
\<close>

lemma reconciled_twice_leaks_secret:
  "map_option polled_secrets (run_secrets [Register g [k], Register g [k], Unregister g [k]]
     (new_secret_refs :: secret secret_refs)) = Some [k]"
  by (simp add: secret_register_def secret_unregister_def add_secret_references_def delete_secret_references_def
      add_secret_reference_def delete_secret_reference_def new_secret_refs_def polled_secrets_def
      bset_from_def bset_append_def)

end
