(* ===== verification/Tls_Validation.thy ===== *)
theory Tls_Validation
  imports Secret_References
begin

section \<open>Validating TLS certificates\<close>

text \<open>
  \<open>controllers/utils/tls_config_validator.rs\<close>: for every certificate of a terminating HTTPS or TLS
  listener, whether its secret is known, may be used by the gateway and holds a certificate and a
  private key. The parsers of PEM data (crate \<open>rustls_pki_types\<close>) are the parameters of
  \<open>tls_env\<close>.
\<close>

subsection \<open>The validator\<close>

record tls_env =
  te_gateway_key :: resource_key
  te_secrets :: "secret secret_refs"
  te_grants :: grants_resolver
  te_valid_cert :: "string \<Rightarrow> bool"
  te_valid_key :: "string \<Rightarrow> bool"

definition is_samespace :: "string \<Rightarrow> string \<Rightarrow> bool" where
  "is_samespace gateway_ns namespace \<longleftrightarrow> gateway_ns = namespace"

definition check_pem :: "tls_env \<Rightarrow> string list \<Rightarrow> certificate \<Rightarrow> string \<Rightarrow> string \<Rightarrow> certificate \<times> resolved_refs option" where
  "check_pem env supported c cert key =
     (if te_valid_cert env cert \<and> te_valid_key env key then
        (if rk_namespace (te_gateway_key env) = rk_namespace (certificate_key c)
         then (cert_resolve c cert key, None) else (cert_resolve_cross_space c cert key, None))
      else (cert_invalid c, Some (RR_InvalidCertificates supported)))"

definition check_certificate :: "tls_env \<Rightarrow> string list \<Rightarrow> certificate \<Rightarrow> certificate \<times> resolved_refs option" where
  "check_certificate env supported c =
     (let k = certificate_key c;
          grant_allowed = is_allowed (te_grants env) (te_gateway_key env) k (te_gateway_key env);
          samespace = is_samespace (rk_namespace (te_gateway_key env)) (rk_namespace k)
      in case get_secret_reference k (te_secrets env) of
           None \<Rightarrow> (cert_not_resolved c, Some (RR_InvalidCertificates supported))
         | Some secret \<Rightarrow>
             if grant_allowed \<or> samespace then
               (if sec_type secret = Some ''kubernetes.io/tls'' then
                  (case sec_data secret of
                     None \<Rightarrow> (cert_not_resolved c, Some (RR_InvalidCertificates supported))
                   | Some data \<Rightarrow> (case (map_of data ''tls.key'', map_of data ''tls.crt'') of
                         (Some key, Some cert) \<Rightarrow> check_pem env supported c cert key
                       | _ \<Rightarrow> (cert_invalid c, Some (RR_InvalidCertificates supported))))
                else (cert_not_resolved c, Some (RR_InvalidCertificates supported)))
             else if samespace then (cert_not_resolved c, Some (RR_InvalidCertificates supported))
             else (cert_not_resolved c, Some (RR_RefNotPermitted supported)))"

fun check_certificates ::
    "tls_env \<Rightarrow> string list \<Rightarrow> certificate list \<Rightarrow> listener_condition list \<Rightarrow> certificate list \<times> listener_condition list" where
  "check_certificates env supported [] conditions = ([], conditions)"
| "check_certificates env supported (c # cs) conditions =
     (let (c', problem) = check_certificate env supported c;
          conditions' = (case problem of Some p \<Rightarrow> replace_condition (LC_ResolvedRefs p) conditions | None \<Rightarrow> conditions);
          (cs', conditions'') = check_certificates env supported cs conditions'
      in (c' # cs', conditions''))"

definition validate_listener_data :: "tls_env \<Rightarrow> listener_data \<Rightarrow> listener_data" where
  "validate_listener_data env d =
     (let supported = unwrap_or (map_option supported_routes (resolved_refs_condition (ld_conditions d))) []
      in case lc_tls_type (ld_config d) of
           Some (TT_Terminate certificates) \<Rightarrow>
             (let (certificates', conditions') = check_certificates env supported certificates (ld_conditions d)
              in d\<lparr>ld_config := (ld_config d)\<lparr>lc_tls_type := Some (TT_Terminate certificates')\<rparr>, ld_conditions := conditions'\<rparr>)
         | _ \<Rightarrow> d)"

definition validate_tls :: "tls_env \<Rightarrow> gateway \<Rightarrow> gateway" where
  "validate_tls env g = map_listeners
     (\<lambda>l. if listener_protocol l = P_Https \<or> listener_protocol l = P_Tls
          then map_listener_data (validate_listener_data env) l else l) g"

subsection \<open>Outcomes\<close>

text \<open>The certificate and key a certificate reference resolves to, if it does.\<close>

definition usable_pair :: "tls_env \<Rightarrow> resource_key \<Rightarrow> (string \<times> string) option" where
  "usable_pair env k = (case get_secret_reference k (te_secrets env) of
       None \<Rightarrow> None
     | Some secret \<Rightarrow>
         if (rk_namespace k = rk_namespace (te_gateway_key env) \<or>
             is_allowed (te_grants env) (te_gateway_key env) k (te_gateway_key env)) \<and>
            sec_type secret = Some ''kubernetes.io/tls''
         then (case (map_of (unwrap_or (sec_data secret) []) ''tls.crt'', map_of (unwrap_or (sec_data secret) []) ''tls.key'') of
                 (Some cert, Some key) \<Rightarrow> if te_valid_cert env cert \<and> te_valid_key env key then Some (cert, key) else None
               | _ \<Rightarrow> None)
         else None)"

lemma check_certificate_key [simp]: "certificate_key (fst (check_certificate env spr c)) = certificate_key c"
  by (auto simp: check_certificate_def check_pem_def Let_def split: option.splits)

lemma check_certificate_data:
  "cert_key_data (fst (check_certificate env spr c)) =
     map_option (\<lambda>(cert, key). \<lparr>kd_cert = cert, kd_private_key = key, kd_root = None\<rparr>) (usable_pair env (certificate_key c))"
  by (auto simp: check_certificate_def check_pem_def usable_pair_def is_samespace_def Let_def cert_resolve_def
      cert_resolve_cross_space_def cert_not_resolved_def cert_invalid_def split: option.splits)

lemma check_certificate_problem:
  "snd (check_certificate env spr c) = None \<longleftrightarrow> usable_pair env (certificate_key c) \<noteq> None"
  by (auto simp: check_certificate_def check_pem_def usable_pair_def is_samespace_def Let_def split: option.splits)

lemma check_certificate_problems:
  "snd (check_certificate env spr c) \<in> {None, Some (RR_InvalidCertificates spr), Some (RR_RefNotPermitted spr)}"
  by (auto simp: check_certificate_def check_pem_def Let_def split: option.splits)

lemma check_certificates_fst:
  "fst (check_certificates env spr cs conds) = map (fst \<circ> check_certificate env spr) cs"
proof (induction cs arbitrary: conds)
  case (Cons c cs)
  obtain c' problem where c: "check_certificate env spr c = (c', problem)" by (metis surj_pair)
  let ?conds = "case problem of Some p \<Rightarrow> replace_condition (LC_ResolvedRefs p) conds | None \<Rightarrow> conds"
  from Cons.IH [of ?conds] show ?case by (simp add: c case_prod_beta Let_def)
qed simp

lemma map_filter_Nil_iff: "List.map_filter f xs = [] \<longleftrightarrow> list_all (\<lambda>x. f x = None) xs"
  by (induction xs) (auto simp: List.map_filter_simps split: option.splits)

lemma check_certificates_condition:
  "resolved_refs_condition (snd (check_certificates env spr cs conds)) =
     (case rev (List.map_filter (snd \<circ> check_certificate env spr) cs) of
        [] \<Rightarrow> resolved_refs_condition conds | p # _ \<Rightarrow> Some (LC_ResolvedRefs p))"
proof (induction cs arbitrary: conds)
  case (Cons c cs)
  obtain c' problem where c: "check_certificate env spr c = (c', problem)" by (metis surj_pair)
  let ?conds = "case problem of Some p \<Rightarrow> replace_condition (LC_ResolvedRefs p) conds | None \<Rightarrow> conds"
  obtain cs' conds' where r: "check_certificates env spr cs ?conds = (cs', conds')" by (metis surj_pair)
  have "resolved_refs_condition ?conds = (case problem of Some p \<Rightarrow> Some (LC_ResolvedRefs p) | None \<Rightarrow> resolved_refs_condition conds)"
    by (auto simp: resolved_refs_condition_def replace_condition_def split: option.splits)
  with Cons.IH [of ?conds] show ?case
    by (auto simp: c r List.map_filter_simps split: option.splits list.splits)
qed (simp add: List.map_filter_simps)

lemma check_certificates_wf: "conditions_wf conds \<Longrightarrow> conditions_wf (snd (check_certificates env spr cs conds))"
proof (induction cs arbitrary: conds)
  case (Cons c cs)
  obtain c' problem where c: "check_certificate env spr c = (c', problem)" by (metis surj_pair)
  let ?conds = "case problem of Some p \<Rightarrow> replace_condition (LC_ResolvedRefs p) conds | None \<Rightarrow> conds"
  have "conditions_wf ?conds" using Cons.prems by (auto split: option.splits)
  from Cons.IH [OF this] show ?case by (simp add: c case_prod_beta Let_def)
qed simp

definition listener_certificates :: "listener \<Rightarrow> certificate list" where
  "listener_certificates l =
     (if listener_protocol l = P_Https \<or> listener_protocol l = P_Tls then
        (case lc_tls_type (ld_config (listener_data_of l)) of Some (TT_Terminate cs) \<Rightarrow> cs | _ \<Rightarrow> []) else [])"

lemma gateway_listener_map:
  "gateway_listener (map_listeners f g) n = map_option f (gateway_listener g n)"
proof -
  have "map_of (map (\<lambda>(n, l). (n, f l)) ls) n = map_option f (map_of ls n)" for ls by (induction ls) auto
  then show ?thesis by (simp add: gateway_listener_def map_listeners_def)
qed

subsection \<open>Properties\<close>


text \<open>
  Key material never crosses a namespace without a grant: a certificate whose secret is in
  another namespace carries none after validation unless the gateway's reference is allowed.
\<close>

lemma cross_namespace_certificates_granted:
  "list_all (\<lambda>c. if cert_key_data c \<noteq> None \<and> rk_namespace (certificate_key c) \<noteq> rk_namespace (te_gateway_key env)
                  then is_allowed (te_grants env) (te_gateway_key env) (certificate_key c) (te_gateway_key env) else True)
     (concat (map listener_certificates (gateway_listeners (validate_tls env g))))"
proof -
  have step: "if cert_key_data c \<noteq> None \<and> rk_namespace (certificate_key c) \<noteq> rk_namespace (te_gateway_key env)
      then is_allowed (te_grants env) (te_gateway_key env) (certificate_key c) (te_gateway_key env) else True"
    if "c = fst (check_certificate env spr c0)" for c spr c0
    using that by (auto simp: check_certificate_data usable_pair_def split: option.splits if_splits)
  have checked: "\<exists>spr cs. listener_certificates (if listener_protocol l = P_Https \<or> listener_protocol l = P_Tls
          then map_listener_data (validate_listener_data env) l else l) = map (fst \<circ> check_certificate env spr) cs" for l
  proof (cases "(listener_protocol l = P_Https \<or> listener_protocol l = P_Tls) \<and>
      (\<exists>cs. lc_tls_type (ld_config (listener_data_of l)) = Some (TT_Terminate cs))")
    case True
    then obtain cs where p: "listener_protocol l = P_Https \<or> listener_protocol l = P_Tls"
      and cs: "lc_tls_type (ld_config (listener_data_of l)) = Some (TT_Terminate cs)" by blast
    have "listener_certificates (map_listener_data (validate_listener_data env) l) =
        map (fst \<circ> check_certificate env
          (unwrap_or (map_option supported_routes (resolved_refs_condition (ld_conditions (listener_data_of l)))) [])) cs"
      using p cs by (auto simp: listener_certificates_def validate_listener_data_def Let_def case_prod_beta check_certificates_fst)
    then show ?thesis using p by (simp only: simp_thms if_True) blast
  next
    case False
    then have "listener_certificates (if listener_protocol l = P_Https \<or> listener_protocol l = P_Tls
          then map_listener_data (validate_listener_data env) l else l) = map (fst \<circ> check_certificate env []) []"
      by (auto simp: listener_certificates_def validate_listener_data_def Let_def split: option.splits tls_type.splits)
    then show ?thesis by blast
  qed
  have "\<exists>spr c0. c = fst (check_certificate env spr c0)"
    if l': "l' \<in> set (gateway_listeners (validate_tls env g))" and c: "c \<in> set (listener_certificates l')" for c l'
  proof -
    obtain l where l: "l' = (if listener_protocol l = P_Https \<or> listener_protocol l = P_Tls
          then map_listener_data (validate_listener_data env) l else l)"
      using l' by (auto simp: gateway_listeners_def validate_tls_def map_listeners_def)
    obtain spr cs where "listener_certificates l' = map (fst \<circ> check_certificate env spr) cs"
      using checked [of l] unfolding l by blast
    then have "c \<in> set (map (fst \<circ> check_certificate env spr) cs)" using c by simp
    then have "\<exists>c0. c = fst (check_certificate env spr c0)" by auto
    then show ?thesis by blast
  qed
  then have "if cert_key_data c \<noteq> None \<and> rk_namespace (certificate_key c) \<noteq> rk_namespace (te_gateway_key env)
      then is_allowed (te_grants env) (te_gateway_key env) (certificate_key c) (te_gateway_key env) else True"
    if "l' \<in> set (gateway_listeners (validate_tls env g))" "c \<in> set (listener_certificates l')" for c l'
    using that step by blast
  then show ?thesis unfolding list_all_iff by auto
qed

end
