(* ===== verification/Reference_Validator.thy ===== *)
theory Reference_Validator
  imports Gateway_Deployment Backend_Resolution Tls_Validation
begin

section \<open>The reference validator service\<close>

text \<open>
  \<open>services/reference_resolver/mod.rs\<close>: the service that receives the requests of the controllers and
  of the resolvers, registers references with the three resolvers, validates the certificates and
  the routes of the affected gateways and hands these to the deployer. A failed \<open>expect\<close> ends the
  service: \<open>None\<close>. The state of the service is the record \<open>validator\<close>; what the validators take from
  outside (parsers, domain patterns, API server, clock) is \<open>validator_env\<close>.
\<close>

subsection \<open>The service\<close>

record validator_env =
  ve_controller_name :: string
  ve_now :: string
  ve_parse_uuid :: "string \<Rightarrow> string option"
  ve_valid_cert :: "string \<Rightarrow> bool"
  ve_valid_key :: "string \<Rightarrow> bool"
  ve_domain_pattern :: "string \<Rightarrow> (string \<Rightarrow> bool) option"
  ve_cluster :: cluster

record validator =
  va_system :: system
  va_secrets :: "secret secret_refs"
  va_backends :: backend_resolver
  va_grants :: grants_resolver
  va_deploys :: "gateway_deploy_request list"

definition tls_env_of :: "validator_env \<Rightarrow> resource_key \<Rightarrow> validator \<Rightarrow> tls_env" where
  "tls_env_of env k v = \<lparr>te_gateway_key = k, te_secrets = va_secrets v, te_grants = va_grants v,
     te_valid_cert = ve_valid_cert env, te_valid_key = ve_valid_key env\<rparr>"

definition resolve_env_of :: "validator_env \<Rightarrow> resource_key \<Rightarrow> validator \<Rightarrow> resolve_env" where
  "resolve_env_of env k v = \<lparr>re_gateway_key = k, re_backends = va_backends v, re_grants = va_grants v,
     re_controller_name = ve_controller_name env, re_now = ve_now env, re_cluster = ve_cluster env\<rparr>"

definition process_gateway :: "validator_env \<Rightarrow> gateway \<Rightarrow> kube_gateway \<Rightarrow> validator \<Rightarrow> gateway \<times> validator" where
  "process_gateway env g kg v =
     (let backend_gateway = validate_tls (tls_env_of env (gw_resource_key g) v) g;
          (g', (s', ops')) = validate_routes (ve_domain_pattern env) (resolve_env_of env (gw_resource_key backend_gateway) v) kg
             backend_gateway (sys_state (va_system v), sys_pool_ops (va_system v))
      in (g', v\<lparr>va_system := (va_system v)\<lparr>sys_state := s', sys_pool_ops := ops'\<rparr>\<rparr>))"

definition send_deploy :: "request_context \<Rightarrow> validator \<Rightarrow> validator" where
  "send_deploy ctx v = v\<lparr>va_deploys := va_deploys v @ [Deploy ctx]\<rparr>"

text \<open>The loops over the affected gateways of \<open>DeleteRoute\<close> and \<open>UpdatedGateways\<close>.\<close>

fun revalidate_gateways :: "validator_env \<Rightarrow> resource_key list \<Rightarrow> validator \<Rightarrow> validator option" where
  "revalidate_gateways env [] v = Some v"
| "revalidate_gateways env (k # ks) v =
     (case get_gateway k (sys_state (va_system v)) of
        None \<Rightarrow> revalidate_gateways env ks v
      | Some kg \<Rightarrow> (case gateway_from_default (ve_parse_uuid env) kg of
            Inl _ \<Rightarrow> None
          | Inr g \<Rightarrow> (case get_gateway_type (gw_resource_key g) (sys_state (va_system v)) of
                None \<Rightarrow> revalidate_gateways env ks v
              | Some t \<Rightarrow>
                  (let (g', v') = process_gateway env (g\<lparr>gw_backend_type := t\<rparr>) kg v
                   in revalidate_gateways env ks (send_deploy
                        \<lparr>rc_gateway = g', rc_kube_gateway = kg, rc_gateway_class_name = gs_gateway_class_name (kg_spec kg)\<rparr> v')))))"

text \<open>
  One request. The resolvers of backends and grants read the store for the routes of a gateway;
  their operations are those of the theories of the resolvers, \<open>None\<close> being a counter underflow.
\<close>

fun handle_request :: "validator_env \<Rightarrow> reference_validate_request \<Rightarrow> validator \<Rightarrow> validator option" where
  "handle_request env (AddGateway ctx) v =
     (let g = rc_gateway ctx;
          v1 = v\<lparr>va_secrets := add_secrets_by_gateway g (va_secrets v)\<rparr>
      in case add_backend_references (sys_state (va_system v)) (gw_resource_key g) (va_backends v1) of
           None \<Rightarrow> None
         | Some backends \<Rightarrow>
             (let v2 = v1\<lparr>va_backends := backends, va_grants := add_references_by_gateway (sys_state (va_system v)) g (va_grants v1)\<rparr>;
                  (g', v3) = process_gateway env g (rc_kube_gateway ctx) v2
              in Some (send_deploy (ctx\<lparr>rc_gateway := g'\<rparr>) v3)))"
| "handle_request env (DeleteGateway g) v =
     (case delete_backend_references (gw_resource_key g) (va_backends v) of
        None \<Rightarrow> None
      | Some backends \<Rightarrow> Some (v\<lparr>va_secrets := delete_secrets_by_gateway g (va_secrets v), va_backends := backends,
          va_grants := delete_references_by_gateway (sys_state (va_system v)) g (va_grants v)\<rparr>))"
| "handle_request env (AddRoute route_rk references) v = Some v"
| "handle_request env (DeleteRoute route_rk references) v =
     (case delete_backend_route_references route_rk (va_backends v) of
        None \<Rightarrow> None
      | Some (affected_gateways, backends) \<Rightarrow> revalidate_gateways env affected_gateways (v\<lparr>va_backends := backends\<rparr>))"
| "handle_request env (UpdatedRoutes reference updated_routes) v = Some v"
| "handle_request env (UpdatedGateways reference gateways) v = revalidate_gateways env gateways v"

subsection \<open>Validation keeps the shape of a gateway\<close>

text \<open>A listener whose only condition is the state of its references.\<close>

fun single_condition :: "listener_condition list \<Rightarrow> bool" where
  "single_condition [LC_ResolvedRefs _] = True"
| "single_condition _ = False"

lemma single_condition_iff: "single_condition cs \<longleftrightarrow> (\<exists>rr. cs = [LC_ResolvedRefs rr])"
  by (cases cs rule: single_condition.cases) auto

definition reportable :: "gateway \<Rightarrow> bool" where
  "reportable g \<longleftrightarrow> list_all (\<lambda>l. single_condition (listener_conditions l)) (gateway_listeners g)"

lemma single_replace: "single_condition cs \<Longrightarrow> single_condition (replace_condition (LC_ResolvedRefs rr) cs)"
  by (auto simp: single_condition_iff replace_condition_def)

lemma single_check_certificates: "single_condition cs \<Longrightarrow> single_condition (snd (check_certificates env spr certs cs))"
proof (induction certs arbitrary: cs)
  case (Cons c certs)
  obtain c' problem where c: "check_certificate env spr c = (c', problem)" by (metis surj_pair)
  let ?cs = "case problem of Some p \<Rightarrow> replace_condition (LC_ResolvedRefs p) cs | None \<Rightarrow> cs"
  have "single_condition ?cs" using Cons.prems by (auto simp: single_replace split: option.split)
  from Cons.IH [OF this] show ?case by (simp add: c case_prod_beta Let_def)
qed simp

lemma single_validate_data:
  "single_condition (ld_conditions d) \<Longrightarrow> single_condition (ld_conditions (validate_listener_data env d))"
  by (auto simp: validate_listener_data_def Let_def case_prod_beta single_check_certificates split: option.split tls_type.split)

lemma single_update_routes:
  "single_condition (listener_conditions l) \<Longrightarrow> single_condition (listener_conditions (update_routes rs us l))"
  by (auto simp: listener_conditions_def update_routes_def update_routes_data_def Let_def single_replace split: list.split)

lemma reportable_validate_tls: "reportable g \<Longrightarrow> reportable (validate_tls env g)"
  by (auto simp: reportable_def validate_tls_def map_listeners_def gateway_listeners_def list_all_iff
      listener_conditions_def single_validate_data)

lemma reportable_update_listener:
  "reportable g \<Longrightarrow> reportable (update_listener n (update_routes rs us) g)"
  by (auto simp: reportable_def update_listener_def gateway_listeners_def list_all_iff single_update_routes)

lemma reportable_validate_routes: "reportable g \<Longrightarrow> reportable (fst (validate_routes dp env kg g w))"
proof -
  have fold: "reportable g \<Longrightarrow> reportable (fold (\<lambda>(k, routes). update_listener k (update_routes (f routes) (h routes))) ms g)"
    for f h ms g
    by (induction ms arbitrary: g) (auto simp: reportable_update_listener)
  have orphans: "reportable (g\<lparr>gw_orphaned_routes := x\<rparr>) = reportable g" for g x
    by (simp add: reportable_def gateway_listeners_def)
  assume "reportable g"
  then show ?thesis by (simp add: validate_routes_def Let_def case_prod_beta orphans fold)
qed

lemma reportable_gateway_from: "gateway_from p kg t = Inr g \<Longrightarrow> reportable g"
proof -
  assume g: "gateway_from p kg t = Inr g"
  obtain ls where ls: "verify_items (map listener_from (gs_listeners (kg_spec kg))) = (ls, [])"
    and gl: "gw_listeners g = bset_from fst (map (\<lambda>l. (listener_name l, l)) ls)"
    using g by (auto simp: gateway_from_def split: option.splits prod.splits if_splits)
  have all: "map listener_from (gs_listeners (kg_spec kg)) = map Inr ls"
    using verify_items_no_errors [of "map listener_from (gs_listeners (kg_spec kg))"] ls by simp
  have valid: "\<exists>rr. validate_allowed_routes l = LC_ResolvedRefs rr" for l
    by (auto simp: validate_allowed_routes_def default_kinds_def Let_def split: option.split)
  have "single_condition (listener_conditions x)" if "x \<in> set ls" for x
  proof -
    have "Inr x \<in> listener_from ` set (gs_listeners (kg_spec kg))"
      using that arg_cong [OF all, of set] by force
    then obtain s where "listener_from s = Inr x" by auto
    then show ?thesis using valid [of s] by (auto simp: listener_from_data(4))
  qed
  then show ?thesis
    by (auto simp: reportable_def gateway_listeners_def gl list_all_iff dest: map_fst_bset_from_mem)
qed

lemma validate_routes_frame:
  "gw_resource_key (fst (validate_routes dp env kg g w)) = gw_resource_key g"
  "gw_backend_type (fst (validate_routes dp env kg g w)) = gw_backend_type g"
  "gw_id (fst (validate_routes dp env kg g w)) = gw_id g"
proof -
  have fold: "gw_resource_key (fold (\<lambda>(k, routes). update_listener k (F routes)) ms g) = gw_resource_key g"
    "gw_backend_type (fold (\<lambda>(k, routes). update_listener k (F routes)) ms g) = gw_backend_type g"
    "gw_id (fold (\<lambda>(k, routes). update_listener k (F routes)) ms g) = gw_id g" for F ms g
    by (induction ms arbitrary: g) (auto simp: update_listener_def)
  show "gw_resource_key (fst (validate_routes dp env kg g w)) = gw_resource_key g"
    "gw_backend_type (fst (validate_routes dp env kg g w)) = gw_backend_type g"
    "gw_id (fst (validate_routes dp env kg g w)) = gw_id g"
    by (simp_all add: validate_routes_def Let_def case_prod_beta fold)
qed

lemma process_gateway_frame:
  "gw_resource_key (fst (process_gateway env g kg v)) = gw_resource_key g"
  "gw_backend_type (fst (process_gateway env g kg v)) = gw_backend_type g"
  "gw_id (fst (process_gateway env g kg v)) = gw_id g"
  by (simp_all add: process_gateway_def Let_def case_prod_beta validate_routes_frame validate_tls_def map_listeners_def)

lemma process_gateway_reportable: "reportable g \<Longrightarrow> reportable (fst (process_gateway env g kg v))"
  by (simp add: process_gateway_def Let_def case_prod_beta reportable_validate_routes reportable_validate_tls)

subsection \<open>Properties\<close>

lemma revalidate_none_iff:
  "revalidate_gateways env [k] v = None \<longleftrightarrow>
     (case get_gateway k (sys_state (va_system v)) of
        None \<Rightarrow> False | Some kg \<Rightarrow> (\<exists>e. gateway_from_default (ve_parse_uuid env) kg = Inl e))"
  by (auto simp: Let_def case_prod_beta split: option.split sum.split)

text \<open>
  Adding a gateway registers its secrets, backends and grant references and hands exactly one
  gateway to the deployer: the announced one, with its identity and its implementation type; if the
  gateway comes from a conversion, the only condition of each of its listeners is the state of its references.
\<close>

lemma added_gateway_deployed:
  "case handle_request env (AddGateway ctx) v of
     None \<Rightarrow> add_backend_references (sys_state (va_system v)) (gw_resource_key (rc_gateway ctx)) (va_backends v) = None
   | Some v' \<Rightarrow>
       Some (va_backends v') = add_backend_references (sys_state (va_system v)) (gw_resource_key (rc_gateway ctx)) (va_backends v) \<and>
       va_secrets v' = add_secrets_by_gateway (rc_gateway ctx) (va_secrets v) \<and>
       va_grants v' = add_references_by_gateway (sys_state (va_system v)) (rc_gateway ctx) (va_grants v) \<and>
       (case drop (length (va_deploys v)) (va_deploys v') of
          [Deploy ctx'] \<Rightarrow>
            rc_kube_gateway ctx' = rc_kube_gateway ctx \<and> rc_gateway_class_name ctx' = rc_gateway_class_name ctx \<and>
            gw_resource_key (rc_gateway ctx') = gw_resource_key (rc_gateway ctx) \<and>
            gw_backend_type (rc_gateway ctx') = gw_backend_type (rc_gateway ctx) \<and>
            (case gateway_from p (rc_kube_gateway ctx) t of
               Inr g \<Rightarrow> if rc_gateway ctx = g then reportable (rc_gateway ctx') else True | Inl _ \<Rightarrow> True)
        | _ \<Rightarrow> False)"
proof (cases "add_backend_references (sys_state (va_system v)) (gw_resource_key (rc_gateway ctx)) (va_backends v)")
  case None
  then show ?thesis by (simp add: Let_def)
next
  case (Some backends)
  define v2 where "v2 = v\<lparr>va_secrets := add_secrets_by_gateway (rc_gateway ctx) (va_secrets v), va_backends := backends,
      va_grants := add_references_by_gateway (sys_state (va_system v)) (rc_gateway ctx) (va_grants v)\<rparr>"
  obtain g' v3 where r: "process_gateway env (rc_gateway ctx) (rc_kube_gateway ctx) v2 = (g', v3)" by (metis surj_pair)
  have v3: "va_secrets v3 = va_secrets v2" "va_backends v3 = va_backends v2" "va_grants v3 = va_grants v2" "va_deploys v3 = va_deploys v2"
    using r by (auto simp: process_gateway_def Let_def case_prod_beta)
  have g': "gw_resource_key g' = gw_resource_key (rc_gateway ctx)" "gw_backend_type g' = gw_backend_type (rc_gateway ctx)"
    "reportable (rc_gateway ctx) \<Longrightarrow> reportable g'"
    using process_gateway_frame [of env "rc_gateway ctx" "rc_kube_gateway ctx" v2]
      process_gateway_reportable [of "rc_gateway ctx" env "rc_kube_gateway ctx" v2] by (simp_all add: r)
  have h: "handle_request env (AddGateway ctx) v = Some (send_deploy (ctx\<lparr>rc_gateway := g'\<rparr>) v3)"
    using Some r by (simp add: Let_def v2_def)
  show ?thesis
    unfolding h using Some g' reportable_gateway_from [of p "rc_kube_gateway ctx" t]
    by (simp add: send_deploy_def v3 v2_def split: sum.split)
qed

text \<open>
  A request for stored gateways stops the service when one of them does not convert, although
  gateways are stored before they are validated; the deletion of a route is such a request.
\<close>

lemma stored_misconfigured_gateway_stops_service:
  "handle_request env (UpdatedGateways reference [k]) v = None \<longleftrightarrow>
     (case get_gateway k (sys_state (va_system v)) of
        None \<Rightarrow> False
      | Some kg \<Rightarrow> \<not> (ve_parse_uuid env (unwrap_or (om_uid (kg_metadata kg)) '''') \<noteq> None \<and>
          list_all known_listener (gs_listeners (kg_spec kg))))"
proof -
  have "(\<exists>e. gateway_from_default p kg = Inl e) \<longleftrightarrow> \<not> (\<exists>g. gateway_from_default p kg = Inr g)" for p kg
    by (cases "gateway_from_default p kg") auto
  then show ?thesis
    by (simp only: handle_request.simps revalidate_none_iff gateway_from_default_def gateway_from_ok_iff split: option.split)
qed

end
