(* ===== verification/Controller_Runs.thy ===== *)
theory Controller_Runs
  imports Reference_Validator
begin

section \<open>Runs of the controller\<close>

text \<open>
  The whole controller as a step relation: a step is the reconciliation of one object by its
  controller, one request handled by the reference validator, one gateway deployed, one response
  of a backend deployer, or a change of the state of the reference resolvers, whose own rounds touch nothing else. What comes from outside (objects, answers, times) is arbitrary in each step.
  The locale \<open>store_invariant\<close> is the interface between the steps and a property of the store: the
  operations of the store the steps use, and nothing else.
\<close>

subsection \<open>Steps\<close>

record controller_config =
  cc_controller_name :: string
  cc_parse_uuid :: "string \<Rightarrow> string option"
  cc_senders :: "gateway_implementation_type list"

definition on_system :: "system \<Rightarrow> validator \<Rightarrow> validator" where
  "on_system sys v = v\<lparr>va_system := sys\<rparr>"

inductive controller_step :: "controller_config \<Rightarrow> validator \<Rightarrow> validator \<Rightarrow> bool" for c where
  http_step: "controller_step c v (on_system (snd (reconcile_http_route
      (http_env now (cc_controller_name c) (cc_parse_uuid c)) r (va_system v))) v)"
| grpc_step: "controller_step c v (on_system (snd (reconcile_grpc_route
      (grpc_env now (cc_controller_name c) (cc_parse_uuid c)) gr (va_system v))) v)"
| gateway_step: "controller_step c v (on_system (snd (reconcile_gateway
      (cc_controller_name c) (cc_parse_uuid c) (cc_senders c) config_api kg (va_system v))) v)"
| class_step: "controller_step c v (on_system (snd (reconcile_gateway_class now (cc_controller_name c)
      (cc_parse_uuid c) class_reply gc (va_system v))) v)"
| pool_step: "controller_step c v (on_system (snd (reconcile_inference_pool now (cc_controller_name c)
      (cc_parse_uuid c) pool (va_system v))) v)"
| response_step: "controller_step c v (on_system (handle_response now (cc_controller_name c) reply response (va_system v)) v)"
| request_step: "handle_request env request v = Some v' \<Longrightarrow> controller_step c v v'"
| resolvers_step: "controller_step c v (v\<lparr>va_secrets := secrets, va_backends := backends, va_grants := grants\<rparr>)"
| deploy_step: "deploy_gateway now (cc_senders c) ctx (va_system v) = Some sys \<Longrightarrow> controller_step c v (on_system sys v)"

definition initial :: "validator \<Rightarrow> bool" where
  "initial v \<longleftrightarrow> sys_state (va_system v) = new_state"

inductive reachable :: "controller_config \<Rightarrow> validator \<Rightarrow> bool" for c where
  start: "initial v \<Longrightarrow> reachable c v"
| step: "reachable c v \<Longrightarrow> controller_step c v v' \<Longrightarrow> reachable c v'"

subsection \<open>Properties of the store all steps keep\<close>

locale store_invariant =
  fixes P :: "state \<Rightarrow> bool"
  assumes save_gateway: "P s \<Longrightarrow> P (save_gateway k g s)"
    and maybe_save_gateway: "P s \<Longrightarrow> P (maybe_save_gateway k g s)"
    and delete_gateway: "P s \<Longrightarrow> P (snd (delete_gateway k s))"
    and save_class: "P s \<Longrightarrow> P (snd (save_gateway_class k gc s))"
    and save_type: "P s \<Longrightarrow> P (snd (save_gateway_type k t s))"
    and delete_type: "P s \<Longrightarrow> P (snd (delete_gateway_type k s))"
    and save_http: "P s \<Longrightarrow> key_of_http_route r = k \<Longrightarrow> P (save_http_route k r s)"
    and maybe_save_http: "P s \<Longrightarrow> key_of_http_route r = k \<Longrightarrow> P (maybe_save_http_route k r s)"
    and delete_http: "P s \<Longrightarrow> P (snd (delete_http_route k s))"
    and save_grpc: "P s \<Longrightarrow> key_of_grpc_route gr = k \<Longrightarrow> P (save_grpc_route k gr s)"
    and maybe_save_grpc: "P s \<Longrightarrow> key_of_grpc_route gr = k \<Longrightarrow> P (maybe_save_grpc_route k gr s)"
    and attach_route: "P s \<Longrightarrow> P (attach_http_route_to_gateway g' k s)"
    and detach_route: "P s \<Longrightarrow> P (detach_http_route_from_gateway g' k s)"
    and attach_pools: "P s \<Longrightarrow> P (attach_inference_pool_to_gateway g' k ps s)"
    and detach_pools: "P s \<Longrightarrow> P (snd (detach_inference_pool_from_gateway g' k s))"
    and save_pool: "P s \<Longrightarrow> P (save_inference_pool k p s)"
    and maybe_save_pool: "P s \<Longrightarrow> P (maybe_save_inference_pool k p s)"
    and delete_pool: "P s \<Longrightarrow> P (snd (delete_inference_pool k s))"
begin

lemma parents:
  "P s \<Longrightarrow> P (attach_to_parents rk pools ps s)" "P s \<Longrightarrow> P (detach_from_parents rk gs s)"
proof -
  show "P s \<Longrightarrow> P (attach_to_parents rk pools ps s)"
    by (induction ps arbitrary: s) (auto simp: attach_to_parents_def attach_route attach_pools)
  show "P s \<Longrightarrow> P (detach_from_parents rk gs s)"
    by (induction gs arbitrary: s) (auto simp: detach_from_parents_def detach_route detach_pools)
qed

lemma route_pools: "P (sys_state sys) \<Longrightarrow> P (sys_state (update_pools_of_route env gs ks sys))"
  by (induction ks arbitrary: sys) (auto simp: Let_def maybe_save_pool split: option.split)

lemma http_changed:
  assumes "P (sys_state sys)" "key_of_http_route r = k"
  shows "P (sys_state (snd (http_new_or_changed (http_env now c p) k r sys)))"
proof -
  have "key_of_http_route (r\<lparr>hr_status := st\<rparr>) = k" for st using assms(2) by (simp add: key_of_http_route_def)
  then show ?thesis
    using assms by (auto simp: http_new_or_changed_def http_handler.change_state parents save_http split: option.split)
qed

lemma grpc_changed:
  assumes "P (sys_state sys)" "key_of_grpc_route r = k"
  shows "P (sys_state (snd (grpc_new_or_changed (grpc_env now c p) k r sys)))"
proof -
  have "key_of_grpc_route (r\<lparr>gr_status := st\<rparr>) = k" for st using assms(2) by (simp add: key_of_grpc_route_def)
  then show ?thesis
    using assms by (auto simp: grpc_new_or_changed_def grpc_handler.change_state parents save_grpc split: option.split)
qed

lemma route_removed:
  assumes "P (sys_state sys)" "\<And>x sys. sys_state (ce_send_route env x sys) = sys_state sys"
  shows "P (sys_state (snd (route_deleted env rk r ps sys)))"
proof -
  let ?s = "detach_from_parents rk (bset_from (\<lambda>k. k) (map snd (parent_keys rk ps))) (sys_state sys)"
  have "P (snd (delete_http_route rk ?s))" using assms(1) by (intro delete_http parents)
  then show ?thesis
    by (auto simp: route_deleted_def Let_def case_prod_beta assms(2) route_pools split: option.split)
qed

lemma http_reconciled:
  assumes "P (sys_state sys)"
  shows "P (sys_state (snd (reconcile_http_route (http_env now c p) r sys)))"
proof -
  have send: "sys_state (ce_send_route (http_env now c p) x sys) = sys_state sys" for x sys by (simp add: http_env_def)
  have "P (sys_state (snd (dispatch (http_route_handler (http_env now c p)) st (key_of_http_route r) r sys)))" for st
    using assms
    by (cases st) (auto simp: http_route_handler_def default_handler_def already_added_def http_changed http_deleted_def
        route_removed send save_http maybe_save_http split: option.split)
  then show ?thesis
    using assms by (simp add: reconcile_http_route_def process_stored_def process_def split: option.split)
qed

lemma grpc_reconciled:
  assumes "P (sys_state sys)"
  shows "P (sys_state (snd (reconcile_grpc_route (grpc_env now c p) r sys)))"
proof -
  have send: "sys_state (ce_send_route (grpc_env now c p) x sys) = sys_state sys" for x sys by (simp add: grpc_env_def)
  have "P (sys_state (snd (dispatch (grpc_route_handler (grpc_env now c p)) st (key_of_grpc_route r) r sys)))" for st
    using assms
    by (cases st) (auto simp: grpc_route_handler_def default_handler_def already_added_def grpc_changed grpc_deleted_def
        route_removed send save_grpc maybe_save_grpc split: option.split)
  then show ?thesis
    using assms by (simp add: reconcile_grpc_route_def process_stored_def process_def split: option.split)
qed

lemma gateway_changed: "P (sys_state sys) \<Longrightarrow> P (sys_state (snd (gateway_new_or_changed env kg sys)))"
  by (auto simp: gateway_new_or_changed_def save_type split: sum.split)

lemma gateway_removed_state: "P (sys_state sys) \<Longrightarrow> P (sys_state (snd (gateway_deleted env k kg sys)))"
  by (auto simp: gateway_deleted_def delete_backend_gateway_def Let_def case_prod_beta delete_gateway delete_type
      split: option.split sum.split if_split)

lemma gateway_reconciled:
  assumes "P (sys_state sys)"
  shows "P (sys_state (snd (reconcile_gateway controller p senders config_api kg sys)))"
proof -
  have "P (sys_state (snd (dispatch (gateway_handler env) st k kg sys)))" for st k env
    using assms
    by (cases st) (auto simp: gateway_handler_def default_handler_def already_added_def gateway_changed gateway_removed_state
        gateway_status_changed_def Let_def save_gateway maybe_save_gateway split: option.split)
  then show ?thesis
    using assms by (simp add: reconcile_gateway_def process_stored_def process_def split: option.split sum.split)
qed

lemma class_reconciled:
  assumes "P (sys_state sys)"
  shows "P (sys_state (snd (reconcile_gateway_class now name p reply gc sys)))"
proof -
  have "P (sys_state (snd (dispatch (gateway_class_handler now controller reply) st k gc sys)))" for st k controller
    using assms
    by (cases st) (auto simp: gateway_class_handler_def default_handler_def already_added_def class_new_or_changed_def
        class_deleted_def Let_def save_class delete_gateway delete_type split: option.split)
  then show ?thesis
    using assms by (simp add: reconcile_gateway_class_def process_stored_def process_def split: option.split)
qed

lemma pool_reconciled:
  assumes "P (sys_state sys)"
  shows "P (sys_state (snd (reconcile_inference_pool now controller p pool sys)))"
proof -
  have "P (sys_state (snd (dispatch (inference_pool_handler now controller) st k pool sys)))" for st k
    using assms
    by (cases st) (auto simp: inference_pool_handler_def default_handler_def already_added_def pool_new_or_changed_def
        pool_deleted_def add_pool_finalizer_def Let_def save_pool delete_pool split: option.split)
  then show ?thesis
    using assms by (simp add: reconcile_inference_pool_def process_stored_def process_def split: option.split)
qed

lemma response_handled: "P (sys_state sys) \<Longrightarrow> P (sys_state (handle_response now controller reply response sys))"
  by (cases response) (auto simp: gateway_processed_def Let_def update_http_routes_def update_grpc_routes_def
      update_http_routes_eq update_grpc_routes_eq deployer_version_not_changed_def save_gateway split: option.split)

lemma pools_processed: "P (fst w) \<Longrightarrow> P (fst (snd (process_pools env rk bs w)))"
proof (induction bs arbitrary: w)
  case (Cons b bs)
  have "P (fst (snd (resolve_inference_pool env rk c w)))" if "P (fst w)" for c w
    using that by (cases w) (auto simp: resolve_inference_pool_def Let_def save_pool split: option.split)
  then have "P (fst (snd (process_inference_pool_backend env rk b w)))" using Cons.prems
    by (cases "(env, rk, b, w)" rule: process_inference_pool_backend.cases) auto
  with Cons.IH show ?case by (simp add: case_prod_beta Let_def)
qed simp

lemma backends_processed: "P (fst w) \<Longrightarrow> P (fst (snd (process_backends env rk bs w)))"
  by (simp add: process_backends_def Let_def case_prod_beta pools_processed)

lemma http_rules_resolved: "P (fst w) \<Longrightarrow> P (fst (snd (resolve_http_rules env rk rules st w)))"
  by (induction rules arbitrary: st w) (simp_all add: Let_def case_prod_beta backends_processed)

lemma grpc_rules_resolved: "P (fst w) \<Longrightarrow> P (fst (snd (resolve_grpc_rules env rk rules st w)))"
  by (induction rules arbitrary: st w) (simp_all add: Let_def case_prod_beta backends_processed)

lemma routes_resolved: "P (fst w) \<Longrightarrow> P (fst (snd (resolve_routes env rs w)))"
proof (induction rs arbitrary: w)
  case (Cons r rs)
  have "P (fst (snd (resolve_route env r w)))" using Cons.prems
    by (auto simp: resolve_route_def Let_def case_prod_beta http_rules_resolved grpc_rules_resolved split: route_type.split)
  with Cons.IH show ?case by (simp add: case_prod_beta Let_def)
qed simp

lemma gateway_validated: "P (sys_state (va_system v)) \<Longrightarrow> P (sys_state (va_system (snd (process_gateway env g kg v))))"
  by (simp add: process_gateway_def Let_def case_prod_beta validate_routes_def routes_resolved)

lemma gateways_revalidated:
  "P (sys_state (va_system v)) \<Longrightarrow> revalidate_gateways env ks v = Some v' \<Longrightarrow> P (sys_state (va_system v'))"
proof (induction ks arbitrary: v)
  case (Cons k ks)
  have send: "va_system (send_deploy ctx w) = va_system w" for ctx w by (simp add: send_deploy_def)
  from Cons.prems show ?case
    by (auto simp: Let_def case_prod_beta split: option.splits sum.splits intro: Cons.IH)
      (erule Cons.IH [rotated], simp add: send gateway_validated)
qed simp

lemma request_handled:
  assumes "P (sys_state (va_system v))" "handle_request env request v = Some v'"
  shows "P (sys_state (va_system v'))"
proof (cases request)
  case (AddGateway ctx)
  have "P (sys_state (va_system (snd (process_gateway env g kg w))))" if "va_system w = va_system v" for g kg w
    using that assms(1) by (intro gateway_validated) simp
  then show ?thesis using assms AddGateway
    by (auto simp: Let_def case_prod_beta send_deploy_def split: option.splits)
next
  case (DeleteRoute route_rk references)
  then obtain gs b where "revalidate_gateways env gs (v\<lparr>va_backends := b\<rparr>) = Some v'"
    using assms(2) by (auto split: option.splits prod.splits)
  then show ?thesis by (rule gateways_revalidated [rotated]) (simp add: assms(1))
qed (use assms gateways_revalidated in \<open>auto split: option.splits\<close>)

lemma step_keeps:
  assumes "controller_step c v v'" "P (sys_state (va_system v))"
  shows "P (sys_state (va_system v'))"
  using assms
  by (induction rule: controller_step.induct)
    (auto simp: on_system_def http_reconciled grpc_reconciled gateway_reconciled class_reconciled pool_reconciled
      response_handled deploy_gateway_def Let_def request_handled split: if_splits)

lemma reachable_keeps: "reachable c v \<Longrightarrow> P new_state \<Longrightarrow> P (sys_state (va_system v))"
  by (induction rule: reachable.induct) (auto simp: initial_def step_keeps)

lemma run_keeps: "(controller_step c)\<^sup>*\<^sup>* v v' \<Longrightarrow> P (sys_state (va_system v)) \<Longrightarrow> P (sys_state (va_system v'))"
  by (induction rule: rtranclp_induct) (auto simp: step_keeps)

end

subsection \<open>Invariants\<close>

interpretation well_formed: store_invariant state_wf
  by unfold_locales (simp_all add: state_wf_ops)

definition keys_agree :: "state \<Rightarrow> bool" where
  "keys_agree s \<longleftrightarrow> (\<forall>k. case get_http_route_by_id k s of Some r \<Rightarrow> key_of_http_route r = k | None \<Rightarrow> True) \<and>
     (\<forall>k. case get_grpc_route_by_id k s of Some r \<Rightarrow> key_of_grpc_route r = k | None \<Rightarrow> True)"

lemma routes_frame:
  "map_of (st_http_routes (attach_http_route_to_gateway g k s)) = map_of (st_http_routes s)"
  "map_of (st_http_routes (detach_http_route_from_gateway g k s)) = map_of (st_http_routes s)"
  "map_of (st_http_routes (attach_inference_pool_to_gateway g k ps s)) = map_of (st_http_routes s)"
  "map_of (st_http_routes (snd (detach_inference_pool_from_gateway g k s))) = map_of (st_http_routes s)"
  "map_of (st_grpc_routes (attach_http_route_to_gateway g k s)) = map_of (st_grpc_routes s)"
  "map_of (st_grpc_routes (detach_http_route_from_gateway g k s)) = map_of (st_grpc_routes s)"
  "map_of (st_grpc_routes (attach_inference_pool_to_gateway g k ps s)) = map_of (st_grpc_routes s)"
  "map_of (st_grpc_routes (snd (detach_inference_pool_from_gateway g k s))) = map_of (st_grpc_routes s)"
  "map_of (st_gateway_classes (attach_http_route_to_gateway g k s)) = map_of (st_gateway_classes s)"
  "map_of (st_gateway_classes (detach_http_route_from_gateway g k s)) = map_of (st_gateway_classes s)"
  "map_of (st_gateway_classes (attach_inference_pool_to_gateway g k ps s)) = map_of (st_gateway_classes s)"
  "map_of (st_gateway_classes (snd (detach_inference_pool_from_gateway g k s))) = map_of (st_gateway_classes s)"
  by (auto simp: attach_http_route_to_gateway_def detach_http_route_from_gateway_def attach_inference_pool_to_gateway_def
      detach_inference_pool_from_gateway_def Let_def split: option.split)

interpretation keys: store_invariant keys_agree
  by unfold_locales (auto simp: keys_agree_def store_defs routes_frame update_conv' delete_conv' split: option.splits)

text \<open>Keys that, once in the store, stay in it.\<close>

definition keeps :: "resource_key set \<Rightarrow> resource_key set \<Rightarrow> state \<Rightarrow> bool" where
  "keeps classes grpc s \<longleftrightarrow> classes \<subseteq> dom (map_of (st_gateway_classes s)) \<and> grpc \<subseteq> dom (map_of (st_grpc_routes s))"

interpretation kept: store_invariant "keeps classes grpc"
  by unfold_locales (auto simp: keeps_def store_defs routes_frame update_conv' delete_conv' split: option.splits)

text \<open>
  C6: in every state the controller can reach, its collections are well formed and every route is
  stored under its own key.
\<close>

theorem reachable_store_well_formed:
  "{sys_state (va_system v) | v. reachable c v} \<subseteq> {s. state_wf s \<and> keys_agree s}"
proof -
  have "keys_agree new_state" by (simp add: keys_agree_def new_state_def store_defs)
  then show ?thesis
    using well_formed.reachable_keeps [of c] keys.reachable_keeps [of c] state_wf_new by blast
qed

text \<open>
  C35: no run of the controller ever removes a gateway class or a GRPC route from the store, whatever
  objects are deleted.
\<close>

theorem classes_and_grpc_routes_accumulate:
  "{(v, v'). (controller_step c)\<^sup>*\<^sup>* v v'} \<subseteq>
   {(v, v'). dom (map_of (st_gateway_classes (sys_state (va_system v)))) \<subseteq> dom (map_of (st_gateway_classes (sys_state (va_system v')))) \<and>
             dom (map_of (st_grpc_routes (sys_state (va_system v)))) \<subseteq> dom (map_of (st_grpc_routes (sys_state (va_system v'))))}"
proof -
  have "keeps (dom (map_of (st_gateway_classes (sys_state (va_system v))))) (dom (map_of (st_grpc_routes (sys_state (va_system v)))))
      (sys_state (va_system v'))" if "(controller_step c)\<^sup>*\<^sup>* v v'" for v v'
    using that by (rule kept.run_keeps) (simp add: keeps_def)
  then show ?thesis unfolding keeps_def by blast
qed

text \<open>
  In every reachable state the deletion of a GRPC route with parents fails, and its patcher is not
  told to delete it, so that its finalizer stays.
\<close>

lemma grpc_deletion_fails:
  "{(fst result, sys_grpc_ops (snd result) = sys_grpc_ops (va_system v)) | result v r.
      reachable c v \<and> grs_parent_refs (gr_spec r) \<noteq> None \<and>
      result = grpc_deleted (grpc_env now (cc_controller_name c) (cc_parse_uuid c)) (key_of_grpc_route r) r (va_system v)}
   \<subseteq> {(Failed (InvalidPayload ''Route doesn't exist''), True)}"
proof -
  have "get_http_route_by_id (key_of_grpc_route r) (sys_state (va_system v)) = None" if "reachable c v" for r v
  proof (cases "get_http_route_by_id (key_of_grpc_route r) (sys_state (va_system v))")
    case (Some h)
    have "keys_agree new_state" by (simp add: keys_agree_def new_state_def store_defs)
    with that have "keys_agree (sys_state (va_system v))" by (rule keys.reachable_keeps)
    with Some have "key_of_http_route h = key_of_grpc_route r" by (auto simp: keys_agree_def split: option.splits)
    then show ?thesis by (simp add: key_of_http_route_def key_of_grpc_route_def)
  qed
  then show ?thesis by (auto simp: grpc_deleted_def grpc_handler.deleted_unknown)
qed

end
