(* ===== verification/Kube_Workloads.thy ===== *)
theory Kube_Workloads
  imports Messages
begin

section \<open>Workloads of a gateway\<close>

text \<open>
  The API objects the backend deployers create for a gateway, as records of the fields they set: a
  config map, a deployment with its pod, a service and a service account, the requests they send to the
  API server, and what all deployers share of names and address lookup. An ordered map of labels is an
  association list sorted by key. The version annotation, a fresh random identifier, is an argument.
\<close>

subsection \<open>Objects\<close>

record container_port =
  cp_container_port :: "32 word"
  cp_protocol :: "string option"

record key_to_path =
  ktp_key :: string
  ktp_path :: string

record secret_projection =
  spj_name :: string
  spj_items :: "key_to_path list option"

datatype volume_source =
    Vol_ConfigMap string "key_to_path list option"
  | Vol_Projected "secret_projection list"

record volume =
  vol_name :: string
  vol_source :: volume_source

datatype env_value = Env_Value string | Env_FieldPath string

record volume_mount =
  vmt_name :: string
  vmt_mount_path :: string
  vmt_read_only :: bool

text \<open>A readiness probe without a path only opens a connection to the port.\<close>

record readiness_probe =
  rpr_path :: "string option"
  rpr_port :: int
  rpr_initial_delay_seconds :: int
  rpr_period_seconds :: int

record container =
  ctr_name :: string
  ctr_image :: string
  ctr_image_pull_policy :: string
  ctr_command :: "string list"
  ctr_args :: "string list"
  ctr_env :: "(string \<times> env_value) list"
  ctr_ports :: "container_port list option"
  ctr_readiness_probe :: "readiness_probe option"
  ctr_volume_mounts :: "volume_mount list"

record pod_spec =
  pos_containers :: "container list"
  pos_volumes :: "volume list option"

record workload_meta =
  wm_name :: string
  wm_namespace :: string
  wm_labels :: "(string \<times> string) list option"
  wm_annotations :: "(string \<times> string) list option"

record deployment =
  dpl_metadata :: workload_meta
  dpl_replicas :: int
  dpl_selector :: "(string \<times> string) list"
  dpl_template_labels :: "(string \<times> string) list"
  dpl_pod_spec :: pod_spec

record config_map =
  cfm_metadata :: workload_meta
  cfm_data :: "(string \<times> string) list"

record service_account =
  sac_metadata :: workload_meta

record gateway_service_port =
  gsp_name :: string
  gsp_port :: "32 word"
  gsp_protocol :: string
  gsp_target_port :: "32 word"

record load_balancer_ingress =
  lbi_ip :: "string option"
  lbi_hostname :: "string option"

text \<open>The status of a service is its load balancer's ingress points, each level of which may be missing.\<close>

record load_balancer_status =
  lbs_ingress :: "load_balancer_ingress list option"

record service_status =
  sst_load_balancer :: "load_balancer_status option"

record gateway_service =
  gsv_metadata :: workload_meta
  gsv_selector :: "(string \<times> string) list"
  gsv_ports :: "gateway_service_port list"
  gsv_type :: string
  gsv_status :: "service_status option"

subsection \<open>Requests to the API server\<close>

datatype kube_call =
    Apply_ConfigMap string config_map
  | Apply_Deployment string deployment
  | Apply_Service string gateway_service
  | Apply_ServiceAccount string service_account
  | Delete_ServiceAccount string
  | Delete_Service string
  | Delete_Deployment string
  | Delete_ConfigMap string

text \<open>Which requests of a deployment succeed; the answer to the service request is the stored service.\<close>

record apply_replies =
  apr_config_map :: bool
  apr_deployment :: bool
  apr_service :: "gateway_service option"
  apr_service_account :: bool

subsection \<open>Text\<close>

definition show_i32 :: "32 word \<Rightarrow> string" where
  "show_i32 w = (if sint w < 0 then CHR ''-'' # show_nat (nat (- sint w)) else show_nat (nat (sint w)))"

fun protocol_to_string :: "protocol_type \<Rightarrow> string" where
  "protocol_to_string P_Http = ''HTTP''"
| "protocol_to_string P_Https = ''HTTPS''"
| "protocol_to_string P_Tls = ''TLS''"
| "protocol_to_string P_Tcp = ''TCP''"
| "protocol_to_string P_Udp = ''UDP''"

definition ascii_lower :: "string \<Rightarrow> string" where
  "ascii_lower s = map (\<lambda>c. let n = (of_char c :: nat) in if 65 \<le> n \<and> n \<le> 90 then char_of (n + 32) else c) s"

subsection \<open>Order of certificates and addresses\<close>

text \<open>The derived orders: variant first, then the fields.\<close>

type_synonym certificate_rank = "nat \<times> resource_key \<times> string \<times> string \<times> string option"

fun certificate_rank :: "certificate \<Rightarrow> certificate_rank" where
  "certificate_rank (C_ResolvedSameSpace k d) = (0, k, kd_cert d, kd_private_key d, kd_root d)"
| "certificate_rank (C_ResolvedCrossSpace k d) = (1, k, kd_cert d, kd_private_key d, kd_root d)"
| "certificate_rank (C_NotResolved k) = (2, k, [], [], None)"
| "certificate_rank (C_Invalid k) = (3, k, [], [], None)"

lemma certificate_rank_inject: "certificate_rank c = certificate_rank d \<longleftrightarrow> c = d"
  by (cases c; cases d) auto

text \<open>
  The standard library's IP addresses: the rank of the value in their order, and the canonical text,
  of a text that parses.
\<close>

record ip_addresses =
  ipa_rank :: "string \<Rightarrow> int"
  ipa_text :: "string \<Rightarrow> string"

fun address_rank :: "ip_addresses \<Rightarrow> gateway_address \<Rightarrow> nat \<times> int \<times> string" where
  "address_rank ip (GA_Hostname h) = (0, 0, h)"
| "address_rank ip (GA_IPAddress a) = (1, ipa_rank ip a, [])"
| "address_rank ip (GA_NamedAddress n) = (2, 0, n)"

definition gateway_namespace :: "gateway \<Rightarrow> string" where
  "gateway_namespace g = rk_namespace (gw_resource_key g)"

definition gateway_name :: "gateway \<Rightarrow> string" where
  "gateway_name g = rk_name (gw_resource_key g)"

end
