(* ===== verification/Client_Table.thy ===== *)
theory Client_Table
  imports Prelude Resource_Keys
begin

section \<open>Tables of clients\<close>

text \<open>
  The discovery servers keep their clients in a vector searched by client address. A task works on a
  copy of an entry and writes it back with \<open>iter_mut().find(..)\<close>. The locale is the interface of such a
  table: a key, and an update of an entry from a copy that keeps the key.
\<close>

text \<open>\<open>iter_mut().find(..)\<close> followed by an update of what is found; \<open>None\<close> when nothing is.\<close>

fun modify_first :: "('a \<Rightarrow> bool) \<Rightarrow> ('a \<Rightarrow> 'a) \<Rightarrow> 'a list \<Rightarrow> 'a list option" where
  "modify_first P f [] = None"
| "modify_first P f (x # xs) = (if P x then Some (f x # xs) else map_option ((#) x) (modify_first P f xs))"

definition write_entry :: "('c \<Rightarrow> 'k) \<Rightarrow> ('c \<Rightarrow> 'c \<Rightarrow> 'c) \<Rightarrow> 'c \<Rightarrow> 'c list \<Rightarrow> 'c list" where
  "write_entry key upd u cs = unwrap_or (modify_first (\<lambda>c. key c = key u) (upd u) cs) cs"

definition put_entry :: "('c \<Rightarrow> 'k) \<Rightarrow> ('c \<Rightarrow> 'c \<Rightarrow> 'c) \<Rightarrow> 'c \<Rightarrow> 'c list \<Rightarrow> 'c list" where
  "put_entry key rep u cs = unwrap_or (modify_first (\<lambda>c. key c = key u) (rep u) cs) (cs @ [u])"

lemma modify_first_Cons_unwrap:
  "unwrap_or (modify_first P f (x # xs)) d = (if P x then f x # xs else
     (case modify_first P f xs of None \<Rightarrow> d | Some ys \<Rightarrow> x # ys))"
  by (cases "modify_first P f xs") simp_all

lemma put_entry_Nil [simp]: "put_entry key rep u [] = [u]"
  by (simp add: put_entry_def)

lemma put_entry_Cons: "put_entry key rep u (c # cs) = (if key c = key u then rep u c # cs else c # put_entry key rep u cs)"
  by (cases "modify_first (\<lambda>c. key c = key u) (rep u) cs") (simp_all add: put_entry_def)

lemma keys_put_entry: "(\<And>c. key (rep u c) = key u) \<Longrightarrow> key ` set (put_entry key rep u cs) = insert (key u) (key ` set cs)"
  by (induction cs) (auto simp: put_entry_Cons)

lemma distinct_put_entry: "(\<And>c. key (rep u c) = key u) \<Longrightarrow> distinct (map key cs) \<Longrightarrow> distinct (map key (put_entry key rep u cs))"
proof (induction cs)
  case (Cons c cs)
  then have "key ` set (put_entry key rep u cs) = insert (key u) (key ` set cs)" by (intro keys_put_entry)
  with Cons show ?case by (auto simp: put_entry_Cons)
qed simp

lemma set_put_entry: "c \<in> set (put_entry key rep u cs) \<Longrightarrow>
    c \<in> set cs \<or> c = u \<or> (\<exists>d\<in>set cs. key d = key u \<and> c = rep u d)"
  by (induction cs) (auto simp: put_entry_Cons split: if_splits)

lemma find_map_key: "(\<And>c. key (f c) = key c) \<Longrightarrow> find (\<lambda>u. key u = i) (map f cs) = map_option f (find (\<lambda>u. key u = i) cs)"
  by (induction cs) auto

lemma find_filter_key: "distinct (map key cs) \<Longrightarrow> c \<in> set cs \<Longrightarrow>
    find (\<lambda>u. key u = key c) (filter P cs) = (if P c then Some c else None)"
proof (induction cs)
  case (Cons d cs)
  show ?case
  proof (cases "c = d")
    case True
    have "find (\<lambda>u. key u = key c) (filter P cs) = None"
      using Cons.prems True by (auto simp: find_None_iff image_iff)
    with True show ?thesis by simp
  next
    case False
    with Cons.prems have "key d \<noteq> key c" by auto
    with False Cons show ?thesis by auto
  qed
qed simp

lemma find_key_iff: "distinct (map key cs) \<Longrightarrow> find (\<lambda>c. key c = i) cs = Some c \<longleftrightarrow> c \<in> set cs \<and> key c = i"
  by (induction cs) (auto simp: image_iff)

lemma distinct_filter_key: "distinct (map key cs) \<Longrightarrow> distinct (map key (filter P cs))"
  by (simp add: distinct_map_filter)

locale client_table =
  fixes key :: "'c \<Rightarrow> 'k" and upd :: "'c \<Rightarrow> 'c \<Rightarrow> 'c"
  assumes key_upd: "key (upd u c) = key c"
begin

lemma write_Nil: "write_entry key upd u [] = []"
  by (simp add: write_entry_def)

lemma write_Cons: "write_entry key upd u (c # cs) = (if key c = key u then upd u c # cs else c # write_entry key upd u cs)"
  by (cases "modify_first (\<lambda>c. key c = key u) (upd u) cs") (simp_all add: write_entry_def)

lemma keys_write: "map key (write_entry key upd u cs) = map key cs"
  by (induction cs) (simp_all add: write_Nil write_Cons key_upd)

lemma write_map: "distinct (map key cs) \<Longrightarrow>
    write_entry key upd u cs = map (\<lambda>c. if key c = key u then upd u c else c) cs"
proof (induction cs)
  case (Cons c cs)
  show ?case
  proof (cases "key c = key u")
    case True
    with Cons.prems have "map (\<lambda>c. if key c = key u then upd u c else c) cs = cs"
      by (intro map_idI) (metis distinct.simps(2) image_eqI image_set list.simps(9))
    with True show ?thesis by (simp add: write_Cons)
  next
    case False
    with Cons show ?thesis by (simp add: write_Cons)
  qed
qed (simp add: write_Nil)

lemma set_write: "c \<in> set (write_entry key upd u cs) \<Longrightarrow> c \<in> set cs \<or> (\<exists>d\<in>set cs. key d = key u \<and> c = upd u d)"
  by (induction cs) (auto simp: write_Nil write_Cons split: if_splits)

lemma fold_write: "distinct (map key cs) \<Longrightarrow> distinct (map key us) \<Longrightarrow>
    fold (write_entry key upd) us cs = map (\<lambda>c. case find (\<lambda>u. key u = key c) us of Some u \<Rightarrow> upd u c | None \<Rightarrow> c) cs"
proof (induction us arbitrary: cs)
  case (Cons u us)
  have none: "find (\<lambda>v. key v = key u) us = None"
    using Cons.prems(2) by (auto simp: find_None_iff image_iff)
  have "fold (write_entry key upd) (u # us) cs = fold (write_entry key upd) us (write_entry key upd u cs)" by simp
  also have "\<dots> = map (\<lambda>c. case find (\<lambda>u. key u = key c) us of Some u \<Rightarrow> upd u c | None \<Rightarrow> c) (write_entry key upd u cs)"
    using Cons.prems by (intro Cons.IH) (simp_all add: keys_write)
  finally show ?case
    using none by (simp add: write_map [OF Cons.prems(1)] comp_def key_upd cong: if_cong)
qed simp

text \<open>Writing back the changed copies of some of the entries changes exactly these.\<close>

lemma fold_write_changed:
  assumes "distinct (map key cs)" and key: "\<And>c. key (f c) = key c" and upd: "\<And>c. upd (f c) c = f c"
  shows "fold (\<lambda>c. write_entry key upd (f c)) (filter P cs) cs = map (\<lambda>c. if P c then f c else c) cs"
proof -
  have "fold (\<lambda>c. write_entry key upd (f c)) (filter P cs) cs = fold (write_entry key upd) (map f (filter P cs)) cs"
    by (simp add: fold_map comp_def)
  also have "\<dots> = map (\<lambda>c. case find (\<lambda>u. key u = key c) (map f (filter P cs)) of Some u \<Rightarrow> upd u c | None \<Rightarrow> c) cs"
    using assms(1) by (intro fold_write) (simp_all add: comp_def key distinct_map_filter)
  also have "\<dots> = map (\<lambda>c. if P c then f c else c) cs"
    using assms(1) by (intro map_cong refl) (simp add: find_map_key [of key f, OF key] find_filter_key upd)
  finally show ?thesis .
qed

end

end
