(* ===== verification/Discovery_Server.thy ===== *)
theory Discovery_Server
  imports Messages Client_Table
begin

section \<open>The discovery server of the Envoy backend\<close>

text \<open>
  \<open>backends/envoy/envoy_xds_backend/server.rs\<close> and \<open>TypeUrl\<close> of \<open>model.rs\<close>: the server that sends
  Envoy its listeners and clusters. The state is the resources stored per gateway and the connected
  clients with the versions last sent to them. A client's \<open>sender\<close> is the number of its connection;
  what is sent is appended to a log of pairs of a connection and a response. The resource payload (a
  protocol buffer) is the type parameter. A response's nonce, a fresh random value nothing reads, is left
  out. A failed \<open>expect\<close> is \<open>None\<close>. The pods the server looks clients up in are the parameter \<open>pods\<close>:
  the labels of the pod of a namespace and name, if the API server returns it.
\<close>

subsection \<open>Type URLs\<close>

datatype type_url = Url_Listener | Url_Cluster | Url_RouteConfiguration | Url_ClusterLoadAssignment | Url_Secret

fun type_url_to_string :: "type_url \<Rightarrow> string" where
  "type_url_to_string Url_Listener = ''type.googleapis.com/envoy.config.listener.v3.Listener''"
| "type_url_to_string Url_Cluster = ''type.googleapis.com/envoy.config.cluster.v3.Cluster''"
| "type_url_to_string Url_RouteConfiguration = ''type.googleapis.com/envoy.config.route.v3.RouteConfiguration''"
| "type_url_to_string Url_ClusterLoadAssignment = ''type.googleapis.com/envoy.config.endpoint.v3.ClusterLoadAssignment''"
| "type_url_to_string Url_Secret = ''type.googleapis.com/envoy.extensions.transport_sockets.tls.v3.Secret''"

definition type_url_from :: "string \<Rightarrow> string + type_url" where
  "type_url_from s =
     (if s = ''type.googleapis.com/envoy.config.listener.v3.Listener'' then Inr Url_Listener
      else if s = ''type.googleapis.com/envoy.config.cluster.v3.Cluster'' then Inr Url_Cluster
      else if s = ''type.googleapis.com/envoy.config.route.v3.RouteConfiguration'' then Inr Url_RouteConfiguration
      else if s = ''type.googleapis.com/envoy.config.endpoint.v3.ClusterLoadAssignment'' then Inr Url_ClusterLoadAssignment
      else if s = ''type.googleapis.com/envoy.extensions.transport_sockets.tls.v3.Secret'' then Inr Url_Secret
      else Inl (''did not recognise type_url '' @ s))"

subsection \<open>Versions\<close>

text \<open>\<open>u32::to_string\<close> and \<open>str::parse::<u32>\<close>, which takes an optional plus sign.\<close>

definition show_u32 :: "32 word \<Rightarrow> string" where
  "show_u32 w = show_nat (unat w)"

definition parse_u32 :: "string \<Rightarrow> 32 word option" where
  "parse_u32 s =
     (let ds = (case s of [] \<Rightarrow> [] | c # t \<Rightarrow> if c = CHR ''+'' then t else s)
      in if ds \<noteq> [] \<and> list_all is_digit ds \<and> digits_value ds < 2 ^ 32 then Some (of_nat (digits_value ds)) else None)"

record ack_versions =
  av_cluster :: "32 word"
  av_listener :: "32 word"

definition default_versions :: ack_versions where
  "default_versions = \<lparr>av_cluster = 0, av_listener = 0\<rparr>"

definition inc_versions :: "ack_versions \<Rightarrow> ack_versions" where
  "inc_versions v = \<lparr>av_cluster = av_cluster v + 1, av_listener = av_listener v + 1\<rparr>"

subsection \<open>Clients\<close>

type_synonym client_address = "string \<times> 16 word"

record ads_client =
  adc_sender :: nat
  adc_versions :: ack_versions
  adc_client_id :: client_address
  adc_gateway_id :: "string option"

definition new_client :: "client_address \<Rightarrow> nat \<Rightarrow> ads_client" where
  "new_client client_id sender =
     \<lparr>adc_sender = sender, adc_versions = default_versions, adc_client_id = client_id, adc_gateway_id = None\<rparr>"

definition update_from :: "ads_client \<Rightarrow> ads_client \<Rightarrow> ads_client" where
  "update_from value c = c\<lparr>adc_versions := adc_versions value, adc_gateway_id := adc_gateway_id value\<rparr>"

definition get_clients_by_gateway_id :: "string \<Rightarrow> ads_client list \<Rightarrow> ads_client list" where
  "get_clients_by_gateway_id gateway_id clients = filter (\<lambda>c. adc_gateway_id c = Some gateway_id) clients"

definition get_client_by_client_id :: "client_address \<Rightarrow> ads_client list \<Rightarrow> ads_client option" where
  "get_client_by_client_id client_id clients = find (\<lambda>c. adc_client_id c = client_id) clients"

definition update_client :: "ads_client \<Rightarrow> ads_client list \<Rightarrow> ads_client list" where
  "update_client client clients =
     unwrap_or (modify_first (\<lambda>c. adc_client_id c = adc_client_id client) (update_from client) clients) clients"

definition add_or_replace_client :: "ads_client \<Rightarrow> ads_client list \<Rightarrow> ads_client list" where
  "add_or_replace_client client clients =
     unwrap_or (modify_first (\<lambda>c. adc_client_id c = adc_client_id client)
         (\<lambda>local_client. client\<lparr>adc_versions := adc_versions local_client\<rparr>) clients)
       (clients @ [client])"

definition remove_client :: "client_address \<Rightarrow> ads_client list \<Rightarrow> ads_client list" where
  "remove_client client_id clients = filter (\<lambda>c. adc_client_id c \<noteq> client_id) clients"

subsection \<open>The server\<close>

record 'p discovery_resource =
  dr_name :: string
  dr_resource :: "'p option"

record 'p discovery_response =
  dp_type_url :: string
  dp_resources :: "'p list"
  dp_version_info :: string

record 'p resources_mapping =
  rm_cluster :: "(string \<times> 'p discovery_resource list) list"
  rm_listener :: "(string \<times> 'p discovery_resource list) list"

record 'p ads_server =
  ads_channels :: "'p resources_mapping"
  ads_clients :: "ads_client list"
  ads_sent :: "(nat \<times> 'p discovery_response) list"

datatype 'p server_action =
    UpdateClusters resource_key "'p discovery_resource list" "32 word"
  | UpdateListeners resource_key "'p discovery_resource list" "32 word"

definition new_server :: "'p ads_server" where
  "new_server = \<lparr>ads_channels = \<lparr>rm_cluster = [], rm_listener = []\<rparr>, ads_clients = [], ads_sent = []\<rparr>"

definition create_gateway_id :: "resource_key \<Rightarrow> string" where
  "create_gateway_id k = create_id (rk_name k) (rk_namespace k)"

definition discovery_response_for :: "type_url \<Rightarrow> 'p discovery_resource list \<Rightarrow> 32 word \<Rightarrow> 'p discovery_response option" where
  "discovery_response_for url resources version =
     map_option (\<lambda>ps. \<lparr>dp_type_url = type_url_to_string url, dp_resources = ps, dp_version_info = show_u32 version\<rparr>)
       (those (map dr_resource resources))"

text \<open>
  The loop over the copies of the clients of the gateway: each is sent the response, then its
  version is set and its entry updated.
\<close>

fun send_to_clients ::
    "'p discovery_response option \<Rightarrow> (ack_versions \<Rightarrow> ack_versions) \<Rightarrow> ads_client list \<Rightarrow> 'p ads_server \<Rightarrow> 'p ads_server option" where
  "send_to_clients response set_version [] s = Some s"
| "send_to_clients response set_version (c # cs) s = (case response of
      None \<Rightarrow> None
    | Some r \<Rightarrow> send_to_clients response set_version cs
        (s\<lparr>ads_sent := ads_sent s @ [(adc_sender c, r)],
           ads_clients := update_client (c\<lparr>adc_versions := set_version (adc_versions c)\<rparr>) (ads_clients s)\<rparr>))"

fun handle_server_action :: "'p server_action \<Rightarrow> 'p ads_server \<Rightarrow> 'p ads_server option" where
  "handle_server_action (UpdateClusters gateway_key resources ack_version) s =
     (let gateway_id = create_gateway_id gateway_key;
          s' = s\<lparr>ads_channels := (ads_channels s)\<lparr>rm_cluster := bset_replace fst (gateway_id, resources) (rm_cluster (ads_channels s))\<rparr>\<rparr>
      in send_to_clients (discovery_response_for Url_Cluster resources ack_version)
           (\<lambda>v. v\<lparr>av_cluster := ack_version\<rparr>) (get_clients_by_gateway_id gateway_id (ads_clients s')) s')"
| "handle_server_action (UpdateListeners gateway_key resources ack_version) s =
     (let gateway_id = create_gateway_id gateway_key;
          s' = s\<lparr>ads_channels := (ads_channels s)\<lparr>rm_listener := bset_replace fst (gateway_id, resources) (rm_listener (ads_channels s))\<rparr>\<rparr>
      in send_to_clients (discovery_response_for Url_Listener resources ack_version)
           (\<lambda>v. v\<lparr>av_listener := ack_version\<rparr>) (get_clients_by_gateway_id gateway_id (ads_clients s')) s')"

subsection \<open>Requests\<close>

record envoy_node =
  en_id :: string
  en_cluster :: string

record discovery_request =
  dq_error_detail :: "string option"
  dq_node :: "envoy_node option"
  dq_version_info :: string
  dq_type_url :: string

type_synonym pod_lookup = "string \<Rightarrow> string \<Rightarrow> (string \<times> string) list option option"

definition fetch_gateway_id_by_node_id :: "pod_lookup \<Rightarrow> envoy_node \<Rightarrow> string option" where
  "fetch_gateway_id_by_node_id pods node = (case pods (en_cluster node) (en_id node) of
       Some (Some labels) \<Rightarrow> map_option (\<lambda>app. create_id app (en_cluster node)) (map_of labels ''app'')
     | _ \<Rightarrow> None)"

text \<open>
  What a request says before the clients are looked at: the gateway, whether this is the first
  request of the type, and the version it acknowledges. Any other request is skipped.
\<close>

definition identify_request :: "pod_lookup \<Rightarrow> discovery_request \<Rightarrow> (string \<times> bool \<times> 32 word) option" where
  "identify_request pods q =
     (if dq_error_detail q \<noteq> None then None
      else case dq_node q of
          None \<Rightarrow> None
        | Some node \<Rightarrow> (case fetch_gateway_id_by_node_id pods node of
              None \<Rightarrow> None
            | Some gateway_id \<Rightarrow>
                if dq_version_info q = [] then Some (gateway_id, True, 0)
                else (case parse_u32 (dq_version_info q) of
                    None \<Rightarrow> None
                  | Some incoming_version \<Rightarrow> Some (gateway_id, False, incoming_version))))"

text \<open>The answer to a request, from the task's own copy of the client, to the connection \<open>tx\<close>.\<close>

definition send_stored ::
    "nat \<Rightarrow> type_url \<Rightarrow> 32 word \<Rightarrow> ads_client \<Rightarrow> 'p discovery_resource list option \<Rightarrow> 'p ads_server \<Rightarrow> 'p ads_server option" where
  "send_stored tx url version client stored s = (case stored of
       None \<Rightarrow> Some s
     | Some resources \<Rightarrow>
         (let s' = (if resources \<noteq> [] then s\<lparr>ads_clients := update_client client (ads_clients s)\<rparr> else s)
          in map_option (\<lambda>r. s'\<lparr>ads_sent := ads_sent s' @ [(tx, r)]\<rparr>) (discovery_response_for url resources version)))"

definition answer_request ::
    "nat \<Rightarrow> string \<Rightarrow> bool \<Rightarrow> 32 word \<Rightarrow> string \<Rightarrow> ads_client \<Rightarrow> 'p ads_server \<Rightarrow> 'p ads_server option" where
  "answer_request tx gateway_id first_connect incoming_version url client s = (case type_url_from url of
       Inr Url_Cluster \<Rightarrow>
         (let ack_version = av_cluster (adc_versions client)
          in if \<not> first_connect \<and> incoming_version = ack_version then Some s
             else send_stored tx Url_Cluster ack_version client (map_of (rm_cluster (ads_channels s)) gateway_id) s)
     | Inr Url_Listener \<Rightarrow>
         (let ack_version = av_listener (adc_versions client)
          in if \<not> first_connect \<and> incoming_version = ack_version then Some s
             else send_stored tx Url_Listener ack_version client (map_of (rm_listener (ads_channels s)) gateway_id) s)
     | _ \<Rightarrow> Some s)"

definition handle_discovery_request ::
    "pod_lookup \<Rightarrow> client_address \<Rightarrow> nat \<Rightarrow> discovery_request \<Rightarrow> 'p ads_server \<Rightarrow> 'p ads_server option" where
  "handle_discovery_request pods client_ip tx q s = (case identify_request pods q of
       None \<Rightarrow> Some s
     | Some (gateway_id, first_connect, incoming_version) \<Rightarrow>
         (case get_client_by_client_id client_ip (ads_clients s) of
            None \<Rightarrow> Some s
          | Some client \<Rightarrow>
              (let ads_client = client\<lparr>adc_gateway_id := Some gateway_id\<rparr>
               in answer_request tx gateway_id first_connect incoming_version (dq_type_url q) ads_client
                    (s\<lparr>ads_clients := update_client ads_client (ads_clients s)\<rparr>))))"

datatype rpc_status = Status_Aborted string | Status_Unimplemented string

text \<open>Opening a stream from a remote address on a fresh connection, and what the task does when it ends.\<close>

definition stream_aggregated_resources :: "client_address option \<Rightarrow> nat \<Rightarrow> 'p ads_server \<Rightarrow> rpc_status + 'p ads_server" where
  "stream_aggregated_resources remote_addr tx s = (case remote_addr of
       None \<Rightarrow> Inl (Status_Aborted ''Invalid remote IP address'')
     | Some client_ip \<Rightarrow> Inr (s\<lparr>ads_clients := add_or_replace_client (new_client client_ip tx) (ads_clients s)\<rparr>))"

definition stream_closed :: "client_address \<Rightarrow> 'p ads_server \<Rightarrow> 'p ads_server" where
  "stream_closed client_ip s = s\<lparr>ads_clients := remove_client client_ip (ads_clients s)\<rparr>"

definition delta_aggregated_resources :: "rpc_status + unit" where
  "delta_aggregated_resources = Inl (Status_Unimplemented ''Delta stream not implemented at the moment'')"

subsection \<open>Names and versions as text\<close>

lemma show_nat_digits: "show_nat n \<noteq> [] \<and> list_all is_digit (show_nat n)"
proof (induction n rule: show_nat.induct)
  case (1 n)
  have digit: "is_digit (char_of (48 + k))" if "k < 10" for k :: nat
    using that by (simp add: is_digit_def of_char_of)
  show ?case
  proof (cases "n < 10")
    case True
    with digit show ?thesis by (subst (1 2) show_nat.simps) simp
  next
    case False
    with 1 digit [of "n mod 10"] show ?thesis by (subst (1 2) show_nat.simps) simp
  qed
qed

lemma parse_show_u32 [simp]: "parse_u32 (show_u32 w) = Some w"
proof -
  let ?s = "show_nat (unat w)"
  obtain c t where s: "?s = c # t" using show_nat_digits [of "unat w"] by (cases ?s) auto
  then have "is_digit c" using show_nat_digits [of "unat w"] by simp
  then have c: "c \<noteq> CHR ''+''" by (auto simp: is_digit_def)
  have "digits_value ?s < 2 ^ 32"
    using unsigned_less [of w, where ?'a = nat] by simp
  moreover have "(case ?s of [] \<Rightarrow> [] | c # t \<Rightarrow> if c = CHR ''+'' then t else ?s) = ?s" using s c by simp
  ultimately show ?thesis
    using show_nat_digits [of "unat w"] unfolding parse_u32_def show_u32_def Let_def by simp
qed

lemma show_u32_not_empty [simp]: "show_u32 w \<noteq> []"
  using show_nat_digits [of "unat w"] by (simp add: show_u32_def)

lemma type_url_from_to [simp]: "type_url_from (type_url_to_string t) = Inr t"
  by (cases t) (simp_all add: type_url_from_def)

lemma type_url_from_iff: "type_url_from s = Inr t \<longleftrightarrow> s = type_url_to_string t"
proof
  assume "type_url_from s = Inr t"
  then show "s = type_url_to_string t" by (auto simp: type_url_from_def split: if_splits)
qed simp


subsection \<open>The list of clients\<close>

abbreviation client_ids :: "ads_client list \<Rightarrow> client_address list" where
  "client_ids \<equiv> map adc_client_id"

lemma adc_client_id_update_from [simp]: "adc_client_id (update_from v c) = adc_client_id c"
  by (simp add: update_from_def)

interpretation ads: client_table adc_client_id update_from
  by unfold_locales simp

lemma update_client_entry: "update_client = write_entry adc_client_id update_from"
  by (simp add: fun_eq_iff update_client_def write_entry_def)

lemma add_or_replace_client_entry:
  "add_or_replace_client = put_entry adc_client_id (\<lambda>u c. u\<lparr>adc_versions := adc_versions c\<rparr>)"
  by (simp add: fun_eq_iff add_or_replace_client_def put_entry_def)

lemma ids_update_client [simp]: "client_ids (update_client client cs) = client_ids cs"
  by (simp add: update_client_entry ads.keys_write)

lemmas update_client_map = ads.write_map [folded update_client_entry]

lemma distinct_add_or_replace_client: "distinct (client_ids cs) \<Longrightarrow> distinct (client_ids (add_or_replace_client client cs))"
  unfolding add_or_replace_client_entry by (rule distinct_put_entry) simp_all

lemma set_add_or_replace_client: "c \<in> set (add_or_replace_client client cs) \<Longrightarrow>
    c \<in> set cs \<or> (adc_client_id c = adc_client_id client \<and> adc_sender c = adc_sender client \<and> adc_gateway_id c = adc_gateway_id client)"
  unfolding add_or_replace_client_entry by (auto dest!: set_put_entry)

lemma distinct_remove_client: "distinct (client_ids cs) \<Longrightarrow> distinct (client_ids (remove_client i cs))"
  unfolding remove_client_def by (rule distinct_filter_key)

lemma get_client_iff: "distinct (client_ids cs) \<Longrightarrow> get_client_by_client_id i cs = Some c \<longleftrightarrow> c \<in> set cs \<and> adc_client_id c = i"
  unfolding get_client_by_client_id_def by (rule find_key_iff)

lemma get_client_mem: "get_client_by_client_id i cs = Some c \<Longrightarrow> c \<in> set cs \<and> adc_client_id c = i"
  by (auto simp: get_client_by_client_id_def find_Some_iff)

lemma set_update_client: "c \<in> set (update_client client cs) \<Longrightarrow>
    c \<in> set cs \<or> (adc_client_id c = adc_client_id client \<and> adc_gateway_id c = adc_gateway_id client \<and> (\<exists>c'\<in>set cs. c = update_from client c'))"
  unfolding update_client_entry by (auto dest!: ads.set_write simp: update_from_def)

subsection \<open>Sending to the clients of a gateway\<close>

lemma send_to_clients_Some: "send_to_clients (Some r) f cs s = Some (s\<lparr>
    ads_sent := ads_sent s @ map (\<lambda>c. (adc_sender c, r)) cs,
    ads_clients := fold (\<lambda>c. update_client (c\<lparr>adc_versions := f (adc_versions c)\<rparr>)) cs (ads_clients s)\<rparr>)"
  by (induction cs arbitrary: s) simp_all

lemma fold_set_versions:
  assumes "distinct (client_ids cs)"
  shows "fold (\<lambda>c. update_client (c\<lparr>adc_versions := f (adc_versions c)\<rparr>)) (filter P cs) cs =
    map (\<lambda>c. if P c then c\<lparr>adc_versions := f (adc_versions c)\<rparr> else c) cs"
  unfolding update_client_entry using assms by (rule ads.fold_write_changed) (simp_all add: update_from_def)

lemma discovery_response_for_Some: "discovery_response_for url rs v = Some r \<longleftrightarrow>
    (\<exists>ps. those (map dr_resource rs) = Some ps \<and> r = \<lparr>dp_type_url = type_url_to_string url, dp_resources = ps, dp_version_info = show_u32 v\<rparr>)"
  by (auto simp: discovery_response_for_def)

subsection \<open>Updates\<close>

definition registered :: "resource_key \<Rightarrow> ads_client \<Rightarrow> bool" where
  "registered k c \<longleftrightarrow> adc_gateway_id c = Some (create_gateway_id k)"

definition with_versions :: "(ack_versions \<Rightarrow> ack_versions) \<Rightarrow> ads_client \<Rightarrow> ads_client" where
  "with_versions f c = c\<lparr>adc_versions := f (adc_versions c)\<rparr>"

definition response_of :: "type_url \<Rightarrow> 'p list \<Rightarrow> 32 word \<Rightarrow> 'p discovery_response" where
  "response_of url ps v = \<lparr>dp_type_url = type_url_to_string url, dp_resources = ps, dp_version_info = show_u32 v\<rparr>"

lemma get_clients_registered: "get_clients_by_gateway_id (create_gateway_id k) cs = filter (registered k) cs"
  by (simp add: get_clients_by_gateway_id_def registered_def [abs_def])

lemma send_to_registered:
  assumes "distinct (client_ids (ads_clients s))"
  shows "send_to_clients (Some r) f (filter (registered k) (ads_clients s)) s = Some (s\<lparr>
    ads_sent := ads_sent s @ map (\<lambda>c. (adc_sender c, r)) (filter (registered k) (ads_clients s)),
    ads_clients := map (\<lambda>c. if registered k c then with_versions f c else c) (ads_clients s)\<rparr>)"
  using fold_set_versions [OF assms, of f "registered k"] by (simp add: send_to_clients_Some with_versions_def)

lemma update_clusters_sent:
  assumes "distinct (client_ids (ads_clients s))" and "those (map dr_resource rs) = Some ps"
  shows "handle_server_action (UpdateClusters k rs v) s = Some \<lparr>
      ads_channels = (ads_channels s)\<lparr>rm_cluster := bset_replace fst (create_gateway_id k, rs) (rm_cluster (ads_channels s))\<rparr>,
      ads_clients = map (\<lambda>c. if registered k c then with_versions (\<lambda>a. a\<lparr>av_cluster := v\<rparr>) c else c) (ads_clients s),
      ads_sent = ads_sent s @ map (\<lambda>c. (adc_sender c, response_of Url_Cluster ps v)) (filter (registered k) (ads_clients s))\<rparr>"
proof -
  let ?s = "s\<lparr>ads_channels := (ads_channels s)\<lparr>rm_cluster := bset_replace fst (create_gateway_id k, rs) (rm_cluster (ads_channels s))\<rparr>\<rparr>"
  show ?thesis
    using send_to_registered [of ?s] assms by (simp add: discovery_response_for_def response_of_def get_clients_registered Let_def)
qed

lemma update_listeners_sent:
  assumes "distinct (client_ids (ads_clients s))" and "those (map dr_resource rs) = Some ps"
  shows "handle_server_action (UpdateListeners k rs v) s = Some \<lparr>
      ads_channels = (ads_channels s)\<lparr>rm_listener := bset_replace fst (create_gateway_id k, rs) (rm_listener (ads_channels s))\<rparr>,
      ads_clients = map (\<lambda>c. if registered k c then with_versions (\<lambda>a. a\<lparr>av_listener := v\<rparr>) c else c) (ads_clients s),
      ads_sent = ads_sent s @ map (\<lambda>c. (adc_sender c, response_of Url_Listener ps v)) (filter (registered k) (ads_clients s))\<rparr>"
proof -
  let ?s = "s\<lparr>ads_channels := (ads_channels s)\<lparr>rm_listener := bset_replace fst (create_gateway_id k, rs) (rm_listener (ads_channels s))\<rparr>\<rparr>"
  show ?thesis
    using send_to_registered [of ?s] assms by (simp add: discovery_response_for_def response_of_def get_clients_registered Let_def)
qed

text \<open>
  C29: an update of the clusters (listeners) of a gateway stores them, sends them once, with the
  version of the update, to every client registered for the gateway and to no other, records that
  version for these clients, and changes nothing else.
\<close>

theorem update_reaches_clients:
  assumes "distinct (client_ids (ads_clients s))" and "those (map dr_resource rs) = Some ps"
  shows "handle_server_action (UpdateClusters k rs v) s = Some \<lparr>
      ads_channels = (ads_channels s)\<lparr>rm_cluster := bset_replace fst (create_gateway_id k, rs) (rm_cluster (ads_channels s))\<rparr>,
      ads_clients = map (\<lambda>c. if registered k c then with_versions (\<lambda>a. a\<lparr>av_cluster := v\<rparr>) c else c) (ads_clients s),
      ads_sent = ads_sent s @ map (\<lambda>c. (adc_sender c, response_of Url_Cluster ps v)) (filter (registered k) (ads_clients s))\<rparr> \<and>
    handle_server_action (UpdateListeners k rs v) s = Some \<lparr>
      ads_channels = (ads_channels s)\<lparr>rm_listener := bset_replace fst (create_gateway_id k, rs) (rm_listener (ads_channels s))\<rparr>,
      ads_clients = map (\<lambda>c. if registered k c then with_versions (\<lambda>a. a\<lparr>av_listener := v\<rparr>) c else c) (ads_clients s),
      ads_sent = ads_sent s @ map (\<lambda>c. (adc_sender c, response_of Url_Listener ps v)) (filter (registered k) (ads_clients s))\<rparr>"
  using assms by (intro conjI update_clusters_sent update_listeners_sent)

lemma updated_client:
  assumes "distinct (client_ids (ads_clients s))" "those (map dr_resource rs) = Some ps" "c \<in> set (ads_clients s)" "registered k c"
  shows "handle_server_action (UpdateClusters k rs v) s = Some s' \<Longrightarrow>
      distinct (client_ids (ads_clients s')) \<and> with_versions (\<lambda>a. a\<lparr>av_cluster := v\<rparr>) c \<in> set (ads_clients s')"
    and "handle_server_action (UpdateListeners k rs v) s = Some s' \<Longrightarrow>
      distinct (client_ids (ads_clients s')) \<and> with_versions (\<lambda>a. a\<lparr>av_listener := v\<rparr>) c \<in> set (ads_clients s')"
  using assms(1,3,4) update_clusters_sent [OF assms(1,2)] update_listeners_sent [OF assms(1,2)]
  by (auto simp: comp_def with_versions_def if_distrib image_iff cong: if_cong)

subsection \<open>Requests\<close>

lemma update_client_self: "distinct (client_ids cs) \<Longrightarrow> c \<in> set cs \<Longrightarrow> adc_gateway_id c = Some g \<Longrightarrow>
    update_client (c\<lparr>adc_gateway_id := Some g\<rparr>) cs = cs"
  unfolding update_client_entry by (induction cs) (auto simp: ads.write_Cons ads.write_Nil update_from_def)

text \<open>
  A client that acknowledges the version of the update it was sent is not answered, and the
  request changes nothing.
\<close>

lemma acknowledgement_ignored:
  assumes distinct: "distinct (client_ids (ads_clients s))" and client: "c \<in> set (ads_clients s)" "registered k c"
    and payload: "those (map dr_resource rs) = Some ps"
    and update: "action = (if url = Url_Cluster then UpdateClusters k rs v else UpdateListeners k rs v)"
      "url = Url_Cluster \<or> url = Url_Listener" "handle_server_action action s = Some s'"
    and ack: "dq_error_detail q = None" "dq_node q = Some node" "fetch_gateway_id_by_node_id pods node = Some (create_gateway_id k)"
      "dq_version_info q = show_u32 v" "dq_type_url q = type_url_to_string url"
  shows "handle_discovery_request pods (adc_client_id c) tx q s' = Some s'"
proof -
  obtain c' where c': "c' \<in> set (ads_clients s')" "adc_client_id c' = adc_client_id c" "adc_gateway_id c' = Some (create_gateway_id k)"
      "(if url = Url_Cluster then av_cluster (adc_versions c') else av_listener (adc_versions c')) = v"
    and d: "distinct (client_ids (ads_clients s'))"
    using updated_client [OF distinct payload client, of v s'] update client(2)
    by (cases "url = Url_Cluster") (force simp: with_versions_def registered_def)+
  have i: "identify_request pods q = Some (create_gateway_id k, False, v)"
    using ack by (simp add: identify_request_def)
  have g: "get_client_by_client_id (adc_client_id c) (ads_clients s') = Some c'"
    using get_client_iff [OF d] c' by simp
  have "update_client (c'\<lparr>adc_gateway_id := Some (create_gateway_id k)\<rparr>) (ads_clients s') = ads_clients s'"
    using update_client_self [OF d c'(1,3)] .
  then show ?thesis
    using i g c'(4) ack(5) update(2) by (auto simp: handle_discovery_request_def answer_request_def Let_def)
qed

declare type_url_to_string.simps [simp del]

lemma those_map_the: "those xs = Some ys \<Longrightarrow> map the xs = ys"
proof (induction xs arbitrary: ys)
  case (Cons x xs)
  then show ?case by (cases x) auto
qed simp

lemma discovery_response_forD: "discovery_response_for url rs v = Some r \<Longrightarrow>
    r = response_of url (map (the \<circ> dr_resource) rs) v \<and> those (map dr_resource rs) = Some (dp_resources r)"
  by (auto simp: discovery_response_for_def response_of_def dest: those_map_the)

definition stored_payload :: "'p discovery_resource list \<Rightarrow> 'p list" where
  "stored_payload rs = map (the \<circ> dr_resource) rs"

lemma send_stored_sent: "send_stored tx url v c stored s = Some s' \<Longrightarrow>
    ads_sent s' = ads_sent s @ (case stored of None \<Rightarrow> [] | Some rs \<Rightarrow> [(tx, response_of url (stored_payload rs) v)]) \<and>
    ads_channels s' = ads_channels s \<and> (ads_clients s' = ads_clients s \<or> ads_clients s' = update_client c (ads_clients s))"
  by (auto simp: send_stored_def Let_def stored_payload_def dest!: discovery_response_forD split: option.splits if_splits)

text \<open>
  A request that identifies its gateway, from a connected client, is answered at most once, on its
  own connection. It is answered exactly when it is the client's first request or does not
  acknowledge the version last sent to the client, and resources of the type are stored for the gateway;
  the answer then has all the stored resources and the version last sent. The stored resources do not change.
\<close>

lemma request_answer:
  assumes "identify_request pods q = Some (gateway_id, first, incoming)"
    and "get_client_by_client_id client_ip (ads_clients s) = Some c"
    and "handle_discovery_request pods client_ip tx q s = Some s'"
  shows "ads_channels s' = ads_channels s \<and>
    ads_sent s' = ads_sent s @
      (case type_url_from (dq_type_url q) of
         Inr Url_Cluster \<Rightarrow> if \<not> first \<and> incoming = av_cluster (adc_versions c) then []
           else (case map_of (rm_cluster (ads_channels s)) gateway_id of None \<Rightarrow> []
             | Some rs \<Rightarrow> [(tx, response_of Url_Cluster (stored_payload rs) (av_cluster (adc_versions c)))])
       | Inr Url_Listener \<Rightarrow> if \<not> first \<and> incoming = av_listener (adc_versions c) then []
           else (case map_of (rm_listener (ads_channels s)) gateway_id of None \<Rightarrow> []
             | Some rs \<Rightarrow> [(tx, response_of Url_Listener (stored_payload rs) (av_listener (adc_versions c)))])
       | _ \<Rightarrow> [])"
  using assms
  by (auto simp: handle_discovery_request_def answer_request_def Let_def dest!: send_stored_sent
      split: sum.splits type_url.splits if_splits)

lemma send_stored_effect: "send_stored tx url v c stored s = Some s' \<Longrightarrow>
    ads_channels s' = ads_channels s \<and> (ads_clients s' = ads_clients s \<or> ads_clients s' = update_client c (ads_clients s)) \<and>
    (ads_sent s' = ads_sent s \<or> (\<exists>rs r. stored = Some rs \<and> ads_sent s' = ads_sent s @ [(tx, r)] \<and>
       dp_type_url r = type_url_to_string url \<and> those (map dr_resource rs) = Some (dp_resources r)))"
  by (auto simp: send_stored_def Let_def response_of_def dest!: discovery_response_forD split: option.splits if_splits)

lemma answer_request_effect: "answer_request tx g first v url c s = Some s' \<Longrightarrow>
    ads_channels s' = ads_channels s \<and> (ads_clients s' = ads_clients s \<or> ads_clients s' = update_client c (ads_clients s)) \<and>
    (ads_sent s' = ads_sent s \<or> (\<exists>u rs r. ads_sent s' = ads_sent s @ [(tx, r)] \<and>
       (u = Url_Cluster \<and> map_of (rm_cluster (ads_channels s)) g = Some rs \<or>
        u = Url_Listener \<and> map_of (rm_listener (ads_channels s)) g = Some rs) \<and>
       dp_type_url r = type_url_to_string u \<and> those (map dr_resource rs) = Some (dp_resources r)))"
  unfolding answer_request_def Let_def
  by (force dest: send_stored_effect split: sum.splits type_url.splits if_splits)

subsection \<open>Runs of the server\<close>

datatype 'p ads_event =
    Ev_Action "'p server_action"
  | Ev_Connect "client_address option" nat
  | Ev_Request pod_lookup client_address nat discovery_request
  | Ev_Close client_address

fun ads_event_step :: "'p ads_event \<Rightarrow> 'p ads_server \<Rightarrow> 'p ads_server option" where
  "ads_event_step (Ev_Action a) s = handle_server_action a s"
| "ads_event_step (Ev_Connect addr tx) s = (case stream_aggregated_resources addr tx s of Inl _ \<Rightarrow> Some s | Inr s' \<Rightarrow> Some s')"
| "ads_event_step (Ev_Request pods client_ip tx q) s = handle_discovery_request pods client_ip tx q s"
| "ads_event_step (Ev_Close client_ip) s = Some (stream_closed client_ip s)"

text \<open>The server after a sequence of events, the last one first.\<close>

fun run_server :: "'p ads_event list \<Rightarrow> 'p ads_server option" where
  "run_server [] = Some new_server"
| "run_server (e # past) = Option.bind (run_server past) (ads_event_step e)"

text \<open>What the events say: what was pushed, who asked for which gateway, and whose a connection is.\<close>

definition pushed :: "'p ads_event list \<Rightarrow> type_url \<Rightarrow> string \<Rightarrow> 'p discovery_resource list \<Rightarrow> bool" where
  "pushed es url gateway_id rs \<longleftrightarrow> (\<exists>k v. create_gateway_id k = gateway_id \<and>
     (url = Url_Cluster \<and> Ev_Action (UpdateClusters k rs v) \<in> set es \<or> url = Url_Listener \<and> Ev_Action (UpdateListeners k rs v) \<in> set es))"

definition asked :: "'p ads_event list \<Rightarrow> client_address \<Rightarrow> string \<Rightarrow> bool" where
  "asked es client_ip gateway_id \<longleftrightarrow> (\<exists>pods tx q first incoming. Ev_Request pods client_ip tx q \<in> set es \<and>
     identify_request pods q = Some (gateway_id, first, incoming))"

definition uses :: "'p ads_event list \<Rightarrow> client_address \<Rightarrow> nat \<Rightarrow> bool" where
  "uses es client_ip tx \<longleftrightarrow> Ev_Connect (Some client_ip) tx \<in> set es \<or> (\<exists>pods q. Ev_Request pods client_ip tx q \<in> set es)"

definition sent_properly :: "'p ads_event list \<Rightarrow> nat \<times> 'p discovery_response \<Rightarrow> bool" where
  "sent_properly es e \<longleftrightarrow> (\<exists>client_ip gateway_id url rs. uses es client_ip (fst e) \<and> asked es client_ip gateway_id \<and>
     pushed es url gateway_id rs \<and> dp_type_url (snd e) = type_url_to_string url \<and> those (map dr_resource rs) = Some (dp_resources (snd e)))"

lemma sent_properlyI: "uses es client_ip tx \<Longrightarrow> asked es client_ip g \<Longrightarrow> pushed es url g rs \<Longrightarrow>
    dp_type_url r = type_url_to_string url \<Longrightarrow> those (map dr_resource rs) = Some (dp_resources r) \<Longrightarrow> sent_properly es (tx, r)"
  unfolding sent_properly_def fst_conv snd_conv by blast

lemma history_mono [intro]:
  "pushed es url g rs \<Longrightarrow> pushed (e # es) url g rs"
  "asked es i g \<Longrightarrow> asked (e # es) i g"
  "uses es i tx \<Longrightarrow> uses (e # es) i tx"
  by (auto simp: pushed_def asked_def uses_def, blast)

lemma sent_properly_mono [intro]: "sent_properly es x \<Longrightarrow> sent_properly (e # es) x"
  unfolding sent_properly_def using history_mono by blast

definition client_ok :: "'p ads_event list \<Rightarrow> ads_client \<Rightarrow> bool" where
  "client_ok es c \<longleftrightarrow> uses es (adc_client_id c) (adc_sender c) \<and> (\<forall>g. adc_gateway_id c = Some g \<longrightarrow> asked es (adc_client_id c) g)"

definition server_ok :: "'p ads_event list \<Rightarrow> 'p ads_server \<Rightarrow> bool" where
  "server_ok es s \<longleftrightarrow> distinct (client_ids (ads_clients s)) \<and> (\<forall>c\<in>set (ads_clients s). client_ok es c) \<and>
     (\<forall>(g, rs)\<in>set (rm_cluster (ads_channels s)). pushed es Url_Cluster g rs) \<and>
     (\<forall>(g, rs)\<in>set (rm_listener (ads_channels s)). pushed es Url_Listener g rs) \<and>
     (\<forall>x\<in>set (ads_sent s). sent_properly es x)"

lemma client_ok_mono [intro]: "client_ok es c \<Longrightarrow> client_ok (e # es) c"
  unfolding client_ok_def using history_mono by blast

lemma server_okD:
  assumes "server_ok es s"
  shows "distinct (client_ids (ads_clients s))" "c \<in> set (ads_clients s) \<Longrightarrow> client_ok es c"
    "(g, rs) \<in> set (rm_cluster (ads_channels s)) \<Longrightarrow> pushed es Url_Cluster g rs"
    "(g, rs) \<in> set (rm_listener (ads_channels s)) \<Longrightarrow> pushed es Url_Listener g rs"
    "x \<in> set (ads_sent s) \<Longrightarrow> sent_properly es x"
  using assms by (auto simp: server_ok_def)

lemma server_ok_mono: "server_ok es s \<Longrightarrow> server_ok (e # es) s"
  unfolding server_ok_def using client_ok_mono history_mono(1) sent_properly_mono by (auto split: prod.splits)

lemma server_ok_update_client:
  assumes "server_ok es s" "adc_gateway_id c = Some g" "asked es (adc_client_id c) g"
  shows "server_ok es (s\<lparr>ads_clients := update_client c (ads_clients s)\<rparr>)"
proof -
  have "client_ok es d" if "d \<in> set (update_client c (ads_clients s))" for d
    using set_update_client [OF that] assms server_okD(2) [OF assms(1)] by (force simp: client_ok_def update_from_def)
  with assms(1) show ?thesis by (simp add: server_ok_def)
qed

lemma server_ok_send:
  assumes "server_ok es s" "sent_properly es x"
  shows "server_ok es (s\<lparr>ads_sent := ads_sent s @ [x]\<rparr>)"
  using assms by (simp add: server_ok_def)

lemma server_ok_request:
  assumes ok: "server_ok es s" and q: "Ev_Request pods client_ip tx q \<in> set es"
    and step: "handle_discovery_request pods client_ip tx q s = Some s'"
  shows "server_ok es s'"
proof (cases "identify_request pods q = None \<or> get_client_by_client_id client_ip (ads_clients s) = None")
  case True
  with ok step show ?thesis by (auto simp: handle_discovery_request_def split: option.splits)
next
  case False
  then obtain g first v c where i: "identify_request pods q = Some (g, first, v)"
    and c: "get_client_by_client_id client_ip (ads_clients s) = Some c" by auto
  let ?c = "c\<lparr>adc_gateway_id := Some g\<rparr>"
  let ?s = "s\<lparr>ads_clients := update_client ?c (ads_clients s)\<rparr>"
  have asked: "asked es client_ip g" unfolding asked_def using q i by blast
  have uses: "uses es client_ip tx" using q by (auto simp: uses_def)
  have id: "adc_client_id c = client_ip" using get_client_mem [OF c] by simp
  have ok1: "server_ok es ?s" using ok asked id by (intro server_ok_update_client [of _ _ _ g]) simp_all
  have ok2: "server_ok es (?s\<lparr>ads_clients := update_client ?c (ads_clients ?s)\<rparr>)"
    using server_ok_update_client [OF ok1, of ?c g] asked id by simp
  have step': "answer_request tx g first v (dq_type_url q) ?c ?s = Some s'"
    using step i c by (simp add: handle_discovery_request_def Let_def)
  note e = answer_request_effect [OF step']
  have sent: "sent_properly es x" if x: "x \<in> set (ads_sent s')" "x \<notin> set (ads_sent s)" for x
  proof -
    obtain u rs r where r: "x = (tx, r)" "dp_type_url r = type_url_to_string u" "those (map dr_resource rs) = Some (dp_resources r)"
        "u = Url_Cluster \<and> (g, rs) \<in> set (rm_cluster (ads_channels s)) \<or> u = Url_Listener \<and> (g, rs) \<in> set (rm_listener (ads_channels s))"
      using e x by (auto dest!: map_of_SomeD)
    with server_okD(3,4) [OF ok] have "pushed es u g rs" by auto
    with asked uses r(2,3) show ?thesis unfolding r(1) by (intro sent_properlyI)
  qed
  show ?thesis
    using e ok1 ok2 sent by (auto simp: server_ok_def)
qed

lemma server_ok_send_to_clients:
  assumes "server_ok es s" "\<forall>c\<in>set cs. client_ok es c \<and> adc_gateway_id c = Some g"
    and "pushed es url g rs" "send_to_clients (discovery_response_for url rs v) f cs s = Some s'"
  shows "server_ok es s'"
  using assms
proof (induction cs arbitrary: s)
  case (Cons c cs)
  obtain r where r: "discovery_response_for url rs v = Some r" using Cons.prems(4) by (auto split: option.splits)
  have r': "dp_type_url r = type_url_to_string url" "those (map dr_resource rs) = Some (dp_resources r)"
    using discovery_response_forD [OF r] by (simp_all add: response_of_def)
  have c: "uses es (adc_client_id c) (adc_sender c)" "asked es (adc_client_id c) g"
    using Cons.prems(2) by (auto simp: client_ok_def)
  let ?s = "s\<lparr>ads_sent := ads_sent s @ [(adc_sender c, r)]\<rparr>"
  let ?c = "c\<lparr>adc_versions := f (adc_versions c)\<rparr>"
  have "sent_properly es (adc_sender c, r)"
    using c r' Cons.prems(3) by (intro sent_properlyI)
  then have "server_ok es ?s" using Cons.prems(1) by (intro server_ok_send)
  then have "server_ok es (?s\<lparr>ads_clients := update_client ?c (ads_clients ?s)\<rparr>)"
    using c Cons.prems(2) by (intro server_ok_update_client [of _ _ _ g]) auto
  then show ?case using Cons.prems r by (intro Cons.IH) simp_all
qed simp

lemma server_ok_action:
  assumes ok: "server_ok es s" and step: "handle_server_action a s = Some s'"
  shows "server_ok (Ev_Action a # es) s'"
proof (cases a)
  case (UpdateClusters k rs v)
  let ?es = "Ev_Action a # es"
  let ?s = "s\<lparr>ads_channels := (ads_channels s)\<lparr>rm_cluster := bset_replace fst (create_gateway_id k, rs) (rm_cluster (ads_channels s))\<rparr>\<rparr>"
  have p: "pushed ?es Url_Cluster (create_gateway_id k) rs" by (auto simp: pushed_def UpdateClusters)
  have ok': "server_ok ?es ?s"
    using server_ok_mono [OF ok, of "Ev_Action a"] p bset_replace_subset [of fst "(create_gateway_id k, rs)" "rm_cluster (ads_channels s)"]
    by (auto simp: server_ok_def)
  have "\<forall>c\<in>set (get_clients_by_gateway_id (create_gateway_id k) (ads_clients ?s)). client_ok ?es c \<and> adc_gateway_id c = Some (create_gateway_id k)"
    using server_okD(2) [OF ok'] by (auto simp: get_clients_by_gateway_id_def)
  from server_ok_send_to_clients [OF ok' this p] step show ?thesis by (simp add: UpdateClusters Let_def)
next
  case (UpdateListeners k rs v)
  let ?es = "Ev_Action a # es"
  let ?s = "s\<lparr>ads_channels := (ads_channels s)\<lparr>rm_listener := bset_replace fst (create_gateway_id k, rs) (rm_listener (ads_channels s))\<rparr>\<rparr>"
  have p: "pushed ?es Url_Listener (create_gateway_id k) rs" by (auto simp: pushed_def UpdateListeners)
  have ok': "server_ok ?es ?s"
    using server_ok_mono [OF ok, of "Ev_Action a"] p bset_replace_subset [of fst "(create_gateway_id k, rs)" "rm_listener (ads_channels s)"]
    by (auto simp: server_ok_def)
  have "\<forall>c\<in>set (get_clients_by_gateway_id (create_gateway_id k) (ads_clients ?s)). client_ok ?es c \<and> adc_gateway_id c = Some (create_gateway_id k)"
    using server_okD(2) [OF ok'] by (auto simp: get_clients_by_gateway_id_def)
  from server_ok_send_to_clients [OF ok' this p] step show ?thesis by (simp add: UpdateListeners Let_def)
qed

lemma server_ok_connect:
  assumes ok: "server_ok es s" and step: "stream_aggregated_resources addr tx s = Inr s'"
  shows "server_ok (Ev_Connect addr tx # es) s'"
proof -
  obtain ip where addr: "addr = Some ip" and s': "s' = s\<lparr>ads_clients := add_or_replace_client (new_client ip tx) (ads_clients s)\<rparr>"
    using step by (auto simp: stream_aggregated_resources_def split: option.splits)
  let ?es = "Ev_Connect addr tx # es"
  have "client_ok ?es c" if "c \<in> set (add_or_replace_client (new_client ip tx) (ads_clients s))" for c
    using set_add_or_replace_client [OF that] server_okD(2) [OF ok]
    by (auto simp: client_ok_def uses_def new_client_def addr dest: history_mono(2) [of es])
  then show ?thesis
    using server_ok_mono [OF ok, of "Ev_Connect addr tx"] s' distinct_add_or_replace_client by (auto simp: server_ok_def)
qed

lemma server_ok_close: "server_ok es s \<Longrightarrow> server_ok es (stream_closed ip s)"
  using distinct_remove_client by (auto simp: server_ok_def stream_closed_def remove_client_def)

lemma run_server_ok: "run_server es = Some s \<Longrightarrow> server_ok es s"
proof (induction es arbitrary: s)
  case Nil
  then show ?case by (auto simp: server_ok_def new_server_def)
next
  case (Cons e es)
  then obtain s0 where s0: "run_server es = Some s0" and step: "ads_event_step e s0 = Some s" by (auto simp: bind_eq_Some_conv)
  have ok: "server_ok es s0" using Cons.IH s0 .
  show ?case
  proof (cases e)
    case (Ev_Action a)
    with step server_ok_action [OF ok] show ?thesis by simp
  next
    case (Ev_Connect addr tx)
    with step server_ok_connect [OF ok] server_ok_mono [OF ok] show ?thesis by (auto split: sum.splits)
  next
    case (Ev_Request pods ip tx q)
    with step server_ok_mono [OF ok, of e] show ?thesis by (auto intro: server_ok_request)
  next
    case (Ev_Close ip)
    with step server_ok_close [OF server_ok_mono [OF ok, of e], of ip] show ?thesis by simp
  qed
qed

text \<open>
  C8: whatever the order of updates, connections, requests and disconnections, the server has at most one
  entry per client address, and each response it ever sent went to a connection of an address that
  asked for a gateway its pod belongs to, and carries exactly the resources of one update of that gateway.
\<close>

theorem responses_isolated:
  assumes "run_server es = Some s"
  shows "distinct (client_ids (ads_clients s)) \<and> (\<forall>x\<in>set (ads_sent s). sent_properly es x)"
  using server_okD(1,5) [OF run_server_ok [OF assms]] by blast

subsection \<open>What the server keeps\<close>

text \<open>
  Nothing ever removes the stored resources of a gateway: there is no action for a deleted gateway.
\<close>

lemma send_to_clients_channels: "send_to_clients r f cs s = Some s' \<Longrightarrow> ads_channels s' = ads_channels s"
  by (induction cs arbitrary: s) (auto split: option.splits)

lemma resources_never_removed:
  assumes "ads_event_step e s = Some s'"
  shows "fst ` set (rm_cluster (ads_channels s)) \<subseteq> fst ` set (rm_cluster (ads_channels s')) \<and>
    fst ` set (rm_listener (ads_channels s)) \<subseteq> fst ` set (rm_listener (ads_channels s'))"
proof (cases e)
  case (Ev_Action a)
  with assms show ?thesis
    by (cases a) (force simp: Let_def keys_bset_replace dest!: send_to_clients_channels)+
next
  case (Ev_Connect addr tx)
  with assms have "ads_channels s' = ads_channels s"
    by (auto simp: stream_aggregated_resources_def split: sum.splits option.splits)
  then show ?thesis by simp
next
  case (Ev_Request pods ip tx q)
  with assms have "ads_channels s' = ads_channels s"
    by (auto simp: handle_discovery_request_def Let_def split: option.splits dest!: answer_request_effect)
  then show ?thesis by simp
next
  case (Ev_Close ip)
  with assms have "ads_channels s' = ads_channels s" by (auto simp: stream_closed_def)
  then show ?thesis by simp
qed

text \<open>
  The task of a connection works on a copy of its client. When it writes the copy back after an update
  was sent, the version the update recorded is lost.
\<close>

lemma stale_copy_reverts_version:
  assumes "distinct (client_ids (ads_clients s))" "those (map dr_resource rs) = Some ps" "c \<in> set (ads_clients s)" "registered k c"
    and "handle_server_action (UpdateClusters k rs v) s = Some s'"
  shows "with_versions (\<lambda>a. a\<lparr>av_cluster := v\<rparr>) c \<in> set (ads_clients s')"
    and "c \<in> set (update_client c (ads_clients s'))"
proof -
  note u = updated_client(1) [OF assms]
  show "with_versions (\<lambda>a. a\<lparr>av_cluster := v\<rparr>) c \<in> set (ads_clients s')" using u by simp
  have "c = (\<lambda>d. if adc_client_id d = adc_client_id c then update_from c d else d) (with_versions (\<lambda>a. a\<lparr>av_cluster := v\<rparr>) c)"
    by (simp add: with_versions_def update_from_def)
  then show "c \<in> set (update_client c (ads_clients s'))"
    unfolding update_client_map [OF conjunct1 [OF u]] set_map using conjunct2 [OF u] by (rule image_eqI)
qed

subsection \<open>An example\<close>

definition example_pods :: pod_lookup where
  "example_pods = (\<lambda>namespace name. if namespace = ''ns'' \<and> name = ''pod'' then Some (Some [(''app'', ''gw'')]) else None)"

definition example_request :: "string \<Rightarrow> discovery_request" where
  "example_request version = \<lparr>dq_error_detail = None, dq_node = Some \<lparr>en_id = ''pod'', en_cluster = ''ns''\<rparr>,
     dq_version_info = version, dq_type_url = type_url_to_string Url_Cluster\<rparr>"

definition example_ip :: client_address where
  "example_ip = (''10.0.0.1'', 4711)"

definition example_past :: "nat ads_event list" where
  "example_past = [Ev_Request example_pods example_ip 7 (example_request []), Ev_Connect (Some example_ip) 7]"

definition example_clusters :: "nat discovery_resource list" where
  "example_clusters = [\<lparr>dr_name = ''c'', dr_resource = Some 5\<rparr>]"

definition example_server :: "nat ads_server" where
  "example_server = \<lparr>ads_channels = \<lparr>rm_cluster = [(''ns.gw'', example_clusters)], rm_listener = []\<rparr>,
     ads_clients = [\<lparr>adc_sender = 7, adc_versions = \<lparr>av_cluster = 3, av_listener = 2\<rparr>, adc_client_id = example_ip, adc_gateway_id = Some ''ns.gw''\<rparr>],
     ads_sent = []\<rparr>"

lemma update_reaches_clients_witness:
  "\<exists>s'. handle_server_action (UpdateClusters (namespaced_key ''gw'' ''ns'') example_clusters 4) example_server = Some s' \<and>
     ads_sent s' = [(7, response_of Url_Cluster [5] 4)]"
proof -
  have "distinct (client_ids (ads_clients example_server))" "those (map dr_resource example_clusters) = Some [5]"
    by (simp_all add: example_server_def example_clusters_def)
  from update_reaches_clients [OF this, of "namespaced_key ''gw'' ''ns''" 4]
  show ?thesis
    by (simp add: example_server_def registered_def create_gateway_id_def create_id_def namespaced_key_def)
qed

lemma acknowledgement_ignored_witness:
  "\<exists>s'. handle_server_action (UpdateClusters (namespaced_key ''gw'' ''ns'') example_clusters 4) example_server = Some s' \<and>
     handle_discovery_request example_pods example_ip 7 (example_request (show_u32 4)) s' = Some s'"
proof -
  let ?c = "\<lparr>adc_sender = 7, adc_versions = \<lparr>av_cluster = 3, av_listener = 2\<rparr>, adc_client_id = example_ip, adc_gateway_id = Some ''ns.gw''\<rparr>"
  let ?k = "namespaced_key ''gw'' ''ns''"
  have d: "distinct (client_ids (ads_clients example_server))" and p: "those (map dr_resource example_clusters) = Some [5]"
    and c: "?c \<in> set (ads_clients example_server)"
    by (simp_all add: example_server_def example_clusters_def)
  have k: "create_gateway_id ?k = ''ns.gw''" by (simp add: create_gateway_id_def create_id_def namespaced_key_def)
  then have r: "registered ?k ?c" by (simp add: registered_def)
  obtain s' where s': "handle_server_action (UpdateClusters ?k example_clusters 4) example_server = Some s'"
    using update_clusters_sent [OF d p] by blast
  have "handle_discovery_request example_pods (adc_client_id ?c) 7 (example_request (show_u32 4)) s' = Some s'"
    by (rule acknowledgement_ignored [OF d c r p _ _ s', where url = Url_Cluster and node = "\<lparr>en_id = ''pod'', en_cluster = ''ns''\<rparr>"])
      (simp_all add: k example_request_def fetch_gateway_id_by_node_id_def example_pods_def create_id_def)
  with s' show ?thesis by simp
qed

lemma request_answer_witness:
  "\<exists>s'. handle_discovery_request example_pods example_ip 8 (example_request []) example_server = Some s' \<and>
     ads_sent s' = [(8, response_of Url_Cluster [5] 3)]"
proof -
  have i: "identify_request example_pods (example_request []) = Some (''ns.gw'', True, 0)"
    by (simp add: identify_request_def example_request_def fetch_gateway_id_by_node_id_def example_pods_def create_id_def)
  have c: "get_client_by_client_id example_ip (ads_clients example_server) = Some (hd (ads_clients example_server))"
    by (simp add: get_client_by_client_id_def example_server_def)
  have "handle_discovery_request example_pods example_ip 8 (example_request []) example_server \<noteq> None"
    by code_simp
  then obtain s' where s': "handle_discovery_request example_pods example_ip 8 (example_request []) example_server = Some s'" by blast
  with request_answer [OF i c s'] show ?thesis
    by (simp add: example_request_def example_server_def example_clusters_def stored_payload_def)
qed

lemma responses_isolated_witness:
  "\<exists>s. run_server (Ev_Action (UpdateClusters (namespaced_key ''gw'' ''ns'') example_clusters 0) # example_past) = Some s \<and>
     ads_sent s \<noteq> [] \<and> (\<forall>x\<in>set (ads_sent s). sent_properly (Ev_Action (UpdateClusters (namespaced_key ''gw'' ''ns'') example_clusters 0) # example_past) x)"
proof -
  let ?es = "Ev_Action (UpdateClusters (namespaced_key ''gw'' ''ns'') example_clusters 0) # example_past"
  have "map_option (length \<circ> ads_sent) (run_server ?es) = Some 1" by code_simp
  then obtain s where s: "run_server ?es = Some s" "length (ads_sent s) = 1"
    unfolding map_option_eq_Some comp_def by blast
  then have "ads_sent s \<noteq> []" by auto
  with s responses_isolated [OF s(1)] show ?thesis by blast
qed

end
