(* ===== verification/Route_Rules.thy ===== *)
theory Route_Rules
  imports Listener_Model
begin

section \<open>Effective routing rules and their order\<close>

text \<open>
  What the Envoy and Orion backends make of the rules of the routes of a listener: one effective
  rule per match, sorted so that the proxy, which takes the first match, tries the more specific
  ones first. Sources: \<open>backends/envoy/common/route/\<close> (the comparisons) and the \<open>Listener\<close> methods
  of \<open>backends/envoy/common/resource_generator.rs\<close>.

  The comparisons cast the enums of path types and of methods to integers; the enums are declared by
  the API crate, so their discriminants are the parameter \<open>enum_ranks\<close>. \<open>slice::sort_by\<close> is the
  stable sort of the standard library, written here as insertion from the right; a stable sort by a
  total preorder has one result, so which algorithm it is does not matter.
\<close>

subsection \<open>Orderings\<close>

datatype ordering = Ord_Less | Ord_Equal | Ord_Greater

definition ord_cmp :: "'a::linorder \<Rightarrow> 'a \<Rightarrow> ordering" where
  "ord_cmp a b = (if a < b then Ord_Less else if a = b then Ord_Equal else Ord_Greater)"

fun insert_by :: "('a \<Rightarrow> 'a \<Rightarrow> ordering) \<Rightarrow> 'a \<Rightarrow> 'a list \<Rightarrow> 'a list" where
  "insert_by cmp x [] = [x]"
| "insert_by cmp x (y # ys) = (if cmp x y = Ord_Greater then y # insert_by cmp x ys else x # y # ys)"

definition sort_by :: "('a \<Rightarrow> 'a \<Rightarrow> ordering) \<Rightarrow> 'a list \<Rightarrow> 'a list" where
  "sort_by cmp xs = foldr (insert_by cmp) xs []"

lemma ord_cmp_simps [simp]:
  "ord_cmp a b = Ord_Less \<longleftrightarrow> a < b" "ord_cmp a b = Ord_Equal \<longleftrightarrow> a = b" "ord_cmp a b = Ord_Greater \<longleftrightarrow> b < a"
  by (auto simp: ord_cmp_def)

lemma ord_cmp_Pair:
  "ord_cmp (a, b) (c, d) = (if ord_cmp a c = Ord_Equal then ord_cmp b d else ord_cmp a c)"
  by (auto simp: ord_cmp_def)

lemma sort_by_key: "sort_by (\<lambda>a b. ord_cmp (f a) (f b)) xs = sort_key f xs"
proof -
  have "insert_by (\<lambda>a b. ord_cmp (f a) (f b)) x ys = insort_key f x ys" for x ys
    by (induction ys) (auto simp: not_less)
  then have "insert_by (\<lambda>a b. ord_cmp (f a) (f b)) = insort_key f" by (intro ext)
  then show ?thesis by (simp add: sort_by_def sort_key_def)
qed

subsection \<open>Comparing matches\<close>

record enum_ranks =
  path_rank :: "path_match_type \<Rightarrow> int"
  method_rank :: "http_method \<Rightarrow> int"

fun compare_lengths :: "'a list option \<Rightarrow> 'a list option \<Rightarrow> ordering" where
  "compare_lengths None None = Ord_Equal"
| "compare_lengths None (Some _) = Ord_Greater"
| "compare_lengths (Some _) None = Ord_Less"
| "compare_lengths (Some this_headers) (Some other_headers) = ord_cmp (length other_headers) (length this_headers)"

definition compare_headers :: "name_match list option \<Rightarrow> name_match list option \<Rightarrow> ordering" where
  "compare_headers this other = compare_lengths this other"

definition compare_queries :: "name_match list option \<Rightarrow> name_match list option \<Rightarrow> ordering" where
  "compare_queries this other = compare_lengths this other"

definition http_header_matching :: "route_match \<Rightarrow> route_match \<Rightarrow> ordering" where
  "http_header_matching this other = compare_headers (rm_headers this) (rm_headers other)"

definition http_query_matching :: "route_match \<Rightarrow> route_match \<Rightarrow> ordering" where
  "http_query_matching this other = compare_queries (rm_headers this) (rm_headers other)"

definition http_method_matching :: "enum_ranks \<Rightarrow> route_match \<Rightarrow> route_match \<Rightarrow> ordering" where
  "http_method_matching rk this other = (case (rm_method this, rm_method other) of
       (None, None) \<Rightarrow> Ord_Equal
     | (None, Some _) \<Rightarrow> Ord_Greater
     | (Some _, None) \<Rightarrow> Ord_Less
     | (Some this_method, Some other_method) \<Rightarrow> ord_cmp (method_rank rk this_method) (method_rank rk other_method))"

definition path_value_matching :: "string option \<Rightarrow> string option \<Rightarrow> ordering" where
  "path_value_matching this other = (case (this, other) of
       (None, None) \<Rightarrow> Ord_Equal
     | (None, Some _) \<Rightarrow> Ord_Greater
     | (Some _, None) \<Rightarrow> Ord_Less
     | (Some this_path, Some other_path) \<Rightarrow> ord_cmp (length other_path) (length this_path))"

definition http_path_matching :: "enum_ranks \<Rightarrow> route_match \<Rightarrow> route_match \<Rightarrow> ordering" where
  "http_path_matching rk this other = (case (rm_path this, rm_path other) of
       (None, None) \<Rightarrow> Ord_Equal
     | (None, Some _) \<Rightarrow> Ord_Greater
     | (Some _, None) \<Rightarrow> Ord_Less
     | (Some this_path, Some other_path) \<Rightarrow> (case (pm_type this_path, pm_type other_path) of
           (None, None) \<Rightarrow> ord_cmp (pm_value this_path) (pm_value other_path)
         | (None, Some _) \<Rightarrow> Ord_Less
         | (Some _, None) \<Rightarrow> Ord_Greater
         | (Some this_type, Some other_type) \<Rightarrow>
             (let maybe_equal = ord_cmp (path_rank rk this_type) (path_rank rk other_type)
              in if maybe_equal = Ord_Equal then path_value_matching (pm_value this_path) (pm_value other_path)
                 else maybe_equal)))"

definition http_compare_matching :: "enum_ranks \<Rightarrow> route_match \<Rightarrow> route_match \<Rightarrow> ordering" where
  "http_compare_matching rk this other =
     (let path_match = http_path_matching rk this other;
          method_match = http_method_matching rk this other;
          header_match = http_header_matching this other;
          query_match = http_query_matching this other
      in if query_match = Ord_Equal
         then if header_match = Ord_Equal
              then if path_match = Ord_Equal then method_match else path_match
              else header_match
         else query_match)"

definition grpc_header_matching :: "grpc_route_match \<Rightarrow> grpc_route_match \<Rightarrow> ordering" where
  "grpc_header_matching this other = compare_headers (gm_headers this) (gm_headers other)"

definition grpc_method_matching :: "grpc_route_match \<Rightarrow> grpc_route_match \<Rightarrow> ordering" where
  "grpc_method_matching this other = (case (gm_method this, gm_method other) of
       (None, None) \<Rightarrow> Ord_Equal
     | (None, Some _) \<Rightarrow> Ord_Greater
     | (Some _, None) \<Rightarrow> Ord_Less
     | (Some this_method, Some other_method) \<Rightarrow>
         (let cmp_method = ord_cmp (gmm_method this_method) (gmm_method other_method);
              cmp_service = ord_cmp (gmm_service this_method) (gmm_service other_method)
          in if cmp_method = Ord_Equal then cmp_service else cmp_method))"

definition grpc_compare_matching :: "grpc_route_match \<Rightarrow> grpc_route_match \<Rightarrow> ordering" where
  "grpc_compare_matching this other =
     (let method_match = grpc_method_matching this other;
          header_match = grpc_header_matching this other
      in if header_match = Ord_Equal then method_match else header_match)"

subsection \<open>Effective rules\<close>

record http_effective_rule =
  her_listener_port :: "32 word"
  her_route_matcher :: route_match
  her_backends :: "backend list"
  her_filter_backends :: "backend list"
  her_name :: string
  her_hostnames :: "string list"
  her_request_headers :: filter_headers
  her_response_headers :: filter_headers
  her_redirect_filter :: "request_redirect option"
  her_mirror_filter :: "request_mirror option"
  her_rewrite_url_filter :: "url_rewrite option"

record grpc_effective_rule =
  ger_route_matcher :: grpc_route_match
  ger_backends :: "backend list"
  ger_name :: string
  ger_hostnames :: "string list"
  ger_request_headers :: filter_headers
  ger_response_headers :: filter_headers

definition empty_headers :: filter_headers where
  "empty_headers = \<lparr>fh_add = [], fh_remove = [], fh_set = []\<rparr>"

definition http_default_rules_matches :: route_match where
  "http_default_rules_matches =
     \<lparr>rm_path = Some \<lparr>pm_type = Some PathPrefix, pm_value = Some ''/''\<rparr>, rm_headers = Some [],
      rm_query_params = None, rm_method = None\<rparr>"

definition grpc_default_rules_matches :: grpc_route_match where
  "grpc_default_rules_matches = \<lparr>gm_headers = Some [], gm_method = None\<rparr>"

text \<open>\<open>Iterator::find_map\<close>\<close>

fun find_map :: "('a \<Rightarrow> 'b option) \<Rightarrow> 'a list \<Rightarrow> 'b option" where
  "find_map f [] = None"
| "find_map f (x # xs) = (case f x of Some y \<Rightarrow> Some y | None \<Rightarrow> find_map f xs)"

definition http_rules_of :: "32 word \<Rightarrow> string list \<Rightarrow> http_routing_rule \<Rightarrow> http_effective_rule list" where
  "http_rules_of port hostnames rr =
     (let matching_rules = (if hru_matching_rules rr = [] then [http_default_rules_matches] else hru_matching_rules rr)
      in map (\<lambda>matcher.
           \<lparr>her_listener_port = port, her_route_matcher = matcher, her_backends = hru_backends rr,
            her_filter_backends = hru_filter_backends rr, her_name = hru_name rr, her_hostnames = hostnames,
            her_request_headers = http_filter_headers rr RequestHeaderModifier,
            her_response_headers = http_filter_headers rr ResponseHeaderModifier,
            her_redirect_filter = find_map (\<lambda>f. if hf_type f = RequestRedirect then hf_request_redirect f else None) (hru_filters rr),
            her_mirror_filter = find_map (\<lambda>f. if hf_type f = RequestMirror then hf_request_mirror f else None) (hru_filters rr),
            her_rewrite_url_filter = find_map (\<lambda>f. if hf_type f = URLRewrite then hf_url_rewrite f else None) (hru_filters rr)\<rparr>)
         matching_rules)"

definition create_http_effective_route :: "listener \<Rightarrow> string list \<Rightarrow> http_routing_rule list \<Rightarrow> http_effective_rule list" where
  "create_http_effective_route l hostnames routing_rules =
     concat (map (http_rules_of (listener_port l) hostnames) routing_rules)"

definition grpc_rules_of :: "string list \<Rightarrow> grpc_routing_rule \<Rightarrow> grpc_effective_rule list" where
  "grpc_rules_of hostnames rr =
     (let matching_rules = (if gru_matching_rules rr = [] then [grpc_default_rules_matches] else gru_matching_rules rr)
      in map (\<lambda>matcher.
           \<lparr>ger_route_matcher = matcher, ger_backends = gru_backends rr, ger_name = gru_name rr, ger_hostnames = hostnames,
            ger_request_headers = grpc_filter_headers rr, ger_response_headers = empty_headers\<rparr>)
         matching_rules)"

definition create_grpc_effective_route :: "string list \<Rightarrow> grpc_routing_rule list \<Rightarrow> grpc_effective_rule list" where
  "create_grpc_effective_route hostnames routing_rules = concat (map (grpc_rules_of hostnames) routing_rules)"

fun http_rules_of_route :: "listener \<Rightarrow> route \<Rightarrow> http_effective_rule list" where
  "http_rules_of_route l r = (case route_type_of r of
       RT_Http rules \<Rightarrow> create_http_effective_route l (route_hostnames r) rules
     | RT_Grpc _ \<Rightarrow> [])"

fun grpc_rules_of_route :: "route \<Rightarrow> grpc_effective_rule list" where
  "grpc_rules_of_route r = (case route_type_of r of
       RT_Http _ \<Rightarrow> []
     | RT_Grpc rules \<Rightarrow> create_grpc_effective_route (route_hostnames r) rules)"

definition http_effective_rules :: "listener \<Rightarrow> http_effective_rule list" where
  "http_effective_rules l =
     (let (resolved_routes, unresolved) = listener_routes l
      in concat (map (http_rules_of_route l) (resolved_routes @ unresolved)))"

definition grpc_effective_rules :: "listener \<Rightarrow> grpc_effective_rule list" where
  "grpc_effective_rules l =
     (let (resolved_routes, unresolved) = listener_routes l
      in concat (map grpc_rules_of_route (resolved_routes @ unresolved)))"

definition http_matching_rules :: "enum_ranks \<Rightarrow> listener \<Rightarrow> http_effective_rule list" where
  "http_matching_rules rk l =
     sort_by (\<lambda>this other. http_compare_matching rk (her_route_matcher this) (her_route_matcher other)) (http_effective_rules l)"

definition grpc_matching_rules :: "listener \<Rightarrow> grpc_effective_rule list" where
  "grpc_matching_rules l =
     sort_by (\<lambda>this other. grpc_compare_matching (ger_route_matcher this) (ger_route_matcher other)) (grpc_effective_rules l)"

subsection \<open>The order of the rules\<close>

text \<open>
  The order in words: more header matches first, then no header list at all; then paths without a
  type, then by path type, then longer paths, then no path; then methods by rank, then no method.
\<close>

definition count_key :: "'a list option \<Rightarrow> int" where
  "count_key hs = (case hs of None \<Rightarrow> 1 | Some hs \<Rightarrow> - int (length hs))"

definition path_key :: "enum_ranks \<Rightarrow> path_match option \<Rightarrow> int \<times> int \<times> int \<times> string option" where
  "path_key rk p = (case p of
       None \<Rightarrow> (2, 0, 0, None)
     | Some p \<Rightarrow> (case pm_type p of
           None \<Rightarrow> (0, 0, 0, pm_value p)
         | Some t \<Rightarrow> (1, path_rank rk t, count_key (pm_value p), None)))"

definition method_key :: "enum_ranks \<Rightarrow> http_method option \<Rightarrow> int \<times> int" where
  "method_key rk m = (case m of None \<Rightarrow> (1, 0) | Some m \<Rightarrow> (0, method_rank rk m))"

definition http_precedence :: "enum_ranks \<Rightarrow> route_match \<Rightarrow> int \<times> (int \<times> int \<times> int \<times> string option) \<times> int \<times> int" where
  "http_precedence rk m = (count_key (rm_headers m), path_key rk (rm_path m), method_key rk (rm_method m))"

definition grpc_precedence :: "grpc_route_match \<Rightarrow> int \<times> int \<times> string option \<times> string option" where
  "grpc_precedence m = (count_key (gm_headers m), (case gm_method m of
       None \<Rightarrow> (1, None, None) | Some mm \<Rightarrow> (0, gmm_method mm, gmm_service mm)))"

lemma compare_lengths_key: "compare_lengths a b = ord_cmp (count_key a) (count_key b)"
  by (cases "(a, b)" rule: compare_lengths.cases) (auto simp: count_key_def ord_cmp_def)

lemma path_value_key: "path_value_matching a b = ord_cmp (count_key a) (count_key b)"
  by (auto simp: path_value_matching_def count_key_def ord_cmp_def split: option.splits)

lemma http_path_key: "http_path_matching rk a b = ord_cmp (path_key rk (rm_path a)) (path_key rk (rm_path b))"
  by (auto simp: http_path_matching_def path_key_def path_value_key Let_def ord_cmp_Pair
      split: option.splits) (auto simp: ord_cmp_def)

lemma http_method_key: "http_method_matching rk a b = ord_cmp (method_key rk (rm_method a)) (method_key rk (rm_method b))"
  by (auto simp: http_method_matching_def method_key_def ord_cmp_def split: option.splits)

lemma http_compare_precedence:
  "http_compare_matching rk a b = ord_cmp (http_precedence rk a) (http_precedence rk b)"
  by (simp add: http_compare_matching_def http_precedence_def ord_cmp_Pair Let_def http_path_key http_method_key
      http_header_matching_def http_query_matching_def compare_headers_def compare_queries_def compare_lengths_key
      del: ord_cmp_simps)

lemma grpc_compare_precedence:
  "grpc_compare_matching a b = ord_cmp (grpc_precedence a) (grpc_precedence b)"
  by (auto simp: grpc_compare_matching_def grpc_precedence_def grpc_method_matching_def grpc_header_matching_def
      compare_headers_def compare_lengths_key ord_cmp_Pair Let_def split: option.splits)
    (auto simp: ord_cmp_def)

text \<open>
  C15: the effective rules of a listener are sorted stably by their precedence: rules with more header
  matches first, among those by path (an exact path before a prefix when the API crate ranks it so,
  a longer path before a shorter one) and then by method; rules of equal precedence keep the order
  of the routes, rules and matches they come from. GRPC rules likewise by headers, method name
  and service name. Query parameters have no influence.
\<close>

theorem rules_sorted_by_precedence:
  "http_matching_rules rk l = sort_key (\<lambda>e. http_precedence rk (her_route_matcher e)) (http_effective_rules l) \<and>
   grpc_matching_rules l = sort_key (\<lambda>e. grpc_precedence (ger_route_matcher e)) (grpc_effective_rules l)"
  by (simp add: http_matching_rules_def grpc_matching_rules_def http_compare_precedence grpc_compare_precedence sort_by_key)

lemma http_matching_rules_sort:
  "http_matching_rules rk l = sort_key (\<lambda>e. http_precedence rk (her_route_matcher e)) (http_effective_rules l)"
  by (simp add: http_matching_rules_def http_compare_precedence sort_by_key)

lemma grpc_matching_rules_sort:
  "grpc_matching_rules l = sort_key (\<lambda>e. grpc_precedence (ger_route_matcher e)) (grpc_effective_rules l)"
  by (simp add: grpc_matching_rules_def grpc_compare_precedence sort_by_key)

lemma set_http_matching_rules [simp]: "set (http_matching_rules rk l) = set (http_effective_rules l)"
  by (simp add: http_matching_rules_sort)

lemma set_grpc_matching_rules [simp]: "set (grpc_matching_rules l) = set (grpc_effective_rules l)"
  by (simp add: grpc_matching_rules_sort)

lemma http_matching_rules_ordered:
  assumes "i < j" "j < length (http_matching_rules rk l)"
  shows "http_precedence rk (her_route_matcher (http_matching_rules rk l ! i))
    \<le> http_precedence rk (her_route_matcher (http_matching_rules rk l ! j))"
proof -
  let ?f = "\<lambda>e. http_precedence rk (her_route_matcher e)"
  have "sorted (map ?f (http_matching_rules rk l))" by (simp add: http_matching_rules_sort)
  from sorted_nth_mono [OF this, of i j] assms show ?thesis by simp
qed

text \<open>
  When the API crate ranks exact paths below prefixes, then of two rules with the same number of
  header matches a rule with a prefix never precedes one with an exact path, and of two rules with the
  same kind of path the one with the shorter path never comes first.
\<close>

lemma specific_paths_first:
  assumes rank: "path_rank rk PathExact < path_rank rk PathPrefix"
    and pos: "i < j" "j < length (http_matching_rules rk l)"
    and rules: "a = her_route_matcher (http_matching_rules rk l ! i)" "b = her_route_matcher (http_matching_rules rk l ! j)"
    and headers: "count_key (rm_headers a) = count_key (rm_headers b)"
    and paths: "rm_path a = Some \<lparr>pm_type = Some ta, pm_value = Some va\<rparr>"
      "rm_path b = Some \<lparr>pm_type = Some tb, pm_value = Some vb\<rparr>"
  shows "\<not> (ta = PathPrefix \<and> tb = PathExact) \<and> \<not> (ta = tb \<and> length va < length vb)"
proof -
  have "http_precedence rk a \<le> http_precedence rk b"
    using http_matching_rules_ordered [OF pos] unfolding rules .
  then have "path_key rk (rm_path a) \<le> path_key rk (rm_path b)"
    using headers by (simp add: http_precedence_def less_eq_prod_simp del: less_eq_prod_def split: if_splits) (auto simp: less_eq_prod_simp le_less)
  then show ?thesis
    using rank by (auto simp: paths path_key_def count_key_def less_eq_prod_def)
qed

definition example_match :: "path_match_type \<Rightarrow> string \<Rightarrow> route_match" where
  "example_match t v = \<lparr>rm_path = Some \<lparr>pm_type = Some t, pm_value = Some v\<rparr>, rm_headers = None,
     rm_query_params = None, rm_method = None\<rparr>"

definition example_rules_listener :: listener where
  "example_rules_listener = L_Http
     \<lparr>ld_config = \<lparr>lc_name = ''l'', lc_port = 80, lc_hostname = None, lc_tls_type = None\<rparr>, ld_conditions = [],
      ld_resolved_routes = [\<lparr>route_key = new_key ''r'', route_parents = None, route_hostnames = [''*''],
        route_resolution_status = RS_Resolved,
        route_type_of = RT_Http [\<lparr>hru_name = ''rule'', hru_backends = [],
          hru_matching_rules = [example_match PathPrefix ''/a'', example_match PathExact ''/a''],
          hru_filters = [], hru_filter_backends = []\<rparr>]\<rparr>],
      ld_unresolved_routes = [], ld_attached_routes = 1\<rparr>"

definition example_ranks :: enum_ranks where
  "example_ranks = \<lparr>path_rank = (\<lambda>t. case t of PathExact \<Rightarrow> 0 | PathPrefix \<Rightarrow> 1 | PathRegularExpression \<Rightarrow> 2),
     method_rank = (\<lambda>m. 0)\<rparr>"

lemma specific_paths_first_witness:
  "map (\<lambda>e. map_option pm_type (rm_path (her_route_matcher e))) (http_matching_rules example_ranks example_rules_listener) =
     [Some (Some PathExact), Some (Some PathPrefix)] \<and>
   \<not> (PathExact = PathPrefix \<and> PathPrefix = PathExact) \<and> \<not> (PathExact = PathPrefix \<and> length ''/a'' < length ''/a'')"
proof -
  have rules: "map her_route_matcher (http_matching_rules example_ranks example_rules_listener) =
      [example_match PathExact ''/a'', example_match PathPrefix ''/a'']"
    by code_simp
  then have len: "length (http_matching_rules example_ranks example_rules_listener) = 2"
    by (metis length_map length_Cons list.size(3) One_nat_def Suc_1)
  have nth: "her_route_matcher (http_matching_rules example_ranks example_rules_listener ! i) =
      [example_match PathExact ''/a'', example_match PathPrefix ''/a''] ! i" if "i < 2" for i
    using that len rules by (metis nth_map)
  have "map (\<lambda>e. map_option pm_type (rm_path (her_route_matcher e))) (http_matching_rules example_ranks example_rules_listener)
      = map (\<lambda>m. map_option pm_type (rm_path m)) (map her_route_matcher (http_matching_rules example_ranks example_rules_listener))"
    by simp
  also have "\<dots> = [Some (Some PathExact), Some (Some PathPrefix)]"
    unfolding rules by (simp add: example_match_def)
  finally show ?thesis
    using specific_paths_first [of example_ranks 0 1 example_rules_listener "example_match PathExact ''/a''"
        "example_match PathPrefix ''/a''" PathExact "''/a''" PathPrefix "''/a''"] len nth [of 0] nth [of 1]
    by (simp add: example_ranks_def example_match_def)
qed

text \<open>
  Two facts worth knowing about this order: header matches outrank paths, and rules that differ only
  in their query parameters are not ordered by them.
\<close>

lemma headers_outrank_paths:
  assumes "length (the (rm_headers b)) < length (the (rm_headers a))" "rm_headers a \<noteq> None" "rm_headers b \<noteq> None"
  shows "http_compare_matching rk a b = Ord_Less"
  using assms by (auto simp: http_compare_precedence http_precedence_def count_key_def)

lemma query_params_not_compared:
  "http_compare_matching rk a (b\<lparr>rm_query_params := q\<rparr>) = http_compare_matching rk a b"
  "http_compare_matching rk (a\<lparr>rm_query_params := q\<rparr>) b = http_compare_matching rk a b"
  by (simp_all add: http_compare_precedence http_precedence_def)

end
