(* ===== verification/Envoy_Routes.thy ===== *)
theory Envoy_Routes
  imports Route_Rules
begin

section \<open>Envoy routes\<close>

text \<open>
  The conversion of effective rules into routes of Envoy's route configuration:
  \<open>backends/envoy/envoy_xds_backend/route_converters/\<close> and the naming helpers of
  \<open>backends/envoy/common/mod.rs\<close>. Messages of the crate \<open>envoy_api_rs\<close> are records of the fields the
  code sets; fields left at their defaults are not listed. A failed \<open>expect\<close> on a conversion of
  integers is \<open>None\<close>.
\<close>

subsection \<open>Messages\<close>

record header_matcher =
  em_name :: string
  em_exact :: string

datatype path_specifier = PS_Prefix string | PS_Path string | PS_SafeRegex string | PS_PathSeparatedPrefix string

record envoy_route_match =
  erm_path_specifier :: "path_specifier option"
  erm_headers :: "header_matcher list"

datatype header_append_action = AppendIfExistsOrAdd | OverwriteIfExistsOrAdd

record header_value_option =
  hvo_key :: string
  hvo_value :: string
  hvo_append_action :: header_append_action

record cluster_weight =
  cw_name :: string
  cw_weight :: "32 word"

text \<open>The denominator of the runtime fraction is always \<open>Hundred\<close>.\<close>

record mirror_policy =
  mp_cluster :: string
  mp_numerator :: "32 word"

text \<open>The response code for a missing cluster is always \<open>InternalServerError\<close>.\<close>

record route_action =
  ra_clusters :: "cluster_weight list"
  ra_host_rewrite :: "string option"
  ra_mirrors :: "mirror_policy list"

datatype scheme_rewrite = SchemeRedirect string | HttpsRedirect bool

datatype path_rewrite = PathRedirect string | PrefixRewrite string

datatype redirect_code = MovedPermanently | Found | SeeOther | TemporaryRedirect | PermanentRedirect

record redirect_action =
  rda_host_redirect :: string
  rda_scheme_rewrite :: "scheme_rewrite option"
  rda_path_rewrite :: "path_rewrite option"
  rda_port_redirect :: "32 word"
  rda_response_code :: redirect_code

datatype envoy_action = Action_Redirect redirect_action | Action_Route route_action

text \<open>The overrides of the external processor for one route; the processing modes are constant.\<close>

record ext_proc_overrides =
  epo_cluster_name :: string
  epo_failure_mode_allow :: bool

record envoy_route =
  er_name :: string
  er_match :: envoy_route_match
  er_request_headers_to_add :: "header_value_option list"
  er_request_headers_to_remove :: "string list"
  er_response_headers_to_add :: "header_value_option list"
  er_response_headers_to_remove :: "string list"
  er_action :: envoy_action
  er_typed_per_filter_config :: "(string \<times> ext_proc_overrides) list"

subsection \<open>Names\<close>

definition INFERENCE_EXT_PROC_FILTER_NAME :: string where
  "INFERENCE_EXT_PROC_FILTER_NAME = ''inference.filters.http.ext_proc''"

definition make_inference_cluster_name :: "string \<Rightarrow> resource_key \<Rightarrow> string" where
  "make_inference_cluster_name name k = name @ ''-extsvc-'' @ display_key k"

definition envoy_route_name :: "http_effective_rule \<Rightarrow> string" where
  "envoy_route_name e = her_name e @ ''_route''"

definition get_inference_extension_configurations :: "backend list \<Rightarrow> inference_pool_type_config list" where
  "get_inference_extension_configurations backends =
     List.map_filter (\<lambda>b. case backend_type_of b of BT_InferencePool c \<Rightarrow> Some c | _ \<Rightarrow> None) backends"

record inference_cluster_info =
  ici_cluster_name :: string
  ici_config :: inference_pool_type_config

definition get_inference_pool_configurations :: "http_effective_rule \<Rightarrow> inference_cluster_info list" where
  "get_inference_pool_configurations e =
     map (\<lambda>conf. \<lparr>ici_cluster_name = make_inference_cluster_name (envoy_route_name e) (iptc_resource_key conf), ici_config = conf\<rparr>)
       (get_inference_extension_configurations (her_backends e))"

definition enable_ext_proc_filter :: "http_effective_rule \<Rightarrow> bool" where
  "enable_ext_proc_filter e =
     (find_map (\<lambda>b. case backend_type_of b of BT_InferencePool _ \<Rightarrow> Some True | _ \<Rightarrow> None) (her_backends e) \<noteq> None)"

subsection \<open>Integers\<close>

text \<open>\<open>i32::try_into::<u32>\<close>: negative values fail.\<close>

definition u32_of_i32 :: "32 word \<Rightarrow> 32 word option" where
  "u32_of_i32 w = (if 0 \<le> sint w then Some w else None)"

text \<open>
  \<open>((f64::from(n) / f64::from(d)) * 100.0) as u32\<close>. Both operands are integers of 32 bits, so they
  are exact doubles; the quotient and the product are rounded to 53 significant bits, ties to even.
  A positive double is \<open>m / 2 ^ s\<close>. The cast truncates, saturates, and takes NaN to zero.
\<close>

fun bit_count :: "nat \<Rightarrow> nat" where
  "bit_count n = (if n = 0 then 0 else Suc (bit_count (n div 2)))"

declare bit_count.simps [simp del]

definition round_half_even :: "nat \<Rightarrow> nat \<Rightarrow> nat" where
  "round_half_even n d =
     (let q = n div d; r = n mod d
      in if 2 * r < d \<or> (2 * r = d \<and> even q) then q else q + 1)"

definition f64_quotient :: "nat \<Rightarrow> nat \<Rightarrow> nat \<times> nat" where
  "f64_quotient n d =
     (let s0 = 53 + bit_count d - bit_count n;
          s = (if 2 ^ 53 \<le> n * 2 ^ s0 div d then s0 - 1 else s0)
      in (round_half_even (n * 2 ^ s) d, s))"

definition f64_hundredfold :: "nat \<times> nat \<Rightarrow> nat" where
  "f64_hundredfold = (\<lambda>(m, s).
     let p = m * 100; t = bit_count p - 53
      in round_half_even p (2 ^ t) * 2 ^ t div 2 ^ s)"

definition percent_of_fraction :: "int \<Rightarrow> int \<Rightarrow> 32 word" where
  "percent_of_fraction n d =
     (if d = 0 then (if 0 < n then word_of_int (2 ^ 32 - 1) else 0)
      else if n = 0 \<or> (n < 0) \<noteq> (d < 0) then 0
      else of_nat (min (2 ^ 32 - 1) (f64_hundredfold (f64_quotient (nat \<bar>n\<bar>) (nat \<bar>d\<bar>)))))"

subsection \<open>Shared converters\<close>

definition create_header_matchers :: "name_match list option \<Rightarrow> header_matcher list" where
  "create_header_matchers headers =
     (case headers of None \<Rightarrow> [] | Some hs \<Rightarrow> map (\<lambda>h. \<lparr>em_name = nm_name h, em_exact = nm_value h\<rparr>) hs)"

definition headers_to_add :: "http_header list \<Rightarrow> http_header list \<Rightarrow> header_value_option list" where
  "headers_to_add to_add to_set =
     map (\<lambda>h. \<lparr>hvo_key = hh_name h, hvo_value = hh_value h, hvo_append_action = AppendIfExistsOrAdd\<rparr>) to_add @
     map (\<lambda>h. \<lparr>hvo_key = hh_name h, hvo_value = hh_value h, hvo_append_action = OverwriteIfExistsOrAdd\<rparr>) to_set"

record service_cluster_weight =
  scw_name :: string
  scw_weight :: "32 word"

fun service_cluster_weight_of :: "backend_type \<Rightarrow> service_cluster_weight" where
  "service_cluster_weight_of (BT_Service c) = \<lparr>scw_name = service_cluster_name c, scw_weight = stc_weight c\<rparr>"
| "service_cluster_weight_of (BT_Invalid c) = \<lparr>scw_name = service_cluster_name c, scw_weight = stc_weight c\<rparr>"
| "service_cluster_weight_of (BT_InferencePool c) =
     \<lparr>scw_name = inference_pool_cluster_name c, scw_weight = iptc_weight c\<rparr>"

definition cluster_weight_of :: "service_cluster_weight \<Rightarrow> cluster_weight option" where
  "cluster_weight_of v = map_option (\<lambda>w. \<lparr>cw_name = scw_name v, cw_weight = w\<rparr>) (u32_of_i32 (scw_weight v))"

definition create_cluster_weights :: "service_cluster_weight list \<Rightarrow> cluster_weight list option" where
  "create_cluster_weights backends = those (map cluster_weight_of (filter (\<lambda>b. 0 < sint (scw_weight b)) backends))"

text \<open>\<open>trim_end_matches('/')\<close>\<close>

definition trim_slashes :: "string \<Rightarrow> string" where
  "trim_slashes s = rev (dropWhile (\<lambda>c. c = CHR ''/'') (rev s))"

definition path_text :: "string option \<Rightarrow> string" where
  "path_text v = (case v of None \<Rightarrow> ''/'' | Some v \<Rightarrow> if 1 < length v then trim_slashes v else v)"

subsection \<open>HTTP routes\<close>

definition http_path_specifier :: "path_match option \<Rightarrow> path_specifier option" where
  "http_path_specifier p = Option.bind p (\<lambda>matcher.
     let value = path_text (pm_value matcher)
      in map_option (\<lambda>t. case t of
           PathExact \<Rightarrow> PS_Path value
         | PathPrefix \<Rightarrow> (case pm_value matcher of
               Some val \<Rightarrow> if val = ''/'' then PS_Prefix value else PS_PathSeparatedPrefix value
             | None \<Rightarrow> PS_Prefix value)
         | PathRegularExpression \<Rightarrow> PS_SafeRegex value) (pm_type matcher))"

definition mirror_numerator :: "request_mirror \<Rightarrow> 32 word" where
  "mirror_numerator mirror_filter = (case (rmi_percent mirror_filter, rmi_fraction mirror_filter) of
       (None, None) \<Rightarrow> 100
     | (None, Some f) \<Rightarrow> percent_of_fraction (sint (fr_numerator f)) (sint (unwrap_or (fr_denominator f) 100))
     | (Some percent, None) \<Rightarrow> percent
     | (Some _, Some _) \<Rightarrow> 100)"

definition mirror_backends :: "http_effective_rule \<Rightarrow> request_mirror \<Rightarrow> string list" where
  "mirror_backends e mirror_filter =
     map service_cluster_name
       (filter (\<lambda>config. stc_resource_key config = key_of_backend_reference (rmi_backend_ref mirror_filter) DEFAULT_NAMESPACE_NAME)
         (List.map_filter (\<lambda>b. case backend_type_of b of
              BT_Service c \<Rightarrow> Some c | BT_Invalid c \<Rightarrow> Some c | BT_InferencePool _ \<Rightarrow> None) (her_filter_backends e)))"

definition mirror_policies :: "http_effective_rule \<Rightarrow> mirror_policy list" where
  "mirror_policies e = (case her_mirror_filter e of
       None \<Rightarrow> []
     | Some f \<Rightarrow> map (\<lambda>c. \<lparr>mp_cluster = c, mp_numerator = mirror_numerator f\<rparr>) (mirror_backends e f))"

definition derive_port :: "32 word option \<Rightarrow> redirect_scheme option \<Rightarrow> 32 word \<Rightarrow> 32 word" where
  "derive_port port scheme lport = (case port of
       Some p \<Rightarrow> p
     | None \<Rightarrow> (case scheme of
           Some Scheme_Https \<Rightarrow> 443
         | Some Scheme_Http \<Rightarrow> 80
         | None \<Rightarrow> lport))"

fun redirect_path :: "path_modifier \<Rightarrow> path_rewrite" where
  "redirect_path p = (case pmo_type p of
       ReplaceFullPath \<Rightarrow> PathRedirect (unwrap_or (pmo_replace_full_path p) '''')
     | ReplacePrefixMatch \<Rightarrow> PrefixRewrite (unwrap_or (pmo_replace_prefix_match p) ''''))"

definition redirect_code_of :: "int option \<Rightarrow> redirect_code" where
  "redirect_code_of status =
     (if status = Some 302 then Found else if status = Some 303 then SeeOther
      else if status = Some 307 then TemporaryRedirect else if status = Some 308 then PermanentRedirect
      else MovedPermanently)"

definition redirect_action_of :: "32 word \<Rightarrow> request_redirect \<Rightarrow> redirect_action" where
  "redirect_action_of lport f =
     \<lparr>rda_host_redirect = unwrap_or (rr_hostname f) '''',
      rda_scheme_rewrite = map_option (\<lambda>s. case s of Scheme_Http \<Rightarrow> SchemeRedirect ''http'' | Scheme_Https \<Rightarrow> HttpsRedirect True)
        (rr_scheme f),
      rda_path_rewrite = map_option redirect_path (rr_path f),
      rda_port_redirect = derive_port (rr_port f) (rr_scheme f) lport,
      rda_response_code = redirect_code_of (rr_status_code f)\<rparr>"

definition http_envoy_route :: "http_effective_rule \<Rightarrow> envoy_route option" where
  "http_envoy_route e =
     (let specifier = http_path_specifier (rm_path (her_route_matcher e));
          path_spec = (if specifier = None then Some (PS_Path ''/'') else specifier)
      in map_option (\<lambda>weights.
           \<lparr>er_name = envoy_route_name e,
            er_match = \<lparr>erm_path_specifier = path_spec,
              erm_headers = create_header_matchers (rm_headers (her_route_matcher e))\<rparr>,
            er_request_headers_to_add = headers_to_add (fh_add (her_request_headers e)) (fh_set (her_request_headers e)),
            er_request_headers_to_remove = fh_remove (her_request_headers e),
            er_response_headers_to_add = headers_to_add (fh_add (her_response_headers e)) (fh_set (her_response_headers e)),
            er_response_headers_to_remove = fh_remove (her_response_headers e),
            er_action = (case her_redirect_filter e of
                Some f \<Rightarrow> Action_Redirect (redirect_action_of (her_listener_port e) f)
              | None \<Rightarrow> Action_Route \<lparr>ra_clusters = weights,
                  ra_host_rewrite = Option.bind (her_rewrite_url_filter e) ur_hostname,
                  ra_mirrors = mirror_policies e\<rparr>),
            er_typed_per_filter_config = []\<rparr>)
         (create_cluster_weights (map (service_cluster_weight_of \<circ> backend_type_of) (her_backends e))))"

text \<open>The percentage argument of \<open>add_inference_filters\<close> is not used by it and left out.\<close>

definition add_inference_filters :: "envoy_route \<Rightarrow> inference_pool_type_config \<Rightarrow> envoy_route" where
  "add_inference_filters r config =
     (let cluster = make_inference_cluster_name (er_name r) (iptc_resource_key config)
      in r\<lparr>er_typed_per_filter_config := (case iptc_inference_config config of
           None \<Rightarrow> []
         | Some conf \<Rightarrow> [(INFERENCE_EXT_PROC_FILTER_NAME,
             \<lparr>epo_cluster_name = cluster,
              epo_failure_mode_allow = (epr_failure_mode (ips_endpoint_picker_ref conf) = Some FailOpen)\<rparr>)])\<rparr>)"

definition http_envoy_routes :: "http_effective_rule \<Rightarrow> envoy_route list option" where
  "http_envoy_routes e =
     (let configs = get_inference_extension_configurations (her_backends e)
      in map_option (\<lambda>r. if configs = [] then [r] else map (add_inference_filters r) configs) (http_envoy_route e))"

subsection \<open>GRPC routes\<close>

definition grpc_path_specifier :: "grpc_method_match option \<Rightarrow> path_specifier option" where
  "grpc_path_specifier m = Option.bind m (\<lambda>matcher.
     let service = path_text (gmm_service matcher);
         path = (case gmm_method matcher of
             Some method \<Rightarrow> ''/'' @ service @ ''/'' @ method
           | None \<Rightarrow> ''/'' @ service)
      in map_option (\<lambda>t. case t of Exact \<Rightarrow> PS_Path path | RegularExpression \<Rightarrow> PS_SafeRegex path) (gmm_type matcher))"

definition grpc_envoy_route :: "grpc_effective_rule \<Rightarrow> envoy_route option" where
  "grpc_envoy_route e =
     (let specifier = grpc_path_specifier (gm_method (ger_route_matcher e));
          path_spec = (if specifier = None then Some (PS_Prefix ''/'') else specifier);
          services = List.map_filter (\<lambda>b. case backend_type_of b of BT_Service c \<Rightarrow> Some c | _ \<Rightarrow> None) (ger_backends e)
      in map_option (\<lambda>weights.
           \<lparr>er_name = ger_name e @ ''-grpc-route'',
            er_match = \<lparr>erm_path_specifier = path_spec,
              erm_headers = create_header_matchers (gm_headers (ger_route_matcher e))\<rparr>,
            er_request_headers_to_add = headers_to_add (fh_add (ger_request_headers e)) (fh_set (ger_request_headers e)),
            er_request_headers_to_remove = fh_remove (ger_request_headers e),
            er_response_headers_to_add = [], er_response_headers_to_remove = [],
            er_action = Action_Route \<lparr>ra_clusters = weights, ra_host_rewrite = None, ra_mirrors = []\<rparr>,
            er_typed_per_filter_config = []\<rparr>)
         (those (map (\<lambda>c. map_option (\<lambda>w. \<lparr>cw_name = service_cluster_name c, cw_weight = w\<rparr>) (u32_of_i32 (stc_weight c)))
            (filter (\<lambda>c. 0 < sint (stc_weight c)) services))))"

subsection \<open>Totality and weights\<close>

lemma those_map_Some: "(\<And>x. x \<in> set xs \<Longrightarrow> f x = Some (g x)) \<Longrightarrow> those (map f xs) = Some (map g xs)"
  by (induction xs) auto

lemma u32_of_positive: "0 < sint w \<Longrightarrow> u32_of_i32 w = Some w"
  by (simp add: u32_of_i32_def)

lemma create_cluster_weights_total:
  "create_cluster_weights bs = Some (map (\<lambda>b. \<lparr>cw_name = scw_name b, cw_weight = scw_weight b\<rparr>) (filter (\<lambda>b. 0 < sint (scw_weight b)) bs))"
  unfolding create_cluster_weights_def
  by (rule those_map_Some) (simp add: cluster_weight_of_def u32_of_positive)

fun route_clusters :: "envoy_route \<Rightarrow> cluster_weight list" where
  "route_clusters r = (case er_action r of Action_Route a \<Rightarrow> ra_clusters a | Action_Redirect _ \<Rightarrow> [])"

definition rule_weights :: "http_effective_rule \<Rightarrow> cluster_weight list" where
  "rule_weights e = map (\<lambda>b. \<lparr>cw_name = scw_name b, cw_weight = scw_weight b\<rparr>)
     (filter (\<lambda>b. 0 < sint (scw_weight b)) (map (service_cluster_weight_of \<circ> backend_type_of) (her_backends e)))"

lemma http_envoy_route_total:
  obtains r where "http_envoy_route e = Some r" "er_name r = envoy_route_name e"
    "er_match r = \<lparr>erm_path_specifier = (let s = http_path_specifier (rm_path (her_route_matcher e)) in
        if s = None then Some (PS_Path ''/'') else s), erm_headers = create_header_matchers (rm_headers (her_route_matcher e))\<rparr>"
    "er_action r = (case her_redirect_filter e of
        Some f \<Rightarrow> Action_Redirect (redirect_action_of (her_listener_port e) f)
      | None \<Rightarrow> Action_Route \<lparr>ra_clusters = rule_weights e, ra_host_rewrite = Option.bind (her_rewrite_url_filter e) ur_hostname,
          ra_mirrors = mirror_policies e\<rparr>)"
  unfolding rule_weights_def by (simp add: http_envoy_route_def create_cluster_weights_total Let_def)

lemma sint_pos_uint:
  fixes w :: "32 word"
  assumes "0 < sint w"
  shows "0 < uint w \<and> uint w < 2 ^ 31"
proof -
  have "sint w < 2 ^ 31" using sint_lt [of w] by simp
  with assms have "uint w = sint w" by (simp add: uint_sint take_bit_int_eq_self)
  with assms \<open>sint w < 2 ^ 31\<close> show ?thesis by simp
qed

lemma http_envoy_routes_total:
  "\<exists>rs. http_envoy_routes e = Some rs \<and> rs \<noteq> [] \<and>
     (\<forall>r\<in>set rs. \<exists>r0 f. http_envoy_route e = Some r0 \<and> r = r0\<lparr>er_typed_per_filter_config := f\<rparr>)"
proof -
  obtain r0 where r0: "http_envoy_route e = Some r0" by (rule http_envoy_route_total)
  let ?configs = "get_inference_extension_configurations (her_backends e)"
  let ?rs = "if ?configs = [] then [r0] else map (add_inference_filters r0) ?configs"
  have "\<exists>f. r = r0\<lparr>er_typed_per_filter_config := f\<rparr>" if "r \<in> set ?rs" for r
  proof (cases "?configs = []")
    case True
    then have "r = r0\<lparr>er_typed_per_filter_config := er_typed_per_filter_config r0\<rparr>" using that by simp
    then show ?thesis ..
  next
    case False
    then show ?thesis using that by (auto simp: add_inference_filters_def Let_def)
  qed
  moreover have "http_envoy_routes e = Some ?rs" by (simp add: http_envoy_routes_def r0)
  ultimately show ?thesis using r0 by (intro exI [of _ ?rs]) auto
qed

text \<open>
  C39: converting a rule into Envoy routes never fails: there is at least one route, and each route that
  forwards names exactly the backends of the rule with a positive weight, in their order, with
  their weights, which lie between 1 and \<open>2 ^ 31 - 1\<close>, so the conversions of the weights to
  \<open>u32\<close> succeed. Each backend is named whatever its state of resolution.
\<close>

theorem envoy_routes_weights:
  "\<exists>rs. http_envoy_routes e = Some rs \<and> rs \<noteq> [] \<and>
     (\<forall>r\<in>set rs. route_clusters r = (if her_redirect_filter e = None then rule_weights e else [])) \<and>
     (\<forall>c\<in>set (rule_weights e). 0 < uint (cw_weight c) \<and> uint (cw_weight c) < 2 ^ 31)"
proof -
  obtain r0 where r0: "http_envoy_route e = Some r0"
    and act: "er_action r0 = (case her_redirect_filter e of
        Some f \<Rightarrow> Action_Redirect (redirect_action_of (her_listener_port e) f)
      | None \<Rightarrow> Action_Route \<lparr>ra_clusters = rule_weights e, ra_host_rewrite = Option.bind (her_rewrite_url_filter e) ur_hostname,
          ra_mirrors = mirror_policies e\<rparr>)"
    by (rule http_envoy_route_total)
  obtain rs where rs: "http_envoy_routes e = Some rs" "rs \<noteq> []"
    and r: "\<forall>r\<in>set rs. \<exists>r0 f. http_envoy_route e = Some r0 \<and> r = r0\<lparr>er_typed_per_filter_config := f\<rparr>"
    using http_envoy_routes_total [of e] by blast
  have "route_clusters r = (if her_redirect_filter e = None then rule_weights e else [])" if "r \<in> set rs" for r
    using bspec [OF r that] r0 act by (auto split: option.splits)
  moreover have "0 < uint (cw_weight c) \<and> uint (cw_weight c) < 2 ^ 31" if "c \<in> set (rule_weights e)" for c
    using that sint_pos_uint by (force simp: rule_weights_def)
  ultimately show ?thesis using rs by blast
qed

definition example_service :: "string \<Rightarrow> string \<Rightarrow> 32 word \<Rightarrow> service_type_config" where
  "example_service name ns w = \<lparr>stc_resource_key = namespaced_key name ns, stc_endpoint = name, stc_port = 80,
     stc_effective_port = 80, stc_weight = w\<rparr>"

definition example_effective_rule :: "backend list \<Rightarrow> http_effective_rule" where
  "example_effective_rule bs =
     \<lparr>her_listener_port = 80, her_route_matcher = example_match PathPrefix ''/'', her_backends = bs, her_filter_backends = [],
      her_name = ''rule'', her_hostnames = [''*''], her_request_headers = empty_headers, her_response_headers = empty_headers,
      her_redirect_filter = None, her_mirror_filter = None, her_rewrite_url_filter = None\<rparr>"

lemma envoy_routes_weights_witness:
  "\<exists>rs. http_envoy_routes (example_effective_rule [B_Resolved (BT_Service (example_service ''a'' ''n'' 3)),
       B_NotAllowed (BT_Service (example_service ''b'' ''n'' 0)), B_NotAllowed (BT_Service (example_service ''c'' ''n'' 1))]) = Some rs \<and>
     rs \<noteq> [] \<and> (\<forall>r\<in>set rs. map cw_name (route_clusters r) = [''a.n'', ''c.n''])"
proof -
  let ?e = "example_effective_rule [B_Resolved (BT_Service (example_service ''a'' ''n'' 3)),
       B_NotAllowed (BT_Service (example_service ''b'' ''n'' 0)), B_NotAllowed (BT_Service (example_service ''c'' ''n'' 1))]"
  have "map cw_name (rule_weights ?e) = [''a.n'', ''c.n'']" "her_redirect_filter ?e = None" by code_simp+
  then show ?thesis using envoy_routes_weights [of ?e] by (metis (no_types, lifting))
qed

subsection \<open>What the conversion leaves out\<close>

text \<open>
  The method and the query parameters of a match do not reach the proxy: rules that differ only in
  them become the same Envoy routes, so the one sorted second is never reached.
\<close>

lemma method_and_query_ignored:
  "http_envoy_routes (e\<lparr>her_route_matcher := (her_route_matcher e)\<lparr>rm_method := m, rm_query_params := q\<rparr>\<rparr>) = http_envoy_routes e"
  proof -
  have "mirror_policies (her_route_matcher_update f e) = mirror_policies e" "envoy_route_name (her_route_matcher_update f e) = envoy_route_name e"
    for f by (simp_all add: mirror_policies_def mirror_backends_def envoy_route_name_def cong: option.case_cong)
  then show ?thesis by (simp add: http_envoy_routes_def http_envoy_route_def Let_def cong: option.case_cong)
qed

text \<open>
  Matches without a path become the exact path \<open>/\<close>; a GRPC match that names only a method becomes a
  path no GRPC request has.
\<close>

lemma no_path_matches_root_only:
  assumes "rm_path (her_route_matcher e) = None" "http_envoy_route e = Some r"
  shows "erm_path_specifier (er_match r) = Some (PS_Path ''/'')"
  using assms by (auto simp: http_envoy_route_def http_path_specifier_def Let_def)

lemma grpc_method_only_path:
  "grpc_path_specifier (Some \<lparr>gmm_type = Some Exact, gmm_service = None, gmm_method = Some m\<rparr>) = Some (PS_Path (''///'' @ m))"
  by (simp add: grpc_path_specifier_def path_text_def)

text \<open>
  A mirror filter without a namespace is dropped for every route outside the namespace \<open>default\<close>:
  the backends of the filter carry the namespace of the route, while the conversion looks for one in
  \<open>default\<close>.
\<close>

lemma local_mirrors_dropped:
  assumes ns: "ns \<noteq> DEFAULT_NAMESPACE_NAME"
    and refs: "\<And>f m. f \<in> set (unwrap_or (hrr_filters rr) []) \<Longrightarrow> hf_request_mirror f = Some m \<Longrightarrow> bor_namespace (rmi_backend_ref m) = None"
    and e: "e \<in> set (http_rules_of port hostnames (http_rule_from name ns (i, rr)))"
  shows "mirror_policies e = []"
proof (cases "her_mirror_filter e")
  case (Some m)
  have filters: "hru_filters (http_rule_from name ns (i, rr)) = unwrap_or (hrr_filters rr) []"
    by (simp add: http_rule_from_def)
  have find: "find_map g fs = Some x \<Longrightarrow> \<exists>f\<in>set fs. g f = Some x"
    for g and fs :: "http_route_filter list" and x :: request_mirror
    by (induction fs) (auto split: option.splits)
  have "find_map (\<lambda>f. if hf_type f = RequestMirror then hf_request_mirror f else None) (unwrap_or (hrr_filters rr) []) = Some m"
    using e Some by (auto simp: http_rules_of_def Let_def filters split: if_splits)
  from find [OF this] have m: "bor_namespace (rmi_backend_ref m) = None"
    using refs by (auto split: if_splits)
  have "rk_namespace (backend_type_key (backend_type_of b)) = ns" if "b \<in> set (her_filter_backends e)" for b
    using that e refs
    by (auto simp: http_rules_of_def Let_def http_rule_filter_backends filter_backend_from_def mirror_config_from_def
        key_of_backend_reference_def hf_mirror_ref_def map_filter_def split: if_splits option.splits)
  then have "mirror_backends e m = []"
    using ns m by (fastforce simp: mirror_backends_def map_filter_def filter_empty_conv key_of_backend_reference_def
        split: backend_type.splits)
  then show ?thesis by (simp add: mirror_policies_def Some)
qed (simp add: mirror_policies_def)

definition example_mirror :: request_mirror where
  "example_mirror = \<lparr>rmi_backend_ref = \<lparr>bor_group = None, bor_kind = None, bor_name = ''m'', bor_namespace = None, bor_port = Some 80\<rparr>,
     rmi_percent = None, rmi_fraction = None\<rparr>"

definition example_mirror_rule :: http_route_rule where
  "example_mirror_rule = \<lparr>hrr_matches = None, hrr_filters = Some [\<lparr>hf_type = RequestMirror, hf_request_header_modifier = None,
       hf_response_header_modifier = None, hf_request_mirror = Some example_mirror, hf_request_redirect = None, hf_url_rewrite = None\<rparr>],
     hrr_backend_refs = None\<rparr>"

lemma local_mirrors_dropped_witness:
  "her_mirror_filter (hd (http_rules_of 80 [''*''] (http_rule_from ''r'' ''ns'' (0, example_mirror_rule)))) = Some example_mirror \<and>
   mirror_policies (hd (http_rules_of 80 [''*''] (http_rule_from ''r'' ''ns'' (0, example_mirror_rule)))) = []"
proof -
  let ?es = "http_rules_of 80 [''*''] (http_rule_from ''r'' ''ns'' (0, example_mirror_rule))"
  have "?es \<noteq> []" by (simp add: http_rules_of_def Let_def)
  then have "hd ?es \<in> set ?es" by simp
  then have "mirror_policies (hd ?es) = []"
    by (rule local_mirrors_dropped [rotated 2])
      (auto simp: key_constants example_mirror_rule_def example_mirror_def)
  moreover have "her_mirror_filter (hd ?es) = Some example_mirror"
    by (simp add: http_rules_of_def http_rule_from_def example_mirror_rule_def Let_def)
  ultimately show ?thesis by simp
qed

subsection \<open>The percentage of a fraction\<close>

lemma bit_count_less: "bit_count n \<le> k \<longleftrightarrow> n < 2 ^ k"
proof (induction k arbitrary: n)
  case 0
  then show ?case by (subst bit_count.simps) simp
next
  case (Suc k)
  show ?case using Suc [of "n div 2"] by (subst bit_count.simps) auto
qed

lemma round_half_even_mono: "0 < d \<Longrightarrow> a \<le> b \<Longrightarrow> round_half_even a d \<le> round_half_even b d"
proof -
  assume d: "0 < d" and ab: "a \<le> b"
  then consider "a div d < b div d" | "a div d = b div d" using div_le_mono [OF ab, of d] by linarith
  then show ?thesis
  proof cases
    case 1
    then show ?thesis by (auto simp: round_half_even_def Let_def)
  next
    case 2
    then have "a mod d \<le> b mod d" using ab by (metis add_le_cancel_left div_mult_mod_eq)
    then show ?thesis using 2 by (auto simp: round_half_even_def Let_def)
  qed
qed

lemma round_half_even_exact: "0 < d \<Longrightarrow> round_half_even (k * d) d = k"
  by (simp add: round_half_even_def Let_def)

lemma f64_hundredfold_le:
  assumes "m \<le> 2 ^ s"
  shows "f64_hundredfold (m, s) \<le> 100"
proof -
  let ?p = "m * 100" and ?t = "bit_count (m * 100) - 53"
  have p: "?p \<le> 100 * 2 ^ s" using assms by simp
  have "?p < 2 ^ (s + 7)"
  proof -
    have "(100 :: nat) * 2 ^ s < 128 * 2 ^ s" by simp
    also have "\<dots> = 2 ^ (s + 7)" by (simp add: power_add)
    finally show ?thesis using p by linarith
  qed
  then have "bit_count ?p \<le> s + 7" by (simp add: bit_count_less)
  then have t: "?t \<le> s" by simp
  then have split: "(100 :: nat) * 2 ^ s = (100 * 2 ^ (s - ?t)) * 2 ^ ?t" by (simp flip: power_add)
  have "round_half_even ?p (2 ^ ?t) \<le> round_half_even (100 * 2 ^ s) (2 ^ ?t)"
    by (rule round_half_even_mono) (simp_all only: p zero_less_power zero_less_numeral)
  also have "\<dots> = 100 * 2 ^ (s - ?t)" unfolding split by (rule round_half_even_exact) simp
  finally have "round_half_even ?p (2 ^ ?t) * 2 ^ ?t \<le> (100 * 2 ^ (s - ?t)) * 2 ^ ?t" by simp
  then have "round_half_even ?p (2 ^ ?t) * 2 ^ ?t \<le> 100 * 2 ^ s" unfolding split .
  then have "round_half_even ?p (2 ^ ?t) * 2 ^ ?t div 2 ^ s \<le> 100 * 2 ^ s div 2 ^ s" by (rule div_le_mono)
  then show ?thesis by (simp add: f64_hundredfold_def Let_def)
qed

lemma f64_quotient_le:
  assumes "n \<le> d" "0 < d"
  shows "fst (f64_quotient n d) \<le> 2 ^ snd (f64_quotient n d)"
proof -
  let ?s = "snd (f64_quotient n d)"
  have "fst (f64_quotient n d) = round_half_even (n * 2 ^ ?s) d" by (simp add: f64_quotient_def Let_def)
  also have "\<dots> \<le> round_half_even (2 ^ ?s * d) d"
    using assms by (intro round_half_even_mono) (simp_all add: mult.commute)
  also have "\<dots> = 2 ^ ?s" using assms by (simp add: round_half_even_exact)
  finally show ?thesis .
qed

text \<open>A fraction between 0 and 1 becomes a percentage of at most 100, although 29/100 becomes 28.\<close>

lemma percent_of_fraction_bounds:
  assumes "0 \<le> n" "n \<le> d"
  shows "unat (percent_of_fraction n d) \<le> 100"
proof -
  have le: "f64_hundredfold (f64_quotient (nat n) (nat d)) \<le> 100" if "0 < d"
    using f64_hundredfold_le [OF f64_quotient_le [of "nat n" "nat d"]] that assms by simp
  show ?thesis
  proof (cases "0 < d")
    case True
    then show ?thesis using assms le by (simp add: percent_of_fraction_def unat_of_nat min_def)
  next
    case False
    then show ?thesis using assms by (simp add: percent_of_fraction_def)
  qed
qed

lemma bit_count_eq: "2 ^ k \<le> n \<Longrightarrow> n < 2 ^ Suc k \<Longrightarrow> bit_count n = Suc k"
  using bit_count_less [of n k] bit_count_less [of n "Suc k"] by linarith

lemma percent_of_29_100: "percent_of_fraction 29 100 = 28"
proof -
  have "bit_count 29 = 5" "bit_count 100 = 7" "bit_count 522417556774977500 = 59"
    using bit_count_eq [of 4 29] bit_count_eq [of 6 100] bit_count_eq [of 58 522417556774977500] by simp_all
  moreover from this have "f64_quotient 29 100 = (5224175567749775, 54)" by (simp add: f64_quotient_def round_half_even_def)
  ultimately show ?thesis by (simp add: percent_of_fraction_def f64_hundredfold_def round_half_even_def)
qed

lemma percent_of_1_2: "percent_of_fraction 1 2 = 50"
proof -
  have "bit_count 1 = 1" "bit_count 2 = 2" "bit_count 450359962737049600 = 59"
    using bit_count_eq [of 0 1] bit_count_eq [of 1 2] bit_count_eq [of 58 450359962737049600] by simp_all
  moreover from this have "f64_quotient 1 2 = (4503599627370496, 53)" by (simp add: f64_quotient_def round_half_even_def)
  ultimately show ?thesis by (simp add: percent_of_fraction_def f64_hundredfold_def round_half_even_def)
qed

end
