(* ===== verification/Envoy_Resources.thy ===== *)
theory Envoy_Resources
  imports Envoy_Routes Listener_Matching
begin

section \<open>Envoy listeners and clusters of a gateway\<close>

text \<open>
  The resource generator the Envoy and Orion backends share,
  \<open>backends/envoy/common/resource_generator.rs\<close>, with the factories of \<open>backends/envoy/common/mod.rs\<close>.
  The generator is a record whose method \<open>generate_envoy_listeners\<close> fills in the listeners, by port,
  and collects the inference clusters; \<open>generate_envoy_clusters\<close> reads both. The ordered sets of
  virtual hosts and of clusters compare elements by name. A failed \<open>expect\<close> or an index out of
  bounds is \<open>None\<close>. \<open>dp\<close> is the pattern parser of the host name filter and \<open>rk\<close> the ranks of the enums
  of the API crate.
\<close>

subsection \<open>Messages\<close>

record socket_address =
  sad_address :: string
  sad_port :: "32 word"

record lb_endpoint =
  lbe_address :: socket_address
  lbe_weight :: "32 word"

datatype discovery_type = Discovery_LogicalDns | Discovery_StrictDns

text \<open>
  A cluster: its endpoints, its discovery type (a cluster without one is of type \<open>STATIC\<close>), whether
  the options for HTTP 2 are set, and the names of its transport socket and balancing policy.
\<close>

record envoy_cluster =
  ec_name :: string
  ec_discovery_type :: "discovery_type option"
  ec_endpoints :: "lb_endpoint list"
  ec_http2_options :: bool
  ec_transport_socket :: "string option"
  ec_load_balancing_policy :: "string option"

record envoy_virtual_host =
  evh_name :: string
  evh_effective_hostnames :: "string list"
  evh_resolved_routes :: "route list"
  evh_unresolved_routes :: "route list"
  evh_http_routes :: "envoy_route list"
  evh_grpc_routes :: "envoy_route list"

record envoy_listener =
  el_name :: string
  el_port :: "32 word"
  el_http_listener_map :: "envoy_virtual_host list"
  el_tcp_listener_map :: "(string \<times> string option) list"
  el_tls_type :: "tls_type option"
  el_enable_ext_proc :: bool

record resource_generator =
  gen_gateway :: gateway
  gen_resources :: "(32 word \<times> envoy_listener) list"
  gen_inference_clusters :: "inference_cluster_info list"
  gen_implementation_type :: gateway_implementation_type
  gen_calculator :: "string \<Rightarrow> string list"

definition new_generator :: "gateway \<Rightarrow> gateway_implementation_type \<Rightarrow> (string \<Rightarrow> string list) \<Rightarrow> resource_generator" where
  "new_generator g t calculator =
     \<lparr>gen_gateway = g, gen_resources = [], gen_inference_clusters = [], gen_implementation_type = t, gen_calculator = calculator\<rparr>"

subsection \<open>Addresses\<close>

definition socket_address_from :: "envoy_listener \<Rightarrow> socket_address option" where
  "socket_address_from l = map_option (\<lambda>p. \<lparr>sad_address = ''0.0.0.0'', sad_port = p\<rparr>) (u32_of_i32 (el_port l))"

definition socket_address_from_backend :: "service_type_config \<Rightarrow> socket_address option" where
  "socket_address_from_backend b = map_option (\<lambda>p. \<lparr>sad_address = stc_endpoint b, sad_port = p\<rparr>) (u32_of_i32 (stc_effective_port b))"

definition socket_address_from_address_port :: "string \<Rightarrow> 32 word \<Rightarrow> socket_address option" where
  "socket_address_from_address_port address port = map_option (\<lambda>p. \<lparr>sad_address = address, sad_port = p\<rparr>) (u32_of_i32 port)"

subsection \<open>Host names\<close>

definition routes_hostnames :: "route list \<Rightarrow> string list" where
  "routes_hostnames routes = fold (\<lambda>r acc. bset_append (\<lambda>h. h) acc (bset_from (\<lambda>h. h) (route_hostnames r))) routes []"

definition calculate_hostnames_common :: "route list \<Rightarrow> string option \<Rightarrow> (string \<Rightarrow> string list) \<Rightarrow> string list" where
  "calculate_hostnames_common routes lhost create_hostnames =
     (let hostnames = routes_hostnames routes
      in case lhost of
           Some h \<Rightarrow> if h \<noteq> [] \<and> h \<noteq> DEFAULT_ROUTE_HOSTNAME then create_hostnames h else [DEFAULT_ROUTE_HOSTNAME]
         | None \<Rightarrow> if hostnames \<noteq> [] then hostnames else [DEFAULT_ROUTE_HOSTNAME])"

definition calculate_potential_hostnames :: "route list \<Rightarrow> string option \<Rightarrow> string list" where
  "calculate_potential_hostnames routes lhost = calculate_hostnames_common routes lhost (\<lambda>h. [h])"

subsection \<open>Listeners\<close>

type_synonym domain_patterns = "string \<Rightarrow> (string \<Rightarrow> bool) option"

definition http_rules_for :: "domain_patterns \<Rightarrow> enum_ranks \<Rightarrow> listener \<Rightarrow> string \<Rightarrow> http_effective_rule list" where
  "http_rules_for dp rk l potential_hostname =
     filter (\<lambda>em. hostname_filter dp potential_hostname (her_hostnames em)) (http_matching_rules rk l)"

definition grpc_rules_for :: "domain_patterns \<Rightarrow> listener \<Rightarrow> string \<Rightarrow> grpc_effective_rule list" where
  "grpc_rules_for dp l potential_hostname =
     filter (\<lambda>em. hostname_filter dp potential_hostname (ger_hostnames em)) (grpc_matching_rules l)"

definition virtual_host_for ::
    "domain_patterns \<Rightarrow> enum_ranks \<Rightarrow> (string \<Rightarrow> string list) \<Rightarrow> listener \<Rightarrow> string \<Rightarrow> envoy_virtual_host option" where
  "virtual_host_for dp rk calculator l potential_hostname =
     (let (resolved, unresolved) = listener_routes l
      in case (those (map http_envoy_routes (http_rules_for dp rk l potential_hostname)),
               those (map grpc_envoy_route (grpc_rules_for dp l potential_hostname))) of
           (Some http, Some grpc) \<Rightarrow> Some
             \<lparr>evh_name = listener_name l @ ''-'' @ potential_hostname,
              evh_effective_hostnames = calculate_hostnames_common resolved (Some potential_hostname) calculator,
              evh_resolved_routes = resolved, evh_unresolved_routes = unresolved,
              evh_http_routes = concat http, evh_grpc_routes = grpc\<rparr>
         | _ \<Rightarrow> None)"

fun add_virtual_hosts ::
    "domain_patterns \<Rightarrow> enum_ranks \<Rightarrow> (string \<Rightarrow> string list) \<Rightarrow> listener \<Rightarrow> string list \<Rightarrow>
     envoy_virtual_host list \<times> bool \<times> inference_cluster_info list \<Rightarrow>
     (envoy_virtual_host list \<times> bool \<times> inference_cluster_info list) option" where
  "add_virtual_hosts dp rk calculator l [] acc = Some acc"
| "add_virtual_hosts dp rk calculator l (potential_hostname # hs) (listener_map, enable_ext_proc, clusters) =
     (let rules = http_rules_for dp rk l potential_hostname
      in case virtual_host_for dp rk calculator l potential_hostname of
           None \<Rightarrow> None
         | Some vh \<Rightarrow> add_virtual_hosts dp rk calculator l hs
             (bset_insert evh_name vh listener_map, enable_ext_proc \<or> list_ex enable_ext_proc_filter rules,
              clusters @ concat (map get_inference_pool_configurations rules)))"

definition generate_envoy_listener ::
    "domain_patterns \<Rightarrow> enum_ranks \<Rightarrow> string \<Rightarrow> listener \<Rightarrow> resource_generator \<Rightarrow> (envoy_listener \<times> resource_generator) option" where
  "generate_envoy_listener dp rk gname l gen =
     (let (resolved, unresolved) = listener_routes l;
          potential_hostnames = calculate_potential_hostnames resolved (listener_hostname l)
      in map_option (\<lambda>(listener_map, enable_ext_proc, clusters).
           (\<lparr>el_name = gname, el_port = listener_port l, el_http_listener_map = listener_map, el_tcp_listener_map = [],
             el_tls_type = lc_tls_type (ld_config (listener_data_of l)), el_enable_ext_proc = enable_ext_proc\<rparr>,
            gen\<lparr>gen_inference_clusters := clusters\<rparr>))
         (add_virtual_hosts dp rk (gen_calculator gen) l potential_hostnames ([], False, gen_inference_clusters gen)))"

abbreviation port_key :: "32 word \<times> 'a \<Rightarrow> int" where
  "port_key \<equiv> \<lambda>p. sint (fst p)"

text \<open>One round of the fold over the listeners: \<open>acc\<close> is the map by port.\<close>

definition map_listener ::
    "domain_patterns \<Rightarrow> enum_ranks \<Rightarrow> listener \<Rightarrow> (32 word \<times> envoy_listener) list \<times> resource_generator \<Rightarrow>
     ((32 word \<times> envoy_listener) list \<times> resource_generator) option" where
  "map_listener dp rk l = (\<lambda>(acc, gen).
     let port = listener_port l;
         gname = rk_name (gw_resource_key (gen_gateway gen));
         entry = (listener_name l, listener_hostname l)
     in case bset_get port_key (sint port) acc of
          Some (_, el) \<Rightarrow> (case listener_protocol l of
              P_Tcp \<Rightarrow> Some (bset_replace port_key (port, el\<lparr>el_tcp_listener_map := bset_insert (\<lambda>x. x) entry (el_tcp_listener_map el)\<rparr>) acc, gen)
            | P_Tls \<Rightarrow> Some (acc, gen)
            | P_Udp \<Rightarrow> Some (acc, gen)
            | _ \<Rightarrow> map_option (\<lambda>(new_listener, gen').
                (bset_replace port_key (port, el\<lparr>el_http_listener_map :=
                   bset_append evh_name (el_http_listener_map el) (el_http_listener_map new_listener)\<rparr>) acc, gen'))
                (generate_envoy_listener dp rk gname l gen))
        | None \<Rightarrow> (case listener_protocol l of
              P_Tcp \<Rightarrow> Some (bset_replace port_key (port,
                \<lparr>el_name = gname, el_port = port, el_http_listener_map = [], el_tcp_listener_map = [entry],
                 el_tls_type = None, el_enable_ext_proc = False\<rparr>) acc, gen)
            | P_Tls \<Rightarrow> Some (acc, gen)
            | P_Udp \<Rightarrow> Some (acc, gen)
            | _ \<Rightarrow> map_option (\<lambda>(el, gen'). (bset_replace port_key (port, el) acc, gen'))
                (generate_envoy_listener dp rk gname l gen)))"

fun map_listeners_by_port ::
    "domain_patterns \<Rightarrow> enum_ranks \<Rightarrow> listener list \<Rightarrow> (32 word \<times> envoy_listener) list \<times> resource_generator \<Rightarrow>
     ((32 word \<times> envoy_listener) list \<times> resource_generator) option" where
  "map_listeners_by_port dp rk [] acc = Some acc"
| "map_listeners_by_port dp rk (l # ls) acc = Option.bind (map_listener dp rk l acc) (map_listeners_by_port dp rk ls)"

definition generate_envoy_listener_mapping ::
    "domain_patterns \<Rightarrow> enum_ranks \<Rightarrow> resource_generator \<Rightarrow> ((32 word \<times> envoy_listener) list \<times> resource_generator) option" where
  "generate_envoy_listener_mapping dp rk gen = map_listeners_by_port dp rk (gateway_listeners (gen_gateway gen)) ([], gen)"

definition generate_envoy_listeners :: "domain_patterns \<Rightarrow> enum_ranks \<Rightarrow> resource_generator \<Rightarrow> resource_generator option" where
  "generate_envoy_listeners dp rk gen =
     map_option (\<lambda>(listeners, gen'). gen'\<lparr>gen_resources := listeners\<rparr>) (generate_envoy_listener_mapping dp rk gen)"

subsection \<open>Clusters\<close>

definition create_service_cluster :: "service_type_config \<Rightarrow> route_type \<Rightarrow> envoy_cluster option" where
  "create_service_cluster config rtype =
     (case (socket_address_from_backend config, u32_of_i32 (stc_weight config)) of
        (Some address, Some weight) \<Rightarrow> Some
          \<lparr>ec_name = service_cluster_name config, ec_discovery_type = Some Discovery_StrictDns,
           ec_endpoints = [\<lparr>lbe_address = address, lbe_weight = weight\<rparr>],
           ec_http2_options = (case rtype of RT_Http _ \<Rightarrow> False | RT_Grpc _ \<Rightarrow> True),
           ec_transport_socket = None, ec_load_balancing_policy = None\<rparr>
      | _ \<Rightarrow> None)"

definition pool_endpoint :: "inference_pool_type_config \<Rightarrow> string \<Rightarrow> lb_endpoint option" where
  "pool_endpoint config e = (case iptc_target_ports config of
       [] \<Rightarrow> None
     | port # _ \<Rightarrow> map_option (\<lambda>a. \<lparr>lbe_address = a, lbe_weight = 1\<rparr>) (socket_address_from_address_port e port))"

definition create_inference_cluster :: "inference_pool_type_config \<Rightarrow> envoy_cluster option" where
  "create_inference_cluster config =
     map_option (\<lambda>endpoints.
       \<lparr>ec_name = inference_pool_cluster_name config, ec_discovery_type = None, ec_endpoints = endpoints,
        ec_http2_options = False, ec_transport_socket = None,
        ec_load_balancing_policy = Some ''envoy.load_balancing_policies.override_host''\<rparr>)
     (those (map (pool_endpoint config) (unwrap_or (iptc_endpoints config) [])))"

definition ext_service_discovery :: "gateway_implementation_type \<Rightarrow> discovery_type option" where
  "ext_service_discovery t = (case t of
       Envoy \<Rightarrow> Some Discovery_LogicalDns | Agentgateway \<Rightarrow> None | Orion \<Rightarrow> Some Discovery_StrictDns)"

text \<open>The outer option is a panic, the inner one the result of the method.\<close>

definition generate_ext_service_cluster ::
    "gateway_implementation_type \<Rightarrow> inference_cluster_info \<Rightarrow> envoy_cluster option option" where
  "generate_ext_service_cluster t config = (case iptc_inference_config (ici_config config) of
       None \<Rightarrow> Some None
     | Some extension_config \<Rightarrow>
         (let picker = ips_endpoint_picker_ref extension_config
          in map_option (\<lambda>a. Some
               \<lparr>ec_name = ici_cluster_name config, ec_discovery_type = ext_service_discovery t,
                ec_endpoints = [\<lparr>lbe_address = a, lbe_weight = 1\<rparr>], ec_http2_options = True,
                ec_transport_socket = Some (ici_cluster_name config @ ''_tls''), ec_load_balancing_policy = None\<rparr>)
             (socket_address_from_address_port
               (epr_name picker @ ''.'' @ rk_namespace (iptc_resource_key (ici_config config)))
               (unwrap_or (epr_port picker) 9002))))"

definition resolved_services :: "backend list \<Rightarrow> service_type_config list" where
  "resolved_services bs = filter (\<lambda>c. 0 < sint (stc_weight c))
     (List.map_filter (\<lambda>b. case b of B_Resolved (BT_Service c) \<Rightarrow> Some c | B_Resolved (BT_Invalid c) \<Rightarrow> Some c | _ \<Rightarrow> None) bs)"

definition resolved_pools :: "backend list \<Rightarrow> inference_pool_type_config list" where
  "resolved_pools bs = filter (\<lambda>c. 0 < sint (iptc_weight c))
     (List.map_filter (\<lambda>b. case b of B_Resolved (BT_InferencePool c) \<Rightarrow> Some c | _ \<Rightarrow> None) bs)"

definition clusters_of_route :: "route \<Rightarrow> envoy_cluster option list" where
  "clusters_of_route r =
     map (\<lambda>c. create_service_cluster c (route_type_of r)) (resolved_services (route_backends r)) @
     map create_inference_cluster (resolved_pools (route_backends r)) @
     map (\<lambda>c. create_service_cluster c (route_type_of r)) (resolved_services (route_filter_backends r))"

definition routes_of_listeners :: "(32 word \<times> envoy_listener) list \<Rightarrow> route list" where
  "routes_of_listeners listeners =
     concat (map (\<lambda>(_, l). concat (map (\<lambda>evc. evh_resolved_routes evc @ evh_unresolved_routes evc) (el_http_listener_map l))) listeners)"

text \<open>\<open>Itertools::dedup_by\<close>: of adjacent equal elements the first is kept.\<close>

fun dedup_by :: "('a \<Rightarrow> 'k) \<Rightarrow> 'a list \<Rightarrow> 'a list" where
  "dedup_by key (x # y # xs) = (if key x = key y then dedup_by key (x # xs) else x # dedup_by key (y # xs))"
| "dedup_by key xs = xs"

definition generate_envoy_clusters :: "resource_generator \<Rightarrow> envoy_cluster list option" where
  "generate_envoy_clusters gen =
     (case (those (concat (map clusters_of_route (routes_of_listeners (gen_resources gen)))),
            those (map (generate_ext_service_cluster (gen_implementation_type gen)) (gen_inference_clusters gen))) of
        (Some clusters, Some ext_service_clusters) \<Rightarrow>
          Some (dedup_by ec_name (sort_key ec_name
            (bset_from ec_name clusters @ List.map_filter (\<lambda>c. c) ext_service_clusters)))
      | _ \<Rightarrow> None)"

subsection \<open>Virtual hosts\<close>

lemma map_filter_those: "(\<And>x. x \<in> set xs \<Longrightarrow> f x \<noteq> None) \<Longrightarrow> those (map f xs) = Some (map (the \<circ> f) xs)"
  by (rule those_map_Some) auto

lemma grpc_envoy_route_total: "grpc_envoy_route e \<noteq> None"
proof -
  have "those (map (\<lambda>c. map_option (\<lambda>w. \<lparr>cw_name = service_cluster_name c, cw_weight = w\<rparr>) (u32_of_i32 (stc_weight c)))
      (filter (\<lambda>c. 0 < sint (stc_weight c)) cs)) \<noteq> None" for cs
    by (subst those_map_Some [where g = "\<lambda>c. \<lparr>cw_name = service_cluster_name c, cw_weight = stc_weight c\<rparr>"])
      (auto simp: u32_of_positive)
  then show ?thesis by (simp add: grpc_envoy_route_def Let_def)
qed

lemma http_envoy_routes_some: "http_envoy_routes e \<noteq> None"
  using http_envoy_routes_total [of e] by auto

text \<open>The virtual host of a listener for a host name, and the list of host names it is made for.\<close>

definition vhost_of :: "domain_patterns \<Rightarrow> enum_ranks \<Rightarrow> (string \<Rightarrow> string list) \<Rightarrow> listener \<Rightarrow> string \<Rightarrow> envoy_virtual_host" where
  "vhost_of dp rk calculator l h =
     \<lparr>evh_name = listener_name l @ ''-'' @ h,
      evh_effective_hostnames = calculate_hostnames_common (fst (listener_routes l)) (Some h) calculator,
      evh_resolved_routes = fst (listener_routes l), evh_unresolved_routes = snd (listener_routes l),
      evh_http_routes = concat (map (the \<circ> http_envoy_routes) (http_rules_for dp rk l h)),
      evh_grpc_routes = map (the \<circ> grpc_envoy_route) (grpc_rules_for dp l h)\<rparr>"

definition potential_hosts :: "listener \<Rightarrow> string list" where
  "potential_hosts l = calculate_potential_hostnames (fst (listener_routes l)) (listener_hostname l)"

lemma virtual_host_for_eq: "virtual_host_for dp rk calculator l h = Some (vhost_of dp rk calculator l h)"
  by (simp add: virtual_host_for_def vhost_of_def case_prod_beta Let_def map_filter_those http_envoy_routes_some grpc_envoy_route_total)

lemma bset_wf_hostnames: "bset_wf (\<lambda>h. h) (routes_hostnames rs)"
proof -
  have "bset_wf (\<lambda>h. h) (fold (\<lambda>r acc. bset_append (\<lambda>h. h) acc (bset_from (\<lambda>h. h) (route_hostnames r))) rs acc)"
    if "bset_wf (\<lambda>h. h) acc" for acc
    using that by (induction rs arbitrary: acc) auto
  then show ?thesis by (simp add: routes_hostnames_def)
qed

lemma set_routes_hostnames: "set (routes_hostnames rs) = (\<Union>r\<in>set rs. set (route_hostnames r))"
proof -
  have "set (fold (\<lambda>r acc. bset_append (\<lambda>h. h) acc (bset_from (\<lambda>h. h) (route_hostnames r))) rs acc)
      = set acc \<union> (\<Union>r\<in>set rs. set (route_hostnames r))" for acc
    by (induction rs arbitrary: acc) auto
  then show ?thesis by (simp add: routes_hostnames_def)
qed

lemma potential_hosts_wf: "bset_wf (\<lambda>h. h) (potential_hosts l)" "potential_hosts l \<noteq> []"
  by (simp_all add: potential_hosts_def calculate_potential_hostnames_def calculate_hostnames_common_def Let_def bset_wf_hostnames
      split: option.split)

lemma add_virtual_hosts_eq:
  "add_virtual_hosts dp rk calculator l hs (vhs, ext, clusters) =
     Some (fold (\<lambda>h. bset_insert evh_name (vhost_of dp rk calculator l h)) hs vhs,
       ext \<or> list_ex (\<lambda>h. list_ex enable_ext_proc_filter (http_rules_for dp rk l h)) hs,
       clusters @ concat (map (\<lambda>h. concat (map get_inference_pool_configurations (http_rules_for dp rk l h))) hs))"
  by (induction hs arbitrary: vhs ext clusters) (simp_all add: virtual_host_for_eq Let_def)

lemma bset_insert_last: "\<forall>z\<in>set xs. key z < key y \<Longrightarrow> bset_insert key y xs = xs @ [y]"
  by (induction xs) auto

lemma fold_insert_sorted:
  assumes "sorted_wrt (<) (map key ys)" "\<And>x. x \<in> set xs \<Longrightarrow> \<forall>y\<in>set ys. key x < key y" "bset_wf key xs"
  shows "fold (bset_insert key) ys xs = xs @ ys"
  using assms
proof (induction ys arbitrary: xs)
  case (Cons y ys)
  have "bset_insert key y xs = xs @ [y]" by (rule bset_insert_last) (use Cons.prems(2) in auto)
  moreover have "bset_wf key (xs @ [y])"
    using Cons.prems by (auto simp: bset_wf_def sorted_wrt_append)
  ultimately show ?case using Cons.IH [of "xs @ [y]"] Cons.prems by auto
qed simp

lemma vhosts_sorted: "sorted_wrt (<) (map evh_name (map (vhost_of dp rk calculator l) (potential_hosts l)))"
proof -
  have less: "(n :: string) @ CHR ''-'' # a < n @ CHR ''-'' # b" if "a < b" for n a b
    using that by (induction n) auto
  have "sorted_wrt (<) (potential_hosts l)" using potential_hosts_wf(1) [of l] by (simp add: bset_wf_def)
  then have "sorted_wrt (\<lambda>a b. evh_name (vhost_of dp rk calculator l a) < evh_name (vhost_of dp rk calculator l b)) (potential_hosts l)"
    by (rule sorted_wrt_mono_rel [rotated]) (simp add: vhost_of_def less)
  then show ?thesis by (simp add: sorted_wrt_map)
qed

lemma vhosts_of_listener:
  "fold (\<lambda>h. bset_insert evh_name (vhost_of dp rk calculator l h)) (potential_hosts l) []
     = map (vhost_of dp rk calculator l) (potential_hosts l)"
  using fold_insert_sorted [OF vhosts_sorted, of "[]"] by (simp add: fold_map comp_def)

definition listener_enables_ext_proc :: "domain_patterns \<Rightarrow> enum_ranks \<Rightarrow> listener \<Rightarrow> bool" where
  "listener_enables_ext_proc dp rk l =
     list_ex (\<lambda>h. list_ex enable_ext_proc_filter (http_rules_for dp rk l h)) (potential_hosts l)"

definition listener_inference_clusters :: "domain_patterns \<Rightarrow> enum_ranks \<Rightarrow> listener \<Rightarrow> inference_cluster_info list" where
  "listener_inference_clusters dp rk l =
     concat (map (\<lambda>h. concat (map get_inference_pool_configurations (http_rules_for dp rk l h))) (potential_hosts l))"

lemma generate_envoy_listener_eq:
  "generate_envoy_listener dp rk gname l gen =
     Some (\<lparr>el_name = gname, el_port = listener_port l,
        el_http_listener_map = map (vhost_of dp rk (gen_calculator gen) l) (potential_hosts l), el_tcp_listener_map = [],
        el_tls_type = lc_tls_type (ld_config (listener_data_of l)), el_enable_ext_proc = listener_enables_ext_proc dp rk l\<rparr>,
       gen\<lparr>gen_inference_clusters := gen_inference_clusters gen @ listener_inference_clusters dp rk l\<rparr>)"
  by (simp add: generate_envoy_listener_def case_prod_beta Let_def potential_hosts_def [symmetric] add_virtual_hosts_eq vhosts_of_listener
      listener_enables_ext_proc_def listener_inference_clusters_def)


subsection \<open>Listeners by port\<close>

definition serves_port :: "int \<Rightarrow> listener \<Rightarrow> bool" where
  "serves_port p l \<longleftrightarrow> sint (listener_port l) = p \<and> listener_protocol l \<in> {P_Http, P_Https, P_Tcp}"

fun tls_of_first :: "listener list \<Rightarrow> tls_type option" where
  "tls_of_first [] = None"
| "tls_of_first (l # _) = (if listener_protocol l = P_Tcp then None else lc_tls_type (ld_config (listener_data_of l)))"

fun ext_proc_of_first :: "domain_patterns \<Rightarrow> enum_ranks \<Rightarrow> listener list \<Rightarrow> bool" where
  "ext_proc_of_first dp rk [] = False"
| "ext_proc_of_first dp rk (l # _) = (if listener_protocol l = P_Tcp then False else listener_enables_ext_proc dp rk l)"

definition vhosts_of :: "domain_patterns \<Rightarrow> enum_ranks \<Rightarrow> (string \<Rightarrow> string list) \<Rightarrow> listener list \<Rightarrow> envoy_virtual_host list" where
  "vhosts_of dp rk calculator ls =
     concat (map (\<lambda>l. map (vhost_of dp rk calculator l) (potential_hosts l)) (filter (\<lambda>l. listener_protocol l \<noteq> P_Tcp) ls))"

definition tcp_entries :: "listener list \<Rightarrow> (string \<times> string option) set" where
  "tcp_entries ls = (\<lambda>l. (listener_name l, listener_hostname l)) ` {l \<in> set ls. listener_protocol l = P_Tcp}"

text \<open>What the entry of a port is made from the listeners \<open>ls\<close> that serve it, in their order.\<close>

definition port_entry ::
    "domain_patterns \<Rightarrow> enum_ranks \<Rightarrow> (string \<Rightarrow> string list) \<Rightarrow> string \<Rightarrow> int \<Rightarrow> listener list \<Rightarrow> (32 word \<times> envoy_listener) option \<Rightarrow> bool" where
  "port_entry dp rk calculator gname p ls entry \<longleftrightarrow> (if ls = [] then entry = None else \<exists>el. entry = Some (listener_port (hd ls), el) \<and>
     el_name el = gname \<and> el_port el = listener_port (hd ls) \<and> el_tls_type el = tls_of_first ls \<and>
     el_enable_ext_proc el = ext_proc_of_first dp rk ls \<and>
     el_http_listener_map el = bset_from evh_name (vhosts_of dp rk calculator ls) \<and>
     set (el_tcp_listener_map el) = tcp_entries ls)"

definition ports_ok :: "domain_patterns \<Rightarrow> enum_ranks \<Rightarrow> resource_generator \<Rightarrow> listener list \<Rightarrow>
    (32 word \<times> envoy_listener) list \<times> resource_generator \<Rightarrow> bool" where
  "ports_ok dp rk gen0 ls = (\<lambda>(acc, gen). bset_wf port_key acc \<and>
     gen = gen0\<lparr>gen_inference_clusters := gen_inference_clusters gen0 @
       concat (map (listener_inference_clusters dp rk) (filter (\<lambda>l. listener_protocol l \<in> {P_Http, P_Https}) ls))\<rparr> \<and>
     (\<forall>p. port_entry dp rk (gen_calculator gen0) (rk_name (gw_resource_key (gen_gateway gen0))) p
        (filter (serves_port p) ls) (bset_get port_key p acc)))"

lemma bset_append_from: "bset_append key (bset_from key xs) ys = bset_from key (xs @ ys)"
  by (simp add: bset_from_def bset_append_def)

lemma bset_from_empty: "bset_from key [] = []"
  by (simp add: bset_from_def bset_append_def)

lemma bset_from_sorted: "sorted_wrt (<) (map key xs) \<Longrightarrow> bset_from key xs = xs"
proof (induction xs rule: rev_induct)
  case (snoc x xs)
  have "bset_replace key x ys = ys @ [x]" if "\<forall>y\<in>set ys. key y < key x" for ys
    using that by (induction ys) auto
  with snoc show ?case by (simp add: bset_from_def bset_append_def sorted_wrt_append)
qed (simp add: bset_from_def bset_append_def)

lemma sint_port_inject: "sint (a :: 32 word) = sint b \<longleftrightarrow> a = b"
  by (metis signed_word_eqI)


lemma bset_from_vhosts: "bset_from evh_name (map (vhost_of dp rk calculator l) (potential_hosts l)) = map (vhost_of dp rk calculator l) (potential_hosts l)"
  by (rule bset_from_sorted [OF vhosts_sorted])

lemma tls_of_first_append: "ls \<noteq> [] \<Longrightarrow> tls_of_first (ls @ [l]) = tls_of_first ls"
  by (cases ls) simp_all

lemma ext_proc_of_first_append: "ls \<noteq> [] \<Longrightarrow> ext_proc_of_first dp rk (ls @ [l]) = ext_proc_of_first dp rk ls"
  by (cases ls) simp_all

lemma vhosts_of_append:
  "vhosts_of dp rk calculator (ls @ [l]) = vhosts_of dp rk calculator ls @
     (if listener_protocol l = P_Tcp then [] else map (vhost_of dp rk calculator l) (potential_hosts l))"
  by (simp add: vhosts_of_def)

lemma tcp_entries_append:
  "tcp_entries (ls @ [l]) = (if listener_protocol l = P_Tcp then insert (listener_name l, listener_hostname l) (tcp_entries ls) else tcp_entries ls)"
  by (auto simp: tcp_entries_def)

lemma port_entry_Some:
  assumes "port_entry dp rk calculator gname p (filter (serves_port p) ls) (Some (q, el))"
  shows "filter (serves_port p) ls \<noteq> []" "sint q = p" "el_name el = gname" "el_port el = q"
    "el_tls_type el = tls_of_first (filter (serves_port p) ls)"
    "el_enable_ext_proc el = ext_proc_of_first dp rk (filter (serves_port p) ls)"
    "el_http_listener_map el = bset_from evh_name (vhosts_of dp rk calculator (filter (serves_port p) ls))"
    "set (el_tcp_listener_map el) = tcp_entries (filter (serves_port p) ls)"
    "listener_port (hd (filter (serves_port p) ls)) = q"
proof -
  show ne: "filter (serves_port p) ls \<noteq> []" using assms by (auto simp: port_entry_def split: if_splits)
  then have "serves_port p (hd (filter (serves_port p) ls))"
    using hd_in_set [OF ne] by simp
  then show "sint q = p" "el_name el = gname" "el_port el = q" "el_tls_type el = tls_of_first (filter (serves_port p) ls)"
    "el_enable_ext_proc el = ext_proc_of_first dp rk (filter (serves_port p) ls)"
    "el_http_listener_map el = bset_from evh_name (vhosts_of dp rk calculator (filter (serves_port p) ls))"
    "set (el_tcp_listener_map el) = tcp_entries (filter (serves_port p) ls)"
    "listener_port (hd (filter (serves_port p) ls)) = q"
    using assms ne by (auto simp: port_entry_def serves_port_def)
qed

text \<open>Replacing the entry of one port.\<close>

lemma ports_ok_replace:
  assumes ok: "ports_ok dp rk gen0 ls (acc, gen)"
    and l: "serves_port (sint q) l"
    and gen': "gen' = gen\<lparr>gen_inference_clusters := gen_inference_clusters gen @
      (if listener_protocol l = P_Tcp then [] else listener_inference_clusters dp rk l)\<rparr>"
    and entry: "port_entry dp rk (gen_calculator gen0) (rk_name (gw_resource_key (gen_gateway gen0))) (sint q)
      (filter (serves_port (sint q)) ls @ [l]) (Some (q, el))"
  shows "ports_ok dp rk gen0 (ls @ [l]) (bset_replace port_key (q, el) acc, gen')"
  using assms by (auto simp: ports_ok_def serves_port_def)

lemma map_listener_ok:
  assumes ok: "ports_ok dp rk gen0 ls (acc, gen)"
  shows "\<exists>s. map_listener dp rk l (acc, gen) = Some s \<and> ports_ok dp rk gen0 (ls @ [l]) s"
proof -
  let ?q = "listener_port l" and ?gname = "rk_name (gw_resource_key (gen_gateway gen0))"
  let ?lp = "filter (serves_port (sint ?q)) ls"
  have gen: "gen_gateway gen = gen_gateway gen0" "gen_calculator gen = gen_calculator gen0"
    and here: "port_entry dp rk (gen_calculator gen0) ?gname (sint ?q) ?lp (bset_get port_key (sint ?q) acc)"
    using ok by (auto simp: ports_ok_def)
  consider (other) "listener_protocol l = P_Tls \<or> listener_protocol l = P_Udp"
    | (serves) "serves_port (sint ?q) l"
    by (cases l) (auto simp: serves_port_def)
  then show ?thesis
  proof cases
    case other
    then have "\<not> serves_port p l" for p by (auto simp: serves_port_def)
    then show ?thesis using other ok
      by (auto simp: map_listener_def Let_def ports_ok_def split: option.split)
  next
    case serves
    have rep: "ports_ok dp rk gen0 (ls @ [l]) (bset_replace port_key (?q, el) acc, gen')"
      if "gen' = gen\<lparr>gen_inference_clusters := gen_inference_clusters gen @
            (if listener_protocol l = P_Tcp then [] else listener_inference_clusters dp rk l)\<rparr>"
        and "port_entry dp rk (gen_calculator gen0) ?gname (sint ?q) (?lp @ [l]) (Some (?q, el))" for el gen'
      using that by (intro ports_ok_replace [OF ok serves])
    show ?thesis
    proof (cases "bset_get port_key (sint ?q) acc")
      case None
      then have empty: "?lp = []" using here by (auto simp: port_entry_def split: if_splits)
      show ?thesis
        using serves None unfolding map_listener_def
        by (cases "listener_protocol l")
          (auto simp: Let_def generate_envoy_listener_eq gen serves_port_def port_entry_def empty vhosts_of_def bset_from_vhosts
            tcp_entries_def bset_from_empty intro!: rep)
    next
      case (Some qe)
      then obtain el where get: "bset_get port_key (sint ?q) acc = Some (?q, el)"
        using bset_get_SomeD [OF Some] by (cases qe) (simp add: sint_port_inject)
      note old = port_entry_Some [OF here [unfolded get]]
      let ?http = "el\<lparr>el_http_listener_map := bset_append evh_name (el_http_listener_map el)
        (map (vhost_of dp rk (gen_calculator gen) l) (potential_hosts l))\<rparr>"
      let ?tcp = "el\<lparr>el_tcp_listener_map := bset_insert (\<lambda>x. x) (listener_name l, listener_hostname l) (el_tcp_listener_map el)\<rparr>"
      let ?gen = "gen\<lparr>gen_inference_clusters := gen_inference_clusters gen @ listener_inference_clusters dp rk l\<rparr>"
      show ?thesis
      proof (cases "listener_protocol l = P_Tcp")
        case True
        then have "map_listener dp rk l (acc, gen) = Some (bset_replace port_key (?q, ?tcp) acc, gen)"
          unfolding map_listener_def Let_def split get option.case prod.case by simp
        moreover have "ports_ok dp rk gen0 (ls @ [l]) (bset_replace port_key (?q, ?tcp) acc, gen)"
        proof (rule rep)
          show "gen = gen\<lparr>gen_inference_clusters := gen_inference_clusters gen @
            (if listener_protocol l = P_Tcp then [] else listener_inference_clusters dp rk l)\<rparr>" using True by simp
          show "port_entry dp rk (gen_calculator gen0) ?gname (sint ?q) (?lp @ [l]) (Some (?q, ?tcp))"
            using old(1,9) by (simp only: port_entry_def append_is_Nil_conv hd_append2 tls_of_first_append [OF old(1)] ext_proc_of_first_append [OF old(1)]
              vhosts_of_append tcp_entries_append True) (simp add: old(3-8))
        qed
        ultimately show ?thesis by blast
      next
        case False
        then have proto: "listener_protocol l = P_Http \<or> listener_protocol l = P_Https" using serves by (simp add: serves_port_def)
        then have "map_listener dp rk l (acc, gen) = Some (bset_replace port_key (?q, ?http) acc, ?gen)"
          unfolding map_listener_def Let_def split get option.case prod.case by (auto simp: generate_envoy_listener_eq)
        moreover have "ports_ok dp rk gen0 (ls @ [l]) (bset_replace port_key (?q, ?http) acc, ?gen)"
        proof (rule rep)
          show "?gen = gen\<lparr>gen_inference_clusters := gen_inference_clusters gen @
            (if listener_protocol l = P_Tcp then [] else listener_inference_clusters dp rk l)\<rparr>" using False by simp
          show "port_entry dp rk (gen_calculator gen0) ?gname (sint ?q) (?lp @ [l]) (Some (?q, ?http))"
            using old(1,9) by (simp only: port_entry_def append_is_Nil_conv hd_append2 tls_of_first_append [OF old(1)] ext_proc_of_first_append [OF old(1)]
              vhosts_of_append tcp_entries_append False if_False) (simp add: old(3-8) gen bset_append_from)
        qed
        ultimately show ?thesis by blast
      qed
    qed
  qed
qed

lemma map_listeners_by_port_ok:
  assumes "ports_ok dp rk gen0 before s"
  shows "\<exists>s'. map_listeners_by_port dp rk ls s = Some s' \<and> ports_ok dp rk gen0 (before @ ls) s'"
  using assms
proof (induction ls arbitrary: before s)
  case (Cons l ls)
  obtain acc gen where s: "s = (acc, gen)" by fastforce
  from map_listener_ok [of dp rk gen0 before acc gen l] Cons.prems s obtain s1
    where s1: "map_listener dp rk l s = Some s1" "ports_ok dp rk gen0 (before @ [l]) s1" by auto
  from Cons.IH [OF s1(2)] show ?case by (simp add: s1(1))
qed simp


lemma generated_listeners_ok:
  "\<exists>gen acc. generate_envoy_listeners dp rk (new_generator g t calculator) = Some (gen\<lparr>gen_resources := acc\<rparr>) \<and>
     ports_ok dp rk (new_generator g t calculator) (gateway_listeners g) (acc, gen)"
proof -
  let ?gen = "new_generator g t calculator"
  have "ports_ok dp rk ?gen [] ([], ?gen)"
    by (simp add: ports_ok_def port_entry_def new_generator_def)
  from map_listeners_by_port_ok [OF this, of "gateway_listeners g"] obtain acc gen
    where run: "map_listeners_by_port dp rk (gateway_listeners g) ([], ?gen) = Some (acc, gen)"
      and ok: "ports_ok dp rk ?gen (gateway_listeners g) (acc, gen)"
    by auto
  have "generate_envoy_listeners dp rk ?gen = Some (gen\<lparr>gen_resources := acc\<rparr>)"
    using run by (simp add: generate_envoy_listeners_def generate_envoy_listener_mapping_def new_generator_def)
  with ok show ?thesis by blast
qed

text \<open>
  C13: generating the listeners of a gateway never fails and makes one listener per port on which the
  gateway has an HTTP, HTTPS or TCP listener, named like the gateway. It carries the virtual hosts of all
  HTTP and HTTPS listeners of the port: one for each host name of the listener (or of its routes), with
  the routes whose host names match, in the order of the rules; of virtual hosts with one name the last
  is kept. Its certificates and its external processing are those of the first listener of the port only.
\<close>

theorem listeners_by_port:
  "\<exists>gen. generate_envoy_listeners dp rk (new_generator g t calculator) = Some gen \<and> bset_wf port_key (gen_resources gen) \<and>
     (\<forall>p. let ls = filter (serves_port p) (gateway_listeners g)
       in port_entry dp rk calculator (rk_name (gw_resource_key g)) p ls (bset_get port_key p (gen_resources gen))) \<and>
     gen_inference_clusters gen =
       concat (map (listener_inference_clusters dp rk) (filter (\<lambda>l. listener_protocol l \<in> {P_Http, P_Https}) (gateway_listeners g)))"
  using generated_listeners_ok [of dp rk g t calculator] by (fastforce simp: ports_ok_def new_generator_def Let_def)

subsection \<open>The clusters of a gateway\<close>

lemma dedup_by_sorted:
  assumes "sorted (map key xs)"
  shows "sorted_wrt (<) (map key (dedup_by key xs)) \<and> key ` set (dedup_by key xs) = key ` set xs \<and> set (dedup_by key xs) \<subseteq> set xs"
  using assms
proof (induction key xs rule: dedup_by.induct)
  case (1 key x y xs)
  show ?case
  proof (cases "key x = key y")
    case True
    then show ?thesis using 1 by auto
  next
    case False
    then have IH: "sorted_wrt (<) (map key (dedup_by key (y # xs)))" "key ` set (dedup_by key (y # xs)) = key ` set (y # xs)"
      "set (dedup_by key (y # xs)) \<subseteq> set (y # xs)"
      using 1 by auto
    have "key x < k" if "k \<in> key ` set (dedup_by key (y # xs))" for k
    proof -
      have "key y \<le> k" using that 1(3) unfolding IH(2) by auto
      then show ?thesis using False 1(3) by auto
    qed
    then show ?thesis using IH False by auto
  qed
qed auto

lemma those_Some_iff: "those xs = Some ys \<longleftrightarrow> xs = map Some ys"
proof (induction xs arbitrary: ys)
  case (Cons x xs)
  then show ?case by (cases x; cases ys) auto
qed auto

lemma those_map_SomeD: "those (map f xs) = Some ys \<Longrightarrow> map f xs = map Some ys"
  by (simp add: those_Some_iff)

text \<open>The names of the clusters a generator makes: resolved backends of positive weight and picker services.\<close>

definition backend_cluster_names :: "route \<Rightarrow> string set" where
  "backend_cluster_names r =
     service_cluster_name ` (set (resolved_services (route_backends r)) \<union> set (resolved_services (route_filter_backends r))) \<union>
     inference_pool_cluster_name ` set (resolved_pools (route_backends r))"

definition picker_cluster_names :: "resource_generator \<Rightarrow> string set" where
  "picker_cluster_names gen = ici_cluster_name ` {c \<in> set (gen_inference_clusters gen). iptc_inference_config (ici_config c) \<noteq> None}"

lemma cluster_names_simps:
  "create_service_cluster c t = Some cl \<Longrightarrow> ec_name cl = service_cluster_name c"
  "create_inference_cluster p = Some cl \<Longrightarrow> ec_name cl = inference_pool_cluster_name p"
  by (auto simp: create_service_cluster_def create_inference_cluster_def split: option.splits)

lemma clusters_of_route_names:
  assumes "clusters_of_route r = map Some cls"
  shows "ec_name ` set cls = backend_cluster_names r"
proof -
  have "ec_name ` set cls = (\<lambda>x. ec_name (the x)) ` set (clusters_of_route r)"
    unfolding assms by (auto simp: image_image)
  moreover have "ec_name (the (create_service_cluster c t)) = service_cluster_name c"
    if "create_service_cluster c t \<in> set (clusters_of_route r)" for c t
    using that cluster_names_simps(1) unfolding assms by auto
  moreover have "ec_name (the (create_inference_cluster c)) = inference_pool_cluster_name c"
    if "create_inference_cluster c \<in> set (clusters_of_route r)" for c
    using that cluster_names_simps(2) unfolding assms by auto
  ultimately show ?thesis
    by (auto simp: clusters_of_route_def backend_cluster_names_def image_Un image_image)
qed

lemma concat_map_Some_split:
  "concat (map f xs) = map Some ys \<Longrightarrow>
     (\<forall>x\<in>set xs. f x = map Some (map the (f x))) \<and> ys = concat (map (\<lambda>x. map the (f x)) xs)"
proof (induction xs arbitrary: ys)
  case (Cons x xs)
  then obtain a b where ab: "ys = a @ b" "f x = map Some a" "concat (map f xs) = map Some b"
    by (auto simp: append_eq_map_conv)
  from Cons.IH [OF ab(3)] ab(1,2) show ?case by (simp add: comp_def)
qed simp

lemma ext_service_names:
  assumes "map (generate_ext_service_cluster t) cs = map Some es"
  shows "ec_name ` set (List.map_filter (\<lambda>c. c) es) = ici_cluster_name ` {c \<in> set cs. iptc_inference_config (ici_config c) \<noteq> None}"
  using assms
proof (induction cs arbitrary: es)
  case (Cons c cs)
  then obtain e es' where es: "es = e # es'" "generate_ext_service_cluster t c = Some e" "map (generate_ext_service_cluster t) cs = map Some es'"
    by (cases es) auto
  have "(e = None) = (iptc_inference_config (ici_config c) = None)" "\<And>cl. e = Some cl \<Longrightarrow> ec_name cl = ici_cluster_name c"
    using es(2) by (auto simp: generate_ext_service_cluster_def Let_def split: option.splits)
  then show ?case using Cons.IH [OF es(3)] es(1)
    by (cases e) (auto simp: List.map_filter_simps)
qed (simp add: List.map_filter_simps)

lemma cluster_names_sorted:
  assumes "generate_envoy_clusters gen = Some cs"
  shows "sorted_wrt (<) (map ec_name cs) \<and>
    set (map ec_name cs) = (\<Union>r\<in>set (routes_of_listeners (gen_resources gen)). backend_cluster_names r) \<union> picker_cluster_names gen"
proof -
  obtain clusters es where
    "those (concat (map clusters_of_route (routes_of_listeners (gen_resources gen)))) = Some clusters"
    and "those (map (generate_ext_service_cluster (gen_implementation_type gen)) (gen_inference_clusters gen)) = Some es"
    and cs: "cs = dedup_by ec_name (sort_key ec_name (bset_from ec_name clusters @ List.map_filter (\<lambda>c. c) es))"
    using assms by (auto simp: generate_envoy_clusters_def split: option.splits)
  then have split: "concat (map clusters_of_route (routes_of_listeners (gen_resources gen))) = map Some clusters"
    and es: "map (generate_ext_service_cluster (gen_implementation_type gen)) (gen_inference_clusters gen) = map Some es"
    by (simp_all add: those_Some_iff)
  let ?f = "\<lambda>r. map the (clusters_of_route r)"
  have f: "clusters_of_route r = map Some (?f r)" if "r \<in> set (routes_of_listeners (gen_resources gen))" for r
    using concat_map_Some_split [OF split] that by blast
  have clusters: "clusters = concat (map ?f (routes_of_listeners (gen_resources gen)))"
    using concat_map_Some_split [OF split] by blast
  have "ec_name ` set clusters = (\<Union>r\<in>set (routes_of_listeners (gen_resources gen)). ec_name ` set (?f r))"
    unfolding clusters by auto
  also have "\<dots> = (\<Union>r\<in>set (routes_of_listeners (gen_resources gen)). backend_cluster_names r)"
    using clusters_of_route_names [OF f] by (intro SUP_cong refl)
  finally have names: "ec_name ` set clusters = (\<Union>r\<in>set (routes_of_listeners (gen_resources gen)). backend_cluster_names r)" .
  let ?all = "sort_key ec_name (bset_from ec_name clusters @ List.map_filter (\<lambda>c. c) es)"
  have "sorted (map ec_name ?all)" by simp
  from dedup_by_sorted [OF this] show ?thesis
    unfolding cs using names ext_service_names [OF es]
    by (simp add: image_Un keys_bset_from picker_cluster_names_def)
qed

lemmas cluster_names_of = cluster_names_sorted [THEN conjunct2]

text \<open>
  C26: when clusters are generated, their names are in strictly ascending order, so no two clusters share
  one, and they are exactly the names of the resolved backends and mirrors of positive weight of the routes
  of the virtual hosts, together with those of the endpoint pickers of the inference pools. A backend
  that is not resolved, or not allowed, has no cluster of its own.
\<close>

theorem clusters_generated:
  assumes "generate_envoy_clusters gen = Some cs"
  shows "sorted_wrt (<) (map ec_name cs) \<and>
    set (map ec_name cs) = (\<Union>r\<in>set (routes_of_listeners (gen_resources gen)). backend_cluster_names r) \<union> picker_cluster_names gen"
  using assms by (rule cluster_names_sorted)

subsection \<open>When generating clusters panics\<close>

definition service_convertible :: "service_type_config \<Rightarrow> bool" where
  "service_convertible c \<longleftrightarrow> 0 \<le> sint (stc_effective_port c)"

definition pool_convertible :: "inference_pool_type_config \<Rightarrow> bool" where
  "pool_convertible c \<longleftrightarrow> (case unwrap_or (iptc_endpoints c) [] of [] \<Rightarrow> True
     | _ \<Rightarrow> (case iptc_target_ports c of [] \<Rightarrow> False | p # _ \<Rightarrow> 0 \<le> sint p))"

definition picker_convertible :: "inference_cluster_info \<Rightarrow> bool" where
  "picker_convertible i \<longleftrightarrow> (case iptc_inference_config (ici_config i) of None \<Rightarrow> True
     | Some s \<Rightarrow> 0 \<le> sint (unwrap_or (epr_port (ips_endpoint_picker_ref s)) 9002))"

lemma those_not_None_iff: "(\<exists>ys. those xs = Some ys) \<longleftrightarrow> (\<forall>x\<in>set xs. x \<noteq> None)"
proof (induction xs)
  case (Cons x xs)
  then show ?case by (cases x) auto
qed simp

lemma None_in_image_iff: "None \<in> f ` S \<longleftrightarrow> (\<exists>x\<in>S. f x = None)"
  by (auto simp: image_iff intro: sym)

lemma those_None_iff: "those xs = None \<longleftrightarrow> (\<exists>x\<in>set xs. x = None)"
proof (induction xs)
  case (Cons x xs)
  then show ?case by (cases x) auto
qed simp

lemma service_cluster_convertible:
  "c \<in> set (resolved_services bs) \<Longrightarrow> create_service_cluster c t \<noteq> None \<longleftrightarrow> service_convertible c"
  by (auto simp: create_service_cluster_def resolved_services_def socket_address_from_backend_def service_convertible_def
      u32_of_positive u32_of_i32_def)

lemma pool_cluster_convertible: "create_inference_cluster c \<noteq> None \<longleftrightarrow> pool_convertible c"
proof -
  have "(\<exists>ys. those (map (pool_endpoint c) es) = Some ys) \<longleftrightarrow> (\<forall>e\<in>set es. pool_endpoint c e \<noteq> None)" for es
    by (simp add: those_not_None_iff)
  moreover have "pool_endpoint c e \<noteq> None \<longleftrightarrow> (case iptc_target_ports c of [] \<Rightarrow> False | p # _ \<Rightarrow> 0 \<le> sint p)" for e
    by (auto simp: pool_endpoint_def socket_address_from_address_port_def u32_of_i32_def split: list.splits)
  ultimately show ?thesis
    by (auto simp: create_inference_cluster_def pool_convertible_def split: list.splits)
qed

lemma picker_cluster_convertible: "generate_ext_service_cluster t i \<noteq> None \<longleftrightarrow> picker_convertible i"
  by (auto simp: generate_ext_service_cluster_def picker_convertible_def socket_address_from_address_port_def u32_of_i32_def Let_def
      split: option.splits)


subsection \<open>Backends that are not allowed\<close>

text \<open>
  A rule forwards to the cluster of a service it was refused (the reference grant is missing) as soon as
  any other route of the gateway resolved a service of that name and namespace: clusters are shared
  by name, and the weighted clusters of a rule name its backends whatever their state.
\<close>

lemma refused_backend_reachable:
  assumes clusters: "generate_envoy_clusters gen = Some cs"
    and refused: "B_NotAllowed (BT_Service c) \<in> set (her_backends e)" "0 < sint (stc_weight c)" "her_redirect_filter e = None"
    and other: "r \<in> set (routes_of_listeners (gen_resources gen))" "c' \<in> set (resolved_services (route_backends r))"
      "service_cluster_name c' = service_cluster_name c"
    and er: "http_envoy_routes e = Some rs" "er \<in> set rs"
  shows "service_cluster_name c \<in> set (map cw_name (route_clusters er)) \<and> service_cluster_name c \<in> set (map ec_name cs)"
proof
  obtain r0 where r0: "http_envoy_route e = Some r0"
    and act: "er_action r0 = (case her_redirect_filter e of
        Some f \<Rightarrow> Action_Redirect (redirect_action_of (her_listener_port e) f)
      | None \<Rightarrow> Action_Route \<lparr>ra_clusters = rule_weights e, ra_host_rewrite = Option.bind (her_rewrite_url_filter e) ur_hostname,
          ra_mirrors = mirror_policies e\<rparr>)"
    by (rule http_envoy_route_total)
  obtain r1 f where "http_envoy_route e = Some r1" "er = r1\<lparr>er_typed_per_filter_config := f\<rparr>"
    using http_envoy_routes_total [of e] er by auto
  then have "route_clusters er = rule_weights e" using r0 act refused(3) by simp
  moreover have "service_cluster_name c \<in> set (map cw_name (rule_weights e))"
    using refused(1,2) by (force simp: rule_weights_def)
  ultimately show "service_cluster_name c \<in> set (map cw_name (route_clusters er))" by simp
  have "service_cluster_name c' \<in> backend_cluster_names r" using other(2) by (auto simp: backend_cluster_names_def)
  then show "service_cluster_name c \<in> set (map ec_name cs)"
    using cluster_names_of [OF clusters] other(1,3) by auto
qed

definition example_plain_route :: "string \<Rightarrow> backend list \<Rightarrow> route" where
  "example_plain_route name bs = \<lparr>route_key = new_key name, route_parents = None, route_hostnames = [''*''],
     route_resolution_status = RS_Resolved, route_type_of = RT_Http [\<lparr>hru_name = name @ ''-0'', hru_backends = bs,
       hru_matching_rules = [example_match PathPrefix ''/''], hru_filters = [], hru_filter_backends = []\<rparr>]\<rparr>"

definition example_generator :: resource_generator where
  "example_generator = \<lparr>gen_gateway = \<lparr>gw_id = ''id'', gw_resource_key = new_key ''gw'', gw_addresses = [], gw_listeners = [],
       gw_orphaned_routes = [], gw_backend_type = Envoy\<rparr>,
     gen_resources = [(80, \<lparr>el_name = ''gw'', el_port = 80, el_http_listener_map =
       [\<lparr>evh_name = ''l-*'', evh_effective_hostnames = [''*''],
         evh_resolved_routes = [example_plain_route ''good'' [B_Resolved (BT_Service (example_service ''db'' ''secure'' 1))]],
         evh_unresolved_routes = [example_plain_route ''bad'' [B_NotAllowed (BT_Service (example_service ''db'' ''secure'' 1))]],
         evh_http_routes = [], evh_grpc_routes = []\<rparr>], el_tcp_listener_map = [], el_tls_type = None, el_enable_ext_proc = False\<rparr>)],
     gen_inference_clusters = [], gen_implementation_type = Envoy, gen_calculator = (\<lambda>h. [h])\<rparr>"

lemma refused_backend_reachable_witness:
  "\<exists>cs rs. generate_envoy_clusters example_generator = Some cs \<and>
     http_envoy_routes (example_effective_rule [B_NotAllowed (BT_Service (example_service ''db'' ''secure'' 1))]) = Some rs \<and> rs \<noteq> [] \<and>
     (\<forall>er\<in>set rs. ''db.secure'' \<in> set (map cw_name (route_clusters er)) \<and> ''db.secure'' \<in> set (map ec_name cs))"
proof -
  let ?e = "example_effective_rule [B_NotAllowed (BT_Service (example_service ''db'' ''secure'' 1))]"
  let ?r = "example_plain_route ''good'' [B_Resolved (BT_Service (example_service ''db'' ''secure'' 1))]"
  have "generate_envoy_clusters example_generator \<noteq> None" by code_simp
  then obtain cs where cs: "generate_envoy_clusters example_generator = Some cs" by auto
  obtain rs where rs: "http_envoy_routes ?e = Some rs" "rs \<noteq> []" using http_envoy_routes_total [of ?e] by auto
  have r: "?r \<in> set (routes_of_listeners (gen_resources example_generator))"
    by (simp add: example_generator_def routes_of_listeners_def)
  have c: "example_service ''db'' ''secure'' 1 \<in> set (resolved_services (route_backends ?r))"
    by code_simp
  have e: "B_NotAllowed (BT_Service (example_service ''db'' ''secure'' 1)) \<in> set (her_backends ?e)" "her_redirect_filter ?e = None"
    "0 < sint (stc_weight (example_service ''db'' ''secure'' 1))"
    by (simp_all add: example_effective_rule_def example_service_def)
  have "service_cluster_name (example_service ''db'' ''secure'' 1) = ''db.secure''" by code_simp
  then show ?thesis
    using refused_backend_reachable [OF cs e(1,3,2) r c refl rs(1)] cs rs by auto
qed

lemma clusters_generated_witness:
  "\<exists>cs. generate_envoy_clusters example_generator = Some cs \<and> sorted_wrt (<) (map ec_name cs) \<and>
     set (map ec_name cs) = (\<Union>r\<in>set (routes_of_listeners (gen_resources example_generator)). backend_cluster_names r)
       \<union> picker_cluster_names example_generator"
proof -
  have "generate_envoy_clusters example_generator \<noteq> None" by code_simp
  then obtain cs where cs: "generate_envoy_clusters example_generator = Some cs" by auto
  from cs clusters_generated [OF cs] show ?thesis by blast
qed

end
