(* ===== verification/Envoy_Deployer.thy ===== *)
theory Envoy_Deployer
  imports Kube_Workloads Discovery_Server Envoy_Resources
begin

section \<open>The Envoy deployer\<close>

text \<open>
  \<open>backends/envoy/envoy_xds_backend/envoy_deployer.rs\<close> with \<open>resources.rs\<close>: the objects that run
  Envoy for a gateway, the listener and cluster resources sent to the discovery server, and the loop over
  the events of the gateways. The pod that \<open>ENVOY_POD_SPEC\<close> describes is written as the record its JSON
  parses to. The template engine is the parameter \<open>render\<close>, the answers of the API server are arguments.
  An encoded message is the message itself. A panic is \<open>None\<close>.
\<close>

subsection \<open>Names\<close>

definition config_map_names :: "gateway \<Rightarrow> string \<times> string" where
  "config_map_names g = (gateway_name g @ ''-xds-cm'', gateway_name g @ ''-bootstrap-cm'')"

definition create_secret_name :: "resource_key \<Rightarrow> string" where
  "create_secret_name k = rk_name k @ ''_'' @ rk_namespace k"

definition create_certificate_name :: "resource_key \<Rightarrow> string" where
  "create_certificate_name k = rk_name k @ ''_'' @ rk_namespace k @ ''_cert.pem''"

definition create_key_name :: "resource_key \<Rightarrow> string" where
  "create_key_name k = rk_name k @ ''_'' @ rk_namespace k @ ''_key.pem''"

definition port_name :: "string \<Rightarrow> 32 word \<Rightarrow> string \<Rightarrow> string" where
  "port_name gw port proto = gw @ ''-'' @ show_i32 port @ ''-'' @ ascii_lower proto"

subsection \<open>Objects\<close>

definition create_labels :: "gateway \<Rightarrow> (string \<times> string) list" where
  "create_labels g = []"

definition ENVOY_POD_SPEC :: pod_spec where
  "ENVOY_POD_SPEC =
     \<lparr>pos_containers =
        [\<lparr>ctr_name = ''envoy'',
          ctr_image = ''docker.io/envoyproxy/envoy:v1.36.4'',
          ctr_image_pull_policy = ''IfNotPresent'',
          ctr_command = [''envoy''],
          ctr_args = [''-c'', ''/envoy-config/envoy-bootstrap.yaml'', ''--service-cluster $(GATEWAY_NAMESPACE)'',
            ''--service-node $(ENVOY_POD_NAME)'', ''--log-level trace''],
          ctr_env = [(''GRPC_TRACE'', Env_Value ''tcp,http,api''),
            (''GATEWAY_NAMESPACE'', Env_FieldPath ''metadata.namespace''),
            (''ENVOY_POD_NAME'', Env_FieldPath ''metadata.name'')],
          ctr_ports = Some [],
          ctr_readiness_probe = Some \<lparr>rpr_path = Some ''/ready'', rpr_port = 9901, rpr_initial_delay_seconds = 3, rpr_period_seconds = 20\<rparr>,
          ctr_volume_mounts =
            [\<lparr>vmt_name = ''envoy-config'', vmt_mount_path = ''/envoy-config'', vmt_read_only = True\<rparr>,
             \<lparr>vmt_name = ''envoy-secrets'', vmt_mount_path = ''/envoy-secrets'', vmt_read_only = True\<rparr>]\<rparr>],
      pos_volumes = Some [\<lparr>vol_name = ''envoy-config'', vol_source = Vol_ConfigMap ''envoy-cm''
        (Some [\<lparr>ktp_key = ''envoy-bootstrap.yaml'', ktp_path = ''envoy-bootstrap.yaml''\<rparr>])\<rparr>]\<rparr>"

text \<open>The certificates of the HTTPS listeners that terminate TLS, each once, in order.\<close>

definition https_certificates :: "listener list \<Rightarrow> certificate list" where
  "https_certificates listeners = fold (bset_insert certificate_rank)
     (concat (map (\<lambda>l. case l of
          L_Https d \<Rightarrow> (case lc_tls_type (ld_config d) of Some (TT_Terminate cs) \<Rightarrow> cs | _ \<Rightarrow> [])
        | _ \<Rightarrow> []) listeners)) []"

definition same_space_keys :: "certificate list \<Rightarrow> resource_key list" where
  "same_space_keys cs = List.map_filter (\<lambda>c. case c of
       C_ResolvedSameSpace k _ \<Rightarrow> Some k
     | C_NotResolved _ \<Rightarrow> None | C_Invalid _ \<Rightarrow> None | C_ResolvedCrossSpace _ _ \<Rightarrow> None) cs"

definition create_secret_volumes :: "listener list \<Rightarrow> volume list" where
  "create_secret_volumes listeners =
     [\<lparr>vol_name = ''envoy-secrets'', vol_source = Vol_Projected (map (\<lambda>k.
        \<lparr>spj_name = rk_name k,
         spj_items = Some [\<lparr>ktp_key = ''tls.crt'', ktp_path = create_certificate_name k\<rparr>,
           \<lparr>ktp_key = ''tls.key'', ktp_path = create_key_name k\<rparr>]\<rparr>)
        (same_space_keys (https_certificates listeners)))\<rparr>]"

definition container_ports :: "listener list \<Rightarrow> container_port list" where
  "container_ports listeners = dedup_by (\<lambda>p. (cp_container_port p, cp_protocol p))
     (map (\<lambda>l. \<lparr>cp_container_port = listener_port l, cp_protocol = Some ''TCP''\<rparr>) listeners)"

definition with_ports_and_volumes :: "container_port list \<Rightarrow> volume list \<Rightarrow> pod_spec \<Rightarrow> pod_spec" where
  "with_ports_and_volumes ports volumes p =
     p\<lparr>pos_containers := (case pos_containers p of [] \<Rightarrow> [] | c # cs \<Rightarrow> c\<lparr>ctr_ports := Some ports\<rparr> # cs),
       pos_volumes := Some volumes\<rparr>"

definition create_deployment :: "string \<Rightarrow> gateway \<Rightarrow> deployment" where
  "create_deployment version g =
     (let labels = bset_replace fst (''app'', gateway_name g) (create_labels g);
          ports = container_ports (gateway_listeners g);
          bootstrap_cm = snd (config_map_names g);
          volumes = \<lparr>vol_name = ''envoy-config'', vol_source = Vol_ConfigMap bootstrap_cm
            (Some [\<lparr>ktp_key = ''envoy-bootstrap.yaml'', ktp_path = ''envoy-bootstrap.yaml''\<rparr>])\<rparr>
            # create_secret_volumes (gateway_listeners g)
      in \<lparr>dpl_metadata = \<lparr>wm_name = gateway_name g, wm_namespace = gateway_namespace g, wm_labels = Some labels,
            wm_annotations = Some [(''gateway-version'', version)]\<rparr>,
          dpl_replicas = 1, dpl_selector = labels, dpl_template_labels = labels,
          dpl_pod_spec = with_ports_and_volumes ports volumes ENVOY_POD_SPEC\<rparr>)"

definition create_service :: "gateway \<Rightarrow> gateway_service" where
  "create_service g =
     \<lparr>gsv_metadata = \<lparr>wm_name = gateway_name g, wm_namespace = gateway_namespace g, wm_labels = Some (create_labels g),
        wm_annotations = None\<rparr>,
      gsv_selector = [(''app'', gateway_name g)],
      gsv_ports = dedup_by (\<lambda>p. (gsp_port p, gsp_protocol p)) (map (\<lambda>l.
        \<lparr>gsp_name = port_name (gateway_name g) (listener_port l) (protocol_to_string (listener_protocol l)),
         gsp_port = listener_port l, gsp_protocol = ''TCP'', gsp_target_port = listener_port l\<rparr>) (gateway_listeners g)),
      gsv_type = ''LoadBalancer'', gsv_status = None\<rparr>"

definition create_envoy_bootstrap_config_map :: "string \<Rightarrow> string \<Rightarrow> gateway \<Rightarrow> string \<Rightarrow> config_map" where
  "create_envoy_bootstrap_config_map version name g bootstrap_content =
     \<lparr>cfm_metadata = \<lparr>wm_name = name, wm_namespace = gateway_namespace g, wm_labels = None,
        wm_annotations = Some [(''gateway-version'', version)]\<rparr>,
      cfm_data = [(''envoy-bootstrap.yaml'', bootstrap_content)]\<rparr>"

definition create_service_account :: "gateway \<Rightarrow> service_account" where
  "create_service_account g = \<lparr>sac_metadata = \<lparr>wm_name = gateway_name g, wm_namespace = gateway_namespace g,
     wm_labels = Some (create_labels g), wm_annotations = None\<rparr>\<rparr>"

subsection \<open>The bootstrap configuration\<close>

record control_plane_config =
  cpc_controller_name :: string
  cpc_listening_socket :: address

record tera_secret =
  tse_name :: string
  tse_certificate :: string
  tse_key :: string

record tera_context =
  tct_secrets :: "tera_secret list option"
  tct_control_plane_host :: string
  tct_control_plane_port :: "16 word"
  tct_resolver_type :: string

type_synonym renderer = "string \<Rightarrow> tera_context \<Rightarrow> string + string"

definition resolver_type :: "control_plane_config \<Rightarrow> string" where
  "resolver_type c = (if parses_as_ip (addr_hostname (cpc_listening_socket c)) then ''STATIC'' else ''STRICT_DNS'')"

definition bootstrap_content_with_secrets :: "renderer \<Rightarrow> control_plane_config \<Rightarrow> resource_key list \<Rightarrow> string + string" where
  "bootstrap_content_with_secrets render c secrets =
     (let tera_secrets = bset_from (\<lambda>s. (tse_name s, tse_certificate s, tse_key s)) (map (\<lambda>k.
          \<lparr>tse_name = create_secret_name k, tse_certificate = create_certificate_name k, tse_key = create_key_name k\<rparr>) secrets)
      in render ''envoy-bootstrap-dynamic-with-secrets.yaml.tera''
           \<lparr>tct_secrets = (if tera_secrets = [] then None else Some tera_secrets),
            tct_control_plane_host = addr_hostname (cpc_listening_socket c),
            tct_control_plane_port = addr_port (cpc_listening_socket c),
            tct_resolver_type = resolver_type c\<rparr>)"

definition bootstrap_content :: "renderer \<Rightarrow> control_plane_config \<Rightarrow> string + string" where
  "bootstrap_content render c =
     render ''envoy-bootstrap-dynamic.yaml.tera''
       \<lparr>tct_secrets = None, tct_control_plane_host = addr_hostname (cpc_listening_socket c),
        tct_control_plane_port = addr_port (cpc_listening_socket c), tct_resolver_type = resolver_type c\<rparr>"

subsection \<open>Discovery resources\<close>

datatype header_send_mode = Send_Skip

record external_processor =
  exp_request_header_mode :: header_send_mode
  exp_response_header_mode :: header_send_mode
  exp_target_uri :: string
  exp_stat_prefix :: string
  exp_message_timeout_seconds :: nat
  exp_failure_mode_allow :: bool
  exp_allow_mode_override :: bool
  exp_send_body_without_waiting :: bool

datatype http_filter_config = Filter_ExtProc external_processor | Filter_Router

record http_filter =
  hfl_name :: string
  hfl_config :: http_filter_config

record xds_virtual_host =
  xvh_name :: string
  xvh_domains :: "string list"
  xvh_routes :: "envoy_route list"

record route_configuration =
  rcf_name :: string
  rcf_virtual_hosts :: "xds_virtual_host list"
  rcf_validate_clusters :: "bool option"

record http_connection_manager =
  hcm_stat_prefix :: string
  hcm_codec_type :: string
  hcm_http_filters :: "http_filter list"
  hcm_route_config :: route_configuration

record downstream_tls_context =
  dtc_require_client_certificate :: bool
  dtc_full_scan_certs_on_sni_mismatch :: bool
  dtc_sds_secret_names :: "string list"

record filter_chain =
  fch_transport_socket :: "(string \<times> downstream_tls_context) option"
  fch_filters :: "(string \<times> http_connection_manager) list"

record xds_listener =
  xdl_name :: string
  xdl_address :: socket_address
  xdl_listener_filters :: "string list"
  xdl_filter_chains :: "filter_chain list"

datatype xds_payload = Any_Cluster envoy_cluster | Any_Listener xds_listener

definition create_cluster_resource :: "envoy_cluster \<Rightarrow> xds_payload discovery_resource" where
  "create_cluster_resource c = \<lparr>dr_name = ec_name c, dr_resource = Some (Any_Cluster c)\<rparr>"

definition create_listener_resource :: "xds_listener \<Rightarrow> xds_payload discovery_resource" where
  "create_listener_resource l = \<lparr>dr_name = xdl_name l, dr_resource = Some (Any_Listener l)\<rparr>"

record xds_resources =
  xre_listeners :: "xds_payload discovery_resource list"
  xre_clusters :: "xds_payload discovery_resource list"
  xre_secrets :: "resource_key list"

definition calculate_effective_hostnames :: "string \<Rightarrow> string list" where
  "calculate_effective_hostnames hostname = [hostname, hostname @ '':*'']"

definition generate_virtual_hosts_from_xds :: "envoy_virtual_host list \<Rightarrow> xds_virtual_host list" where
  "generate_virtual_hosts_from_xds = map (\<lambda>vh.
     \<lparr>xvh_name = evh_name vh, xvh_domains = evh_effective_hostnames vh, xvh_routes = evh_http_routes vh @ evh_grpc_routes vh\<rparr>)"

definition ext_proc_filter :: "string \<Rightarrow> bool \<Rightarrow> http_filter" where
  "ext_proc_filter lname send_body = \<lparr>hfl_name = INFERENCE_EXT_PROC_FILTER_NAME, hfl_config = Filter_ExtProc
     \<lparr>exp_request_header_mode = Send_Skip, exp_response_header_mode = Send_Skip, exp_target_uri = ''127.0.0.1:1000'',
      exp_stat_prefix = lname @ ''ext_filter_stats'', exp_message_timeout_seconds = 2,
      exp_failure_mode_allow = True, exp_allow_mode_override = True, exp_send_body_without_waiting = send_body\<rparr>\<rparr>"

text \<open>One round of the loop over the listeners: the listener and its secrets.\<close>

definition listener_resource_for :: "bool \<Rightarrow> envoy_listener \<Rightarrow> (xds_listener \<times> resource_key list) option" where
  "listener_resource_for send_body l =
     (let name = el_name l;
          http_filters = (if el_enable_ext_proc l then [ext_proc_filter name send_body] else []) @
            [\<lparr>hfl_name = name @ ''-http-connection-manager-route-filter'', hfl_config = Filter_Router\<rparr>];
          manager = \<lparr>hcm_stat_prefix = name, hcm_codec_type = ''AUTO'', hcm_http_filters = http_filters,
            hcm_route_config = \<lparr>rcf_name = name @ ''-route'',
              rcf_virtual_hosts = generate_virtual_hosts_from_xds (el_http_listener_map l), rcf_validate_clusters = Some False\<rparr>\<rparr>;
          (transport_socket, secrets) = (case el_tls_type l of
              Some (TT_Terminate cs) \<Rightarrow>
                (let keys = same_space_keys cs
                 in (Some (name @ ''-downstream-tls-context'',
                       \<lparr>dtc_require_client_certificate = False, dtc_full_scan_certs_on_sni_mismatch = True,
                        dtc_sds_secret_names = map create_secret_name keys\<rparr>), keys))
            | _ \<Rightarrow> (None, []))
      in map_option (\<lambda>address.
          (\<lparr>xdl_name = name, xdl_address = address, xdl_listener_filters = [name @ ''-tls-inspector''],
            xdl_filter_chains = [\<lparr>fch_transport_socket = transport_socket,
              fch_filters = [(name @ ''-http-connection-manager'', manager)]\<rparr>]\<rparr>, secrets))
        (socket_address_from l))"

definition create_resources :: "domain_patterns \<Rightarrow> enum_ranks \<Rightarrow> gateway \<Rightarrow> xds_resources option" where
  "create_resources dp rk g =
     (case generate_envoy_listeners dp rk (new_generator g Envoy calculate_effective_hostnames) of
        None \<Rightarrow> None
      | Some gen \<Rightarrow> (case (those (map (\<lambda>(_, l). listener_resource_for False l) (gen_resources gen)), generate_envoy_clusters gen) of
          (Some listeners, Some clusters) \<Rightarrow> Some
            \<lparr>xre_listeners = map (\<lambda>(l, _). create_listener_resource l) listeners,
             xre_clusters = map create_cluster_resource clusters,
             xre_secrets = dedup_by rk_name (concat (map snd listeners))\<rparr>
        | _ \<Rightarrow> None))"

subsection \<open>Deploying\<close>

text \<open>
  The requests made, in order, and the stored service if all of them succeed. A template that fails to
  render stops the deployment before the first request.
\<close>

definition deploy_envoy ::
    "renderer \<Rightarrow> string \<times> string \<Rightarrow> control_plane_config \<Rightarrow> apply_replies \<Rightarrow> gateway \<Rightarrow> resource_key list \<Rightarrow> kube_call list \<times> gateway_service option" where
  "deploy_envoy render versions c replies g secrets =
     (case (if secrets = [] then bootstrap_content render c else bootstrap_content_with_secrets render c secrets) of
        Inl _ \<Rightarrow> ([], None)
      | Inr content \<Rightarrow>
          (let bootstrap_cm = snd (config_map_names g);
               call1 = Apply_ConfigMap bootstrap_cm (create_envoy_bootstrap_config_map (snd versions) bootstrap_cm g content);
               call2 = Apply_Deployment (gateway_name g) (create_deployment (fst versions) g);
               call3 = Apply_Service (gateway_name g) (create_service g);
               call4 = Apply_ServiceAccount (gateway_name g) (create_service_account g)
           in if \<not> apr_config_map replies then ([call1], None)
              else if \<not> apr_deployment replies then ([call1, call2], None)
              else (case apr_service replies of
                  None \<Rightarrow> ([call1, call2, call3], None)
                | Some service \<Rightarrow>
                    if \<not> apr_service_account replies then ([call1, call2, call3, call4], None)
                    else ([call1, call2, call3, call4], Some service))))"

text \<open>All five requests are made, whatever their answers.\<close>

definition delete_envoy :: "gateway \<Rightarrow> kube_call list" where
  "delete_envoy g = [Delete_ServiceAccount (gateway_name g), Delete_Service (gateway_name g), Delete_Deployment (gateway_name g),
     Delete_ConfigMap (fst (config_map_names g)), Delete_ConfigMap (snd (config_map_names g))]"

subsection \<open>Addresses\<close>

definition find_gateway_addresses :: "gateway_service \<Rightarrow> string list option" where
  "find_gateway_addresses s =
     (let ips = (case gsv_status s of
          Some status \<Rightarrow> (case sst_load_balancer status of
              Some load_balancer \<Rightarrow> (case lbs_ingress load_balancer of
                  Some ingress \<Rightarrow> List.map_filter lbi_ip ingress
                | None \<Rightarrow> [])
            | None \<Rightarrow> [])
        | None \<Rightarrow> [])
      in if ips = [] then None else Some ips)"

definition append_addresses :: "ip_addresses \<Rightarrow> string list \<Rightarrow> gateway \<Rightarrow> gateway" where
  "append_addresses ip ips g = g\<lparr>gw_addresses := bset_append (address_rank ip) (gw_addresses g)
     (bset_from (address_rank ip) (map (\<lambda>a. GA_IPAddress (ipa_text ip a)) (filter parses_as_ip ips)))\<rparr>"

definition update_addresses :: "ip_addresses \<Rightarrow> gateway_service \<Rightarrow> gateway \<Rightarrow> gateway \<times> bool" where
  "update_addresses ip service g = (case find_gateway_addresses service of
       Some ips \<Rightarrow> (append_addresses ip ips g, True)
     | None \<Rightarrow> (g, False))"

text \<open>
  The task that polls the service once a second: \<open>answers n\<close> is the answer to the request of round
  \<open>n\<close>, if it succeeds. The value is the responses sent; a loop that never ends is \<open>None\<close>.
\<close>

partial_function (option) poll_service ::
    "ip_addresses \<Rightarrow> (nat \<Rightarrow> gateway_service option) \<Rightarrow> gateway \<Rightarrow> kube_gateway \<Rightarrow> string \<Rightarrow> nat \<Rightarrow> backend_gateway_response list option" where
  "poll_service ip answers g kg class_name n = (case answers n of
       Some service \<Rightarrow>
         (if snd (update_addresses ip service g)
          then Some [ProcessedWithContext (fst (update_addresses ip service g)) kg class_name]
          else poll_service ip answers g kg class_name (n + 1))
     | None \<Rightarrow> Option.bind (poll_service ip answers g kg class_name (n + 1)) (\<lambda>rs. Some (Processed g # rs)))"

datatype address_update =
    Addresses_Known backend_gateway_response
  | Poll_For gateway_service gateway kube_gateway string

definition update_address_with_polling :: "ip_addresses \<Rightarrow> gateway_service \<Rightarrow> gateway \<Rightarrow> kube_gateway \<Rightarrow> string \<Rightarrow> address_update" where
  "update_address_with_polling ip service g kg class_name = (case find_gateway_addresses service of
       Some ips \<Rightarrow> Addresses_Known (ProcessedWithContext (append_addresses ip ips g) kg class_name)
     | None \<Rightarrow> Poll_For service g kg class_name)"

subsection \<open>The event loop\<close>

text \<open>
  What the handling of one event does: the requests to the API server, the actions for the discovery
  server, the responses to the gateway service, the address update it starts, and whether the sender of the
  event is told that the gateway is deleted. The other answer to a deletion is never sent: the future of
  the asynchronous \<open>send\<close> is dropped without being awaited.
\<close>

record deployer_output =
  dou_calls :: "kube_call list"
  dou_actions :: "xds_payload server_action list"
  dou_responses :: "backend_gateway_response list"
  dou_addresses :: "address_update option"
  dou_reply_deleted :: bool

type_synonym deployer_versions = "(resource_key \<times> ack_versions) list"

text \<open>\<open>entry(key).and_modify(inc).or_default()\<close>\<close>

definition next_versions :: "resource_key \<Rightarrow> deployer_versions \<Rightarrow> ack_versions" where
  "next_versions k versions = (case map_of versions k of None \<Rightarrow> default_versions | Some v \<Rightarrow> inc_versions v)"

record deployer_env =
  den_patterns :: domain_patterns
  den_ranks :: enum_ranks
  den_render :: renderer
  den_ip :: ip_addresses
  den_config :: control_plane_config

fun handle_backend_event ::
    "deployer_env \<Rightarrow> string \<times> string \<Rightarrow> apply_replies \<Rightarrow> backend_gateway_event \<Rightarrow> deployer_versions \<Rightarrow> (deployer_output \<times> deployer_versions) option" where
  "handle_backend_event env uuids replies (Changed g kg class_name) versions =
     (case create_resources (den_patterns env) (den_ranks env) g of
        None \<Rightarrow> None
      | Some resources \<Rightarrow>
          (let key = gw_resource_key g;
               v = next_versions key versions;
               versions' = bset_replace fst (key, v) versions;
               (calls, maybe_service) = deploy_envoy (den_render env) uuids (den_config env) replies g (xre_secrets resources)
           in Some (case maybe_service of
                Some service \<Rightarrow>
                  (case update_address_with_polling (den_ip env) service g kg class_name of
                     Addresses_Known response \<Rightarrow>
                       \<lparr>dou_calls = calls,
                        dou_actions = [UpdateClusters key (xre_clusters resources) (av_cluster v),
                                       UpdateListeners key (xre_listeners resources) (av_listener v)],
                        dou_responses = [response], dou_addresses = None, dou_reply_deleted = False\<rparr>
                   | polling \<Rightarrow>
                       \<lparr>dou_calls = calls,
                        dou_actions = [UpdateClusters key (xre_clusters resources) (av_cluster v),
                                       UpdateListeners key (xre_listeners resources) (av_listener v)],
                        dou_responses = [], dou_addresses = Some polling, dou_reply_deleted = False\<rparr>)
              | None \<Rightarrow> \<lparr>dou_calls = calls, dou_actions = [], dou_responses = [Processed g], dou_addresses = None, dou_reply_deleted = False\<rparr>,
              versions')))"
| "handle_backend_event env uuids replies (Deleted g) versions =
     Some (\<lparr>dou_calls = delete_envoy g, dou_actions = [], dou_responses = [], dou_addresses = None, dou_reply_deleted = True\<rparr>,
       bset_remove fst (gw_resource_key g) versions)"

subsection \<open>Polling ends exactly when an address appears\<close>

definition has_address :: "gateway_service option \<Rightarrow> bool" where
  "has_address answer \<longleftrightarrow> (case answer of Some service \<Rightarrow> find_gateway_addresses service \<noteq> None | None \<Rightarrow> False)"

lemma has_address_update: "has_address (Some service) \<longleftrightarrow> snd (update_addresses ip service g)"
  by (simp add: has_address_def update_addresses_def split: option.split)

lemma poll_service_step:
  "poll_service ip answers g kg class_name n =
     (if has_address (answers n) then Some [ProcessedWithContext (fst (update_addresses ip (the (answers n)) g)) kg class_name]
      else map_option ((@) (if answers n = None then [Processed g] else [])) (poll_service ip answers g kg class_name (n + 1)))"
proof (cases "answers n")
  case None
  then show ?thesis
    by (subst poll_service.simps, cases "poll_service ip answers g kg class_name (n + 1)") (simp_all add: has_address_def)
next
  case (Some service)
  then show ?thesis
    by (subst poll_service.simps, cases "poll_service ip answers g kg class_name (n + 1)") (simp_all add: has_address_update [of service ip g])
qed

lemma poll_service_found:
  assumes "poll_service ip answers g kg class_name n = Some rs"
  shows "\<exists>m\<ge>n. has_address (answers m)"
proof (rule poll_service.raw_induct [OF _ assms])
  fix poll ip and answers :: "nat \<Rightarrow> gateway_service option" and g kg class_name and n :: nat and rs
  assume IH: "\<And>ip answers g kg class_name n rs. poll ip answers g kg class_name n = Some rs \<Longrightarrow> \<exists>m\<ge>n. has_address (answers m)"
    and eq: "(case answers n of
       Some service \<Rightarrow>
         (if snd (update_addresses ip service g)
          then Some [ProcessedWithContext (fst (update_addresses ip service g)) kg class_name]
          else poll ip answers g kg class_name (n + 1))
     | None \<Rightarrow> Option.bind (poll ip answers g kg class_name (n + 1)) (\<lambda>rs. Some (Processed g # rs))) = Some rs"
  show "\<exists>m\<ge>n. has_address (answers m)"
  proof (cases "has_address (answers n)")
    case False
    then have "\<exists>rs. poll ip answers g kg class_name (n + 1) = Some rs"
      using eq has_address_update by (auto split: option.splits bind_splits if_splits)
    then show ?thesis using IH [of ip answers g kg class_name "n + 1"] by (meson add_leD1)
  qed blast
qed

lemma poll_service_until:
  assumes "has_address (answers (n + d))" "\<forall>i<d. \<not> has_address (answers (n + i))"
  shows "poll_service ip answers g kg class_name n =
    Some (map (\<lambda>_. Processed g) (filter (\<lambda>i. answers i = None) [n..<n + d]) @
      [ProcessedWithContext (fst (update_addresses ip (the (answers (n + d))) g)) kg class_name])"
  using assms
proof (induction d arbitrary: n)
  case 0
  then show ?case by (subst poll_service_step) simp
next
  case (Suc d)
  have "\<forall>i<d. \<not> has_address (answers (Suc n + i))" using Suc.prems(2) by (auto dest: spec [where x = "Suc _"])
  moreover have "has_address (answers (Suc n + d))" using Suc.prems(1) by simp
  ultimately have IH: "poll_service ip answers g kg class_name (Suc n) =
      Some (map (\<lambda>_. Processed g) (filter (\<lambda>i. answers i = None) [Suc n..<n + Suc d]) @
        [ProcessedWithContext (fst (update_addresses ip (the (answers (n + Suc d))) g)) kg class_name])"
    using Suc.IH [of "Suc n"] by simp
  have no: "\<not> has_address (answers n)" using Suc.prems(2) by (auto dest: spec [where x = 0])
  have up: "[n..<n + Suc d] = n # [Suc n..<n + Suc d]" by (rule upt_conv_Cons) simp
  have "poll_service ip answers g kg class_name n =
      map_option ((@) (if answers n = None then [Processed g] else [])) (poll_service ip answers g kg class_name (Suc n))"
    using no by (subst poll_service_step) simp
  then show ?case unfolding up IH by simp
qed

text \<open>
  C22: the polling task ends exactly when some answer has an address. It then has sent one
  \<open>Processed\<close> with the unchanged gateway for every request that failed before the first such answer, and
  last one \<open>ProcessedWithContext\<close> with the addresses of that answer. A load balancer that only reports a host
  name has no address, so the task for it never ends.
\<close>

theorem polling_terminates_iff:
  "(poll_service ip answers g kg class_name 0 \<noteq> None \<longleftrightarrow> (\<exists>n. has_address (answers n))) \<and>
   ((\<exists>n. has_address (answers n)) \<longrightarrow>
     (let n = LEAST n. has_address (answers n)
      in poll_service ip answers g kg class_name 0 =
        Some (map (\<lambda>_. Processed g) (filter (\<lambda>i. answers i = None) [0..<n]) @
          [ProcessedWithContext (fst (update_addresses ip (the (answers n)) g)) kg class_name])))"
proof -
  have until: "poll_service ip answers g kg class_name 0 =
      Some (map (\<lambda>_. Processed g) (filter (\<lambda>i. answers i = None) [0..<LEAST n. has_address (answers n)]) @
        [ProcessedWithContext (fst (update_addresses ip (the (answers (LEAST n. has_address (answers n)))) g)) kg class_name])"
    if "\<exists>n. has_address (answers n)"
  proof -
    let ?n = "LEAST n. has_address (answers n)"
    have "has_address (answers ?n)" using that by (rule LeastI_ex)
    moreover have "\<forall>i<?n. \<not> has_address (answers i)" by (intro allI impI not_less_Least)
    ultimately show ?thesis using poll_service_until [of answers 0 ?n ip g kg class_name] by (simp only: add_0)
  qed
  have "\<exists>n. has_address (answers n)" if "poll_service ip answers g kg class_name 0 \<noteq> None"
    using that poll_service_found [of ip answers g kg class_name 0] by blast
  with until show ?thesis unfolding Let_def by (metis option.distinct(1))
qed

definition example_service_status :: "load_balancer_ingress list \<Rightarrow> gateway_service" where
  "example_service_status ingress = \<lparr>gsv_metadata = \<lparr>wm_name = ''gw'', wm_namespace = ''ns'', wm_labels = None, wm_annotations = None\<rparr>,
     gsv_selector = [], gsv_ports = [], gsv_type = ''LoadBalancer'', gsv_status = Some \<lparr>sst_load_balancer = Some \<lparr>lbs_ingress = Some ingress\<rparr>\<rparr>\<rparr>"

definition example_answers :: "nat \<Rightarrow> gateway_service option" where
  "example_answers n = (if n = 0 then None else Some (example_service_status (if n = 1 then [] else [\<lparr>lbi_ip = Some ''10.0.0.9'', lbi_hostname = None\<rparr>])))"

lemma polling_terminates_iff_witness:
  "\<forall>g kg class_name. \<exists>g'. poll_service \<lparr>ipa_rank = (\<lambda>_. 0), ipa_text = (\<lambda>t. t)\<rparr> example_answers g kg class_name 0 = Some [Processed g, ProcessedWithContext g' kg class_name]"
proof (intro allI)
  fix g kg class_name
  have a: "\<not> has_address (example_answers 0)" "\<not> has_address (example_answers 1)" "has_address (example_answers 2)"
    by (simp_all add: has_address_def example_answers_def find_gateway_addresses_def example_service_status_def map_filter_def)
  then have "(LEAST n. has_address (example_answers n)) = 2"
    by (intro Least_equality) (auto simp: not_less_eq_eq numeral_2_eq_2 le_Suc_eq not_le intro: leI elim: contrapos_np)
  moreover have "filter (\<lambda>i. example_answers i = None) [0..<2] = [0]" by (simp add: numeral_2_eq_2 example_answers_def)
  ultimately show "\<exists>g'. poll_service \<lparr>ipa_rank = (\<lambda>_. 0), ipa_text = (\<lambda>t. t)\<rparr> example_answers g kg class_name 0 =
      Some [Processed g, ProcessedWithContext g' kg class_name]"
    using polling_terminates_iff [of "\<lparr>ipa_rank = (\<lambda>_. 0), ipa_text = (\<lambda>t. t)\<rparr>" example_answers g kg class_name] a(3) by (auto simp: Let_def)
qed

lemma host_name_never_found: "find_gateway_addresses (example_service_status [\<lparr>lbi_ip = None, lbi_hostname = Some ''lb.example.com''\<rparr>]) = None"
  by (simp add: find_gateway_addresses_def example_service_status_def map_filter_def)

subsection \<open>Resources of a gateway\<close>

lemma those_list_all2: "those (map f xs) = Some ys \<Longrightarrow> list_all2 (\<lambda>x y. f x = Some y) xs ys"
proof (induction xs arbitrary: ys)
  case (Cons x xs)
  then show ?case by (auto split: option.splits)
qed simp

lemma list_all2_set2: "list_all2 P xs ys \<Longrightarrow> \<forall>y\<in>set ys. \<exists>x\<in>set xs. P x y"
  by (induction rule: list_all2_induct) auto

lemma listener_origin:
  assumes "list_all2 (\<lambda>e x. listener_resource_for b (snd e) = Some x) acc listeners" "x \<in> set listeners"
  shows "\<exists>q el. (q, el) \<in> set acc \<and> listener_resource_for b el = Some x"
  using list_all2_set2 [OF assms(1)] assms(2) by (metis prod.collapse)

lemma created_resources:
  assumes "create_resources dp rk g = Some r"
  shows "\<exists>acc gen listeners clusters.
    ports_ok dp rk (new_generator g Envoy calculate_effective_hostnames) (gateway_listeners g) (acc, gen) \<and>
    list_all2 (\<lambda>e x. listener_resource_for False (snd e) = Some x) acc listeners \<and>
    generate_envoy_clusters (gen\<lparr>gen_resources := acc\<rparr>) = Some clusters \<and>
    r = \<lparr>xre_listeners = map (\<lambda>(l, _). create_listener_resource l) listeners, xre_clusters = map create_cluster_resource clusters,
         xre_secrets = dedup_by rk_name (concat (map snd listeners))\<rparr>"
proof -
  obtain gen acc where gen: "generate_envoy_listeners dp rk (new_generator g Envoy calculate_effective_hostnames) = Some (gen\<lparr>gen_resources := acc\<rparr>)"
    and ok: "ports_ok dp rk (new_generator g Envoy calculate_effective_hostnames) (gateway_listeners g) (acc, gen)"
    using generated_listeners_ok by blast
  from assms gen obtain listeners clusters where
    "those (map (\<lambda>(_, l). listener_resource_for False l) acc) = Some listeners" "generate_envoy_clusters (gen\<lparr>gen_resources := acc\<rparr>) = Some clusters"
    "r = \<lparr>xre_listeners = map (\<lambda>(l, _). create_listener_resource l) listeners, xre_clusters = map create_cluster_resource clusters,
         xre_secrets = dedup_by rk_name (concat (map snd listeners))\<rparr>"
    by (auto simp: create_resources_def split: option.splits)
  with ok those_list_all2 [of "\<lambda>(_, l). listener_resource_for False l" acc listeners] show ?thesis
    by (auto simp: case_prod_beta)
qed

lemma listener_resource_name: "listener_resource_for b l = Some (x, ks) \<Longrightarrow> xdl_name x = el_name l"
  by (auto simp: listener_resource_for_def Let_def split: option.splits prod.splits)

lemma bset_get_Some: "distinct (map key xs) \<Longrightarrow> x \<in> set xs \<Longrightarrow> bset_get key (key x) xs = Some x"
  unfolding bset_get_def by (induction xs) (auto simp: image_iff)

lemma bset_get_None: "bset_get key k xs = None \<longleftrightarrow> k \<notin> key ` set xs"
  by (auto simp: bset_get_def find_None_iff)

lemma ports_ok_entry:
  assumes "ports_ok dp rk gen0 ls (acc, gen)" "(q, el) \<in> set acc"
  shows "port_entry dp rk (gen_calculator gen0) (rk_name (gw_resource_key (gen_gateway gen0))) (sint q)
    (filter (serves_port (sint q)) ls) (Some (q, el))"
proof -
  have "bset_get port_key (sint q) acc = Some (q, el)"
    using bset_get_Some [of port_key acc "(q, el)"] assms by (auto simp: ports_ok_def bset_wf_distinct)
  with assms(1) show ?thesis by (auto simp: ports_ok_def dest: spec [where x = "sint q"])
qed

lemma ports_ok_keys:
  assumes "ports_ok dp rk gen0 ls (acc, gen)"
  shows "port_key ` set acc = {p. \<exists>l\<in>set ls. serves_port p l}"
proof -
  have "p \<in> port_key ` set acc \<longleftrightarrow> filter (serves_port p) ls \<noteq> []" for p
    using assms bset_get_None [of port_key p acc] by (auto simp: ports_ok_def port_entry_def split: if_splits dest!: spec [where x = p])
  then show ?thesis by (auto simp: filter_empty_conv)
qed

lemma ports_ok_length:
  assumes "ports_ok dp rk gen0 ls (acc, gen)"
  shows "length acc = card {p. \<exists>l\<in>set ls. serves_port p l}"
proof -
  have "distinct (map port_key acc)" using assms by (simp add: ports_ok_def bset_wf_distinct)
  then have "card (port_key ` set acc) = length acc" using distinct_card [of "map port_key acc"] by simp
  then show ?thesis using ports_ok_keys [OF assms] by simp
qed

lemma created_listener_names:
  assumes "create_resources dp rk g = Some r"
  shows "map dr_name (xre_listeners r) = replicate (card {p. \<exists>l\<in>set (gateway_listeners g). serves_port p l}) (gateway_name g) \<and>
    (distinct (map dr_name (xre_listeners r)) \<longleftrightarrow> card {p. \<exists>l\<in>set (gateway_listeners g). serves_port p l} \<le> 1)"
proof -
  obtain acc gen listeners clusters where
    ok: "ports_ok dp rk (new_generator g Envoy calculate_effective_hostnames) (gateway_listeners g) (acc, gen)"
    and ls: "list_all2 (\<lambda>e x. listener_resource_for False (snd e) = Some x) acc listeners"
    and r: "r = \<lparr>xre_listeners = map (\<lambda>(l, _). create_listener_resource l) listeners, xre_clusters = map create_cluster_resource clusters,
         xre_secrets = dedup_by rk_name (concat (map snd listeners))\<rparr>"
    using created_resources [OF assms] by blast
  have name: "el_name el = gateway_name g" if "(q, el) \<in> set acc" for q el
    using port_entry_Some(3) [OF ports_ok_entry [OF ok that]] by (simp add: new_generator_def gateway_name_def)
  have "dr_name (create_listener_resource (fst x)) = gateway_name g" if x: "x \<in> set listeners" for x
  proof -
    obtain q el where "(q, el) \<in> set acc" "listener_resource_for False el = Some x"
      using listener_origin [OF ls x] by blast
    then show ?thesis using listener_resource_name [of False el "fst x" "snd x"] name by (simp add: create_listener_resource_def)
  qed
  then have names: "map dr_name (xre_listeners r) = replicate (length listeners) (gateway_name g)"
    by (auto simp: r case_prod_beta intro!: replicate_eqI)
  have len: "length listeners = card {p. \<exists>l\<in>set (gateway_listeners g). serves_port p l}"
    using list_all2_lengthD [OF ls] ports_ok_length [OF ok] by simp
  have "distinct (replicate n x) \<longleftrightarrow> n \<le> 1" for n and x :: string
    by (cases n; cases "n - 1") auto
  with names len show ?thesis by simp
qed

text \<open>
  The resources of a gateway have one listener for each port it serves, and all of them are named
  after the gateway. Their names differ only when there is at most one, while Envoy tells the listeners
  of an update apart by their names.
\<close>

lemma listener_names_collide:
  assumes "create_resources dp rk g = Some r"
  shows "map dr_name (xre_listeners r) = replicate (card {p. \<exists>l\<in>set (gateway_listeners g). serves_port p l}) (gateway_name g) \<and>
    (distinct (map dr_name (xre_listeners r)) \<longleftrightarrow> card {p. \<exists>l\<in>set (gateway_listeners g). serves_port p l} \<le> 1)"
  using assms by (rule created_listener_names)

subsection \<open>Secrets\<close>

definition sds_secret_names :: "xds_listener \<Rightarrow> string list" where
  "sds_secret_names l = concat (map (\<lambda>c. case fch_transport_socket c of None \<Rightarrow> [] | Some (_, t) \<Rightarrow> dtc_sds_secret_names t) (xdl_filter_chains l))"

lemma listener_secrets: "listener_resource_for b l = Some (x, ks) \<Longrightarrow>
    sds_secret_names x = map create_secret_name ks \<and>
    ks = (case el_tls_type l of Some (TT_Terminate cs) \<Rightarrow> same_space_keys cs | _ \<Rightarrow> [])"
  by (auto simp: listener_resource_for_def Let_def sds_secret_names_def split: option.splits prod.splits tls_type.splits)

lemma set_fold_bset_insert: "inj key \<Longrightarrow> set (fold (bset_insert key) ys xs) = set xs \<union> set ys"
proof (induction ys arbitrary: xs)
  case (Cons y ys)
  have "set (bset_insert key y zs) = insert y (set zs)" for zs
    using Cons.prems by (induction zs) (auto dest: injD)
  with Cons show ?case by auto
qed simp

lemma set_https_certificates: "set (https_certificates ls) =
    {c. \<exists>d cs. L_Https d \<in> set ls \<and> lc_tls_type (ld_config d) = Some (TT_Terminate cs) \<and> c \<in> set cs}"
proof -
  have "inj certificate_rank" by (simp add: inj_def certificate_rank_inject)
  then show ?thesis
    unfolding https_certificates_def set_fold_bset_insert [OF \<open>inj certificate_rank\<close>]
    by (force split: listener.splits option.splits tls_type.splits)
qed

lemma set_same_space_keys: "set (same_space_keys cs) = {k. \<exists>d. C_ResolvedSameSpace k d \<in> set cs}"
proof (induction cs)
  case (Cons c cs)
  then show ?case by (cases c) (auto simp: same_space_keys_def List.map_filter_simps)
qed (simp add: same_space_keys_def List.map_filter_simps)

lemma set_dedup_by_inj: "inj_on key (set xs) \<Longrightarrow> set (dedup_by key xs) = set xs"
proof (induction key xs rule: dedup_by.induct)
  case (1 key x y xs)
  then show ?case by (auto simp: inj_on_def)
qed auto

lemma set_dedup_by_subset: "set (dedup_by key xs) \<subseteq> set xs"
  by (induction key xs rule: dedup_by.induct) auto

definition mounted_secret :: "listener list \<Rightarrow> resource_key \<Rightarrow> bool" where
  "mounted_secret ls k \<longleftrightarrow> (\<exists>v\<in>set (create_secret_volumes ls). \<exists>ps. vol_source v = Vol_Projected ps \<and>
     \<lparr>spj_name = rk_name k, spj_items = Some [\<lparr>ktp_key = ''tls.crt'', ktp_path = create_certificate_name k\<rparr>,
       \<lparr>ktp_key = ''tls.key'', ktp_path = create_key_name k\<rparr>]\<rparr> \<in> set ps)"

lemma mounted_secretI: "k \<in> set (same_space_keys (https_certificates ls)) \<Longrightarrow> mounted_secret ls k"
  by (force simp: mounted_secret_def create_secret_volumes_def)


definition example_https :: "string \<Rightarrow> 32 word \<Rightarrow> certificate list \<Rightarrow> listener" where
  "example_https name port cs = L_Https \<lparr>ld_config = \<lparr>lc_name = name, lc_port = port, lc_hostname = None, lc_tls_type = Some (TT_Terminate cs)\<rparr>,
     ld_conditions = [], ld_resolved_routes = [], ld_unresolved_routes = [], ld_attached_routes = 0\<rparr>"

definition example_certificate :: certificate where
  "example_certificate = C_ResolvedSameSpace (namespaced_key ''tls'' ''ns'') \<lparr>kd_cert = ''c'', kd_private_key = ''k'', kd_root = None\<rparr>"

definition example_https_gateway :: gateway where
  "example_https_gateway = \<lparr>gw_id = ''id'', gw_resource_key = namespaced_key ''gw'' ''ns'', gw_addresses = [],
     gw_listeners = [(''a'', example_https ''a'' 443 [example_certificate]), (''b'', example_https ''b'' 8443 [example_certificate])],
     gw_orphaned_routes = [], gw_backend_type = Envoy\<rparr>"

definition example_patterns :: domain_patterns where
  "example_patterns h = None"

lemma example_resources: "\<exists>r. create_resources example_patterns example_ranks example_https_gateway = Some r \<and> length (xre_listeners r) = 2 \<and>
    xre_secrets r = [namespaced_key ''tls'' ''ns'']"
proof -
  have "map_option (\<lambda>r. (length (xre_listeners r), xre_secrets r)) (create_resources example_patterns example_ranks example_https_gateway)
      = Some (2, [namespaced_key ''tls'' ''ns''])" by code_simp
  then show ?thesis by auto
qed

lemma listener_names_collide_witness:
  "\<exists>r. create_resources example_patterns example_ranks example_https_gateway = Some r \<and> \<not> distinct (map dr_name (xre_listeners r))"
proof -
  obtain r where r: "create_resources example_patterns example_ranks example_https_gateway = Some r" "length (xre_listeners r) = 2"
    using example_resources by blast
  note names = listener_names_collide [OF r(1)]
  have "length (map dr_name (xre_listeners r)) = card {p. \<exists>l\<in>set (gateway_listeners example_https_gateway). serves_port p l}"
    using conjunct1 [OF names] by (metis length_replicate)
  with r conjunct2 [OF names] show ?thesis by auto
qed


subsection \<open>Deployer and server together\<close>

text \<open>The discovery server handles the actions in the order they were sent.\<close>

fun run_actions :: "'p server_action list \<Rightarrow> 'p ads_server \<Rightarrow> 'p ads_server option" where
  "run_actions [] s = Some s"
| "run_actions (a # as) s = Option.bind (handle_server_action a s) (run_actions as)"

lemma created_payloads:
  assumes "create_resources dp rk g = Some r"
  shows "those (map dr_resource (xre_clusters r)) = Some (stored_payload (xre_clusters r))"
    and "those (map dr_resource (xre_listeners r)) = Some (stored_payload (xre_listeners r))"
proof -
  have "those (map dr_resource rs) = Some (stored_payload rs)" if "\<forall>x\<in>set rs. dr_resource x \<noteq> None" for rs :: "xds_payload discovery_resource list"
    using that by (induction rs) (auto simp: stored_payload_def)
  moreover have "\<forall>x\<in>set (xre_clusters r). dr_resource x \<noteq> None" "\<forall>x\<in>set (xre_listeners r). dr_resource x \<noteq> None"
    using created_resources [OF assms] by (auto simp: create_cluster_resource_def create_listener_resource_def)
  ultimately show "those (map dr_resource (xre_clusters r)) = Some (stored_payload (xre_clusters r))"
    "those (map dr_resource (xre_listeners r)) = Some (stored_payload (xre_listeners r))" by blast+
qed

lemma changed_actions:
  assumes "handle_backend_event env uuids replies (Changed g kg class_name) versions = Some (out, versions')"
    and "create_resources (den_patterns env) (den_ranks env) g = Some r"
  shows "map_of versions' (gw_resource_key g) = Some (next_versions (gw_resource_key g) versions) \<and>
    (dou_actions out = [] \<or> dou_actions out =
      [UpdateClusters (gw_resource_key g) (xre_clusters r) (av_cluster (next_versions (gw_resource_key g) versions)),
       UpdateListeners (gw_resource_key g) (xre_listeners r) (av_listener (next_versions (gw_resource_key g) versions))])"
  using assms by (auto simp: Let_def case_prod_beta split: option.splits address_update.splits)

lemma next_versions_differ: "map_of versions k = Some v \<Longrightarrow>
    av_cluster (next_versions k versions) = av_cluster v + 1 \<and> av_listener (next_versions k versions) = av_listener v + 1 \<and>
    av_cluster (next_versions k versions) \<noteq> av_cluster v \<and> av_listener (next_versions k versions) \<noteq> av_listener v"
  by (simp add: next_versions_def inc_versions_def)

lemma updates_served:
  assumes r: "create_resources dp rk g = Some r" and distinct: "distinct (client_ids (ads_clients s))"
  shows "\<exists>s'. run_actions [UpdateClusters k (xre_clusters r) cv, UpdateListeners k (xre_listeners r) lv] s = Some s' \<and>
    map_of (rm_cluster (ads_channels s')) (create_gateway_id k) = Some (xre_clusters r) \<and>
    map_of (rm_listener (ads_channels s')) (create_gateway_id k) = Some (xre_listeners r) \<and>
    ads_sent s' = ads_sent s @
      map (\<lambda>c. (adc_sender c, response_of Url_Cluster (stored_payload (xre_clusters r)) cv)) (filter (registered k) (ads_clients s)) @
      map (\<lambda>c. (adc_sender c, response_of Url_Listener (stored_payload (xre_listeners r)) lv)) (filter (registered k) (ads_clients s))"
proof -
  let ?f = "\<lambda>c. if registered k c then with_versions (\<lambda>a. a\<lparr>av_cluster := cv\<rparr>) c else c"
  obtain s1 where s1: "handle_server_action (UpdateClusters k (xre_clusters r) cv) s = Some s1"
    "s1 = \<lparr>ads_channels = (ads_channels s)\<lparr>rm_cluster := bset_replace fst (create_gateway_id k, xre_clusters r) (rm_cluster (ads_channels s))\<rparr>,
      ads_clients = map ?f (ads_clients s),
      ads_sent = ads_sent s @ map (\<lambda>c. (adc_sender c, response_of Url_Cluster (stored_payload (xre_clusters r)) cv))
        (filter (registered k) (ads_clients s))\<rparr>"
    using update_clusters_sent [OF distinct created_payloads(1) [OF r]] by blast
  have keep: "adc_client_id (?f c) = adc_client_id c" "adc_sender (?f c) = adc_sender c" "registered k (?f c) = registered k c" for c
    by (simp_all add: with_versions_def registered_def)
  have "distinct (client_ids (ads_clients s1))" using distinct by (simp add: s1(2) comp_def keep)
  from update_listeners_sent [OF this created_payloads(2) [OF r], of k lv] obtain s2 where
    s2: "handle_server_action (UpdateListeners k (xre_listeners r) lv) s1 = Some s2"
    "ads_channels s2 = (ads_channels s1)\<lparr>rm_listener := bset_replace fst (create_gateway_id k, xre_listeners r) (rm_listener (ads_channels s1))\<rparr>"
    "ads_sent s2 = ads_sent s1 @ map (\<lambda>c. (adc_sender c, response_of Url_Listener (stored_payload (xre_listeners r)) lv))
        (filter (registered k) (ads_clients s1))"
    by auto
  have "map (\<lambda>c. (adc_sender c, x)) (filter (registered k) (ads_clients s1)) =
      map (\<lambda>c. (adc_sender c, x)) (filter (registered k) (ads_clients s))" for x :: "xds_payload discovery_response"
    by (simp add: s1(2) filter_map comp_def keep)
  with s1 s2 show ?thesis by auto
qed


text \<open>
  After a gateway is deleted its resources are still served. The deletion deletes the objects and
  forgets the versions, but sends nothing to the discovery server, so a client whose pod names the
  gateway, for example one of a new gateway with the name of the old, is still sent the old clusters.
\<close>

lemma deleted_gateway_still_served:
  assumes event: "handle_backend_event env uuids replies (Deleted g) versions = Some (out, versions')"
    and stored: "map_of (rm_cluster (ads_channels s)) (create_gateway_id (gw_resource_key g)) = Some rs"
    and client: "get_client_by_client_id client_ip (ads_clients s) = Some c"
    and request: "identify_request pods q = Some (create_gateway_id (gw_resource_key g), True, 0)"
      "dq_type_url q = type_url_to_string Url_Cluster"
    and answered: "Option.bind (run_actions (dou_actions out) s) (handle_discovery_request pods client_ip tx q) = Some s'"
  shows "map_of versions' (gw_resource_key g) = None \<and>
    ads_sent s' = ads_sent s @ [(tx, response_of Url_Cluster (stored_payload rs) (av_cluster (adc_versions c)))]"
proof -
  have "dou_actions out = []" and versions': "versions' = bset_remove fst (gw_resource_key g) versions" using event by auto
  then have "handle_discovery_request pods client_ip tx q s = Some s'" using answered by simp
  moreover have "map_of (bset_remove fst k versions) k = None" for k :: resource_key and versions :: deployer_versions
    by (auto simp: map_of_eq_None_iff)
  ultimately show ?thesis
    using client request stored versions'
    by (auto simp: handle_discovery_request_def answer_request_def Let_def dest!: send_stored_sent)
qed

subsection \<open>Examples\<close>

definition example_env :: deployer_env where
  "example_env = \<lparr>den_patterns = example_patterns, den_ranks = example_ranks, den_render = (\<lambda>_ _. Inr ''yaml''),
     den_ip = \<lparr>ipa_rank = (\<lambda>_. 0), ipa_text = (\<lambda>t. t)\<rparr>,
     den_config = \<lparr>cpc_controller_name = ''controller'', cpc_listening_socket = \<lparr>addr_hostname = ''kubvernor'', addr_port = 50051\<rparr>\<rparr>\<rparr>"

definition example_replies :: apply_replies where
  "example_replies = \<lparr>apr_config_map = True, apr_deployment = True, apr_service = Some (example_service_status []), apr_service_account = True\<rparr>"

definition example_kube_gateway :: kube_gateway where
  "example_kube_gateway = \<lparr>kg_metadata = empty_meta, kg_spec = \<lparr>gs_gateway_class_name = ''kubvernor'', gs_listeners = [], gs_rest = []\<rparr>, kg_status = None\<rparr>"


definition example_deleted_server :: "xds_payload ads_server" where
  "example_deleted_server = \<lparr>ads_channels = \<lparr>rm_cluster = [(''ns.gw'', [])], rm_listener = []\<rparr>,
     ads_clients = [new_client example_ip 9], ads_sent = []\<rparr>"

lemma deleted_gateway_still_served_witness:
  "\<exists>out versions' s'. handle_backend_event example_env ([], []) example_replies (Deleted example_https_gateway)
      [(namespaced_key ''gw'' ''ns'', default_versions)] = Some (out, versions') \<and>
    Option.bind (run_actions (dou_actions out) example_deleted_server)
      (handle_discovery_request example_pods example_ip 9 (example_request [])) = Some s' \<and>
    ads_sent s' = [(9, response_of Url_Cluster [] 0)]"
proof -
  let ?versions = "[(namespaced_key ''gw'' ''ns'', default_versions)]"
  obtain out versions' where event: "handle_backend_event example_env ([], []) example_replies (Deleted example_https_gateway) ?versions = Some (out, versions')"
    and out: "dou_actions out = []" by simp
  have id: "create_gateway_id (gw_resource_key example_https_gateway) = ''ns.gw''"
    by (simp add: create_gateway_id_def create_id_def example_https_gateway_def namespaced_key_def)
  have stored: "map_of (rm_cluster (ads_channels example_deleted_server)) (create_gateway_id (gw_resource_key example_https_gateway)) = Some []"
    by (simp add: example_deleted_server_def id)
  have client: "get_client_by_client_id example_ip (ads_clients example_deleted_server) = Some (new_client example_ip 9)"
    by (simp add: get_client_by_client_id_def example_deleted_server_def new_client_def)
  have request: "identify_request example_pods (example_request []) = Some (create_gateway_id (gw_resource_key example_https_gateway), True, 0)"
    "dq_type_url (example_request []) = type_url_to_string Url_Cluster"
    by (simp_all add: id identify_request_def example_request_def fetch_gateway_id_by_node_id_def example_pods_def create_id_def)
  have "handle_discovery_request example_pods example_ip 9 (example_request []) example_deleted_server \<noteq> None" by code_simp
  then obtain s' where s': "Option.bind (run_actions (dou_actions out) example_deleted_server)
      (handle_discovery_request example_pods example_ip 9 (example_request [])) = Some s'" by (auto simp: out)
  from deleted_gateway_still_served [OF event stored client request s'] event s' show ?thesis
    by (auto simp: example_deleted_server_def new_client_def default_versions_def stored_payload_def)
qed

subsection \<open>Ports and secret names\<close>

text \<open>Only adjacent ports are merged, and the listeners are in the order of their names.\<close>

lemma service_ports_repeat:
  "map gsp_port (gsv_ports (create_service (example_https_gateway\<lparr>gw_listeners :=
     [(''a'', example_https ''a'' 80 []), (''b'', example_https ''b'' 443 []), (''c'', example_https ''c'' 80 [])]\<rparr>))) = [80, 443, 80]"
  by code_simp

text \<open>Integers as text.\<close>

lemma show_i32_digits: "set (show_i32 w) \<subseteq> {c. is_digit c} \<union> {CHR ''-''}"
  using show_nat_digits by (auto simp: show_i32_def list_all_iff)

lemma show_nat_no_sign: "show_nat n \<noteq> CHR ''-'' # s" "CHR ''-'' # s \<noteq> show_nat n"
proof -
  show "show_nat n \<noteq> CHR ''-'' # s" using show_nat_digits [of n] by (auto simp: is_digit_def)
  then show "CHR ''-'' # s \<noteq> show_nat n" by metis
qed

lemma show_i32_inject [simp]: "show_i32 v = show_i32 w \<longleftrightarrow> v = w"
proof
  assume "show_i32 v = show_i32 w"
  then have "sint v = sint w"
    by (auto simp: show_i32_def show_nat_no_sign show_nat_inject nat_eq_iff split: if_splits)
  then show "v = w" by (simp add: inj_signed [THEN inj_eq])
qed simp

text \<open>Names and namespaces hold no underscore, so a secret's file names determine it up to group and kind.\<close>

lemma append_sep_cancel:
  assumes "x \<notin> set a" "x \<notin> set b" "a @ x # u = b @ x # v"
  shows "a = b \<and> u = v"
  using assms
proof (induction a arbitrary: b)
  case Nil
  then show ?case by (cases b) auto
next
  case (Cons c a)
  then obtain b' where "b = c # b'" by (cases b) auto
  with Cons show ?case by simp
qed

lemma create_secret_name_inject:
  assumes "CHR ''_'' \<notin> set (rk_name k)" "CHR ''_'' \<notin> set (rk_name k')"
  shows "create_secret_name k = create_secret_name k' \<longleftrightarrow> rk_name k = rk_name k' \<and> rk_namespace k = rk_namespace k'"
  using append_sep_cancel [OF assms, of "rk_namespace k" "rk_namespace k'"] by (auto simp: create_secret_name_def)

text \<open>A certificate of another namespace that is permitted is not offered to Envoy.\<close>

lemma cross_space_not_mounted: "same_space_keys [C_ResolvedCrossSpace k d] = []"
  by (simp add: same_space_keys_def List.map_filter_simps)

end
