(* ===== verification/Orion_Server.thy ===== *)
theory Orion_Server
  imports Discovery_Server "HOL-Library.AList"
begin

section \<open>The discovery server of the Orion backend\<close>

text \<open>
  \<open>backends/envoy/orion_xds_backend/server.rs\<close>: the incremental variant of the discovery server. A client
  is first sent all resources of its gateway, then for each update the resources that are new and the names
  of those that are gone. Every client entry caches the resources last sent. The versions are kept but never
  read and the nonces handed out are random values nothing reads: they are left out, as are the log lines.
  \<open>TypeUrl\<close>, the pod lookup and the addresses are those of \<open>Discovery_Server\<close>.
\<close>

subsection \<open>Deltas\<close>

fun difference :: "'a list \<Rightarrow> 'a list \<Rightarrow> 'a list" where
  "difference [] other = []"
| "difference (t # this) other = (if t \<in> set other then difference this other else t # difference this other)"

record 'p delta =
  del_to_add :: "'p discovery_resource list"
  del_to_remove :: "string list"

record 'p orion_client =
  orc_sender :: nat
  orc_client_id :: client_address
  orc_gateway_id :: "string option"
  orc_listeners :: "'p discovery_resource list"
  orc_clusters :: "'p discovery_resource list"

definition new_orion_client :: "client_address \<Rightarrow> nat \<Rightarrow> 'p orion_client" where
  "new_orion_client client_id sender =
     \<lparr>orc_sender = sender, orc_client_id = client_id, orc_gateway_id = None, orc_listeners = [], orc_clusters = []\<rparr>"

definition orion_update_from :: "'p orion_client \<Rightarrow> 'p orion_client \<Rightarrow> 'p orion_client" where
  "orion_update_from value c = c\<lparr>orc_gateway_id := orc_gateway_id value, orc_listeners := orc_listeners value, orc_clusters := orc_clusters value\<rparr>"

definition cache_listeners_and_calculate_delta ::
    "'p discovery_resource list \<Rightarrow> 'p orion_client \<Rightarrow> 'p delta \<times> 'p orion_client" where
  "cache_listeners_and_calculate_delta new_listeners c =
     (\<lparr>del_to_add = difference new_listeners (orc_listeners c),
       del_to_remove = difference (map dr_name (orc_listeners c)) (map dr_name new_listeners)\<rparr>,
      c\<lparr>orc_listeners := new_listeners\<rparr>)"

definition cache_clusters_and_calculate_delta ::
    "'p discovery_resource list \<Rightarrow> 'p orion_client \<Rightarrow> 'p delta \<times> 'p orion_client" where
  "cache_clusters_and_calculate_delta new_clusters c =
     (\<lparr>del_to_add = difference new_clusters (orc_clusters c),
       del_to_remove = map dr_name (difference (orc_clusters c) new_clusters)\<rparr>,
      c\<lparr>orc_clusters := new_clusters\<rparr>)"

subsection \<open>Clients and managed resources\<close>

record 'p managed_resources =
  mgr_all_listeners :: "'p discovery_resource list"
  mgr_all_clusters :: "'p discovery_resource list"

record 'p delta_response =
  ddr_type_url :: string
  ddr_resources :: "'p discovery_resource list"
  ddr_removed_resources :: "string list"

record 'p orion_server =
  ors_clients :: "'p orion_client list"
  ors_managed :: "(string \<times> 'p managed_resources) list"
  ors_sent :: "(nat \<times> 'p delta_response) list"

definition new_orion_server :: "'p orion_server" where
  "new_orion_server = \<lparr>ors_clients = [], ors_managed = [], ors_sent = []\<rparr>"

definition orion_clients_by_gateway_id :: "string \<Rightarrow> 'p orion_client list \<Rightarrow> 'p orion_client list" where
  "orion_clients_by_gateway_id gateway_id clients = filter (\<lambda>c. orc_gateway_id c = Some gateway_id) clients"

definition orion_client_by_client_id :: "client_address \<Rightarrow> 'p orion_client list \<Rightarrow> 'p orion_client option" where
  "orion_client_by_client_id client_id clients = find (\<lambda>c. orc_client_id c = client_id) clients"

definition write_client :: "'p orion_client \<Rightarrow> 'p orion_client list \<Rightarrow> 'p orion_client list" where
  "write_client client clients =
     unwrap_or (modify_first (\<lambda>c. orc_client_id c = orc_client_id client) (orion_update_from client) clients) clients"

text \<open>The task's copy of the client is completed on its first request, then written back.\<close>

definition orion_update_client :: "'p orion_client \<Rightarrow> string \<Rightarrow> 'p orion_server \<Rightarrow> 'p orion_client \<times> 'p orion_server" where
  "orion_update_client client gateway_id s =
     (let client' = (if orc_gateway_id client = None
          then (let c = client\<lparr>orc_gateway_id := Some gateway_id\<rparr>
                in case map_of (ors_managed s) gateway_id of
                     Some resources \<Rightarrow> c\<lparr>orc_listeners := mgr_all_listeners resources, orc_clusters := mgr_all_clusters resources\<rparr>
                   | None \<Rightarrow> c)
          else client)
      in (client', s\<lparr>ors_clients := write_client client' (ors_clients s)\<rparr>))"

definition update_managed_listeners :: "string \<Rightarrow> 'p discovery_resource list \<Rightarrow> 'p orion_server \<Rightarrow> 'p orion_server" where
  "update_managed_listeners gateway_id listeners s = s\<lparr>ors_managed := AList.update gateway_id
     (case map_of (ors_managed s) gateway_id of
        Some e \<Rightarrow> e\<lparr>mgr_all_listeners := listeners\<rparr>
      | None \<Rightarrow> \<lparr>mgr_all_listeners = listeners, mgr_all_clusters = []\<rparr>) (ors_managed s)\<rparr>"

definition update_managed_clusters :: "string \<Rightarrow> 'p discovery_resource list \<Rightarrow> 'p orion_server \<Rightarrow> 'p orion_server" where
  "update_managed_clusters gateway_id clusters s = s\<lparr>ors_managed := AList.update gateway_id
     (case map_of (ors_managed s) gateway_id of
        Some e \<Rightarrow> e\<lparr>mgr_all_clusters := clusters\<rparr>
      | None \<Rightarrow> \<lparr>mgr_all_listeners = [], mgr_all_clusters = clusters\<rparr>) (ors_managed s)\<rparr>"

definition update_client_and_listeners :: "'p orion_client \<Rightarrow> 'p discovery_resource list \<Rightarrow> 'p orion_server \<Rightarrow> 'p orion_server" where
  "update_client_and_listeners client listeners s =
     (let s' = s\<lparr>ors_clients := write_client client (ors_clients s)\<rparr>
      in case orc_gateway_id client of Some gateway_id \<Rightarrow> update_managed_listeners gateway_id listeners s' | None \<Rightarrow> s')"

definition update_client_and_clusters :: "'p orion_client \<Rightarrow> 'p discovery_resource list \<Rightarrow> 'p orion_server \<Rightarrow> 'p orion_server" where
  "update_client_and_clusters client clusters s =
     (let s' = s\<lparr>ors_clients := write_client client (ors_clients s)\<rparr>
      in case orc_gateway_id client of Some gateway_id \<Rightarrow> update_managed_clusters gateway_id clusters s' | None \<Rightarrow> s')"

definition orion_add_or_replace_client :: "'p orion_client \<Rightarrow> 'p orion_client list \<Rightarrow> 'p orion_client list" where
  "orion_add_or_replace_client client clients =
     unwrap_or (modify_first (\<lambda>c. orc_client_id c = orc_client_id client) (\<lambda>_. client) clients) (clients @ [client])"

definition orion_remove_client :: "client_address \<Rightarrow> 'p orion_client list \<Rightarrow> 'p orion_client list" where
  "orion_remove_client client_id clients = filter (\<lambda>c. orc_client_id c \<noteq> client_id) clients"

subsection \<open>Handlers\<close>

definition send_delta :: "nat \<Rightarrow> string \<Rightarrow> 'p discovery_resource list \<Rightarrow> string list \<Rightarrow> 'p orion_server \<Rightarrow> 'p orion_server" where
  "send_delta tx url resources removed s =
     s\<lparr>ors_sent := ors_sent s @ [(tx, \<lparr>ddr_type_url = url, ddr_resources = resources, ddr_removed_resources = removed\<rparr>)]\<rparr>"

text \<open>The loop body of an update, for one of the copies of the clients of the gateway.\<close>

definition send_cluster_delta :: "'p discovery_resource list \<Rightarrow> 'p orion_client \<Rightarrow> 'p orion_server \<Rightarrow> 'p orion_server" where
  "send_cluster_delta resources client s =
     (let (delta, client') = cache_clusters_and_calculate_delta resources client
      in send_delta (orc_sender client') (type_url_to_string Url_Cluster) (del_to_add delta) (del_to_remove delta)
           (update_client_and_clusters client' resources s))"

definition send_listener_delta :: "'p discovery_resource list \<Rightarrow> 'p orion_client \<Rightarrow> 'p orion_server \<Rightarrow> 'p orion_server" where
  "send_listener_delta resources client s =
     (let (delta, client') = cache_listeners_and_calculate_delta resources client
      in send_delta (orc_sender client') (type_url_to_string Url_Listener) (del_to_add delta) (del_to_remove delta)
           (update_client_and_listeners client' resources s))"

fun handle_orion_action :: "'p server_action \<Rightarrow> 'p orion_server \<Rightarrow> 'p orion_server" where
  "handle_orion_action (UpdateClusters gateway_key resources ack_version) s =
     (let gateway_id = create_gateway_id gateway_key;
          clients = orion_clients_by_gateway_id gateway_id (ors_clients s)
      in fold (send_cluster_delta resources) clients (update_managed_clusters gateway_id resources s))"
| "handle_orion_action (UpdateListeners gateway_key resources ack_version) s =
     (let gateway_id = create_gateway_id gateway_key;
          clients = orion_clients_by_gateway_id gateway_id (ors_clients s)
      in fold (send_listener_delta resources) clients (update_managed_listeners gateway_id resources s))"

record delta_request =
  deq_response_nonce :: string
  deq_error_detail :: "string option"
  deq_node :: "envoy_node option"
  deq_type_url :: string

text \<open>A request with a nonce acknowledges or refuses a response; both are only logged.\<close>

definition handle_delta_request ::
    "pod_lookup \<Rightarrow> client_address \<Rightarrow> nat \<Rightarrow> delta_request \<Rightarrow> 'p orion_server \<Rightarrow> 'p orion_server" where
  "handle_delta_request pods client_ip tx q s =
     (if deq_response_nonce q \<noteq> [] then s
      else if deq_error_detail q \<noteq> None then s
      else case deq_node q of
          None \<Rightarrow> s
        | Some node \<Rightarrow> (case orion_client_by_client_id client_ip (ors_clients s) of
            None \<Rightarrow> s
          | Some client \<Rightarrow> (case fetch_gateway_id_by_node_id pods node of
              None \<Rightarrow> s
            | Some gateway_id \<Rightarrow>
                (let (client', s') = orion_update_client client gateway_id s
                 in case type_url_from (deq_type_url q) of
                      Inr Url_Listener \<Rightarrow> send_delta tx (type_url_to_string Url_Listener) (orc_listeners client') [] s'
                    | Inr Url_Cluster \<Rightarrow> send_delta tx (type_url_to_string Url_Cluster) (orc_clusters client') [] s'
                    | _ \<Rightarrow> send_delta tx (deq_type_url q) [] [] s'))))"

definition open_delta_stream :: "client_address option \<Rightarrow> nat \<Rightarrow> 'p orion_server \<Rightarrow> rpc_status + 'p orion_server" where
  "open_delta_stream remote_addr tx s = (case remote_addr of
       None \<Rightarrow> Inl (Status_Aborted ''Invalid remote IP address'')
     | Some client_ip \<Rightarrow> Inr (s\<lparr>ors_clients := orion_add_or_replace_client (new_orion_client client_ip tx) (ors_clients s)\<rparr>))"

definition close_delta_stream :: "client_address \<Rightarrow> 'p orion_server \<Rightarrow> 'p orion_server" where
  "close_delta_stream client_ip s = s\<lparr>ors_clients := orion_remove_client client_ip (ors_clients s)\<rparr>"

definition orion_stream_aggregated_resources :: "rpc_status + unit" where
  "orion_stream_aggregated_resources = Inl (Status_Aborted ''stream_aggregated_resources not supported'')"

subsection \<open>Difference\<close>

lemma difference_filter: "difference this other = filter (\<lambda>t. t \<notin> set other) this"
  by (induction this) simp_all

subsection \<open>What a proxy makes of the responses\<close>

text \<open>
  The specification: a proxy keeps its resources by name. A response first removes the names it lists,
  then adds or replaces its resources.
\<close>

definition by_name :: "'p discovery_resource list \<Rightarrow> string \<Rightarrow> 'p discovery_resource option" where
  "by_name rs = map_of (map (\<lambda>r. (dr_name r, r)) rs)"

definition apply_delta :: "'p delta_response \<Rightarrow> (string \<Rightarrow> 'p discovery_resource option) \<Rightarrow> string \<Rightarrow> 'p discovery_resource option" where
  "apply_delta d m = (\<lambda>n. if n \<in> set (ddr_removed_resources d) then None else m n) ++ by_name (ddr_resources d)"

abbreviation distinct_names :: "'p discovery_resource list \<Rightarrow> bool" where
  "distinct_names rs \<equiv> distinct (map dr_name rs)"

lemma by_name_Some: "distinct_names rs \<Longrightarrow> by_name rs n = Some r \<longleftrightarrow> r \<in> set rs \<and> dr_name r = n"
  unfolding by_name_def by (subst map_of_eq_Some_iff) (auto simp: comp_def)

lemma by_name_None: "by_name rs n = None \<longleftrightarrow> n \<notin> dr_name ` set rs"
  unfolding by_name_def by (auto simp: map_of_eq_None_iff image_iff)

lemma by_name_filter: "distinct_names rs \<Longrightarrow> by_name (filter P rs) n = (case by_name rs n of Some r \<Rightarrow> if P r then Some r else None | None \<Rightarrow> None)"
proof (cases "by_name rs n")
  case None
  then have "by_name (filter P rs) n = None" unfolding by_name_None by auto
  with None show ?thesis by simp
next
  case (Some r)
  assume d: "distinct_names rs"
  have d': "distinct_names (filter P rs)" using d by (simp add: distinct_map_filter)
  have r: "r \<in> set rs" "dr_name r = n" using Some d by (simp_all add: by_name_Some)
  show ?thesis
  proof (cases "P r")
    case True
    with r d' have "by_name (filter P rs) n = Some r" by (simp add: by_name_Some)
    with Some True show ?thesis by simp
  next
    case False
    have "r' = r" if "r' \<in> set rs" "dr_name r' = n" for r'
      using that Some by_name_Some [OF d, of n r'] by simp
    with False have "by_name (filter P rs) n = None" by (auto simp: by_name_None)
    with Some False show ?thesis by simp
  qed
qed

text \<open>Both ways of computing what is gone agree with the new resources, seen by a proxy.\<close>

definition good_delta :: "'p discovery_resource list \<Rightarrow> 'p discovery_resource list \<Rightarrow> string list \<Rightarrow> bool" where
  "good_delta old new removed \<longleftrightarrow> (\<forall>n. (by_name old n \<noteq> None \<and> by_name new n = None \<longrightarrow> n \<in> set removed) \<and>
     (n \<in> set removed \<longrightarrow> by_name old n \<noteq> None \<and> by_name new n \<noteq> by_name old n))"

lemma listener_delta_good: "distinct_names old \<Longrightarrow> distinct_names new \<Longrightarrow> good_delta old new (difference (map dr_name old) (map dr_name new))"
  unfolding good_delta_def difference_filter using by_name_None [of old] by_name_None [of new] by (auto simp: image_iff) metis+

lemma cluster_delta_good:
  assumes "distinct_names old" "distinct_names new"
  shows "good_delta old new (map dr_name (difference old new))"
proof -
  have "n \<in> set (map dr_name (difference old new)) \<longleftrightarrow> (\<exists>r. by_name old n = Some r \<and> by_name new n \<noteq> Some r)" for n
    using assms by (auto simp: difference_filter by_name_Some)
  then show ?thesis by (auto simp: good_delta_def)
qed

lemma apply_good_delta:
  assumes "distinct_names new" "good_delta old new removed" "ddr_resources d = difference new old" "ddr_removed_resources d = removed"
    and old: "distinct_names old"
  shows "m = by_name old \<Longrightarrow> apply_delta d m = by_name new"
    and "m \<subseteq>\<^sub>m by_name old \<Longrightarrow> apply_delta d m \<subseteq>\<^sub>m by_name new"
proof -
  have added: "by_name (ddr_resources d) n = (case by_name new n of Some r \<Rightarrow> if by_name old n = Some r then None else Some r | None \<Rightarrow> None)" for n
  proof (cases "by_name new n")
    case None
    then show ?thesis by (simp add: assms(3) difference_filter by_name_filter [OF assms(1)])
  next
    case (Some r)
    then have "r \<in> set old \<longleftrightarrow> by_name old n = Some r" using assms(1) old by (auto simp: by_name_Some)
    with Some show ?thesis by (simp add: assms(3) difference_filter by_name_filter [OF assms(1)])
  qed
  have eq: "apply_delta d (by_name old) n = by_name new n" for n
    using assms(2) by (auto simp: apply_delta_def map_add_def added assms(4) good_delta_def split: option.splits)
  then show "m = by_name old \<Longrightarrow> apply_delta d m = by_name new" by auto
  assume m: "m \<subseteq>\<^sub>m by_name old"
  have "apply_delta d m \<subseteq>\<^sub>m apply_delta d (by_name old)"
    using m by (auto simp: map_le_def apply_delta_def map_add_def dom_def split: option.splits)
  with eq show "apply_delta d m \<subseteq>\<^sub>m by_name new" by (metis ext)
qed

lemma apply_listing: "ddr_removed_resources d = [] \<Longrightarrow> ddr_resources d = rs \<Longrightarrow> m \<subseteq>\<^sub>m by_name rs \<Longrightarrow> apply_delta d m = by_name rs"
  by (rule ext) (auto simp: apply_delta_def map_add_def map_le_def dom_def split: option.splits)

subsection \<open>Updates of all clients of a gateway\<close>

abbreviation orion_ids :: "'p orion_client list \<Rightarrow> client_address list" where
  "orion_ids \<equiv> map orc_client_id"

interpretation orc: client_table "orc_client_id :: 'p orion_client \<Rightarrow> client_address" orion_update_from
  by unfold_locales (simp add: orion_update_from_def)

lemma write_client_entry: "write_client = write_entry orc_client_id orion_update_from"
  by (simp add: fun_eq_iff write_client_def write_entry_def)

lemma orion_add_or_replace_entry: "orion_add_or_replace_client = put_entry orc_client_id (\<lambda>u _. u)"
  by (simp add: fun_eq_iff orion_add_or_replace_client_def put_entry_def)

definition of_gateway :: "string \<Rightarrow> 'p orion_client \<Rightarrow> bool" where
  "of_gateway g c \<longleftrightarrow> orc_gateway_id c = Some g"

definition managed_listeners :: "'p orion_server \<Rightarrow> string \<Rightarrow> 'p discovery_resource list" where
  "managed_listeners s g = (case map_of (ors_managed s) g of Some e \<Rightarrow> mgr_all_listeners e | None \<Rightarrow> [])"

definition managed_clusters :: "'p orion_server \<Rightarrow> string \<Rightarrow> 'p discovery_resource list" where
  "managed_clusters s g = (case map_of (ors_managed s) g of Some e \<Rightarrow> mgr_all_clusters e | None \<Rightarrow> [])"

lemma managed_update [simp]:
  "managed_listeners (update_managed_listeners g ls s) = (managed_listeners s)(g := ls)"
  "managed_clusters (update_managed_listeners g ls s) = managed_clusters s"
  "managed_clusters (update_managed_clusters g ls s) = (managed_clusters s)(g := ls)"
  "managed_listeners (update_managed_clusters g ls s) = managed_listeners s"
  by (auto simp: fun_eq_iff managed_listeners_def managed_clusters_def update_managed_listeners_def update_managed_clusters_def
      update_conv' split: option.split)

lemma managed_other_fields [simp]:
  "managed_listeners (s\<lparr>ors_sent := x\<rparr>) = managed_listeners s" "managed_clusters (s\<lparr>ors_sent := x\<rparr>) = managed_clusters s"
  "managed_listeners (s\<lparr>ors_clients := y\<rparr>) = managed_listeners s" "managed_clusters (s\<lparr>ors_clients := y\<rparr>) = managed_clusters s"
  by (simp_all add: fun_eq_iff managed_listeners_def managed_clusters_def)

lemma clients_update_managed [simp]:
  "ors_clients (update_managed_listeners g ls s) = ors_clients s" "ors_sent (update_managed_listeners g ls s) = ors_sent s"
  "ors_clients (update_managed_clusters g ls s) = ors_clients s" "ors_sent (update_managed_clusters g ls s) = ors_sent s"
  by (simp_all add: update_managed_listeners_def update_managed_clusters_def)

definition listener_delta :: "'p discovery_resource list \<Rightarrow> 'p orion_client \<Rightarrow> 'p delta_response" where
  "listener_delta rs c = \<lparr>ddr_type_url = type_url_to_string Url_Listener, ddr_resources = difference rs (orc_listeners c),
     ddr_removed_resources = difference (map dr_name (orc_listeners c)) (map dr_name rs)\<rparr>"

definition cluster_delta :: "'p discovery_resource list \<Rightarrow> 'p orion_client \<Rightarrow> 'p delta_response" where
  "cluster_delta rs c = \<lparr>ddr_type_url = type_url_to_string Url_Cluster, ddr_resources = difference rs (orc_clusters c),
     ddr_removed_resources = map dr_name (difference (orc_clusters c) rs)\<rparr>"

lemma send_listener_delta_effect:
  assumes "orc_gateway_id c = Some g"
  shows "ors_clients (send_listener_delta rs c s) = write_client (c\<lparr>orc_listeners := rs\<rparr>) (ors_clients s)"
    and "ors_sent (send_listener_delta rs c s) = ors_sent s @ [(orc_sender c, listener_delta rs c)]"
    and "managed_listeners (send_listener_delta rs c s) = (managed_listeners s)(g := rs)"
    and "managed_clusters (send_listener_delta rs c s) = managed_clusters s"
  using assms by (simp_all add: send_listener_delta_def cache_listeners_and_calculate_delta_def send_delta_def update_client_and_listeners_def
      listener_delta_def Let_def)

lemma send_cluster_delta_effect:
  assumes "orc_gateway_id c = Some g"
  shows "ors_clients (send_cluster_delta rs c s) = write_client (c\<lparr>orc_clusters := rs\<rparr>) (ors_clients s)"
    and "ors_sent (send_cluster_delta rs c s) = ors_sent s @ [(orc_sender c, cluster_delta rs c)]"
    and "managed_clusters (send_cluster_delta rs c s) = (managed_clusters s)(g := rs)"
    and "managed_listeners (send_cluster_delta rs c s) = managed_listeners s"
  using assms by (simp_all add: send_cluster_delta_def cache_clusters_and_calculate_delta_def send_delta_def update_client_and_clusters_def
      cluster_delta_def Let_def)

lemma fold_send_listener_delta:
  assumes "\<forall>c\<in>set cs. orc_gateway_id c = Some g" "managed_listeners s g = rs"
  shows "ors_clients (fold (send_listener_delta rs) cs s) = fold (\<lambda>c. write_client (c\<lparr>orc_listeners := rs\<rparr>)) cs (ors_clients s) \<and>
    ors_sent (fold (send_listener_delta rs) cs s) = ors_sent s @ map (\<lambda>c. (orc_sender c, listener_delta rs c)) cs \<and>
    managed_listeners (fold (send_listener_delta rs) cs s) = managed_listeners s \<and>
    managed_clusters (fold (send_listener_delta rs) cs s) = managed_clusters s"
  using assms by (induction cs arbitrary: s) (simp_all add: send_listener_delta_effect fun_upd_idem)

lemma fold_send_cluster_delta:
  assumes "\<forall>c\<in>set cs. orc_gateway_id c = Some g" "managed_clusters s g = rs"
  shows "ors_clients (fold (send_cluster_delta rs) cs s) = fold (\<lambda>c. write_client (c\<lparr>orc_clusters := rs\<rparr>)) cs (ors_clients s) \<and>
    ors_sent (fold (send_cluster_delta rs) cs s) = ors_sent s @ map (\<lambda>c. (orc_sender c, cluster_delta rs c)) cs \<and>
    managed_listeners (fold (send_cluster_delta rs) cs s) = managed_listeners s \<and>
    managed_clusters (fold (send_cluster_delta rs) cs s) = managed_clusters s"
  using assms by (induction cs arbitrary: s) (simp_all add: send_cluster_delta_effect fun_upd_idem)

lemma orion_listeners_sent:
  fixes k :: resource_key and rs :: "'p discovery_resource list" and v :: "32 word" and s :: "'p orion_server"
  assumes "distinct (orion_ids (ors_clients s))"
  defines "g \<equiv> create_gateway_id k" and "s' \<equiv> handle_orion_action (UpdateListeners k rs v) s"
  shows "ors_clients s' = map (\<lambda>c. if of_gateway g c then c\<lparr>orc_listeners := rs\<rparr> else c) (ors_clients s)"
    and "ors_sent s' = ors_sent s @ map (\<lambda>c. (orc_sender c, listener_delta rs c)) (filter (of_gateway g) (ors_clients s))"
    and "managed_listeners s' = (managed_listeners s)(g := rs)" and "managed_clusters s' = managed_clusters s"
proof -
  let ?cs = "filter (of_gateway g) (ors_clients s)" and ?s = "update_managed_listeners g rs s"
  have cs: "orion_clients_by_gateway_id g (ors_clients s) = ?cs" by (simp add: orion_clients_by_gateway_id_def of_gateway_def [abs_def])
  have "\<forall>c\<in>set ?cs. orc_gateway_id c = Some g" by (simp add: of_gateway_def)
  note f = fold_send_listener_delta [OF this, of ?s rs]
  have "fold (\<lambda>c. write_client (c\<lparr>orc_listeners := rs\<rparr>)) ?cs (ors_clients s) =
      map (\<lambda>c. if of_gateway g c then c\<lparr>orc_listeners := rs\<rparr> else c) (ors_clients s)"
    unfolding write_client_entry using assms(1) by (rule orc.fold_write_changed) (simp_all add: orion_update_from_def)
  with f show "ors_clients s' = map (\<lambda>c. if of_gateway g c then c\<lparr>orc_listeners := rs\<rparr> else c) (ors_clients s)"
    "ors_sent s' = ors_sent s @ map (\<lambda>c. (orc_sender c, listener_delta rs c)) ?cs"
    "managed_listeners s' = (managed_listeners s)(g := rs)" "managed_clusters s' = managed_clusters s"
    by (simp_all add: s'_def g_def [symmetric] cs Let_def)
qed

lemma orion_clusters_sent:
  fixes k :: resource_key and rs :: "'p discovery_resource list" and v :: "32 word" and s :: "'p orion_server"
  assumes "distinct (orion_ids (ors_clients s))"
  defines "g \<equiv> create_gateway_id k" and "s' \<equiv> handle_orion_action (UpdateClusters k rs v) s"
  shows "ors_clients s' = map (\<lambda>c. if of_gateway g c then c\<lparr>orc_clusters := rs\<rparr> else c) (ors_clients s)"
    and "ors_sent s' = ors_sent s @ map (\<lambda>c. (orc_sender c, cluster_delta rs c)) (filter (of_gateway g) (ors_clients s))"
    and "managed_clusters s' = (managed_clusters s)(g := rs)" and "managed_listeners s' = managed_listeners s"
proof -
  let ?cs = "filter (of_gateway g) (ors_clients s)" and ?s = "update_managed_clusters g rs s"
  have cs: "orion_clients_by_gateway_id g (ors_clients s) = ?cs" by (simp add: orion_clients_by_gateway_id_def of_gateway_def [abs_def])
  have "\<forall>c\<in>set ?cs. orc_gateway_id c = Some g" by (simp add: of_gateway_def)
  note f = fold_send_cluster_delta [OF this, of ?s rs]
  have "fold (\<lambda>c. write_client (c\<lparr>orc_clusters := rs\<rparr>)) ?cs (ors_clients s) =
      map (\<lambda>c. if of_gateway g c then c\<lparr>orc_clusters := rs\<rparr> else c) (ors_clients s)"
    unfolding write_client_entry using assms(1) by (rule orc.fold_write_changed) (simp_all add: orion_update_from_def)
  with f show "ors_clients s' = map (\<lambda>c. if of_gateway g c then c\<lparr>orc_clusters := rs\<rparr> else c) (ors_clients s)"
    "ors_sent s' = ors_sent s @ map (\<lambda>c. (orc_sender c, cluster_delta rs c)) ?cs"
    "managed_clusters s' = (managed_clusters s)(g := rs)" "managed_listeners s' = managed_listeners s"
    by (simp_all add: s'_def g_def [symmetric] cs Let_def)
qed

declare handle_orion_action.simps [simp del]

subsection \<open>Runs\<close>

definition responses_to :: "'p orion_server \<Rightarrow> type_url \<Rightarrow> nat \<Rightarrow> 'p delta_response list" where
  "responses_to s url tx = map snd (filter (\<lambda>(t, d). t = tx \<and> ddr_type_url d = type_url_to_string url) (ors_sent s))"

definition proxy_view :: "'p orion_server \<Rightarrow> type_url \<Rightarrow> nat \<Rightarrow> string \<Rightarrow> 'p discovery_resource option" where
  "proxy_view s url tx = fold apply_delta (responses_to s url tx) Map.empty"

lemma proxy_view_sent:
  assumes "ors_sent s' = ors_sent s @ xs"
  shows "proxy_view s' url tx =
    fold apply_delta (map snd (filter (\<lambda>(t, d). t = tx \<and> ddr_type_url d = type_url_to_string url) xs)) (proxy_view s url tx)"
  by (simp add: proxy_view_def responses_to_def assms)

lemma proxy_view_same: "ors_sent s' = ors_sent s \<Longrightarrow> proxy_view s' = proxy_view s"
  by (simp add: fun_eq_iff proxy_view_def responses_to_def)

text \<open>The connection and resource type a request is sent all resources for.\<close>

definition listed_by :: "pod_lookup \<Rightarrow> client_address \<Rightarrow> nat \<Rightarrow> delta_request \<Rightarrow> 'p orion_server \<Rightarrow> (nat \<times> type_url) set" where
  "listed_by pods client_ip tx q s =
     (if deq_response_nonce q = [] \<and> deq_error_detail q = None \<and> orion_client_by_client_id client_ip (ors_clients s) \<noteq> None \<and>
         (\<exists>node. deq_node q = Some node \<and> fetch_gateway_id_by_node_id pods node \<noteq> None)
      then {(tx, url) | url. url \<in> {Url_Listener, Url_Cluster} \<and> type_url_from (deq_type_url q) = Inr url} else {})"

text \<open>
  Runs of the server, with the connections that were sent all resources of a type. A connection has a
  number of its own, a request comes on the connection the server has for its address, and the
  resources of an update have different names.
\<close>

inductive orion_run :: "'p orion_server \<Rightarrow> (nat \<times> type_url) set \<Rightarrow> bool" where
  start: "orion_run new_orion_server {}"
| update_clusters: "orion_run s L \<Longrightarrow> distinct_names rs \<Longrightarrow> orion_run (handle_orion_action (UpdateClusters k rs v) s) L"
| update_listeners: "orion_run s L \<Longrightarrow> distinct_names rs \<Longrightarrow> orion_run (handle_orion_action (UpdateListeners k rs v) s) L"
| connect: "orion_run s L \<Longrightarrow> tx \<notin> orc_sender ` set (ors_clients s) \<Longrightarrow> tx \<notin> fst ` set (ors_sent s) \<Longrightarrow>
    open_delta_stream addr tx s = Inr s' \<Longrightarrow> orion_run s' L"
| request: "orion_run s L \<Longrightarrow> \<forall>c. orion_client_by_client_id client_ip (ors_clients s) = Some c \<longrightarrow> orc_sender c = tx \<Longrightarrow>
    orion_run (handle_delta_request pods client_ip tx q s) (L \<union> listed_by pods client_ip tx q s)"
| close: "orion_run s L \<Longrightarrow> orion_run (close_delta_stream client_ip s) L"

definition in_view :: "'p orion_server \<Rightarrow> (nat \<times> type_url) set \<Rightarrow> type_url \<Rightarrow> nat \<Rightarrow> 'p discovery_resource list \<Rightarrow> bool" where
  "in_view s L url tx rs \<longleftrightarrow> proxy_view s url tx \<subseteq>\<^sub>m by_name rs \<and> ((tx, url) \<in> L \<longrightarrow> proxy_view s url tx = by_name rs)"

definition client_synced :: "'p orion_server \<Rightarrow> (nat \<times> type_url) set \<Rightarrow> 'p orion_client \<Rightarrow> bool" where
  "client_synced s L c \<longleftrightarrow> in_view s L Url_Listener (orc_sender c) (orc_listeners c) \<and> in_view s L Url_Cluster (orc_sender c) (orc_clusters c) \<and>
     (case orc_gateway_id c of
        None \<Rightarrow> orc_listeners c = [] \<and> orc_clusters c = [] \<and> (orc_sender c, Url_Listener) \<notin> L \<and> (orc_sender c, Url_Cluster) \<notin> L
      | Some g \<Rightarrow> orc_listeners c = managed_listeners s g \<and> orc_clusters c = managed_clusters s g)"

definition orion_ok :: "'p orion_server \<Rightarrow> (nat \<times> type_url) set \<Rightarrow> bool" where
  "orion_ok s L \<longleftrightarrow> distinct (orion_ids (ors_clients s)) \<and> distinct (map orc_sender (ors_clients s)) \<and>
     (\<forall>g. distinct_names (managed_listeners s g) \<and> distinct_names (managed_clusters s g)) \<and>
     (\<forall>(tx, url)\<in>L. tx \<in> fst ` set (ors_sent s)) \<and> (\<forall>c\<in>set (ors_clients s). client_synced s L c)"

lemma orion_okD:
  assumes "orion_ok s L"
  shows "distinct (orion_ids (ors_clients s))" "distinct (map orc_sender (ors_clients s))"
    "distinct_names (managed_listeners s g)" "distinct_names (managed_clusters s g)"
    "(tx, url) \<in> L \<Longrightarrow> tx \<in> fst ` set (ors_sent s)" "c \<in> set (ors_clients s) \<Longrightarrow> client_synced s L c"
  using assms by (auto simp: orion_ok_def)

lemma filter_sent_to:
  assumes "distinct (map orc_sender cs)" "c \<in> set cs"
  shows "filter (\<lambda>e. fst e = orc_sender c) (map (\<lambda>c. (orc_sender c, f c)) (filter P cs)) = (if P c then [(orc_sender c, f c)] else [])"
  using assms
proof (induction cs)
  case (Cons d cs)
  show ?case
  proof (cases "c = d")
    case True
    have "filter (\<lambda>e. fst e = orc_sender c) (map (\<lambda>c. (orc_sender c, f c)) (filter P cs)) = []"
      using Cons.prems True by (auto simp: filter_empty_conv image_iff)
    with True show ?thesis by simp
  next
    case False
    with Cons.prems have "orc_sender d \<noteq> orc_sender c" by auto
    with False Cons show ?thesis by auto
  qed
qed simp

lemma type_urls_differ [simp]: "type_url_to_string Url_Cluster \<noteq> type_url_to_string Url_Listener"
  "type_url_to_string Url_Listener \<noteq> type_url_to_string Url_Cluster"
  by (simp_all add: type_url_to_string.simps)

text \<open>The view of a client after an update: its delta is applied, and only that.\<close>

lemma proxy_view_update:
  assumes sent: "ors_sent s' = ors_sent s @ map (\<lambda>c. (orc_sender c, d c)) (filter P (ors_clients s))"
    and url: "\<And>c. ddr_type_url (d c) = type_url_to_string url'"
    and senders: "distinct (map orc_sender (ors_clients s))" "c \<in> set (ors_clients s)"
  shows "proxy_view s' url (orc_sender c) =
    (if P c \<and> type_url_to_string url = type_url_to_string url' then apply_delta (d c) (proxy_view s url (orc_sender c)) else proxy_view s url (orc_sender c))"
proof -
  let ?xs = "map (\<lambda>c. (orc_sender c, d c)) (filter P (ors_clients s))"
  have "filter (\<lambda>(t, x). t = orc_sender c \<and> ddr_type_url x = type_url_to_string url) ?xs =
      filter (\<lambda>e. ddr_type_url (snd e) = type_url_to_string url) (filter (\<lambda>e. fst e = orc_sender c) ?xs)"
    unfolding filter_filter by (rule filter_cong) auto
  also have "\<dots> = (if P c \<and> type_url_to_string url = type_url_to_string url' then [(orc_sender c, d c)] else [])"
    unfolding filter_sent_to [OF senders] by (simp add: url)
  finally have f: "filter (\<lambda>(t, x). t = orc_sender c \<and> ddr_type_url x = type_url_to_string url) ?xs =
      (if P c \<and> type_url_to_string url = type_url_to_string url' then [(orc_sender c, d c)] else [])" .
  show ?thesis unfolding proxy_view_sent [OF sent] f by simp
qed

lemma in_view_delta:
  assumes "in_view s L url tx old" "distinct_names old" "distinct_names rs" "good_delta old rs (ddr_removed_resources d)"
    "ddr_resources d = difference rs old" "proxy_view s' url tx = apply_delta d (proxy_view s url tx)"
  shows "in_view s' L url tx rs"
  using assms apply_good_delta [OF assms(3,4,5) refl assms(2), of "proxy_view s url tx"] by (auto simp: in_view_def)

lemma in_view_same: "in_view s L url tx rs \<Longrightarrow> proxy_view s' url tx = proxy_view s url tx \<Longrightarrow> in_view s' L url tx rs"
  by (simp add: in_view_def)

lemma orion_ok_update_listeners:
  assumes ok: "orion_ok s L" and rs: "distinct_names rs"
  shows "orion_ok (handle_orion_action (UpdateListeners k rs v) s) L"
proof -
  let ?s = "handle_orion_action (UpdateListeners k rs v) s" and ?g = "create_gateway_id k"
  note eff = orion_listeners_sent [OF orion_okD(1) [OF ok], of k rs v]
  let ?f = "\<lambda>c. if of_gateway ?g c then c\<lparr>orc_listeners := rs\<rparr> else c"
  have keep: "orc_client_id (?f c) = orc_client_id c" "orc_sender (?f c) = orc_sender c" for c by simp_all
  note view = proxy_view_update [OF eff(2), where url' = Url_Listener, OF _ orion_okD(2) [OF ok]]
  have synced: "client_synced ?s L (?f c)" if c: "c \<in> set (ors_clients s)" for c
  proof -
    note old = orion_okD(6) [OF ok c]
    have lv: "proxy_view ?s Url_Listener (orc_sender c) =
        (if of_gateway ?g c then apply_delta (listener_delta rs c) (proxy_view s Url_Listener (orc_sender c)) else proxy_view s Url_Listener (orc_sender c))"
      using view [OF _ c, of Url_Listener] by (simp add: listener_delta_def)
    have cv: "proxy_view ?s Url_Cluster (orc_sender c) = proxy_view s Url_Cluster (orc_sender c)"
      using view [OF _ c, of Url_Cluster] by (simp add: listener_delta_def)
    show ?thesis
    proof (cases "of_gateway ?g c")
      case True
      then have g: "orc_gateway_id c = Some ?g" by (simp add: of_gateway_def)
      have l: "orc_listeners c = managed_listeners s ?g" "orc_clusters c = managed_clusters s ?g"
        using old g by (simp_all add: client_synced_def)
      have "in_view ?s L Url_Listener (orc_sender c) rs"
        using old orion_okD(3) [OF ok] rs l lv True
        by (intro in_view_delta [of s L Url_Listener "orc_sender c" "orc_listeners c" rs "listener_delta rs c"])
          (simp_all add: client_synced_def listener_delta_def listener_delta_good)
      moreover have "in_view ?s L Url_Cluster (orc_sender c) (orc_clusters c)"
        using old cv by (auto simp: client_synced_def intro: in_view_same)
      ultimately show ?thesis using True g l eff(3,4) by (simp add: client_synced_def)
    next
      case False
      then have "orc_gateway_id c \<noteq> Some ?g" by (simp add: of_gateway_def)
      then show ?thesis
        using old lv cv False eff(3,4) by (auto simp: client_synced_def in_view_def split: option.splits)
    qed
  qed
  have "distinct (orion_ids (ors_clients ?s))" "distinct (map orc_sender (ors_clients ?s))"
    using orion_okD(1,2) [OF ok] by (simp_all add: eff(1) comp_def keep)
  moreover have "\<forall>(tx, url)\<in>L. tx \<in> fst ` set (ors_sent ?s)" using orion_okD(5) [OF ok] eff(2) by fastforce
  moreover have "distinct_names (managed_listeners ?s g)" "distinct_names (managed_clusters ?s g)" for g
    using orion_okD(3,4) [OF ok] rs eff(3,4) by simp_all
  moreover have "\<forall>c\<in>set (ors_clients ?s). client_synced ?s L c" unfolding eff(1) set_map using synced by blast
  ultimately show ?thesis by (simp add: orion_ok_def)
qed

lemma orion_ok_update_clusters:
  assumes ok: "orion_ok s L" and rs: "distinct_names rs"
  shows "orion_ok (handle_orion_action (UpdateClusters k rs v) s) L"
proof -
  let ?s = "handle_orion_action (UpdateClusters k rs v) s" and ?g = "create_gateway_id k"
  note eff = orion_clusters_sent [OF orion_okD(1) [OF ok], of k rs v]
  let ?f = "\<lambda>c. if of_gateway ?g c then c\<lparr>orc_clusters := rs\<rparr> else c"
  have keep: "orc_client_id (?f c) = orc_client_id c" "orc_sender (?f c) = orc_sender c" for c by simp_all
  note view = proxy_view_update [OF eff(2), where url' = Url_Cluster, OF _ orion_okD(2) [OF ok]]
  have synced: "client_synced ?s L (?f c)" if c: "c \<in> set (ors_clients s)" for c
  proof -
    note old = orion_okD(6) [OF ok c]
    have cv: "proxy_view ?s Url_Cluster (orc_sender c) =
        (if of_gateway ?g c then apply_delta (cluster_delta rs c) (proxy_view s Url_Cluster (orc_sender c)) else proxy_view s Url_Cluster (orc_sender c))"
      using view [OF _ c, of Url_Cluster] by (simp add: cluster_delta_def)
    have lv: "proxy_view ?s Url_Listener (orc_sender c) = proxy_view s Url_Listener (orc_sender c)"
      using view [OF _ c, of Url_Listener] by (simp add: cluster_delta_def)
    show ?thesis
    proof (cases "of_gateway ?g c")
      case True
      then have g: "orc_gateway_id c = Some ?g" by (simp add: of_gateway_def)
      have l: "orc_listeners c = managed_listeners s ?g" "orc_clusters c = managed_clusters s ?g"
        using old g by (simp_all add: client_synced_def)
      have "in_view ?s L Url_Cluster (orc_sender c) rs"
        using old orion_okD(4) [OF ok] rs l cv True
        by (intro in_view_delta [of s L Url_Cluster "orc_sender c" "orc_clusters c" rs "cluster_delta rs c"])
          (simp_all add: client_synced_def cluster_delta_def cluster_delta_good)
      moreover have "in_view ?s L Url_Listener (orc_sender c) (orc_listeners c)"
        using old lv by (auto simp: client_synced_def intro: in_view_same)
      ultimately show ?thesis using True g l eff(3,4) by (simp add: client_synced_def)
    next
      case False
      then have "orc_gateway_id c \<noteq> Some ?g" by (simp add: of_gateway_def)
      then show ?thesis
        using old lv cv False eff(3,4) by (auto simp: client_synced_def in_view_def split: option.splits)
    qed
  qed
  have "distinct (orion_ids (ors_clients ?s))" "distinct (map orc_sender (ors_clients ?s))"
    using orion_okD(1,2) [OF ok] by (simp_all add: eff(1) comp_def keep)
  moreover have "\<forall>(tx, url)\<in>L. tx \<in> fst ` set (ors_sent ?s)" using orion_okD(5) [OF ok] eff(2) by fastforce
  moreover have "distinct_names (managed_listeners ?s g)" "distinct_names (managed_clusters ?s g)" for g
    using orion_okD(3,4) [OF ok] rs eff(3,4) by simp_all
  moreover have "\<forall>c\<in>set (ors_clients ?s). client_synced ?s L c" unfolding eff(1) set_map using synced by blast
  ultimately show ?thesis by (simp add: orion_ok_def)
qed

lemma fresh_view: "tx \<notin> fst ` set (ors_sent s) \<Longrightarrow> proxy_view s url tx = Map.empty"
proof -
  assume "tx \<notin> fst ` set (ors_sent s)"
  then have "responses_to s url tx = []" by (auto simp: responses_to_def filter_empty_conv image_iff)
  then show ?thesis by (simp add: proxy_view_def)
qed

lemma map_le_empty_iff: "m \<subseteq>\<^sub>m (\<lambda>x. None) \<longleftrightarrow> m = (\<lambda>x. None)"
  by (metis map_le_antisym map_le_empty)

lemma distinct_senders_put:
  assumes "distinct (map orc_sender cs)" "orc_sender u \<notin> orc_sender ` set cs"
  shows "distinct (map orc_sender (put_entry orc_client_id (\<lambda>u _. u) u cs))"
  using assms
proof (induction cs)
  case (Cons c cs)
  have "orc_sender ` set (put_entry orc_client_id (\<lambda>u _. u) u cs) \<subseteq> insert (orc_sender u) (orc_sender ` set cs)"
    using set_put_entry [of _ orc_client_id "\<lambda>u _. u" u cs] by fast
  with Cons show ?case by (auto simp: put_entry_Cons)
qed simp

lemma client_synced_frame: "client_synced s L c \<Longrightarrow> ors_sent s' = ors_sent s \<Longrightarrow> ors_managed s' = ors_managed s \<Longrightarrow> client_synced s' L c"
  using proxy_view_same [of s' s] by (simp add: client_synced_def in_view_def managed_listeners_def managed_clusters_def split: option.splits)

lemma orion_ok_connect:
  assumes ok: "orion_ok s L" and fresh: "tx \<notin> orc_sender ` set (ors_clients s)" "tx \<notin> fst ` set (ors_sent s)"
    and step: "open_delta_stream addr tx s = Inr s'"
  shows "orion_ok s' L"
proof -
  obtain ip where s': "s' = s\<lparr>ors_clients := put_entry orc_client_id (\<lambda>u _. u) (new_orion_client ip tx) (ors_clients s)\<rparr>"
    using step by (auto simp: open_delta_stream_def orion_add_or_replace_entry split: option.splits)
  have new: "client_synced s' L (new_orion_client ip tx)"
    using fresh_view [of tx s'] fresh(2) orion_okD(5) [OF ok, of tx] by (auto simp: s' client_synced_def new_orion_client_def in_view_def by_name_def)
  have "client_synced s' L c" if "c \<in> set (ors_clients s')" for c
    using set_put_entry [of c orc_client_id "\<lambda>u _. u" "new_orion_client ip tx" "ors_clients s"] that new
      client_synced_frame [OF orion_okD(6) [OF ok, of c], of s'] by (auto simp: s')
  moreover have "distinct (orion_ids (ors_clients s'))"
    unfolding s' using orion_okD(1) [OF ok] by (simp add: distinct_put_entry)
  moreover have "distinct (map orc_sender (ors_clients s'))"
    unfolding s' using orion_okD(2) [OF ok] fresh(1) by (simp add: distinct_senders_put new_orion_client_def)
  moreover have "managed_listeners s' = managed_listeners s" "managed_clusters s' = managed_clusters s" "ors_sent s' = ors_sent s"
    by (simp_all add: s')
  ultimately show ?thesis using orion_okD(3,4,5) [OF ok] by (auto simp: orion_ok_def)
qed

lemma orion_ok_close: 
  assumes "orion_ok s L"
  shows "orion_ok (close_delta_stream ip s) L"
proof -
  let ?s = "close_delta_stream ip s"
  have same: "ors_sent ?s = ors_sent s" "ors_managed ?s = ors_managed s" "managed_listeners ?s = managed_listeners s" "managed_clusters ?s = managed_clusters s"
    by (simp_all add: close_delta_stream_def)
  have clients: "ors_clients ?s = filter (\<lambda>c. orc_client_id c \<noteq> ip) (ors_clients s)"
    by (simp add: close_delta_stream_def orion_remove_client_def)
  have "client_synced ?s L c" if "c \<in> set (ors_clients ?s)" for c
    using client_synced_frame [OF orion_okD(6) [OF assms], of c ?s] that same by (simp add: clients)
  then show ?thesis
    using orion_okD(1-5) [OF assms] same by (auto simp: orion_ok_def clients distinct_map_filter)
qed

lemma proxy_view_send: "proxy_view (send_delta tx url rs removed s) u t =
    (if t = tx \<and> url = type_url_to_string u
     then apply_delta \<lparr>ddr_type_url = url, ddr_resources = rs, ddr_removed_resources = removed\<rparr> (proxy_view s u t) else proxy_view s u t)"
  by (subst proxy_view_sent [of "send_delta tx url rs removed s" s]) (auto simp: send_delta_def)

text \<open>The copy of a client a request works on, completed and written back.\<close>

lemma orion_update_client_effect:
  assumes ok: "orion_ok s L" and c: "c \<in> set (ors_clients s)" and u: "orion_update_client c g s = (c', s1)"
  shows "orc_client_id c' = orc_client_id c" "orc_sender c' = orc_sender c"
    "\<exists>h. orc_gateway_id c' = Some h \<and> orc_listeners c' = managed_listeners s h \<and> orc_clusters c' = managed_clusters s h"
    "ors_clients s1 = map (\<lambda>d. if d = c then c' else d) (ors_clients s)" "ors_sent s1 = ors_sent s" "ors_managed s1 = ors_managed s"
    "in_view s L Url_Listener (orc_sender c) (orc_listeners c')" "in_view s L Url_Cluster (orc_sender c) (orc_clusters c')"
proof -
  note old = orion_okD(6) [OF ok c]
  have s1: "s1 = s\<lparr>ors_clients := write_client c' (ors_clients s)\<rparr>" using u by (auto simp: orion_update_client_def Let_def)
  have c': "orc_client_id c' = orc_client_id c \<and> orc_sender c' = orc_sender c \<and> orion_update_from c' c = c' \<and>
      (\<exists>h. orc_gateway_id c' = Some h \<and> orc_listeners c' = managed_listeners s h \<and> orc_clusters c' = managed_clusters s h) \<and>
      in_view s L Url_Listener (orc_sender c) (orc_listeners c') \<and> in_view s L Url_Cluster (orc_sender c) (orc_clusters c')"
  proof (cases "orc_gateway_id c")
    case (Some h)
    with u have "c' = c" by (auto simp: orion_update_client_def)
    with old Some show ?thesis by (auto simp: client_synced_def orion_update_from_def)
  next
    case None
    with old have e: "proxy_view s Url_Listener (orc_sender c) = Map.empty" "proxy_view s Url_Cluster (orc_sender c) = Map.empty"
      "orc_listeners c = []" "orc_clusters c = []" "(orc_sender c, Url_Listener) \<notin> L" "(orc_sender c, Url_Cluster) \<notin> L"
      by (auto simp: client_synced_def in_view_def by_name_def map_le_empty_iff)
    have "c' = c\<lparr>orc_gateway_id := Some g, orc_listeners := managed_listeners s g, orc_clusters := managed_clusters s g\<rparr>"
      using u None e by (auto simp: orion_update_client_def Let_def managed_listeners_def managed_clusters_def split: option.splits)
    then show ?thesis using e by (simp add: in_view_def orion_update_from_def)
  qed
  have "write_client c' (ors_clients s) = map (\<lambda>d. if orc_client_id d = orc_client_id c' then orion_update_from c' d else d) (ors_clients s)"
    unfolding write_client_entry by (rule orc.write_map [OF orion_okD(1) [OF ok]])
  also have "\<dots> = map (\<lambda>d. if d = c then c' else d) (ors_clients s)"
    using c' c orion_okD(1) [OF ok] by (intro map_cong refl) (auto simp: distinct_map inj_on_def)
  finally show "ors_clients s1 = map (\<lambda>d. if d = c then c' else d) (ors_clients s)" by (simp add: s1)
  show "ors_sent s1 = ors_sent s" "ors_managed s1 = ors_managed s" by (simp_all add: s1)
  show "orc_client_id c' = orc_client_id c" "orc_sender c' = orc_sender c"
    "\<exists>h. orc_gateway_id c' = Some h \<and> orc_listeners c' = managed_listeners s h \<and> orc_clusters c' = managed_clusters s h"
    "in_view s L Url_Listener (orc_sender c) (orc_listeners c')" "in_view s L Url_Cluster (orc_sender c) (orc_clusters c')"
    using c' by blast+
qed

text \<open>What the answer does to the views: all resources of the type, or nothing the two types see.\<close>

lemma orion_ok_answer:
  assumes ok: "orion_ok s L" and c: "c \<in> set (ors_clients s)" and u: "orion_update_client c g s = (c', s1)"
    and s2: "s2 = send_delta (orc_sender c) url rs [] s1"
    and answer: "url = type_url_to_string Url_Listener \<and> rs = orc_listeners c' \<and> K = {(orc_sender c, Url_Listener)} \<or>
      url = type_url_to_string Url_Cluster \<and> rs = orc_clusters c' \<and> K = {(orc_sender c, Url_Cluster)} \<or>
      url \<noteq> type_url_to_string Url_Listener \<and> url \<noteq> type_url_to_string Url_Cluster \<and> K = {}"
  shows "orion_ok s2 (L \<union> K)"
proof -
  note eff = orion_update_client_effect [OF ok c u]
  obtain h where h: "orc_gateway_id c' = Some h" "orc_listeners c' = managed_listeners s h" "orc_clusters c' = managed_clusters s h"
    using eff(3) by blast
  have clients: "ors_clients s2 = map (\<lambda>d. if d = c then c' else d) (ors_clients s)" by (simp add: s2 send_delta_def eff(4))
  have managed: "managed_listeners s2 = managed_listeners s" "managed_clusters s2 = managed_clusters s"
    using eff(6) by (simp_all add: fun_eq_iff s2 send_delta_def managed_listeners_def managed_clusters_def)
  have view: "proxy_view s2 v t = (if t = orc_sender c \<and> url = type_url_to_string v
      then apply_delta \<lparr>ddr_type_url = url, ddr_resources = rs, ddr_removed_resources = []\<rparr> (proxy_view s v t) else proxy_view s v t)" for v t
    using proxy_view_same [of s1 s] eff(5) by (simp add: s2 proxy_view_send)
  have listing: "apply_delta \<lparr>ddr_type_url = url, ddr_resources = rs, ddr_removed_resources = []\<rparr> m = by_name rs" if "m \<subseteq>\<^sub>m by_name rs" for m
    by (rule apply_listing) (use that in simp_all)
  have own: "client_synced s2 (L \<union> K) c'"
  proof -
    have sub: "proxy_view s Url_Listener (orc_sender c) \<subseteq>\<^sub>m by_name (orc_listeners c')"
      "proxy_view s Url_Cluster (orc_sender c) \<subseteq>\<^sub>m by_name (orc_clusters c')"
      using eff(7,8) by (simp_all add: in_view_def)
    have "in_view s2 (L \<union> K) Url_Listener (orc_sender c) (orc_listeners c') \<and> in_view s2 (L \<union> K) Url_Cluster (orc_sender c) (orc_clusters c')"
      using answer
    proof (elim disjE conjE)
      assume a: "url = type_url_to_string Url_Listener" "rs = orc_listeners c'" "K = {(orc_sender c, Url_Listener)}"
      have "proxy_view s2 Url_Listener (orc_sender c) = by_name (orc_listeners c')" unfolding view using listing sub(1) a by simp
      moreover have "proxy_view s2 Url_Cluster (orc_sender c) = proxy_view s Url_Cluster (orc_sender c)" unfolding view using a by simp
      ultimately show ?thesis using eff(8) a(3) by (simp add: in_view_def)
    next
      assume a: "url = type_url_to_string Url_Cluster" "rs = orc_clusters c'" "K = {(orc_sender c, Url_Cluster)}"
      have "proxy_view s2 Url_Cluster (orc_sender c) = by_name (orc_clusters c')" unfolding view using listing sub(2) a by simp
      moreover have "proxy_view s2 Url_Listener (orc_sender c) = proxy_view s Url_Listener (orc_sender c)" unfolding view using a by simp
      ultimately show ?thesis using eff(7) a(3) by (simp add: in_view_def)
    next
      assume a: "url \<noteq> type_url_to_string Url_Listener" "url \<noteq> type_url_to_string Url_Cluster" "K = {}"
      then have "proxy_view s2 v (orc_sender c) = proxy_view s v (orc_sender c)" if "v \<in> {Url_Listener, Url_Cluster}" for v
        unfolding view using that by auto
      then show ?thesis using eff(7,8) a(3) by (simp add: in_view_def)
    qed
    then show ?thesis using h by (simp add: client_synced_def eff(2) managed)
  qed
  have other: "client_synced s2 (L \<union> K) d" if d: "d \<in> set (ors_clients s)" "d \<noteq> c" for d
  proof -
    have "orc_sender d \<noteq> orc_sender c" using d c orion_okD(2) [OF ok] by (auto simp: distinct_map inj_on_def)
    then have "proxy_view s2 v (orc_sender d) = proxy_view s v (orc_sender d)" "(orc_sender d, v) \<notin> K" for v
      using answer by (auto simp: view)
    then show ?thesis using orion_okD(6) [OF ok d(1)] by (cases "orc_gateway_id d") (auto simp: client_synced_def in_view_def managed)
  qed
  have synced: "\<forall>d\<in>set (ors_clients s2). client_synced s2 (L \<union> K) d" unfolding clients set_map using own other by auto
  have keep: "orc_client_id (if d = c then c' else d) = orc_client_id d" "orc_sender (if d = c then c' else d) = orc_sender d" for d
    using eff(1,2) by simp_all
  have "distinct (orion_ids (ors_clients s2))" "distinct (map orc_sender (ors_clients s2))"
    using orion_okD(1,2) [OF ok] by (simp_all add: clients comp_def keep)
  moreover have "\<forall>(tx, v)\<in>L \<union> K. tx \<in> fst ` set (ors_sent s2)"
  proof -
    have "ors_sent s2 = ors_sent s @ [(orc_sender c, \<lparr>ddr_type_url = url, ddr_resources = rs, ddr_removed_resources = []\<rparr>)]"
      by (simp add: s2 send_delta_def eff(5))
    then have "fst ` set (ors_sent s2) = insert (orc_sender c) (fst ` set (ors_sent s))" by simp
    moreover have "tx = orc_sender c" if "(tx, v) \<in> K" for tx v using answer that by blast
    ultimately show ?thesis using orion_okD(5) [OF ok] by blast
  qed
  ultimately show ?thesis using synced orion_okD(3,4) [OF ok] by (simp add: orion_ok_def managed)
qed

lemma orion_ok_request:
  assumes ok: "orion_ok s L" and tx: "\<forall>c. orion_client_by_client_id client_ip (ors_clients s) = Some c \<longrightarrow> orc_sender c = tx"
  shows "orion_ok (handle_delta_request pods client_ip tx q s) (L \<union> listed_by pods client_ip tx q s)"
proof (cases "deq_response_nonce q = [] \<and> deq_error_detail q = None \<and> orion_client_by_client_id client_ip (ors_clients s) \<noteq> None \<and>
    (\<exists>node. deq_node q = Some node \<and> fetch_gateway_id_by_node_id pods node \<noteq> None)")
  case False
  then have "listed_by pods client_ip tx q s = {}" unfolding listed_by_def by (rule if_not_P)
  moreover have "handle_delta_request pods client_ip tx q s = s"
    using False by (auto simp: handle_delta_request_def split: option.split)
  ultimately show ?thesis using ok by simp
next
  case True
  then obtain c node g where c: "orion_client_by_client_id client_ip (ors_clients s) = Some c"
    and g: "deq_node q = Some node" "fetch_gateway_id_by_node_id pods node = Some g" by blast
  have mem: "c \<in> set (ors_clients s)" using c by (auto simp: orion_client_by_client_id_def find_Some_iff)
  have sender: "orc_sender c = tx" using tx c by blast
  obtain c' s1 where u: "orion_update_client c g s = (c', s1)" by fastforce
  have K: "listed_by pods client_ip tx q s = {(tx, url) | url. url \<in> {Url_Listener, Url_Cluster} \<and> type_url_from (deq_type_url q) = Inr url}"
    unfolding listed_by_def using True by (rule if_P)
  have h: "handle_delta_request pods client_ip tx q s = (case type_url_from (deq_type_url q) of
        Inr Url_Listener \<Rightarrow> send_delta tx (type_url_to_string Url_Listener) (orc_listeners c') [] s1
      | Inr Url_Cluster \<Rightarrow> send_delta tx (type_url_to_string Url_Cluster) (orc_clusters c') [] s1
      | _ \<Rightarrow> send_delta tx (deq_type_url q) [] [] s1)"
    using True c g u by (simp add: handle_delta_request_def)
  consider "type_url_from (deq_type_url q) = Inr Url_Listener" | "type_url_from (deq_type_url q) = Inr Url_Cluster"
    | "type_url_from (deq_type_url q) \<noteq> Inr Url_Listener" "type_url_from (deq_type_url q) \<noteq> Inr Url_Cluster" by blast
  then show ?thesis
  proof cases
    case 1
    have "handle_delta_request pods client_ip tx q s = send_delta tx (type_url_to_string Url_Listener) (orc_listeners c') [] s1"
      by (simp add: h 1)
    moreover have "listed_by pods client_ip tx q s = {(tx, Url_Listener)}" by (auto simp: K 1)
    moreover have "orion_ok (send_delta (orc_sender c) (type_url_to_string Url_Listener) (orc_listeners c') [] s1) (L \<union> {(orc_sender c, Url_Listener)})"
      by (rule orion_ok_answer [OF ok mem u refl]) blast
    ultimately show ?thesis using sender by simp
  next
    case 2
    have "handle_delta_request pods client_ip tx q s = send_delta tx (type_url_to_string Url_Cluster) (orc_clusters c') [] s1"
      by (simp add: h 2)
    moreover have "listed_by pods client_ip tx q s = {(tx, Url_Cluster)}" by (auto simp: K 2)
    moreover have "orion_ok (send_delta (orc_sender c) (type_url_to_string Url_Cluster) (orc_clusters c') [] s1) (L \<union> {(orc_sender c, Url_Cluster)})"
      by (rule orion_ok_answer [OF ok mem u refl]) blast
    ultimately show ?thesis using sender by simp
  next
    case 3
    have "handle_delta_request pods client_ip tx q s = send_delta tx (deq_type_url q) [] [] s1"
    proof (cases "type_url_from (deq_type_url q)")
      case (Inr t)
      with 3 show ?thesis by (cases t) (simp_all add: h)
    qed (simp add: h)
    moreover have "listed_by pods client_ip tx q s = {}" using 3 by (auto simp: K)
    moreover have "deq_type_url q \<noteq> type_url_to_string Url_Listener" "deq_type_url q \<noteq> type_url_to_string Url_Cluster"
      using 3 by (auto simp: type_url_from_iff)
    ultimately show ?thesis using orion_ok_answer [OF ok mem u refl, of "deq_type_url q" "[]" "{}"] sender by simp
  qed
qed

lemma orion_run_ok: "orion_run s L \<Longrightarrow> orion_ok s L"
proof (induction rule: orion_run.induct)
  case start
  show ?case by (simp add: orion_ok_def new_orion_server_def managed_listeners_def managed_clusters_def)
next
  case (connect s L tx addr s')
  show ?case by (rule orion_ok_connect [OF connect.IH connect.hyps(2-4)])
next
  case (request s L client_ip tx pods q)
  show ?case by (rule orion_ok_request [OF request.IH request.hyps(2)])
next
  case (update_clusters s L rs k v)
  show ?case by (rule orion_ok_update_clusters [OF update_clusters.IH update_clusters.hyps(2)])
next
  case (update_listeners s L rs k v)
  show ?case by (rule orion_ok_update_listeners [OF update_listeners.IH update_listeners.hyps(2)])
next
  case (close s L client_ip)
  show ?case by (rule orion_ok_close [OF close.IH])
qed


subsection \<open>Changed clusters\<close>

text \<open>A proxy that adds before it removes.\<close>

definition apply_adding_first :: "'p delta \<Rightarrow> (string \<Rightarrow> 'p discovery_resource option) \<Rightarrow> string \<Rightarrow> 'p discovery_resource option" where
  "apply_adding_first d m = (\<lambda>n. if n \<in> set (del_to_remove d) then None else (m ++ by_name (del_to_add d)) n)"

lemma mem_difference: "x \<in> set (difference xs ys) \<longleftrightarrow> x \<in> set xs \<and> x \<notin> set ys"
  by (simp add: difference_filter)

lemma by_name_added: "distinct_names old \<Longrightarrow> distinct_names new \<Longrightarrow> by_name (difference new old) n =
    (case by_name new n of Some r \<Rightarrow> if by_name old n = Some r then None else Some r | None \<Rightarrow> None)"
proof (cases "by_name new n")
  case (Some r)
  assume d: "distinct_names old" "distinct_names new"
  then have "r \<in> set old \<longleftrightarrow> by_name old n = Some r" using Some by (auto simp: by_name_Some)
  with Some d show ?thesis by (simp add: difference_filter by_name_filter)
qed (simp add: difference_filter by_name_filter)

text \<open>
  The delta of the listeners never adds and removes one name, so the order in which a proxy takes the
  two parts does not matter. The delta of the clusters does both for exactly the clusters whose
  name stays and whose content changes: a proxy that adds first loses all of these and no other.
\<close>

lemma changed_clusters_removed:
  assumes "distinct_names (orc_clusters c)" "distinct_names (orc_listeners c)" "distinct_names rs"
  shows "set (del_to_remove (fst (cache_listeners_and_calculate_delta rs c))) \<inter>
      dr_name ` set (del_to_add (fst (cache_listeners_and_calculate_delta rs c))) = {} \<and>
    apply_adding_first (fst (cache_listeners_and_calculate_delta rs c)) (by_name (orc_listeners c)) = by_name rs \<and>
    set (del_to_remove (fst (cache_clusters_and_calculate_delta rs c))) \<inter>
      dr_name ` set (del_to_add (fst (cache_clusters_and_calculate_delta rs c))) =
      {n. \<exists>r r'. by_name (orc_clusters c) n = Some r \<and> by_name rs n = Some r' \<and> r \<noteq> r'} \<and>
    apply_adding_first (fst (cache_clusters_and_calculate_delta rs c)) (by_name (orc_clusters c)) =
      (\<lambda>n. if \<exists>r r'. by_name (orc_clusters c) n = Some r \<and> by_name rs n = Some r' \<and> r \<noteq> r' then None else by_name rs n)"
proof (intro conjI)
  let ?l = "fst (cache_listeners_and_calculate_delta rs c)" and ?c = "fst (cache_clusters_and_calculate_delta rs c)"
  have l: "del_to_add ?l = difference rs (orc_listeners c)" "del_to_remove ?l = difference (map dr_name (orc_listeners c)) (map dr_name rs)"
    by (simp_all add: cache_listeners_and_calculate_delta_def)
  have k: "del_to_add ?c = difference rs (orc_clusters c)" "del_to_remove ?c = map dr_name (difference (orc_clusters c) rs)"
    by (simp_all add: cache_clusters_and_calculate_delta_def)
  have removed: "n \<in> set (del_to_remove ?c) \<longleftrightarrow> (\<exists>r. by_name (orc_clusters c) n = Some r \<and> by_name rs n \<noteq> Some r)" for n
    using assms by (auto simp: k mem_difference by_name_Some)
  have added: "n \<in> dr_name ` set (del_to_add ?c) \<longleftrightarrow> (\<exists>r. by_name rs n = Some r \<and> by_name (orc_clusters c) n \<noteq> Some r)" for n
    using assms by (auto simp: k mem_difference by_name_Some)
  show "set (del_to_remove ?l) \<inter> dr_name ` set (del_to_add ?l) = {}" by (auto simp: l mem_difference)
  show "apply_adding_first ?l (by_name (orc_listeners c)) = by_name rs"
  proof
    fix n
    have "n \<in> set (del_to_remove ?l) \<longleftrightarrow> by_name (orc_listeners c) n \<noteq> None \<and> by_name rs n = None"
      by (simp add: l mem_difference by_name_None)
    moreover have "by_name (del_to_add ?l) n = (case by_name rs n of Some r \<Rightarrow> if by_name (orc_listeners c) n = Some r then None else Some r | None \<Rightarrow> None)"
      unfolding l using assms by (intro by_name_added)
    ultimately show "apply_adding_first ?l (by_name (orc_listeners c)) n = by_name rs n"
      by (cases "by_name rs n") (auto simp: apply_adding_first_def map_add_def split: option.splits)
  qed
  show "set (del_to_remove ?c) \<inter> dr_name ` set (del_to_add ?c) =
      {n. \<exists>r r'. by_name (orc_clusters c) n = Some r \<and> by_name rs n = Some r' \<and> r \<noteq> r'}"
    by (rule set_eqI) (simp only: Int_iff removed added mem_Collect_eq, auto)
  show "apply_adding_first ?c (by_name (orc_clusters c)) =
      (\<lambda>n. if \<exists>r r'. by_name (orc_clusters c) n = Some r \<and> by_name rs n = Some r' \<and> r \<noteq> r' then None else by_name rs n)"
  proof
    fix n
    have "by_name (del_to_add ?c) n = (case by_name rs n of Some r \<Rightarrow> if by_name (orc_clusters c) n = Some r then None else Some r | None \<Rightarrow> None)"
      unfolding k using assms by (intro by_name_added)
    then show "apply_adding_first ?c (by_name (orc_clusters c)) n =
        (if \<exists>r r'. by_name (orc_clusters c) n = Some r \<and> by_name rs n = Some r' \<and> r \<noteq> r' then None else by_name rs n)"
      unfolding apply_adding_first_def removed
      by (cases "by_name rs n"; cases "by_name (orc_clusters c) n") (auto simp: map_add_def)
  qed
qed

definition example_changed :: "nat discovery_resource list" where
  "example_changed = [\<lparr>dr_name = ''c'', dr_resource = Some 6\<rparr>]"

lemma changed_clusters_removed_witness:
  "apply_adding_first (fst (cache_clusters_and_calculate_delta example_changed
     ((new_orion_client example_ip 1)\<lparr>orc_clusters := example_clusters\<rparr>))) (by_name example_clusters) ''c'' = None \<and>
   by_name example_changed ''c'' \<noteq> None"
proof -
  let ?c = "(new_orion_client example_ip 1)\<lparr>orc_clusters := example_clusters\<rparr>"
  have d: "distinct_names (orc_clusters ?c)" "distinct_names (orc_listeners ?c)" "distinct_names example_changed"
    by (simp_all add: new_orion_client_def example_clusters_def example_changed_def)
  have "by_name example_clusters ''c'' = Some \<lparr>dr_name = ''c'', dr_resource = Some 5\<rparr>" "by_name example_changed ''c'' = Some \<lparr>dr_name = ''c'', dr_resource = Some 6\<rparr>"
    by (simp_all add: by_name_def example_clusters_def example_changed_def)
  with changed_clusters_removed [OF d] show ?thesis by (simp add: fun_eq_iff)
qed

definition example_delta_request :: "type_url \<Rightarrow> delta_request" where
  "example_delta_request url = \<lparr>deq_response_nonce = [], deq_error_detail = None, deq_node = Some \<lparr>en_id = ''pod'', en_cluster = ''ns''\<rparr>,
     deq_type_url = type_url_to_string url\<rparr>"

text \<open>A proxy connects and lists its clusters and its listeners.\<close>

definition example_orion_client :: "'p orion_client" where
  "example_orion_client = (new_orion_client example_ip 7)\<lparr>orc_gateway_id := Some ''ns.gw''\<rparr>"

lemma example_orion_run:
  "\<exists>s L. orion_run s L \<and> ors_clients s = [example_orion_client :: 'p orion_client] \<and> (7, Url_Cluster) \<in> L \<and> (7, Url_Listener) \<in> L"
proof -
  let ?c0 = "new_orion_client example_ip 7 :: 'p orion_client"
  let ?s1 = "new_orion_server\<lparr>ors_clients := [?c0]\<rparr> :: 'p orion_server"
  have o: "open_delta_stream (Some example_ip) 7 (new_orion_server :: 'p orion_server) = Inr ?s1"
    by (simp add: open_delta_stream_def orion_add_or_replace_entry new_orion_server_def)
  have r1: "orion_run ?s1 {}"
    by (rule connect [OF start _ _ o]) (simp_all add: new_orion_server_def)
  have id: "fetch_gateway_id_by_node_id example_pods \<lparr>en_id = ''pod'', en_cluster = ''ns''\<rparr> = Some ''ns.gw''"
    by (simp add: fetch_gateway_id_by_node_id_def example_pods_def create_id_def)
  have find: "orion_client_by_client_id example_ip [?c0] = Some ?c0" "orc_sender ?c0 = 7"
    "orion_client_by_client_id example_ip [example_orion_client :: 'p orion_client] = Some example_orion_client"
    "orc_sender (example_orion_client :: 'p orion_client) = 7"
    by (simp_all add: orion_client_by_client_id_def new_orion_client_def example_orion_client_def)
  have asked: "orion_run (handle_delta_request example_pods example_ip 7 (example_delta_request url) s) (L \<union> {(7, url)}) \<and>
      ors_clients (handle_delta_request example_pods example_ip 7 (example_delta_request url) s) = [example_orion_client] \<and>
      ors_managed (handle_delta_request example_pods example_ip 7 (example_delta_request url) s) = []"
    if run: "orion_run s L" and c: "ors_clients s = [?c0] \<or> ors_clients s = [example_orion_client]" and m: "ors_managed s = []"
      and url: "url \<in> {Url_Cluster, Url_Listener}" for s :: "'p orion_server" and L url
  proof -
    have tx: "\<forall>c. orion_client_by_client_id example_ip (ors_clients s) = Some c \<longrightarrow> orc_sender c = 7" using c find by auto
    have l: "listed_by example_pods example_ip 7 (example_delta_request url) s = {(7, url)}"
      using url c find by (auto simp: listed_by_def example_delta_request_def id)
    have u: "orion_update_client c ''ns.gw'' s = (example_orion_client, s\<lparr>ors_clients := [example_orion_client]\<rparr>)"
      if "ors_clients s = [c]" "c = ?c0 \<or> c = example_orion_client" for c
      using that m by (auto simp: orion_update_client_def example_orion_client_def new_orion_client_def write_client_def orion_update_from_def Let_def)
    obtain c where "ors_clients s = [c]" "c = ?c0 \<or> c = example_orion_client" using c by blast
    then have "handle_delta_request example_pods example_ip 7 (example_delta_request url) s = send_delta 7 (type_url_to_string url) [] [] (s\<lparr>ors_clients := [example_orion_client]\<rparr>)"
      using url find u [of c] by (auto simp: handle_delta_request_def example_delta_request_def id example_orion_client_def new_orion_client_def)
    then show ?thesis using request [OF run tx, of example_pods "example_delta_request url"] m by (simp add: l send_delta_def)
  qed
  have "orion_run (handle_delta_request example_pods example_ip 7 (example_delta_request Url_Listener)
      (handle_delta_request example_pods example_ip 7 (example_delta_request Url_Cluster) ?s1)) ({(7, Url_Cluster)} \<union> {(7, Url_Listener)})"
    "ors_clients (handle_delta_request example_pods example_ip 7 (example_delta_request Url_Listener)
      (handle_delta_request example_pods example_ip 7 (example_delta_request Url_Cluster) ?s1)) = [example_orion_client]"
    using asked [OF r1, of Url_Cluster] asked [of "handle_delta_request example_pods example_ip 7 (example_delta_request Url_Cluster) ?s1" "{(7, Url_Cluster)}" Url_Listener]
    by (simp_all add: new_orion_server_def)
  then show ?thesis by blast
qed


end
