(* ===== verification/Orion_Deployer.thy ===== *)
theory Orion_Deployer
  imports Envoy_Deployer Orion_Server
begin

section \<open>The Orion deployer\<close>

text \<open>
  \<open>backends/envoy/orion_xds_backend/orion_deployer.rs\<close>: the objects that run Orion for a gateway, the
  resources sent to its discovery server and the loop over the events of the gateways. The file is a copy
  of the Envoy deployer with its own pod, templates and configuration map, and is modelled as such; the
  lemmas below show where the two agree. The API objects and messages are those of \<open>Kube_Workloads\<close>
  and \<open>Envoy_Deployer\<close>, as are the parameters: the template engine, the answers of the API server.
\<close>

subsection \<open>Names\<close>

definition orion_config_map_names :: "gateway \<Rightarrow> string \<times> string" where
  "orion_config_map_names g = (gateway_name g @ ''-xds-cm'', gateway_name g @ ''-bootstrap-cm'')"

definition orion_secret_name :: "resource_key \<Rightarrow> string" where
  "orion_secret_name k = rk_name k @ ''_'' @ rk_namespace k"

definition orion_certificate_name :: "resource_key \<Rightarrow> string" where
  "orion_certificate_name k = rk_name k @ ''_'' @ rk_namespace k @ ''_cert.pem''"

definition orion_key_name :: "resource_key \<Rightarrow> string" where
  "orion_key_name k = rk_name k @ ''_'' @ rk_namespace k @ ''_key.pem''"

definition orion_port_name :: "string \<Rightarrow> 32 word \<Rightarrow> string \<Rightarrow> string" where
  "orion_port_name gw port proto = gw @ ''-'' @ show_i32 port @ ''-'' @ ascii_lower proto"

subsection \<open>Objects\<close>

definition orion_labels :: "gateway \<Rightarrow> (string \<times> string) list" where
  "orion_labels g = []"

definition ORION_POD_SPEC :: pod_spec where
  "ORION_POD_SPEC =
     \<lparr>pos_containers =
        [\<lparr>ctr_name = ''orion'',
          ctr_image = ''ghcr.io/kmesh-net/orion:0.1.0'',
          ctr_image_pull_policy = ''IfNotPresent'',
          ctr_command = [''/orion''],
          ctr_args = [''--config'', ''/orion-config/orion-config.yaml'', ''--with-envoy-bootstrap'', ''/orion-config/envoy-bootstrap.yaml''],
          ctr_env = [(''POD_NAMESPACE'', Env_FieldPath ''metadata.namespace''), (''POD_NAME'', Env_FieldPath ''metadata.name'')],
          ctr_ports = Some [],
          ctr_readiness_probe = Some \<lparr>rpr_path = Some ''/ready'', rpr_port = 9901, rpr_initial_delay_seconds = 3, rpr_period_seconds = 20\<rparr>,
          ctr_volume_mounts =
            [\<lparr>vmt_name = ''orion-config'', vmt_mount_path = ''/orion-config'', vmt_read_only = True\<rparr>,
             \<lparr>vmt_name = ''orion-secrets'', vmt_mount_path = ''/orion-secrets'', vmt_read_only = True\<rparr>]\<rparr>],
      pos_volumes = Some [\<lparr>vol_name = ''orion-config'', vol_source = Vol_ConfigMap ''orion-cm''
        (Some [\<lparr>ktp_key = ''orion-config.yaml'', ktp_path = ''orion-config.yaml''\<rparr>,
           \<lparr>ktp_key = ''envoy-bootstrap.yaml'', ktp_path = ''envoy-bootstrap.yaml''\<rparr>])\<rparr>]\<rparr>"

text \<open>The certificates in the order of the set, and their keys.\<close>

definition orion_secret_volumes :: "listener list \<Rightarrow> volume list" where
  "orion_secret_volumes listeners =
     (let all_certificates = fold (bset_insert certificate_rank) (concat (map (\<lambda>l. case l of
            L_Https d \<Rightarrow> (case lc_tls_type (ld_config d) of Some (TT_Terminate certificates) \<Rightarrow> certificates | _ \<Rightarrow> [])
          | _ \<Rightarrow> []) listeners)) [];
          keys = List.map_filter (\<lambda>c. case c of
            C_ResolvedSameSpace k _ \<Rightarrow> Some k
          | C_NotResolved _ \<Rightarrow> None | C_Invalid _ \<Rightarrow> None | C_ResolvedCrossSpace _ _ \<Rightarrow> None) all_certificates
      in [\<lparr>vol_name = ''orion-secrets'', vol_source = Vol_Projected (map (\<lambda>k.
            \<lparr>spj_name = rk_name k,
             spj_items = Some [\<lparr>ktp_key = ''tls.crt'', ktp_path = orion_certificate_name k\<rparr>,
               \<lparr>ktp_key = ''tls.key'', ktp_path = orion_key_name k\<rparr>]\<rparr>) keys)\<rparr>])"

definition orion_deployment :: "string \<Rightarrow> gateway \<Rightarrow> deployment" where
  "orion_deployment version g =
     (let ports = dedup_by (\<lambda>p. (cp_container_port p, cp_protocol p))
            (map (\<lambda>l. \<lparr>cp_container_port = listener_port l, cp_protocol = Some ''TCP''\<rparr>) (gateway_listeners g));
          labels = bset_replace fst (''app'', gateway_name g) (orion_labels g);
          containers = (case pos_containers ORION_POD_SPEC of [] \<Rightarrow> [] | c # cs \<Rightarrow> c\<lparr>ctr_ports := Some ports\<rparr> # cs);
          bootstrap_cm = snd (orion_config_map_names g);
          volumes = \<lparr>vol_name = ''orion-config'', vol_source = Vol_ConfigMap bootstrap_cm
            (Some [\<lparr>ktp_key = ''orion-config.yaml'', ktp_path = ''orion-config.yaml''\<rparr>,
               \<lparr>ktp_key = ''envoy-bootstrap.yaml'', ktp_path = ''envoy-bootstrap.yaml''\<rparr>])\<rparr>
            # orion_secret_volumes (gateway_listeners g)
      in \<lparr>dpl_metadata = \<lparr>wm_name = gateway_name g, wm_namespace = gateway_namespace g, wm_labels = Some labels,
            wm_annotations = Some [(''gateway-version'', version)]\<rparr>,
          dpl_replicas = 1, dpl_selector = labels, dpl_template_labels = labels,
          dpl_pod_spec = ORION_POD_SPEC\<lparr>pos_containers := containers, pos_volumes := Some volumes\<rparr>\<rparr>)"

definition orion_service :: "gateway \<Rightarrow> gateway_service" where
  "orion_service g =
     (let ports = dedup_by (\<lambda>p. (gsp_port p, gsp_protocol p)) (map (\<lambda>l.
            \<lparr>gsp_name = orion_port_name (gateway_name g) (listener_port l) (protocol_to_string (listener_protocol l)),
             gsp_port = listener_port l, gsp_protocol = ''TCP'', gsp_target_port = listener_port l\<rparr>) (gateway_listeners g))
      in \<lparr>gsv_metadata = \<lparr>wm_name = gateway_name g, wm_namespace = gateway_namespace g, wm_labels = Some (orion_labels g),
            wm_annotations = None\<rparr>,
          gsv_selector = [(''app'', gateway_name g)], gsv_ports = ports, gsv_type = ''LoadBalancer'', gsv_status = None\<rparr>)"

definition create_orion_bootstrap_config_map :: "string \<Rightarrow> string \<Rightarrow> gateway \<Rightarrow> string \<Rightarrow> string \<Rightarrow> config_map" where
  "create_orion_bootstrap_config_map version name g orion_config envoy_bootstrap_content =
     \<lparr>cfm_metadata = \<lparr>wm_name = name, wm_namespace = gateway_namespace g, wm_labels = None,
        wm_annotations = Some [(''gateway-version'', version)]\<rparr>,
      cfm_data = [(''envoy-bootstrap.yaml'', envoy_bootstrap_content), (''orion-config.yaml'', orion_config)]\<rparr>"

definition orion_service_account :: "gateway \<Rightarrow> service_account" where
  "orion_service_account g = \<lparr>sac_metadata = \<lparr>wm_name = gateway_name g, wm_namespace = gateway_namespace g,
     wm_labels = Some (orion_labels g), wm_annotations = None\<rparr>\<rparr>"

subsection \<open>Configuration files\<close>

text \<open>The template of \<open>orion-config.yaml\<close> is rendered in the empty context, the others in a \<open>tera_context\<close>.\<close>

record orion_templates =
  otp_render :: renderer
  otp_config :: "string + string"

definition orion_bootstrap_content_with_secrets :: "renderer \<Rightarrow> control_plane_config \<Rightarrow> resource_key list \<Rightarrow> string + string" where
  "orion_bootstrap_content_with_secrets render c secrets =
     (let tera_secrets = bset_from (\<lambda>s. (tse_name s, tse_certificate s, tse_key s)) (map (\<lambda>k.
          \<lparr>tse_name = orion_secret_name k, tse_certificate = orion_certificate_name k, tse_key = orion_key_name k\<rparr>) secrets)
      in render ''orion-bootstrap-dynamic-with-secrets.yaml.tera''
           \<lparr>tct_secrets = (if tera_secrets = [] then None else Some tera_secrets),
            tct_control_plane_host = addr_hostname (cpc_listening_socket c),
            tct_control_plane_port = addr_port (cpc_listening_socket c),
            tct_resolver_type = (if parses_as_ip (addr_hostname (cpc_listening_socket c)) then ''STATIC'' else ''STRICT_DNS'')\<rparr>)"

definition orion_bootstrap_content :: "renderer \<Rightarrow> control_plane_config \<Rightarrow> string + string" where
  "orion_bootstrap_content render c =
     render ''orion-bootstrap-dynamic.yaml.tera''
       \<lparr>tct_secrets = None, tct_control_plane_host = addr_hostname (cpc_listening_socket c),
        tct_control_plane_port = addr_port (cpc_listening_socket c),
        tct_resolver_type = (if parses_as_ip (addr_hostname (cpc_listening_socket c)) then ''STATIC'' else ''STRICT_DNS'')\<rparr>"

definition config_content :: "orion_templates \<Rightarrow> control_plane_config \<Rightarrow> string + string" where
  "config_content t c = otp_config t"

subsection \<open>Discovery resources\<close>

definition orion_effective_hostnames :: "string \<Rightarrow> string list" where
  "orion_effective_hostnames hostname = [hostname]"

definition orion_virtual_hosts_from_xds :: "envoy_virtual_host list \<Rightarrow> xds_virtual_host list" where
  "orion_virtual_hosts_from_xds = map (\<lambda>vh.
     \<lparr>xvh_name = evh_name vh, xvh_domains = evh_effective_hostnames vh, xvh_routes = evh_http_routes vh @ evh_grpc_routes vh\<rparr>)"

definition orion_listener_resource :: "envoy_listener \<Rightarrow> (xds_listener \<times> resource_key list) option" where
  "orion_listener_resource l =
     (let name = el_name l;
          ext_filters = (if el_enable_ext_proc l
            then [\<lparr>hfl_name = INFERENCE_EXT_PROC_FILTER_NAME, hfl_config = Filter_ExtProc
              \<lparr>exp_request_header_mode = Send_Skip, exp_response_header_mode = Send_Skip, exp_target_uri = ''127.0.0.1:1000'',
               exp_stat_prefix = name @ ''ext_filter_stats'', exp_message_timeout_seconds = 2,
               exp_failure_mode_allow = True, exp_allow_mode_override = True, exp_send_body_without_waiting = True\<rparr>\<rparr>]
            else []);
          router_filter = \<lparr>hfl_name = name @ ''-http-connection-manager-route-filter'', hfl_config = Filter_Router\<rparr>;
          manager = \<lparr>hcm_stat_prefix = name, hcm_codec_type = ''AUTO'', hcm_http_filters = ext_filters @ [router_filter],
            hcm_route_config = \<lparr>rcf_name = name @ ''-route'',
              rcf_virtual_hosts = orion_virtual_hosts_from_xds (el_http_listener_map l), rcf_validate_clusters = Some False\<rparr>\<rparr>;
          secrets = (case el_tls_type l of
              Some (TT_Terminate cs) \<Rightarrow> List.map_filter (\<lambda>c. case c of
                  C_ResolvedSameSpace k _ \<Rightarrow> Some k
                | C_NotResolved _ \<Rightarrow> None | C_Invalid _ \<Rightarrow> None | C_ResolvedCrossSpace _ _ \<Rightarrow> None) cs
            | _ \<Rightarrow> []);
          transport_socket = (case el_tls_type l of
              Some (TT_Terminate cs) \<Rightarrow> Some (name @ ''-downstream-tls-context'',
                \<lparr>dtc_require_client_certificate = False, dtc_full_scan_certs_on_sni_mismatch = True,
                 dtc_sds_secret_names = map orion_secret_name secrets\<rparr>)
            | _ \<Rightarrow> None)
      in map_option (\<lambda>address.
          (\<lparr>xdl_name = name, xdl_address = address, xdl_listener_filters = [name @ ''-tls-inspector''],
            xdl_filter_chains = [\<lparr>fch_transport_socket = transport_socket,
              fch_filters = [(name @ ''-http-connection-manager'', manager)]\<rparr>]\<rparr>, secrets))
        (socket_address_from l))"

definition orion_create_resources :: "domain_patterns \<Rightarrow> enum_ranks \<Rightarrow> gateway \<Rightarrow> xds_resources option" where
  "orion_create_resources dp rk g =
     Option.bind (generate_envoy_listeners dp rk (new_generator g Orion orion_effective_hostnames)) (\<lambda>gen.
     Option.bind (those (map (\<lambda>(_, l). orion_listener_resource l) (gen_resources gen))) (\<lambda>listeners.
     Option.bind (generate_envoy_clusters gen) (\<lambda>clusters. Some
       \<lparr>xre_listeners = map (\<lambda>(l, _). create_listener_resource l) listeners,
        xre_clusters = map create_cluster_resource clusters,
        xre_secrets = dedup_by rk_name (concat (map snd listeners))\<rparr>)))"

subsection \<open>Deploying\<close>

text \<open>The first template that fails to render stops the deployment before the first request.\<close>

definition deploy_orion ::
    "orion_templates \<Rightarrow> string \<times> string \<Rightarrow> control_plane_config \<Rightarrow> apply_replies \<Rightarrow> gateway \<Rightarrow> resource_key list \<Rightarrow> kube_call list \<times> gateway_service option" where
  "deploy_orion t versions c replies g secrets =
     (let bootstrap_cm = snd (orion_config_map_names g);
          call2 = Apply_Deployment (gateway_name g) (orion_deployment (fst versions) g);
          call3 = Apply_Service (gateway_name g) (orion_service g);
          call4 = Apply_ServiceAccount (gateway_name g) (orion_service_account g)
      in case (if secrets = [] then orion_bootstrap_content (otp_render t) c
               else orion_bootstrap_content_with_secrets (otp_render t) c secrets) of
           Inl _ \<Rightarrow> ([], None)
         | Inr bootstrap \<Rightarrow> (case config_content t c of
               Inl _ \<Rightarrow> ([], None)
             | Inr config \<Rightarrow>
                 (let call1 = Apply_ConfigMap bootstrap_cm (create_orion_bootstrap_config_map (snd versions) bootstrap_cm g config bootstrap)
                  in if \<not> apr_config_map replies then ([call1], None)
                     else if \<not> apr_deployment replies then ([call1, call2], None)
                     else (case apr_service replies of
                         None \<Rightarrow> ([call1, call2, call3], None)
                       | Some service \<Rightarrow> ([call1, call2, call3, call4], if apr_service_account replies then Some service else None)))))"

definition delete_orion :: "gateway \<Rightarrow> kube_call list" where
  "delete_orion g = [Delete_ServiceAccount (gateway_name g), Delete_Service (gateway_name g), Delete_Deployment (gateway_name g),
     Delete_ConfigMap (fst (orion_config_map_names g)), Delete_ConfigMap (snd (orion_config_map_names g))]"

subsection \<open>Addresses\<close>

definition orion_find_gateway_addresses :: "gateway_service \<Rightarrow> string list option" where
  "orion_find_gateway_addresses s =
     (let ips = (case Option.bind (Option.bind (gsv_status s) sst_load_balancer) lbs_ingress of
          Some ingress \<Rightarrow> List.map_filter lbi_ip ingress
        | None \<Rightarrow> [])
      in if ips = [] then None else Some ips)"

definition orion_update_addresses :: "ip_addresses \<Rightarrow> gateway_service \<Rightarrow> gateway \<Rightarrow> gateway \<times> bool" where
  "orion_update_addresses ip service g = (case orion_find_gateway_addresses service of
       Some ips \<Rightarrow> (g\<lparr>gw_addresses := bset_append (address_rank ip) (gw_addresses g)
           (bset_from (address_rank ip) (map (\<lambda>a. GA_IPAddress (ipa_text ip a)) (filter parses_as_ip ips)))\<rparr>, True)
     | None \<Rightarrow> (g, False))"

partial_function (option) orion_poll_service ::
    "ip_addresses \<Rightarrow> (nat \<Rightarrow> gateway_service option) \<Rightarrow> gateway \<Rightarrow> kube_gateway \<Rightarrow> string \<Rightarrow> nat \<Rightarrow> backend_gateway_response list option" where
  "orion_poll_service ip answers g kg class_name n = (case answers n of
       Some service \<Rightarrow>
         (if snd (orion_update_addresses ip service g)
          then Some [ProcessedWithContext (fst (orion_update_addresses ip service g)) kg class_name]
          else orion_poll_service ip answers g kg class_name (n + 1))
     | None \<Rightarrow> Option.bind (orion_poll_service ip answers g kg class_name (n + 1)) (\<lambda>rs. Some (Processed g # rs)))"

definition orion_update_address_with_polling :: "ip_addresses \<Rightarrow> gateway_service \<Rightarrow> gateway \<Rightarrow> kube_gateway \<Rightarrow> string \<Rightarrow> address_update" where
  "orion_update_address_with_polling ip service g kg class_name = (case orion_find_gateway_addresses service of
       Some ips \<Rightarrow> Addresses_Known (ProcessedWithContext (g\<lparr>gw_addresses := bset_append (address_rank ip) (gw_addresses g)
           (bset_from (address_rank ip) (map (\<lambda>a. GA_IPAddress (ipa_text ip a)) (filter parses_as_ip ips)))\<rparr>) kg class_name)
     | None \<Rightarrow> Poll_For service g kg class_name)"

subsection \<open>The event loop\<close>

record orion_env =
  oen_patterns :: domain_patterns
  oen_ranks :: enum_ranks
  oen_templates :: orion_templates
  oen_ip :: ip_addresses
  oen_config :: control_plane_config

definition no_output :: deployer_output where
  "no_output = \<lparr>dou_calls = [], dou_actions = [], dou_responses = [], dou_addresses = None, dou_reply_deleted = False\<rparr>"

fun handle_orion_event ::
    "orion_env \<Rightarrow> string \<times> string \<Rightarrow> apply_replies \<Rightarrow> backend_gateway_event \<Rightarrow> deployer_versions \<Rightarrow> (deployer_output \<times> deployer_versions) option" where
  "handle_orion_event env uuids replies (Changed g kg class_name) versions =
     map_option (\<lambda>resources.
       let key = gw_resource_key g;
           ack_version = (case map_of versions key of None \<Rightarrow> default_versions | Some v \<Rightarrow> inc_versions v);
           (calls, maybe_service) = deploy_orion (oen_templates env) uuids (oen_config env) replies g (xre_secrets resources);
           out = (case maybe_service of
               None \<Rightarrow> no_output\<lparr>dou_calls := calls, dou_responses := [Processed g]\<rparr>
             | Some service \<Rightarrow>
                 (let actions = [UpdateClusters key (xre_clusters resources) (av_cluster ack_version),
                        UpdateListeners key (xre_listeners resources) (av_listener ack_version)]
                  in case orion_update_address_with_polling (oen_ip env) service g kg class_name of
                       Addresses_Known response \<Rightarrow> no_output\<lparr>dou_calls := calls, dou_actions := actions, dou_responses := [response]\<rparr>
                     | Poll_For s g' kg' cn \<Rightarrow> no_output\<lparr>dou_calls := calls, dou_actions := actions, dou_addresses := Some (Poll_For s g' kg' cn)\<rparr>))
       in (out, bset_replace fst (key, ack_version) versions))
     (orion_create_resources (oen_patterns env) (oen_ranks env) g)"
| "handle_orion_event env uuids replies (Deleted g) versions =
     Some (no_output\<lparr>dou_calls := delete_orion g, dou_reply_deleted := True\<rparr>, bset_remove fst (gw_resource_key g) versions)"

subsection \<open>What the copy shares with the original\<close>

lemma orion_same_objects:
  "orion_config_map_names = config_map_names" "orion_service = create_service" "orion_service_account = create_service_account"
  "delete_orion = delete_envoy" "orion_secret_name = create_secret_name" "orion_certificate_name = create_certificate_name"
  "orion_key_name = create_key_name"
  by (simp_all add: fun_eq_iff orion_config_map_names_def config_map_names_def orion_service_def create_service_def orion_service_account_def
      create_service_account_def orion_labels_def create_labels_def delete_orion_def delete_envoy_def orion_port_name_def port_name_def
      orion_secret_name_def create_secret_name_def orion_certificate_name_def create_certificate_name_def orion_key_name_def create_key_name_def)

lemma orion_same_addresses:
  "orion_find_gateway_addresses = find_gateway_addresses" "orion_update_addresses = update_addresses"
  "orion_update_address_with_polling = update_address_with_polling"
proof -
  show a: "orion_find_gateway_addresses = find_gateway_addresses"
    by (auto simp: fun_eq_iff orion_find_gateway_addresses_def find_gateway_addresses_def split: option.splits)
  show "orion_update_addresses = update_addresses"
    by (simp add: fun_eq_iff orion_update_addresses_def update_addresses_def append_addresses_def a split: option.split)
  show "orion_update_address_with_polling = update_address_with_polling"
    by (simp add: fun_eq_iff orion_update_address_with_polling_def update_address_with_polling_def append_addresses_def a split: option.split)
qed

lemma orion_polls_like_envoy: "orion_poll_service ip answers g kg class_name n = poll_service ip answers g kg class_name n"
proof -
  have "orion_poll_service ip answers g kg class_name n = Some rs" if "poll_service ip answers g kg class_name n = Some rs" for rs
    using that
  proof (rule poll_service.raw_induct [rotated])
    fix poll ip and answers :: "nat \<Rightarrow> gateway_service option" and g kg class_name and n :: nat and rs
    assume "\<And>ip answers g kg class_name n rs. poll ip answers g kg class_name n = Some rs \<Longrightarrow> orion_poll_service ip answers g kg class_name n = Some rs"
      and "(case answers n of
       Some service \<Rightarrow>
         (if snd (update_addresses ip service g)
          then Some [ProcessedWithContext (fst (update_addresses ip service g)) kg class_name]
          else poll ip answers g kg class_name (n + 1))
     | None \<Rightarrow> Option.bind (poll ip answers g kg class_name (n + 1)) (\<lambda>rs. Some (Processed g # rs))) = Some rs"
    then show "orion_poll_service ip answers g kg class_name n = Some rs"
      by (subst orion_poll_service.simps) (auto simp: orion_same_addresses split: option.splits if_splits bind_splits)
  qed
  moreover have "poll_service ip answers g kg class_name n = Some rs" if "orion_poll_service ip answers g kg class_name n = Some rs" for rs
    using that
  proof (rule orion_poll_service.raw_induct [rotated])
    fix poll ip and answers :: "nat \<Rightarrow> gateway_service option" and g kg class_name and n :: nat and rs
    assume "\<And>ip answers g kg class_name n rs. poll ip answers g kg class_name n = Some rs \<Longrightarrow> poll_service ip answers g kg class_name n = Some rs"
      and "(case answers n of
       Some service \<Rightarrow>
         (if snd (orion_update_addresses ip service g)
          then Some [ProcessedWithContext (fst (orion_update_addresses ip service g)) kg class_name]
          else poll ip answers g kg class_name (n + 1))
     | None \<Rightarrow> Option.bind (poll ip answers g kg class_name (n + 1)) (\<lambda>rs. Some (Processed g # rs))) = Some rs"
    then show "poll_service ip answers g kg class_name n = Some rs"
      by (subst poll_service.simps) (auto simp: orion_same_addresses split: option.splits if_splits bind_splits)
  qed
  ultimately show ?thesis by (cases "poll_service ip answers g kg class_name n") fastforce+
qed

subsection \<open>The resources of the two deployers\<close>

text \<open>How the generator of Orion differs: its calculator yields the first of the domains Envoy's yields.\<close>

definition orion_vhost :: "envoy_virtual_host \<Rightarrow> envoy_virtual_host" where
  "orion_vhost vh = vh\<lparr>evh_effective_hostnames := take 1 (evh_effective_hostnames vh)\<rparr>"

definition orion_port :: "32 word \<times> envoy_listener \<Rightarrow> 32 word \<times> envoy_listener" where
  "orion_port = apsnd (\<lambda>el. el\<lparr>el_http_listener_map := map orion_vhost (el_http_listener_map el)\<rparr>)"

definition orion_generator :: "resource_generator \<Rightarrow> resource_generator" where
  "orion_generator gen = gen\<lparr>gen_resources := map orion_port (gen_resources gen), gen_implementation_type := Orion,
     gen_calculator := orion_effective_hostnames\<rparr>"

lemma orion_keys [simp]: "evh_name (orion_vhost vh) = evh_name vh" "fst (orion_port e) = fst e"
  by (simp_all add: orion_vhost_def orion_port_def)

lemma bset_replace_map: "(\<And>x. key (f x) = key x) \<Longrightarrow> bset_replace key (f x) (map f xs) = map f (bset_replace key x xs)"
  by (induction xs) auto

lemma bset_append_map: "(\<And>x. key (f x) = key x) \<Longrightarrow> bset_append key (map f xs) (map f ys) = map f (bset_append key xs ys)"
  unfolding bset_append_def by (induction ys arbitrary: xs) (simp_all add: bset_replace_map)

lemma bset_from_map: "(\<And>x. key (f x) = key x) \<Longrightarrow> bset_from key (map f xs) = map f (bset_from key xs)"
  using bset_append_map [of key f "[]" xs] by (simp add: bset_from_def)

lemma bset_get_map: "(\<And>x. key (f x) = key x) \<Longrightarrow> bset_get key k (map f xs) = map_option f (bset_get key k xs)"
  unfolding bset_get_def by (induction xs) auto

lemma sort_key_map: "(\<And>x. key (f x) = key x) \<Longrightarrow> sort_key key (map f xs) = map f (sort_key key xs)"
proof (induction xs)
  case (Cons x xs)
  have "insort_key key (f x) (map f ys) = map f (insort_key key x ys)" for ys using Cons.prems by (induction ys) auto
  with Cons show ?case by simp
qed simp

lemma dedup_by_map: "(\<And>x. key (f x) = key x) \<Longrightarrow> dedup_by key (map f xs) = map f (dedup_by key xs)"
  by (induction key xs rule: dedup_by.induct) simp_all

lemma vhost_of_orion: "vhost_of dp rk orion_effective_hostnames l h = orion_vhost (vhost_of dp rk calculate_effective_hostnames l h)"
  by (simp add: vhost_of_def orion_vhost_def calculate_hostnames_common_def orion_effective_hostnames_def calculate_effective_hostnames_def Let_def)

lemma generate_listener_orion:
  assumes "gen_calculator gen = calculate_effective_hostnames"
  shows "generate_envoy_listener dp rk gname l (orion_generator gen) =
    map_option (\<lambda>(el, gen'). (snd (orion_port (p, el)), orion_generator gen')) (generate_envoy_listener dp rk gname l gen)"
  by (simp add: generate_envoy_listener_eq orion_generator_def orion_port_def assms vhost_of_orion comp_def)

lemma map_listener_orion:
  assumes "gen_calculator gen = calculate_effective_hostnames"
  shows "map_listener dp rk l (map orion_port acc, orion_generator gen) =
    map_option (\<lambda>(acc, gen). (map orion_port acc, orion_generator gen)) (map_listener dp rk l (acc, gen))"
proof -
  have r: "map orion_port (bset_replace port_key e acc) = bset_replace port_key (orion_port e) (map orion_port acc)" for e
    by (rule bset_replace_map [symmetric]) simp
  have pair: "orion_port (p, el) = (p, el\<lparr>el_http_listener_map := map orion_vhost (el_http_listener_map el)\<rparr>)" for p el
    by (simp add: orion_port_def)
  have g: "bset_get port_key k (map orion_port acc) = map_option orion_port (bset_get port_key k acc)" for k
    by (rule bset_get_map) simp
  have gw: "gen_gateway (orion_generator gen) = gen_gateway gen" by (simp add: orion_generator_def)
  have a: "map orion_vhost (bset_append evh_name xs ys) = bset_append evh_name (map orion_vhost xs) (map orion_vhost ys)" for xs ys
    by (rule bset_append_map [symmetric]) simp
  note step = map_listener_def g gw Let_def generate_envoy_listener_eq orion_generator_def assms r pair
  have vh: "map (vhost_of dp rk orion_effective_hostnames l) hs = map orion_vhost (map (vhost_of dp rk calculate_effective_hostnames l) hs)" for hs
    by (simp add: vhost_of_orion)
  have swap: "el\<lparr>el_tcp_listener_map := t, el_http_listener_map := h\<rparr> = el\<lparr>el_http_listener_map := h, el_tcp_listener_map := t\<rparr>"
    for el :: envoy_listener and t h by (cases el) simp
  show ?thesis
  proof (cases "bset_get port_key (sint (listener_port l)) acc")
    case None
    then show ?thesis by (cases "listener_protocol l") (simp_all add: step vh del: map_map)
  next
    case (Some e)
    then show ?thesis by (cases e; cases "listener_protocol l") (simp_all add: step vh a swap del: map_map)
  qed
qed

lemma map_listener_calculator:
  "map_listener dp rk l (acc, gen) = Some (acc', gen') \<Longrightarrow> gen_calculator gen' = gen_calculator gen"
  by (auto simp: map_listener_def Let_def generate_envoy_listener_eq split: option.splits protocol_type.splits)

lemma map_listeners_orion:
  "gen_calculator gen = calculate_effective_hostnames \<Longrightarrow> map_listeners_by_port dp rk ls (map orion_port acc, orion_generator gen) =
    map_option (\<lambda>(acc, gen). (map orion_port acc, orion_generator gen)) (map_listeners_by_port dp rk ls (acc, gen))"
proof (induction ls arbitrary: acc gen)
  case (Cons l ls)
  show ?case
  proof (cases "map_listener dp rk l (acc, gen)")
    case None
    then show ?thesis by (simp add: map_listener_orion [OF Cons.prems])
  next
    case (Some e)
    then obtain acc' gen' where e: "map_listener dp rk l (acc, gen) = Some (acc', gen')" by (cases e) auto
    then have "gen_calculator gen' = calculate_effective_hostnames" using map_listener_calculator Cons.prems by metis
    then show ?thesis using e by (simp add: map_listener_orion [OF Cons.prems] Cons.IH)
  qed
qed simp

lemma generated_listeners_orion:
  "generate_envoy_listeners dp rk (new_generator g Orion orion_effective_hostnames) =
     map_option orion_generator (generate_envoy_listeners dp rk (new_generator g Envoy calculate_effective_hostnames))"
proof -
  let ?gen = "new_generator g Envoy calculate_effective_hostnames"
  have o: "new_generator g Orion orion_effective_hostnames = orion_generator ?gen" by (simp add: new_generator_def orion_generator_def)
  have "gen_calculator ?gen = calculate_effective_hostnames" by (simp add: new_generator_def)
  note m = map_listeners_orion [OF this, of dp rk "gateway_listeners g" "[]"]
  show ?thesis
    using m unfolding o
    by (cases "map_listeners_by_port dp rk (gateway_listeners g) ([], ?gen)")
      (auto simp: generate_envoy_listeners_def generate_envoy_listener_mapping_def orion_generator_def new_generator_def)
qed

text \<open>Only the clusters of the endpoint pickers differ, in how Envoy and Orion resolve their name.\<close>

definition orion_cluster :: "envoy_cluster \<Rightarrow> envoy_cluster" where
  "orion_cluster c = c\<lparr>ec_discovery_type := (if ec_discovery_type c = Some Discovery_LogicalDns then Some Discovery_StrictDns else ec_discovery_type c)\<rparr>"

lemma orion_cluster_name [simp]: "ec_name (orion_cluster c) = ec_name c"
  by (simp add: orion_cluster_def)

lemma orion_cluster_same:
  "create_service_cluster c t = Some cl \<Longrightarrow> orion_cluster cl = cl" "create_inference_cluster p = Some cl \<Longrightarrow> orion_cluster cl = cl"
  by (auto simp: create_service_cluster_def create_inference_cluster_def orion_cluster_def split: option.splits)

lemma orion_routes: "routes_of_listeners (map orion_port acc) = routes_of_listeners acc"
  unfolding routes_of_listeners_def by (induction acc) (auto simp: orion_port_def orion_vhost_def comp_def)

lemma ext_service_orion: "generate_ext_service_cluster Orion c = map_option (map_option orion_cluster) (generate_ext_service_cluster Envoy c)"
  by (simp add: generate_ext_service_cluster_def Let_def ext_service_discovery_def orion_cluster_def option.map_comp comp_def split: option.split)

lemma those_map_option: "those (map (\<lambda>x. map_option f (g x)) xs) = map_option (map f) (those (map g xs))"
  by (induction xs) (auto simp: option.map_comp comp_def split: option.splits)

lemma map_filter_id_map: "List.map_filter (\<lambda>c. c) (map (map_option f) xs) = map f (List.map_filter (\<lambda>c. c) xs)"
  by (induction xs) (auto simp: List.map_filter_simps split: option.splits)

lemma clusters_orion:
  assumes "gen_implementation_type gen = Envoy"
  shows "generate_envoy_clusters (orion_generator gen) = map_option (map orion_cluster) (generate_envoy_clusters gen)"
proof -
  have fixed: "map orion_cluster cls = cls" if "those (concat (map clusters_of_route rs)) = Some cls" for rs cls
  proof -
    have "concat (map clusters_of_route rs) = map Some cls" using that by (simp add: those_Some_iff)
    then have "Some cl \<in> set (concat (map clusters_of_route rs))" if "cl \<in> set cls" for cl using that by simp
    then have "orion_cluster cl = cl" if "cl \<in> set cls" for cl
      using that orion_cluster_same by (fastforce simp: clusters_of_route_def)
    then show ?thesis by (simp add: map_idI)
  qed
  have all: "dedup_by ec_name (sort_key ec_name (bset_from ec_name cls @ List.map_filter (\<lambda>c. c) (map (map_option orion_cluster) es))) =
      map orion_cluster (dedup_by ec_name (sort_key ec_name (bset_from ec_name cls @ List.map_filter (\<lambda>c. c) es)))"
    if "map orion_cluster cls = cls" for cls es
  proof -
    have "bset_from ec_name cls @ List.map_filter (\<lambda>c. c) (map (map_option orion_cluster) es) =
        map orion_cluster (bset_from ec_name cls @ List.map_filter (\<lambda>c. c) es)"
      using bset_from_map [of ec_name orion_cluster cls] that by (simp add: map_filter_id_map)
    then show ?thesis by (simp only: sort_key_map dedup_by_map orion_cluster_name)
  qed
  show ?thesis
    using assms fixed [of "routes_of_listeners (gen_resources gen)"]
    by (simp add: generate_envoy_clusters_def orion_generator_def orion_routes ext_service_orion [abs_def] those_map_option all split: option.split)
qed

text \<open>The listener resource: Orion waits for no response header, and each virtual host has its first domain only.\<close>

definition orion_filter :: "http_filter \<Rightarrow> http_filter" where
  "orion_filter f = f\<lparr>hfl_config := (case hfl_config f of
       Filter_ExtProc p \<Rightarrow> Filter_ExtProc (p\<lparr>exp_send_body_without_waiting := True\<rparr>)
     | Filter_Router \<Rightarrow> Filter_Router)\<rparr>"

definition orion_manager :: "http_connection_manager \<Rightarrow> http_connection_manager" where
  "orion_manager m = m\<lparr>hcm_http_filters := map orion_filter (hcm_http_filters m),
     hcm_route_config := (hcm_route_config m)\<lparr>rcf_virtual_hosts :=
       map (\<lambda>v. v\<lparr>xvh_domains := take 1 (xvh_domains v)\<rparr>) (rcf_virtual_hosts (hcm_route_config m))\<rparr>\<rparr>"

definition orion_xds_listener :: "xds_listener \<Rightarrow> xds_listener" where
  "orion_xds_listener l = l\<lparr>xdl_filter_chains :=
     map (\<lambda>c. c\<lparr>fch_filters := map (apsnd orion_manager) (fch_filters c)\<rparr>) (xdl_filter_chains l)\<rparr>"

fun orion_payload :: "xds_payload \<Rightarrow> xds_payload" where
  "orion_payload (Any_Cluster c) = Any_Cluster (orion_cluster c)"
| "orion_payload (Any_Listener l) = Any_Listener (orion_xds_listener l)"

definition orion_discovery_resource :: "xds_payload discovery_resource \<Rightarrow> xds_payload discovery_resource" where
  "orion_discovery_resource r = r\<lparr>dr_resource := map_option orion_payload (dr_resource r)\<rparr>"

lemma orion_discovery_resource_simps [simp]:
  "dr_name (orion_discovery_resource r) = dr_name r"
  "orion_discovery_resource (create_cluster_resource c) = create_cluster_resource (orion_cluster c)"
  "orion_discovery_resource (create_listener_resource l) = create_listener_resource (orion_xds_listener l)"
  by (simp_all add: orion_discovery_resource_def create_cluster_resource_def create_listener_resource_def orion_xds_listener_def)

lemma orion_listener_resource_eq:
  "orion_listener_resource (snd (orion_port e)) = map_option (apfst orion_xds_listener) (listener_resource_for False (snd e))"
proof -
  have addr: "socket_address_from (el\<lparr>el_http_listener_map := m\<rparr>) = socket_address_from el" for el m
    by (simp add: socket_address_from_def)
  have hosts: "orion_virtual_hosts_from_xds (map orion_vhost vhs) =
      map (\<lambda>v. v\<lparr>xvh_domains := take 1 (xvh_domains v)\<rparr>) (generate_virtual_hosts_from_xds vhs)" for vhs
    by (simp add: orion_virtual_hosts_from_xds_def generate_virtual_hosts_from_xds_def orion_vhost_def)
  show ?thesis
    by (cases "socket_address_from (snd e)"; cases "el_tls_type (snd e)"; cases "el_enable_ext_proc (snd e)")
      (auto simp: orion_listener_resource_def listener_resource_for_def orion_port_def Let_def addr hosts orion_same_objects
        orion_xds_listener_def orion_manager_def orion_filter_def ext_proc_filter_def same_space_keys_def split: tls_type.split)
qed

lemma orion_resources_same:
  "orion_create_resources dp rk g = map_option (\<lambda>r.
     \<lparr>xre_listeners = map orion_discovery_resource (xre_listeners r), xre_clusters = map orion_discovery_resource (xre_clusters r),
      xre_secrets = xre_secrets r\<rparr>) (create_resources dp rk g)"
proof -
  obtain gen where gen: "generate_envoy_listeners dp rk (new_generator g Envoy calculate_effective_hostnames) = Some gen"
    "gen_implementation_type gen = Envoy"
  proof -
    obtain gen acc where "generate_envoy_listeners dp rk (new_generator g Envoy calculate_effective_hostnames) = Some (gen\<lparr>gen_resources := acc\<rparr>)"
      "ports_ok dp rk (new_generator g Envoy calculate_effective_hostnames) (gateway_listeners g) (acc, gen)"
      using generated_listeners_ok by blast
    then show thesis using that by (simp add: ports_ok_def new_generator_def)
  qed
  have "map (\<lambda>(_, l). orion_listener_resource l) (gen_resources (orion_generator gen)) =
      map (\<lambda>e. map_option (apfst orion_xds_listener) ((\<lambda>(_, l). listener_resource_for False l) e)) (gen_resources gen)"
    by (simp add: orion_generator_def orion_listener_resource_eq case_prod_beta)
  then have listeners: "those (map (\<lambda>(_, l). orion_listener_resource l) (gen_resources (orion_generator gen))) =
      map_option (map (apfst orion_xds_listener)) (those (map (\<lambda>(_, l). listener_resource_for False l) (gen_resources gen)))"
    by (simp only: those_map_option)
  have secrets: "map snd (map (apfst orion_xds_listener) ls) = map snd ls" for ls :: "(xds_listener \<times> resource_key list) list"
    by simp
  have resources: "map (\<lambda>(l, _). create_listener_resource l) (map (apfst orion_xds_listener) ls) =
      map orion_discovery_resource (map (\<lambda>(l, _). create_listener_resource l) ls)" for ls :: "(xds_listener \<times> resource_key list) list"
    by (simp add: case_prod_beta)
  show ?thesis
    unfolding orion_create_resources_def create_resources_def generated_listeners_orion gen option.map bind.simps listeners
      clusters_orion [OF gen(2)] option.case
    by (cases "those (map (\<lambda>(_, l). listener_resource_for False l) (gen_resources gen))"; cases "generate_envoy_clusters gen")
      (simp_all add: resources secrets del: map_map, simp_all)
qed

text \<open>
  C21: the resources Orion is sent for a gateway are those Envoy is sent, with three changes: a virtual
  host has only the first of its domains, so not the one that also matches every port, external
  processing does not wait for the response header, and the names of endpoint pickers are resolved to all
  their addresses. In particular one deployer panics on a gateway exactly when the other does, and names,
  ports, routes and secrets are the same.
\<close>

theorem orion_resources_of_envoy:
  "orion_create_resources dp rk g = map_option (\<lambda>r.
     \<lparr>xre_listeners = map orion_discovery_resource (xre_listeners r), xre_clusters = map orion_discovery_resource (xre_clusters r),
      xre_secrets = xre_secrets r\<rparr>) (create_resources dp rk g)"
  by (rule orion_resources_same)

subsection \<open>Deployer, server and proxies together\<close>

lemma orion_names:
  assumes "orion_create_resources dp rk g = Some r"
  shows "distinct_names (xre_clusters r)"
    and "card {p. \<exists>l\<in>set (gateway_listeners g). serves_port p l} \<le> 1 \<Longrightarrow> distinct_names (xre_listeners r)"
proof -
  obtain e where e: "create_resources dp rk g = Some e" "map dr_name (xre_clusters r) = map dr_name (xre_clusters e)"
    "map dr_name (xre_listeners r) = map dr_name (xre_listeners e)"
    using assms by (auto simp: orion_resources_same)
  obtain gen clusters where clusters: "generate_envoy_clusters gen = Some clusters" "xre_clusters e = map create_cluster_resource clusters"
    using created_resources [OF e(1)] by fastforce
  have "bset_wf ec_name clusters" using cluster_names_sorted [OF clusters(1)] by (simp add: bset_wf_def)
  then have "distinct (map ec_name clusters)" by (rule bset_wf_distinct)
  then show "distinct_names (xre_clusters r)" by (simp add: e(2) clusters(2) create_cluster_resource_def comp_def)
  show "distinct_names (xre_listeners r)" if "card {p. \<exists>l\<in>set (gateway_listeners g). serves_port p l} \<le> 1"
    unfolding e(3) using created_listener_names [OF e(1)] that by blast
qed

lemma orion_changed_actions:
  assumes "handle_orion_event env uuids replies (Changed g kg class_name) versions = Some (out, versions')"
    and "orion_create_resources (oen_patterns env) (oen_ranks env) g = Some r" and "dou_actions out \<noteq> []"
  shows "\<exists>v :: ack_versions. dou_actions out = [UpdateClusters (gw_resource_key g) (xre_clusters r) (av_cluster v),
       UpdateListeners (gw_resource_key g) (xre_listeners r) (av_listener v)]"
proof -
  let ?v = "case map_of versions (gw_resource_key g) of None \<Rightarrow> default_versions | Some v \<Rightarrow> inc_versions v"
  have "dou_actions out = [UpdateClusters (gw_resource_key g) (xre_clusters r) (av_cluster ?v),
      UpdateListeners (gw_resource_key g) (xre_listeners r) (av_listener ?v)]"
    using assms by (auto simp: Let_def case_prod_beta no_output_def split: option.splits address_update.splits)
  then show ?thesis by blast
qed

lemma orion_updates_served:
  assumes run: "orion_run s L" and r: "orion_create_resources dp rk g = Some r"
    and port: "card {p. \<exists>l\<in>set (gateway_listeners g). serves_port p l} \<le> 1"
    and client: "c \<in> set (ors_clients s)" "orc_gateway_id c = Some (create_gateway_id (gw_resource_key g))"
    and listed: "(orc_sender c, Url_Cluster) \<in> L" "(orc_sender c, Url_Listener) \<in> L"
  shows "let s' = fold handle_orion_action [UpdateClusters (gw_resource_key g) (xre_clusters r) cv, UpdateListeners (gw_resource_key g) (xre_listeners r) lv] s
    in orion_run s' L \<and> proxy_view s' Url_Cluster (orc_sender c) = by_name (xre_clusters r) \<and>
       proxy_view s' Url_Listener (orc_sender c) = by_name (xre_listeners r)"
proof -
  let ?k = "gw_resource_key g"
  let ?s1 = "handle_orion_action (UpdateClusters ?k (xre_clusters r) cv) s"
  let ?s2 = "handle_orion_action (UpdateListeners ?k (xre_listeners r) lv) ?s1"
  have r1: "orion_run ?s1 L" by (rule update_clusters [OF run orion_names(1) [OF r]])
  have r2: "orion_run ?s2 L" by (rule update_listeners [OF r1 orion_names(2) [OF r port]])
  note e1 = orion_clusters_sent [OF orion_okD(1) [OF orion_run_ok [OF run]], of ?k "xre_clusters r" cv]
  note e2 = orion_listeners_sent [OF orion_okD(1) [OF orion_run_ok [OF r1]], of ?k "xre_listeners r" lv]
  let ?c1 = "c\<lparr>orc_clusters := xre_clusters r\<rparr>" and ?c2 = "c\<lparr>orc_clusters := xre_clusters r, orc_listeners := xre_listeners r\<rparr>"
  have own: "of_gateway (create_gateway_id ?k) c" "of_gateway (create_gateway_id ?k) ?c1" using client(2) by (simp_all add: of_gateway_def)
  have "?c1 \<in> set (ors_clients ?s1)" unfolding e1(1) using client(1) own(1) by force
  then have c2: "?c2 \<in> set (ors_clients ?s2)" unfolding e2(1) using own(2) by force
  have "client_synced ?s2 L ?c2" by (rule orion_okD(6) [OF orion_run_ok [OF r2] c2])
  then have "proxy_view ?s2 Url_Cluster (orc_sender c) = by_name (xre_clusters r) \<and> proxy_view ?s2 Url_Listener (orc_sender c) = by_name (xre_listeners r)"
    using listed by (simp add: client_synced_def in_view_def)
  with r2 show ?thesis by simp
qed


definition example_orion_env :: orion_env where
  "example_orion_env = \<lparr>oen_patterns = example_patterns, oen_ranks = example_ranks,
     oen_templates = \<lparr>otp_render = (\<lambda>_ _. Inr ''yaml''), otp_config = Inr ''yaml''\<rparr>,
     oen_ip = \<lparr>ipa_rank = (\<lambda>_. 0), ipa_text = (\<lambda>t. t)\<rparr>, oen_config = den_config example_env\<rparr>"

definition example_orion_gateway :: gateway where
  "example_orion_gateway = example_https_gateway\<lparr>gw_listeners := [(''a'', example_https ''a'' 443 [example_certificate])]\<rparr>"

lemma example_orion_resources: "\<exists>r. orion_create_resources example_patterns example_ranks example_orion_gateway = Some r"
proof -
  have "map_option (\<lambda>_. True) (create_resources example_patterns example_ranks example_orion_gateway) = Some True" by code_simp
  then show ?thesis by (auto simp: orion_resources_same)
qed


text \<open>The requests of the two deployers go to the same objects in the same order, with the same outcome.\<close>

fun call_target :: "kube_call \<Rightarrow> string \<times> string" where
  "call_target (Apply_ConfigMap n _) = (''apply ConfigMap'', n)"
| "call_target (Apply_Deployment n _) = (''apply Deployment'', n)"
| "call_target (Apply_Service n _) = (''apply Service'', n)"
| "call_target (Apply_ServiceAccount n _) = (''apply ServiceAccount'', n)"
| "call_target (Delete_ServiceAccount n) = (''delete ServiceAccount'', n)"
| "call_target (Delete_Service n) = (''delete Service'', n)"
| "call_target (Delete_Deployment n) = (''delete Deployment'', n)"
| "call_target (Delete_ConfigMap n) = (''delete ConfigMap'', n)"

lemma orion_deploys_like_envoy:
  assumes "\<exists>y. (if secrets = [] then bootstrap_content render c else bootstrap_content_with_secrets render c secrets) = Inr y"
    and "\<exists>y. (if secrets = [] then orion_bootstrap_content (otp_render t) c else orion_bootstrap_content_with_secrets (otp_render t) c secrets) = Inr y"
    and "\<exists>y. config_content t c = Inr y"
  shows "map call_target (fst (deploy_orion t versions c replies g secrets)) = map call_target (fst (deploy_envoy render versions c replies g secrets)) \<and>
    snd (deploy_orion t versions c replies g secrets) = snd (deploy_envoy render versions c replies g secrets)"
  using assms by (auto simp: deploy_orion_def deploy_envoy_def Let_def orion_same_objects split: option.split)

end
