(* ===== verification/Agentgateway_Resources.thy ===== *)
theory Agentgateway_Resources
  imports Envoy_Routes Kube_Workloads
begin

section \<open>The resources of agentgateway\<close>

text \<open>
  \<open>backends/agentgateway/resource_generator.rs\<close>: what the agentgateway proxy is sent for a gateway. Messages
  of the crate \<open>agentgateway_api_rs\<close> are records of the fields the code sets; fields left at their
  defaults are not listed, and an optional field that is always set is its value. The numbers the
  crate gives to the protocols of a bind and the text \<open>serde_json\<close> prints for a method are parameters.
  A double that is not a number counts as equal to itself.
\<close>

subsection \<open>Messages\<close>

datatype bind_protocol = Bind_Http | Bind_Tls | Bind_Tcp

record agw_bind =
  abd_key :: string
  abd_port :: "32 word"
  abd_protocol :: bind_protocol

record agw_listener_name =
  aln_gateway_name :: string
  aln_gateway_namespace :: string
  aln_listener_name :: string

record agw_listener =
  alr_key :: string
  alr_name :: agw_listener_name
  alr_bind_key :: string
  alr_hostname :: string
  alr_protocol :: int
  alr_tls :: "key_data option"

datatype agw_path = AP_Full string | AP_Prefix string

record agw_redirect =
  ard_scheme :: string
  ard_host :: string
  ard_port :: "32 word"
  ard_status :: "32 word"
  ard_path :: "agw_path option"

record agw_header_modifier =
  ahm_add :: "http_header list"
  ahm_set :: "http_header list"
  ahm_remove :: "string list"

record agw_url_rewrite =
  aur_host :: string
  aur_path :: "agw_path option"

datatype agw_reference_kind = ARK_Backend string | ARK_Service string string

record agw_backend_reference =
  abr_port :: "32 word"
  abr_kind :: agw_reference_kind

text \<open>A double: a fraction \<open>m / 2 ^ s\<close> with \<open>m\<close> odd or \<open>s\<close> zero, an infinity with its sign, or no number.\<close>

datatype f64 = F64_Dyadic int nat | F64_Infinity bool | F64_NaN

record agw_mirror =
  amr_backend :: "agw_backend_reference option"
  amr_percentage :: f64

text \<open>A host rewrite is always in mode \<open>None\<close>.\<close>

datatype traffic_policy =
    TP_RequestRedirect agw_redirect
  | TP_RequestHeaderModifier agw_header_modifier
  | TP_ResponseHeaderModifier agw_header_modifier
  | TP_UrlRewrite agw_url_rewrite
  | TP_HostRewrite
  | TP_RequestMirror "agw_mirror list"

datatype agw_path_match = APM_Exact string | APM_PathPrefix string | APM_Regex string

datatype agw_value_match = AVM_Exact string | AVM_Regex string

record agw_name_match =
  anm_name :: string
  anm_value :: "agw_value_match option"

record agw_route_match =
  arm_path :: "agw_path_match option"
  arm_headers :: "agw_name_match list"
  arm_method :: "string option"
  arm_query_params :: "agw_name_match list"

record agw_route_backend =
  arb_backend :: agw_backend_reference
  arb_weight :: "32 word"

record agw_route =
  art_kind :: string
  art_name :: string
  art_namespace :: string
  art_rule_name :: string
  art_key :: string
  art_listener_key :: string
  art_hostnames :: "string list"
  art_matches :: "agw_route_match list"
  art_backends :: "agw_route_backend list"
  art_traffic_policies :: "traffic_policy list"

text \<open>The inline policies are always TLS without verification and HTTP in version 2.\<close>

datatype inline_policy = IP_BackendTls_InsecureAll | IP_BackendHttp_Http2

record agw_backend =
  abk_name :: string
  abk_namespace :: string
  abk_host :: string
  abk_port :: "32 word"
  abk_inline_policies :: "inline_policy list"
  abk_key :: string

datatype agw_failure_mode = AFM_Unknown | AFM_FailOpen | AFM_FailClosed

text \<open>Without a failure mode the field has the crate's number zero.\<close>

record agw_policy =
  apl_endpoint_picker :: "agw_backend_reference option"
  apl_failure_mode :: "agw_failure_mode option"
  apl_name :: string
  apl_namespace :: string
  apl_kind :: string
  apl_target_namespace :: string
  apl_target_hostname :: string
  apl_key :: string

text \<open>Service and target port of a port are the same; a network address is the octets of the address.\<close>

record istio_service =
  isv_name :: string
  isv_namespace :: string
  isv_hostname :: string
  isv_ports :: "32 word list"
  isv_addresses :: "8 word list list"
  isv_load_balancing :: bool

record agw_api =
  api_bind_number :: "bind_protocol \<Rightarrow> 32 word"
  api_method_json :: "http_method \<Rightarrow> string"

subsection \<open>Values of the standard library\<close>

text \<open>The octets of an IP address given as text.\<close>

definition hex_value :: "string \<Rightarrow> nat" where
  "hex_value s = fold (\<lambda>c n. n * 16 + (let k = of_char c :: nat in
     if k \<le> 57 then k - 48 else if k \<le> 70 then k - 55 else k - 87)) s 0"

definition ipv4_octets :: "string \<Rightarrow> 8 word list" where
  "ipv4_octets s = map (\<lambda>p. of_nat (digits_value p)) (split_on CHR ''.'' s)"

definition group_octets :: "string \<Rightarrow> 8 word list" where
  "group_octets p = (if is_group p then [of_nat (hex_value p div 256), of_nat (hex_value p mod 256)] else ipv4_octets p)"

definition groups_octets :: "string \<Rightarrow> 8 word list" where
  "groups_octets s = (if s = [] then [] else concat (map group_octets (split_on CHR '':'' s)))"

definition ip_octets :: "string \<Rightarrow> 8 word list option" where
  "ip_octets s =
     (if is_ipv4 s then Some (ipv4_octets s)
      else if is_ipv6 s then Some (case split_double_colon s of
          None \<Rightarrow> groups_octets s
        | Some (l, r) \<Rightarrow> (let ls = groups_octets l; rs = groups_octets r
            in ls @ replicate (16 - length ls - length rs) 0 @ rs))
      else None)"

text \<open>\<open>(f64::from(n) / f64::from(d)) * 100.0\<close>, rounded as in \<open>percent_of_fraction\<close>.\<close>

fun f64_reduced :: "int \<Rightarrow> nat \<Rightarrow> f64" where
  "f64_reduced m 0 = F64_Dyadic m 0"
| "f64_reduced m (Suc s) = (if even m then f64_reduced (m div 2) s else F64_Dyadic m (Suc s))"

definition f64_hundred_times :: "nat \<times> nat \<Rightarrow> nat \<times> nat" where
  "f64_hundred_times = (\<lambda>(m, s).
     let p = m * 100; t = bit_count p - 53
      in (round_half_even p (2 ^ t) * 2 ^ t, s))"

definition f64_of_fraction :: "int \<Rightarrow> int \<Rightarrow> f64" where
  "f64_of_fraction n d =
     (if d = 0 then (if n = 0 then F64_NaN else F64_Infinity (n < 0))
      else if n = 0 then F64_Dyadic 0 0
      else (let (m, s) = f64_hundred_times (f64_quotient (nat \<bar>n\<bar>) (nat \<bar>d\<bar>))
            in f64_reduced (if (n < 0) \<noteq> (d < 0) then - int m else int m) s))"

subsection \<open>Binds and listeners\<close>

text \<open>The tag a listener carries for its protocol.\<close>

fun protocol_number :: "protocol_type \<Rightarrow> int" where
  "protocol_number P_Http = 1"
| "protocol_number P_Https = 2"
| "protocol_number P_Tls = 3"
| "protocol_number P_Tcp = 4"
| "protocol_number P_Udp = 6"

definition create_bind_name :: "32 word \<Rightarrow> 32 word \<Rightarrow> string" where
  "create_bind_name port protocol = ''bind-port-'' @ show_i32 port @ ''-protocol-'' @ show_i32 protocol"

fun binding_protocol :: "protocol_type \<Rightarrow> bind_protocol" where
  "binding_protocol P_Http = Bind_Http"
| "binding_protocol P_Udp = Bind_Http"
| "binding_protocol P_Https = Bind_Tls"
| "binding_protocol P_Tls = Bind_Tls"
| "binding_protocol P_Tcp = Bind_Tcp"

text \<open>The derived order of a bind; the tunnel protocol is always \<open>Direct\<close>.\<close>

definition bind_rank :: "agw_api \<Rightarrow> agw_bind \<Rightarrow> string \<times> nat \<times> int" where
  "bind_rank api b = (abd_key b, unat (abd_port b), sint (api_bind_number api (abd_protocol b)))"

definition listener_bind :: "agw_api \<Rightarrow> listener \<Rightarrow> agw_bind" where
  "listener_bind api l =
     (let protocol = binding_protocol (listener_protocol l)
      in \<lparr>abd_key = create_bind_name (listener_port l) (api_bind_number api protocol),
          abd_port = listener_port l, abd_protocol = protocol\<rparr>)"

definition listener_tls :: "listener \<Rightarrow> key_data option" where
  "listener_tls l =
     (if listener_protocol l = P_Https \<or> listener_protocol l = P_Tls
      then (case lc_tls_type (ld_config (listener_data_of l)) of
           Some (TT_Terminate certificates) \<Rightarrow>
             (case List.map_filter (\<lambda>c. case c of C_ResolvedSameSpace _ data \<Rightarrow> Some data | _ \<Rightarrow> None) certificates of
                [] \<Rightarrow> None
              | data # _ \<Rightarrow> Some data)
         | _ \<Rightarrow> None)
      else None)"

definition agw_listener_of :: "agw_api \<Rightarrow> gateway \<Rightarrow> listener \<Rightarrow> agw_listener" where
  "agw_listener_of api g l =
     \<lparr>alr_key = listener_name l,
      alr_name = \<lparr>aln_gateway_name = gateway_name g, aln_gateway_namespace = gateway_namespace g, aln_listener_name = listener_name l\<rparr>,
      alr_bind_key = abd_key (listener_bind api l),
      alr_hostname = unwrap_or (listener_hostname l) ''*'',
      alr_protocol = protocol_number (listener_protocol l),
      alr_tls = listener_tls l\<rparr>"

definition add_binding :: "agw_api \<Rightarrow> gateway \<Rightarrow> listener \<Rightarrow> (agw_bind \<times> agw_listener list) list \<Rightarrow> (agw_bind \<times> agw_listener list) list" where
  "add_binding api g l acc =
     (let bind = listener_bind api l
      in case bset_get (bind_rank api \<circ> fst) (bind_rank api bind) acc of
           Some (b, listeners) \<Rightarrow> bset_replace (bind_rank api \<circ> fst) (b, listeners @ [agw_listener_of api g l]) acc
         | None \<Rightarrow> bset_replace (bind_rank api \<circ> fst) (bind, [agw_listener_of api g l]) acc)"

definition generate_bindings_and_listeners :: "agw_api \<Rightarrow> gateway \<Rightarrow> (agw_bind \<times> agw_listener list) list" where
  "generate_bindings_and_listeners api g = fold (add_binding api g) (gateway_listeners g) []"

subsection \<open>Matches of a route\<close>

fun convert_path_type :: "path_match_type \<Rightarrow> string \<Rightarrow> agw_path_match" where
  "convert_path_type PathExact v = APM_Exact v"
| "convert_path_type PathPrefix v = APM_PathPrefix v"
| "convert_path_type PathRegularExpression v = APM_Regex v"

definition convert_path_match :: "path_match option \<Rightarrow> agw_path_match option" where
  "convert_path_match p = (case p of
       Some path_match \<Rightarrow>
         (let match_value = unwrap_or (pm_value path_match) ''''
          in map_option (\<lambda>t. convert_path_type t match_value) (pm_type path_match))
     | None \<Rightarrow> None)"

fun convert_value_match :: "match_type \<Rightarrow> string \<Rightarrow> agw_value_match" where
  "convert_value_match Exact v = AVM_Exact v"
| "convert_value_match RegularExpression v = AVM_Regex v"

definition convert_headers :: "name_match list option \<Rightarrow> agw_name_match list" where
  "convert_headers hs = (case hs of
       Some header_match \<Rightarrow> map (\<lambda>hm. \<lparr>anm_name = nm_name hm,
         anm_value = map_option (\<lambda>t. convert_value_match t (nm_value hm)) (nm_type hm)\<rparr>) header_match
     | None \<Rightarrow> [])"

definition convert_query_params :: "name_match list option \<Rightarrow> agw_name_match list" where
  "convert_query_params qs = (case qs of
       Some query_match \<Rightarrow> map (\<lambda>hm. \<lparr>anm_name = nm_name hm,
         anm_value = map_option (\<lambda>t. convert_value_match t (nm_value hm)) (nm_type hm)\<rparr>) query_match
     | None \<Rightarrow> [])"

definition convert_method_match :: "agw_api \<Rightarrow> http_method option \<Rightarrow> string option" where
  "convert_method_match api m = map_option (api_method_json api) m"

definition convert_route_match :: "agw_api \<Rightarrow> route_match \<Rightarrow> agw_route_match" where
  "convert_route_match api m =
     \<lparr>arm_path = convert_path_match (rm_path m),
      arm_headers = convert_headers (rm_headers m),
      arm_method = convert_method_match api (rm_method m),
      arm_query_params = convert_query_params (rm_query_params m)\<rparr>"

subsection \<open>Filters\<close>

definition map_url_rewrite_filter :: "http_route_filter \<Rightarrow> traffic_policy option" where
  "map_url_rewrite_filter f = map_option (\<lambda>u. TP_UrlRewrite
     \<lparr>aur_host = unwrap_or (ur_hostname u) '''',
      aur_path = (case ur_path u of
          Some path \<Rightarrow> (case pmo_type path of
              ReplaceFullPath \<Rightarrow> Some (AP_Full (unwrap_or (pmo_replace_full_path path) ''''))
            | ReplacePrefixMatch \<Rightarrow> Some (AP_Prefix (unwrap_or (pmo_replace_prefix_match path) '''')))
        | None \<Rightarrow> None)\<rparr>) (hf_url_rewrite f)"

definition map_redirect_filter :: "http_route_filter \<Rightarrow> 32 word \<Rightarrow> traffic_policy option" where
  "map_redirect_filter f lport = map_option (\<lambda>r. TP_RequestRedirect
     \<lparr>ard_scheme = (case rr_scheme r of
          Some Scheme_Http \<Rightarrow> ''HTTP'' | Some Scheme_Https \<Rightarrow> ''HTTPS'' | None \<Rightarrow> ''''),
      ard_host = unwrap_or (rr_hostname r) '''',
      ard_port = (case rr_port r of
          Some p \<Rightarrow> p
        | None \<Rightarrow> (case rr_scheme r of Some Scheme_Http \<Rightarrow> 80 | Some Scheme_Https \<Rightarrow> 443 | None \<Rightarrow> lport)),
      ard_status = word_of_int (unwrap_or (rr_status_code r) 302),
      ard_path = map_option (\<lambda>path. case pmo_type path of
          ReplaceFullPath \<Rightarrow> AP_Full (unwrap_or (pmo_replace_full_path path) '''')
        | ReplacePrefixMatch \<Rightarrow> AP_Prefix (unwrap_or (pmo_replace_prefix_match path) '''')) (rr_path r)\<rparr>)
     (hf_request_redirect f)"

definition map_request_header_modifier_filter :: "http_route_filter \<Rightarrow> traffic_policy option" where
  "map_request_header_modifier_filter f = map_option (\<lambda>h. TP_RequestHeaderModifier
     \<lparr>ahm_add = unwrap_or (hm_add h) [], ahm_set = unwrap_or (hm_set h) [], ahm_remove = unwrap_or (hm_remove h) []\<rparr>)
     (hf_request_header_modifier f)"

definition map_response_header_modifier_filter :: "http_route_filter \<Rightarrow> traffic_policy option" where
  "map_response_header_modifier_filter f = map_option (\<lambda>h. TP_ResponseHeaderModifier
     \<lparr>ahm_add = unwrap_or (hm_add h) [], ahm_set = unwrap_or (hm_set h) [], ahm_remove = unwrap_or (hm_remove h) []\<rparr>)
     (hf_response_header_modifier f)"

definition map_filters :: "http_route_filter \<Rightarrow> 32 word \<Rightarrow> traffic_policy list" where
  "map_filters f lport = List.map_filter (\<lambda>x. x)
     [map_redirect_filter f lport, map_request_header_modifier_filter f,
      map_response_header_modifier_filter f, map_url_rewrite_filter f]"

definition backend_path :: "service_type_config \<Rightarrow> string" where
  "backend_path c = rk_namespace (stc_resource_key c) @ ''/'' @ rk_name (stc_resource_key c)"

definition mirror_percentage :: "request_mirror \<Rightarrow> f64" where
  "mirror_percentage m = (case (rmi_percent m, rmi_fraction m) of
       (None, None) \<Rightarrow> F64_Dyadic 100 0
     | (None, Some f) \<Rightarrow> f64_of_fraction (sint (fr_numerator f)) (sint (unwrap_or (fr_denominator f) 100))
     | (Some percent, None) \<Rightarrow> F64_Dyadic (sint percent) 0
     | (Some _, Some _) \<Rightarrow> F64_Dyadic 100 0)"

definition mirror_backend_refs :: "backend list \<Rightarrow> request_mirror \<Rightarrow> agw_backend_reference list" where
  "mirror_backend_refs filter_backends m =
     map (\<lambda>c. \<lparr>abr_port = stc_effective_port c, abr_kind = ARK_Backend (backend_path c)\<rparr>)
       (filter (\<lambda>c. stc_resource_key c = key_of_backend_reference (rmi_backend_ref m) DEFAULT_NAMESPACE_NAME)
         (List.map_filter (\<lambda>b. case backend_type_of b of
              BT_Service c \<Rightarrow> Some c | BT_Invalid c \<Rightarrow> Some c | BT_InferencePool _ \<Rightarrow> None) filter_backends))"

definition create_request_mirror_traffic_policy :: "http_routing_rule \<Rightarrow> traffic_policy option" where
  "create_request_mirror_traffic_policy rule =
     (let mirrors = map (\<lambda>m. \<lparr>amr_backend = (case mirror_backend_refs (hru_filter_backends rule) m of [] \<Rightarrow> None | r # _ \<Rightarrow> Some r),
              amr_percentage = mirror_percentage m\<rparr>)
            (List.map_filter (\<lambda>f. if hf_type f = RequestMirror then hf_request_mirror f else None) (hru_filters rule))
      in if mirrors = [] then None else Some (TP_RequestMirror mirrors))"

subsection \<open>Backends\<close>

fun create_route_backend :: "backend \<Rightarrow> agw_route_backend option" where
  "create_route_backend (B_Resolved (BT_Service c)) =
     Some \<lparr>arb_backend = \<lparr>abr_port = stc_effective_port c, abr_kind = ARK_Backend (backend_path c)\<rparr>, arb_weight = stc_weight c\<rparr>"
| "create_route_backend (B_Invalid (BT_Service c)) =
     Some \<lparr>arb_backend = \<lparr>abr_port = stc_effective_port c, abr_kind = ARK_Backend (backend_path c)\<rparr>, arb_weight = stc_weight c\<rparr>"
| "create_route_backend (B_NotAllowed (BT_Service c)) =
     Some \<lparr>arb_backend = \<lparr>abr_port = stc_effective_port c, abr_kind = ARK_Backend (backend_path c)\<rparr>, arb_weight = stc_weight c\<rparr>"
| "create_route_backend (B_Unresolved (BT_Service c)) =
     Some \<lparr>arb_backend = \<lparr>abr_port = stc_effective_port c, abr_kind = ARK_Backend (backend_path c)\<rparr>, arb_weight = stc_weight c\<rparr>"
| "create_route_backend (B_Resolved (BT_InferencePool c)) =
     Some \<lparr>arb_backend =
         \<lparr>abr_port = (case iptc_target_ports c of [] \<Rightarrow> iptc_port c | p # _ \<Rightarrow> p),
          abr_kind = ARK_Service (rk_namespace (iptc_resource_key c)) (iptc_endpoint c)\<rparr>,
       arb_weight = iptc_weight c\<rparr>"
| "create_route_backend _ = None"

fun create_backends :: "backend \<Rightarrow> (string \<times> agw_backend) option list" where
  "create_backends (B_Resolved (BT_Service c)) =
     [Some (backend_path c,
        \<lparr>abk_name = rk_name (stc_resource_key c), abk_namespace = rk_namespace (stc_resource_key c),
         abk_host = stc_endpoint c, abk_port = stc_effective_port c, abk_inline_policies = [], abk_key = backend_path c\<rparr>)]"
| "create_backends _ = [None]"

fun create_backend_services :: "backend \<Rightarrow> (string \<times> istio_service) option" where
  "create_backend_services (B_Resolved (BT_InferencePool c)) =
     Some (rk_namespace (iptc_resource_key c) @ ''/'' @ iptc_endpoint c,
        \<lparr>isv_name = rk_name (iptc_resource_key c), isv_namespace = rk_namespace (iptc_resource_key c),
         isv_hostname = iptc_endpoint c, isv_ports = iptc_target_ports c,
         isv_addresses = List.map_filter ip_octets (unwrap_or (iptc_endpoints c) []), isv_load_balancing = True\<rparr>)"
| "create_backend_services (B_Invalid (BT_Service c)) =
     Some (rk_namespace (stc_resource_key c) @ ''/'' @ stc_endpoint c,
        \<lparr>isv_name = rk_name (stc_resource_key c), isv_namespace = rk_namespace (stc_resource_key c),
         isv_hostname = stc_endpoint c, isv_ports = [], isv_addresses = [], isv_load_balancing = False\<rparr>)"
| "create_backend_services _ = None"

definition picker_port :: "inference_pool_spec \<Rightarrow> 32 word" where
  "picker_port conf = unwrap_or (epr_port (ips_endpoint_picker_ref conf)) 9002"

fun failure_mode_of :: "failure_mode option \<Rightarrow> agw_failure_mode" where
  "failure_mode_of (Some FailOpen) = AFM_FailOpen"
| "failure_mode_of (Some FailClose) = AFM_FailClosed"
| "failure_mode_of None = AFM_Unknown"

definition create_inference_policies ::
    "string \<Rightarrow> resource_key \<Rightarrow> inference_pool_type_config \<Rightarrow> agw_policy \<times> (string \<times> agw_backend) option" where
  "create_inference_policies policy_name backend conf =
     (let epp_backend_name = ''epp-backend-'' @ policy_name
      in (\<lparr>apl_endpoint_picker = map_option (\<lambda>ic. \<lparr>abr_port = picker_port ic, abr_kind = ARK_Backend epp_backend_name\<rparr>)
             (iptc_inference_config conf),
           apl_failure_mode = map_option (\<lambda>ic. failure_mode_of (epr_failure_mode (ips_endpoint_picker_ref ic))) (iptc_inference_config conf),
           apl_name = rk_name backend, apl_namespace = rk_namespace backend, apl_kind = rk_kind backend,
           apl_target_namespace = rk_namespace backend, apl_target_hostname = iptc_endpoint conf,
           apl_key = policy_name\<rparr>,
          map_option (\<lambda>ic. (epp_backend_name,
             \<lparr>abk_name = rk_name backend, abk_namespace = rk_namespace backend,
              abk_host = epr_name (ips_endpoint_picker_ref ic) @ ''.'' @ rk_namespace (iptc_resource_key conf),
              abk_port = picker_port ic,
              abk_inline_policies = [IP_BackendTls_InsecureAll, IP_BackendHttp_Http2],
              abk_key = epp_backend_name\<rparr>)) (iptc_inference_config conf)))"

subsection \<open>Routes\<close>

text \<open>
  The three ordered maps the traversal of the rules fills, each keyed by the first component, and the
  routes so far. The pools of all rules of the route are visited once for each of its rules.
\<close>

record agw_collected =
  agc_routes :: "agw_route list"
  agc_backends :: "(string \<times> agw_backend) list"
  agc_policies :: "(string \<times> agw_policy) list"
  agc_services :: "(string \<times> istio_service) list"

definition inference_configurations ::
    "http_routing_rule list \<Rightarrow> http_routing_rule \<Rightarrow> (string \<times> resource_key \<times> inference_pool_type_config) list" where
  "inference_configurations rules rule = concat (map (\<lambda>r. List.map_filter (\<lambda>b. case backend_type_of b of
       BT_InferencePool c \<Rightarrow> Some (''Policy-'' @ hru_name rule @ ''-'' @ display_key (backend_key b), backend_key b, c)
     | _ \<Rightarrow> None) (hru_backends r)) rules)"

definition agw_route_of :: "agw_api \<Rightarrow> listener \<Rightarrow> route \<Rightarrow> http_routing_rule \<Rightarrow> agw_route" where
  "agw_route_of api l r rule =
     \<lparr>art_kind = ''HTTP'', art_name = hru_name rule, art_namespace = route_namespace r, art_rule_name = hru_name rule,
      art_key = route_name r @ ''-'' @ hru_name rule,
      art_listener_key = listener_name l,
      art_hostnames = filter (\<lambda>h. h \<noteq> ''*'') (route_hostnames r),
      art_matches = map (convert_route_match api) (hru_matching_rules rule),
      art_backends = List.map_filter create_route_backend (hru_backends rule),
      art_traffic_policies = concat (map (\<lambda>f. map_filters f (listener_port l)) (hru_filters rule)) @ [TP_HostRewrite] @
        (case create_request_mirror_traffic_policy rule of Some p \<Rightarrow> [p] | None \<Rightarrow> [])\<rparr>"

definition visit_rule ::
    "agw_api \<Rightarrow> listener \<Rightarrow> route \<Rightarrow> http_routing_rule list \<Rightarrow> http_routing_rule \<Rightarrow> agw_collected \<Rightarrow> agw_collected" where
  "visit_rule api l r rules rule acc =
     (let inferred = map (\<lambda>(name, backend, conf). (name, create_inference_policies name backend conf)) (inference_configurations rules rule);
          policies = map (\<lambda>(name, policy, _). (name, policy)) inferred;
          epp_backends = List.map_filter (\<lambda>(_, _, b). b) inferred;
          services = List.map_filter create_backend_services (hru_backends rule);
          backends = List.map_filter (\<lambda>b. b) (concat (map create_backends (hru_backends rule @ hru_filter_backends rule)))
      in \<lparr>agc_routes = agc_routes acc @ [agw_route_of api l r rule],
          agc_backends = bset_append fst (bset_append fst (agc_backends acc) backends) epp_backends,
          agc_policies = bset_append fst (agc_policies acc) policies,
          agc_services = bset_append fst (agc_services acc) services\<rparr>)"

definition visit_route :: "agw_api \<Rightarrow> listener \<Rightarrow> route \<Rightarrow> agw_collected \<Rightarrow> agw_collected" where
  "visit_route api l r acc = (case route_type_of r of
       RT_Http rules \<Rightarrow> fold (visit_rule api l r rules) rules acc
     | RT_Grpc _ \<Rightarrow> acc)"

definition visit_listener :: "agw_api \<Rightarrow> listener \<Rightarrow> agw_collected \<Rightarrow> agw_collected" where
  "visit_listener api l acc =
     (let (resolved, unresolved) = listener_routes l
      in fold (visit_route api l) (resolved @ unresolved) acc)"

definition nothing_collected :: agw_collected where
  "nothing_collected = \<lparr>agc_routes = [], agc_backends = [], agc_policies = [], agc_services = []\<rparr>"

definition generate_routes_and_backends_and_policies ::
    "agw_api \<Rightarrow> gateway \<Rightarrow> agw_route list \<times> agw_backend list \<times> agw_policy list \<times> istio_service list" where
  "generate_routes_and_backends_and_policies api g =
     (let collected = fold (visit_listener api) (gateway_listeners g) nothing_collected
      in (agc_routes collected, map snd (agc_backends collected), map snd (agc_policies collected), map snd (agc_services collected)))"

subsection \<open>Addresses\<close>

lemma length_ipv4_octets: "is_ipv4 s \<Longrightarrow> length (ipv4_octets s) = 4"
  by (simp add: is_ipv4_def ipv4_octets_def Let_def)

lemma count_groups_octets: "count_groups v4 ps = Some n \<Longrightarrow> length (concat (map group_octets ps)) = 2 * n"
proof (induction v4 ps arbitrary: n rule: count_groups.induct)
  case (2 v4 p)
  then show ?case by (auto simp: group_octets_def length_ipv4_octets split: if_splits)
next
  case (3 v4 p q ps)
  then obtain m where "is_group p" "count_groups v4 (q # ps) = Some m" "n = Suc m" by (auto split: if_splits)
  with 3 show ?case by (simp add: group_octets_def)
qed simp

lemma groups_in_octets: "groups_in v4 s = Some n \<Longrightarrow> length (groups_octets s) = 2 * n"
  by (auto simp: groups_in_def groups_octets_def dest: count_groups_octets split: if_splits)

lemma ip_octets_length: "ip_octets s = Some os \<Longrightarrow> length os = 4 \<or> length os = 16"
proof -
  assume a: "ip_octets s = Some os"
  show ?thesis
  proof (cases "is_ipv4 s")
    case True
    with a show ?thesis by (auto simp: ip_octets_def length_ipv4_octets)
  next
    case False
    with a have v6: "is_ipv6 s" by (auto simp: ip_octets_def split: if_splits)
    show ?thesis
    proof (cases "split_double_colon s")
      case None
      with v6 have "length (groups_octets s) = 16" by (auto simp: is_ipv6_def dest: groups_in_octets)
      with a False v6 None show ?thesis by (simp add: ip_octets_def)
    next
      case (Some p)
      obtain l r where p: "p = (l, r)" by fastforce
      obtain n m where nm: "groups_in False l = Some n" "groups_in True r = Some m" "n + m \<le> 7"
        using v6 Some p by (auto simp: is_ipv6_def split: option.splits)
      then have "length (groups_octets l) = 2 * n" "length (groups_octets r) = 2 * m" by (auto dest: groups_in_octets)
      with a False v6 Some p nm show ?thesis by (auto simp: ip_octets_def Let_def)
    qed
  qed
qed

lemma ip_octets_iff: "ip_octets s \<noteq> None \<longleftrightarrow> parses_as_ip s"
  by (simp add: ip_octets_def parses_as_ip_def)

subsection \<open>What the traversal collects\<close>

text \<open>The rules in the order they are visited, each with its listener, its route and all rules of the route.\<close>

type_synonym visit = "listener \<times> route \<times> http_routing_rule list \<times> http_routing_rule"

definition route_visits :: "listener \<Rightarrow> route \<Rightarrow> visit list" where
  "route_visits l r = (case route_type_of r of RT_Http rules \<Rightarrow> map (\<lambda>rule. (l, r, rules, rule)) rules | RT_Grpc _ \<Rightarrow> [])"

definition listener_visits :: "listener \<Rightarrow> visit list" where
  "listener_visits l = concat (map (route_visits l) (fst (listener_routes l) @ snd (listener_routes l)))"

definition visits :: "gateway \<Rightarrow> visit list" where
  "visits g = concat (map listener_visits (gateway_listeners g))"

definition visit_backends :: "visit \<Rightarrow> (string \<times> agw_backend) list" where
  "visit_backends = (\<lambda>(l, r, rules, rule).
     List.map_filter (\<lambda>b. b) (concat (map create_backends (hru_backends rule @ hru_filter_backends rule))) @
     List.map_filter (\<lambda>(name, backend, conf). snd (create_inference_policies name backend conf)) (inference_configurations rules rule))"

definition visit_policies :: "visit \<Rightarrow> (string \<times> agw_policy) list" where
  "visit_policies = (\<lambda>(l, r, rules, rule).
     map (\<lambda>(name, backend, conf). (name, fst (create_inference_policies name backend conf))) (inference_configurations rules rule))"

definition visit_services :: "visit \<Rightarrow> (string \<times> istio_service) list" where
  "visit_services = (\<lambda>(l, r, rules, rule). List.map_filter create_backend_services (hru_backends rule))"

definition step_visit :: "agw_api \<Rightarrow> visit \<Rightarrow> agw_collected \<Rightarrow> agw_collected" where
  "step_visit api = (\<lambda>(l, r, rules, rule). visit_rule api l r rules rule)"

lemma bset_append_append: "bset_append key xs (ys @ zs) = bset_append key (bset_append key xs ys) zs"
  by (simp add: bset_append_def)

lemma bset_append_Nil2 [simp]: "bset_append key xs [] = xs"
  by (simp add: bset_append_def)

lemma step_visit_collects:
  "step_visit api v acc = \<lparr>agc_routes = agc_routes acc @ [case v of (l, r, rules, rule) \<Rightarrow> agw_route_of api l r rule],
     agc_backends = bset_append fst (agc_backends acc) (visit_backends v),
     agc_policies = bset_append fst (agc_policies acc) (visit_policies v),
     agc_services = bset_append fst (agc_services acc) (visit_services v)\<rparr>"
proof -
  have "List.map_filter (\<lambda>(_, _, b). b) (map (\<lambda>(name, backend, conf). (name, create_inference_policies name backend conf)) xs) =
      List.map_filter (\<lambda>(name, backend, conf). snd (create_inference_policies name backend conf)) xs" for xs
    by (induction xs) (auto simp: split_def split: option.split)
  then show ?thesis
    by (cases v) (simp add: step_visit_def visit_rule_def visit_backends_def visit_policies_def visit_services_def Let_def
        bset_append_append comp_def split_def)
qed

lemma fold_visits:
  "fold (step_visit api) vs acc = \<lparr>agc_routes = agc_routes acc @ map (\<lambda>(l, r, rules, rule). agw_route_of api l r rule) vs,
     agc_backends = bset_append fst (agc_backends acc) (concat (map visit_backends vs)),
     agc_policies = bset_append fst (agc_policies acc) (concat (map visit_policies vs)),
     agc_services = bset_append fst (agc_services acc) (concat (map visit_services vs))\<rparr>"
  by (induction vs arbitrary: acc) (simp_all add: step_visit_collects bset_append_append)

lemma visit_route_visits: "visit_route api l r = fold (step_visit api) (route_visits l r)"
  by (auto simp: fun_eq_iff visit_route_def route_visits_def step_visit_def fold_map comp_def split: route_type.split)

lemma fold_concat_map: "(\<And>x. f x = fold h (k x)) \<Longrightarrow> fold f xs = fold h (concat (map k xs))"
  by (induction xs) (simp_all add: fun_eq_iff)

lemma visit_listener_visits: "visit_listener api l = fold (step_visit api) (listener_visits l)"
proof
  fix acc
  have "fold (visit_route api l) rs = fold (step_visit api) (concat (map (route_visits l) rs))" for rs
    by (rule fold_concat_map) (rule visit_route_visits)
  then show "visit_listener api l acc = fold (step_visit api) (listener_visits l) acc"
    by (simp only: visit_listener_def listener_visits_def Let_def split_def)
qed

lemma generated_resources:
  "generate_routes_and_backends_and_policies api g =
     (map (\<lambda>(l, r, rules, rule). agw_route_of api l r rule) (visits g),
      map snd (bset_from fst (concat (map visit_backends (visits g)))),
      map snd (bset_from fst (concat (map visit_policies (visits g)))),
      map snd (bset_from fst (concat (map visit_services (visits g)))))"
proof -
  have "fold (visit_listener api) ls = fold (step_visit api) (concat (map listener_visits ls))" for ls
    by (rule fold_concat_map) (rule visit_listener_visits)
  then show ?thesis
    by (simp add: generate_routes_and_backends_and_policies_def fold_visits visits_def nothing_collected_def bset_from_def Let_def)
qed

lemma mem_route_visits:
  "(l', r', rules, rule) \<in> set (route_visits l r) \<longleftrightarrow> l' = l \<and> r' = r \<and> route_type_of r = RT_Http rules \<and> rule \<in> set rules"
  by (cases "route_type_of r") (auto simp: route_visits_def)

lemma mem_visits: "(l, r, rules, rule) \<in> set (visits g) \<longleftrightarrow> l \<in> set (gateway_listeners g) \<and>
    r \<in> set (fst (listener_routes l)) \<union> set (snd (listener_routes l)) \<and> route_type_of r = RT_Http rules \<and> rule \<in> set rules"
  by (auto simp: visits_def listener_visits_def mem_route_visits)

lemma set_map_filter_Some: "y \<in> set (List.map_filter f xs) \<longleftrightarrow> (\<exists>x\<in>set xs. f x = Some y)"
  by (induction xs) (auto split: option.splits)

text \<open>The key of an entry is the key of the resource.\<close>

lemma visit_backends_key: "(k, b) \<in> set (visit_backends v) \<Longrightarrow> abk_key b = k"
proof (cases v)
  case (fields l r rules rule)
  have c: "x \<in> set (create_backends d) \<Longrightarrow> x = Some (k, b) \<Longrightarrow> abk_key b = k" for x d
    by (cases d rule: create_backends.cases) auto
  assume "(k, b) \<in> set (visit_backends v)"
  with c show ?thesis
    by (auto simp: fields visit_backends_def set_map_filter_Some create_inference_policies_def Let_def)
qed

lemma visit_policies_key: "(k, p) \<in> set (visit_policies v) \<Longrightarrow> apl_key p = k"
  by (cases v) (auto simp: visit_policies_def create_inference_policies_def Let_def)

subsection \<open>Binds\<close>

text \<open>The protocols of a bind have different numbers, so the order of the binds tells them apart.\<close>

lemma bind_rank_inject:
  assumes "inj (api_bind_number api)"
  shows "bind_rank api a = bind_rank api b \<longleftrightarrow> a = b"
proof
  assume r: "bind_rank api a = bind_rank api b"
  then have "api_bind_number api (abd_protocol a) = api_bind_number api (abd_protocol b)"
    by (simp add: bind_rank_def inj_signed [THEN inj_eq])
  then have "abd_protocol a = abd_protocol b" using assms by (simp add: inj_eq)
  with r show "a = b" by (cases a; cases b) (simp add: bind_rank_def word_unat_eq_iff)
qed simp

definition bindings_of :: "agw_api \<Rightarrow> gateway \<Rightarrow> listener list \<Rightarrow> (agw_bind \<times> agw_listener list) list \<Rightarrow> bool" where
  "bindings_of api g ls acc \<longleftrightarrow> bset_wf (bind_rank api \<circ> fst) acc \<and> fst ` set acc = listener_bind api ` set ls \<and>
     (\<forall>(b, rs)\<in>set acc. rs = map (agw_listener_of api g) (filter (\<lambda>l. listener_bind api l = b) ls))"

lemma bindings_of_add:
  assumes inj: "inj (api_bind_number api)" and ok: "bindings_of api g ls acc"
  shows "bindings_of api g (ls @ [l]) (add_binding api g l acc)"
proof -
  let ?key = "bind_rank api \<circ> fst" and ?b = "listener_bind api l" and ?r = "agw_listener_of api g l"
  have wf: "bset_wf ?key acc" and keys: "fst ` set acc = listener_bind api ` set ls"
    and entries: "\<And>b rs. (b, rs) \<in> set acc \<Longrightarrow> rs = map (agw_listener_of api g) (filter (\<lambda>l. listener_bind api l = b) ls)"
    using ok by (auto simp: bindings_of_def)
  define e where "e = (case bset_get ?key (bind_rank api ?b) acc of Some (b, rs) \<Rightarrow> (b, rs @ [?r]) | None \<Rightarrow> (?b, [?r]))"
  have add: "add_binding api g l acc = bset_replace ?key e acc"
    by (simp add: add_binding_def e_def split: option.split prod.split)
  have e: "e = (?b, map (agw_listener_of api g) (filter (\<lambda>l. listener_bind api l = ?b) ls) @ [?r])"
  proof (cases "bset_get ?key (bind_rank api ?b) acc")
    case None
    then have "?b \<notin> fst ` set acc" by (auto simp: bset_get_None_iff image_iff)
    then have "filter (\<lambda>l. listener_bind api l = ?b) ls = []" by (auto simp: keys filter_empty_conv image_iff)
    with None show ?thesis by (simp add: e_def)
  next
    case (Some x)
    obtain b rs where x: "x = (b, rs)" by fastforce
    with Some have m: "(b, rs) \<in> set acc" and "bind_rank api b = bind_rank api ?b" by (auto dest: bset_get_SomeD)
    then have "b = ?b" using bind_rank_inject [OF inj] by simp
    with Some x entries [OF m] show ?thesis by (simp add: e_def)
  qed
  have old: "b \<noteq> ?b \<and> (b, rs) \<in> set acc \<or> (b, rs) = e" if "(b, rs) \<in> set (add_binding api g l acc)" for b rs
    using that wf unfolding add by (auto simp: set_bset_replace e)
  have "fst ` set (add_binding api g l acc) = insert ?b (fst ` set acc)"
    using wf bind_rank_inject [OF inj] unfolding add by (force simp: set_bset_replace e image_iff)
  then show ?thesis
    using wf old entries by (fastforce simp: bindings_of_def add keys e)
qed

lemma generated_bindings: "inj (api_bind_number api) \<Longrightarrow> bindings_of api g (gateway_listeners g) (generate_bindings_and_listeners api g)"
proof -
  assume inj: "inj (api_bind_number api)"
  have "bindings_of api g (ls @ ms) (fold (add_binding api g) ms acc)" if "bindings_of api g ls acc" for ls ms acc
    using that
  proof (induction ms arbitrary: ls acc)
    case (Cons m ms)
    then show ?case using Cons.IH [OF bindings_of_add [OF inj Cons.prems, of m]] by simp
  qed simp
  from this [of "[]" "[]" "gateway_listeners g"] show ?thesis
    by (simp add: bindings_of_def generate_bindings_and_listeners_def)
qed

text \<open>The listener resources in the order they are sent.\<close>

definition listener_resources :: "agw_api \<Rightarrow> gateway \<Rightarrow> agw_listener list" where
  "listener_resources api g = concat (map snd (generate_bindings_and_listeners api g))"

lemma set_listener_resources:
  "inj (api_bind_number api) \<Longrightarrow> set (listener_resources api g) = agw_listener_of api g ` set (gateway_listeners g)"
proof -
  assume "inj (api_bind_number api)"
  note b = generated_bindings [OF this, of g]
  have keys: "fst ` set (generate_bindings_and_listeners api g) = listener_bind api ` set (gateway_listeners g)"
    using b by (simp add: bindings_of_def)
  have entries: "rs = map (agw_listener_of api g) (filter (\<lambda>l. listener_bind api l = b) (gateway_listeners g))"
    if "(b, rs) \<in> set (generate_bindings_and_listeners api g)" for b rs
    using b that by (auto simp: bindings_of_def)
  show ?thesis
  proof (intro set_eqI iffI)
    fix x assume "x \<in> set (listener_resources api g)"
    then show "x \<in> agw_listener_of api g ` set (gateway_listeners g)"
      using entries by (fastforce simp: listener_resources_def)
  next
    fix x assume "x \<in> agw_listener_of api g ` set (gateway_listeners g)"
    then obtain l where l: "l \<in> set (gateway_listeners g)" "x = agw_listener_of api g l" by blast
    then have "listener_bind api l \<in> fst ` set (generate_bindings_and_listeners api g)" using keys by blast
    then obtain rs where rs: "(listener_bind api l, rs) \<in> set (generate_bindings_and_listeners api g)" by force
    then have "x \<in> set rs" using l entries [OF rs] by simp
    with rs show "x \<in> set (listener_resources api g)" by (force simp: listener_resources_def)
  qed
qed

text \<open>
  C18: the binds are in ascending order, one per port and protocol, and each bind has the listeners of its
  port and protocol, in the order of the gateway, none of them twice.
\<close>

theorem binds_group_listeners:
  assumes "inj (api_bind_number api)"
  shows "bset_wf (bind_rank api \<circ> fst) (generate_bindings_and_listeners api g) \<and>
    set (map fst (generate_bindings_and_listeners api g)) = set (map (listener_bind api) (gateway_listeners g)) \<and>
    list_all (\<lambda>(b, rs). rs = map (agw_listener_of api g) (filter (\<lambda>l. listener_bind api l = b) (gateway_listeners g)) \<and> rs \<noteq> [])
      (generate_bindings_and_listeners api g)"
proof -
  note b = generated_bindings [OF assms, of g, unfolded bindings_of_def]
  have "rs \<noteq> []" if "(b, rs) \<in> set (generate_bindings_and_listeners api g)" for b rs
  proof -
    have "b \<in> listener_bind api ` set (gateway_listeners g)" using b that by (metis fst_conv image_eqI)
    moreover have "rs = map (agw_listener_of api g) (filter (\<lambda>l. listener_bind api l = b) (gateway_listeners g))" using b that by auto
    ultimately show ?thesis by (auto simp: filter_empty_conv)
  qed
  with b show ?thesis by (auto simp: list_all_iff)
qed

subsection \<open>References between the resources\<close>

definition service_key :: "istio_service \<Rightarrow> string" where
  "service_key s = isv_namespace s @ ''/'' @ isv_hostname s"

fun resolves :: "agw_backend list \<Rightarrow> istio_service list \<Rightarrow> agw_reference_kind \<Rightarrow> bool" where
  "resolves backends services (ARK_Backend k) \<longleftrightarrow> k \<in> set (map abk_key backends)"
| "resolves backends services (ARK_Service ns h) \<longleftrightarrow> ns @ ''/'' @ h \<in> set (map service_key services)"

fun is_resolved_backend :: "backend \<Rightarrow> bool" where
  "is_resolved_backend (B_Resolved (BT_Service _)) = True"
| "is_resolved_backend (B_Resolved (BT_InferencePool _)) = True"
| "is_resolved_backend _ = False"

text \<open>A backend of a rule is a backend of the route resource, and what it refers to is there.\<close>

definition target_present :: "agw_backend list \<Rightarrow> istio_service list \<Rightarrow> agw_route \<Rightarrow> backend \<Rightarrow> bool" where
  "target_present backends services t b = (case create_route_backend b of
       None \<Rightarrow> False
     | Some rb \<Rightarrow> rb \<in> set (art_backends t) \<and> resolves backends services (abr_kind (arb_backend rb)))"

lemma keys_from_map_snd:
  assumes "\<And>k x. (k, x) \<in> set xs \<Longrightarrow> key x = k"
  shows "map key (map snd (bset_from fst xs)) = map fst (bset_from fst xs)"
  using bset_from_subset [of fst xs] assms by (auto simp: subset_iff)

lemma generated_backends_keys:
  assumes "generate_routes_and_backends_and_policies api g = (routes, backends, policies, services)"
  shows "map abk_key backends = map fst (bset_from fst (concat (map visit_backends (visits g))))"
    and "map apl_key policies = map fst (bset_from fst (concat (map visit_policies (visits g))))"
proof -
  have "map abk_key (map snd (bset_from fst (concat (map visit_backends (visits g))))) =
      map fst (bset_from fst (concat (map visit_backends (visits g))))"
    by (rule keys_from_map_snd) (auto dest: visit_backends_key)
  moreover have "map apl_key (map snd (bset_from fst (concat (map visit_policies (visits g))))) =
      map fst (bset_from fst (concat (map visit_policies (visits g))))"
    by (rule keys_from_map_snd) (auto dest: visit_policies_key)
  ultimately show "map abk_key backends = map fst (bset_from fst (concat (map visit_backends (visits g))))"
    "map apl_key policies = map fst (bset_from fst (concat (map visit_policies (visits g))))"
    using assms by (auto simp: generated_resources)
qed

lemma generated_keys_distinct:
  assumes "generate_routes_and_backends_and_policies api g = (routes, backends, policies, services)"
  shows "distinct (map abk_key backends)" "distinct (map apl_key policies)"
  unfolding generated_backends_keys [OF assms] by (rule bset_wf_distinct, simp)+

lemma set_backends_keys:
  assumes "generate_routes_and_backends_and_policies api g = (routes, backends, policies, services)"
  shows "set (map abk_key backends) = fst ` (\<Union>v\<in>set (visits g). set (visit_backends v))"
  unfolding generated_backends_keys [OF assms] set_map keys_bset_from by simp

lemma create_backend_services_key: "create_backend_services b = Some (k, s) \<Longrightarrow> service_key s = k"
  by (cases b rule: create_backend_services.cases) (auto simp: service_key_def)

lemma set_services_keys:
  assumes "generate_routes_and_backends_and_policies api g = (routes, backends, policies, services)"
  shows "set (map service_key services) = fst ` (\<Union>v\<in>set (visits g). set (visit_services v))"
proof -
  have "services = map snd (bset_from fst (concat (map visit_services (visits g))))"
    using assms by (simp add: generated_resources)
  moreover have "map service_key (map snd (bset_from fst (concat (map visit_services (visits g))))) =
      map fst (bset_from fst (concat (map visit_services (visits g))))"
    by (rule keys_from_map_snd) (auto simp: visit_services_def set_map_filter_Some dest: create_backend_services_key)
  ultimately have "map service_key services = map fst (bset_from fst (concat (map visit_services (visits g))))" by simp
  then show ?thesis by (simp only: set_map keys_bset_from) simp
qed

lemma visit_resolved_service:
  assumes "(l, r, rules, rule) \<in> set (visits g)" "B_Resolved (BT_Service c) \<in> set (hru_backends rule) \<union> set (hru_filter_backends rule)"
    and gen: "generate_routes_and_backends_and_policies api g = (routes, backends, policies, services)"
  shows "backend_path c \<in> set (map abk_key backends)"
proof -
  have "backend_path c \<in> fst ` set (visit_backends (l, r, rules, rule))"
    using assms(2) by (force simp: visit_backends_def set_map_filter_Some image_iff)
  with assms(1) show ?thesis unfolding set_backends_keys [OF gen] by blast
qed

lemma visit_resolved_pool:
  assumes "(l, r, rules, rule) \<in> set (visits g)" "B_Resolved (BT_InferencePool c) \<in> set (hru_backends rule)"
    and gen: "generate_routes_and_backends_and_policies api g = (routes, backends, policies, services)"
  shows "resolves backends services (ARK_Service (rk_namespace (iptc_resource_key c)) (iptc_endpoint c))"
proof -
  have "rk_namespace (iptc_resource_key c) @ ''/'' @ iptc_endpoint c \<in> fst ` set (visit_services (l, r, rules, rule))"
    using assms(2) by (force simp: visit_services_def set_map_filter_Some image_iff)
  with assms(1) show ?thesis unfolding resolves.simps set_services_keys [OF gen] by blast
qed

lemma policy_picker_backend:
  assumes gen: "generate_routes_and_backends_and_policies api g = (routes, backends, policies, services)"
    and p: "p \<in> set policies" "apl_endpoint_picker p = Some e"
  shows "resolves backends services (abr_kind e)"
proof -
  obtain k where "(k, p) \<in> set (bset_from fst (concat (map visit_policies (visits g))))"
    using gen p(1) by (auto simp: generated_resources)
  then obtain v where v: "v \<in> set (visits g)" "(k, p) \<in> set (visit_policies v)"
    using bset_from_subset [of fst "concat (map visit_policies (visits g))"] by auto
  obtain l r rules rule where q: "v = (l, r, rules, rule)" by (cases v) blast
  from v(2) obtain name backend conf where c: "(name, backend, conf) \<in> set (inference_configurations rules rule)"
    and pc: "p = fst (create_inference_policies name backend conf)"
    by (auto simp: q visit_policies_def)
  from pc p(2) obtain ic where ic: "iptc_inference_config conf = Some ic" "abr_kind e = ARK_Backend (''epp-backend-'' @ name)"
    by (auto simp: create_inference_policies_def Let_def)
  have "''epp-backend-'' @ name \<in> fst ` set (visit_backends v)"
    using c ic(1) by (force simp: q visit_backends_def set_map_filter_Some create_inference_policies_def Let_def image_iff)
  with v(1) show ?thesis unfolding ic(2) resolves.simps set_backends_keys [OF gen] by blast
qed


subsection \<open>Collisions and refused backends\<close>

text \<open>
  A route that a listener did not refuse is attached to all listeners it matches, and its resources
  for two of them have the same key: the proxy, which knows routes by key, is sent two different routes
  under one name.
\<close>

lemma route_keys_collide:
  assumes "l \<in> set (gateway_listeners g)" "l' \<in> set (gateway_listeners g)" "listener_name l \<noteq> listener_name l'"
    and "r \<in> set (fst (listener_routes l))" "r \<in> set (fst (listener_routes l'))"
    and "route_type_of r = RT_Http rules" "rule \<in> set rules"
  shows "case generate_routes_and_backends_and_policies api g of (routes, _) \<Rightarrow>
    {agw_route_of api l r rule, agw_route_of api l' r rule} \<subseteq> set routes \<and>
    art_listener_key (agw_route_of api l r rule) \<noteq> art_listener_key (agw_route_of api l' r rule) \<and>
    \<not> distinct (map art_key routes)"
proof -
  let ?t = "agw_route_of api l r rule" and ?t' = "agw_route_of api l' r rule"
  let ?routes = "map (\<lambda>(l, r, rules, rule). agw_route_of api l r rule) (visits g)"
  have "(l, r, rules, rule) \<in> set (visits g)" "(l', r, rules, rule) \<in> set (visits g)"
    using assms by (simp_all add: mem_visits)
  then have mem: "?t \<in> set ?routes" "?t' \<in> set ?routes" by force+
  have "?t \<noteq> ?t'" "art_key ?t = art_key ?t'" using assms(3) by (simp_all add: agw_route_of_def)
  with mem have "\<not> distinct (map art_key ?routes)"
    unfolding distinct_map inj_on_def by blast
  then show ?thesis using mem assms(3) by (simp add: generated_resources agw_route_of_def)
qed

text \<open>Backends are keyed by namespace and name alone: of two ports of a service one is left.\<close>

lemma backend_ports_collide:
  assumes gen: "generate_routes_and_backends_and_policies api g = (routes, backends, policies, services)"
    and v: "(l, r, rules, rule) \<in> set (visits g)" "B_Resolved (BT_Service c) \<in> set (hru_backends rule)"
      "(l', r', rules', rule') \<in> set (visits g)" "B_Resolved (BT_Service d) \<in> set (hru_backends rule')"
    and "backend_path c = backend_path d" "stc_effective_port c \<noteq> stc_effective_port d"
  shows "\<exists>!b. b \<in> set backends \<and> abk_key b = backend_path c"
    and "\<not> (\<exists>b\<in>set backends. abk_key b = backend_path c \<and> abk_port b = stc_effective_port c) \<or>
      \<not> (\<exists>b\<in>set backends. abk_key b = backend_path d \<and> abk_port b = stc_effective_port d)"
proof -
  have inj: "inj_on abk_key (set backends)" using generated_keys_distinct(1) [OF gen] by (simp add: distinct_map)
  have "backend_path c \<in> set (map abk_key backends)"
    using visit_resolved_service [OF v(1) _ gen, of c] v(2) by simp
  then show "\<exists>!b. b \<in> set backends \<and> abk_key b = backend_path c" using inj by (auto simp: inj_on_def)
  then show "\<not> (\<exists>b\<in>set backends. abk_key b = backend_path c \<and> abk_port b = stc_effective_port c) \<or>
      \<not> (\<exists>b\<in>set backends. abk_key b = backend_path d \<and> abk_port b = stc_effective_port d)"
    using assms(6,7) by metis
qed

text \<open>
  A backend the references resolver refused is still a backend of the route resource; it is not
  reachable as long as no route of the gateway may use the service, but as soon as one may, the refused
  reference leads to it as well.
\<close>

lemma refused_backend_leaks:
  assumes "(l, r, rules, rule) \<in> set (visits g)" "B_NotAllowed (BT_Service c) \<in> set (hru_backends rule)"
    and "(l', r', rules', rule') \<in> set (visits g)" "B_Resolved (BT_Service d) \<in> set (hru_backends rule')"
    and "backend_path d = backend_path c"
  shows "case generate_routes_and_backends_and_policies api g of (routes, backends, _, services) \<Rightarrow>
    agw_route_of api l r rule \<in> set routes \<and>
    target_present backends services (agw_route_of api l r rule) (B_NotAllowed (BT_Service c))"
proof -
  obtain routes backends policies services where gen:
    "generate_routes_and_backends_and_policies api g = (routes, backends, policies, services)"
    by (cases "generate_routes_and_backends_and_policies api g") blast
  have "agw_route_of api l r rule \<in> set routes" using gen assms(1) by (force simp: generated_resources)
  moreover have "backend_path c \<in> set (map abk_key backends)"
    using visit_resolved_service [OF assms(3) _ gen, of d] assms(4,5) by simp
  moreover have "the (create_route_backend (B_NotAllowed (BT_Service c))) \<in> set (art_backends (agw_route_of api l r rule))"
    using assms(2) by (force simp: agw_route_of_def set_map_filter_Some)
  ultimately show ?thesis by (simp add: gen target_present_def)
qed

text \<open>GRPC routes are attached and counted, but nothing is generated for them.\<close>

lemma grpc_routes_not_generated:
  "generate_routes_and_backends_and_policies api g = (routes, backends, policies, services) \<Longrightarrow> t \<in> set routes \<Longrightarrow> art_kind t = ''HTTP''"
  by (auto simp: generated_resources agw_route_of_def)

subsection \<open>Examples\<close>

definition example_api :: agw_api where
  "example_api = \<lparr>api_bind_number = (\<lambda>p. case p of Bind_Http \<Rightarrow> 0 | Bind_Tls \<Rightarrow> 1 | Bind_Tcp \<Rightarrow> 2), api_method_json = (\<lambda>_. ''GET'')\<rparr>"

lemma example_api_inj: "inj (api_bind_number example_api)"
  by (rule injI) (simp add: example_api_def split: bind_protocol.splits)

definition agw_service :: "string \<Rightarrow> 32 word \<Rightarrow> service_type_config" where
  "agw_service name port = \<lparr>stc_resource_key = \<lparr>rk_group = '''', rk_namespace = ''b'', rk_name = name, rk_kind = ''Service''\<rparr>,
     stc_endpoint = name @ ''.b'', stc_port = port, stc_effective_port = port, stc_weight = 1\<rparr>"

definition agw_example_rule :: "backend list \<Rightarrow> http_routing_rule" where
  "agw_example_rule bs = \<lparr>hru_name = ''r-0'', hru_backends = bs, hru_matching_rules = [], hru_filters = [], hru_filter_backends = []\<rparr>"

definition agw_example_route :: "string \<Rightarrow> backend list \<Rightarrow> route" where
  "agw_example_route ns bs = \<lparr>route_key = \<lparr>rk_group = '''', rk_namespace = ns, rk_name = ''r'', rk_kind = ''HTTPRoute''\<rparr>,
     route_parents = None, route_hostnames = [''*''], route_resolution_status = RS_Resolved,
     route_type_of = RT_Http [agw_example_rule bs]\<rparr>"

definition agw_example_listener :: "string \<Rightarrow> 32 word \<Rightarrow> route list \<Rightarrow> listener" where
  "agw_example_listener name port rs = L_Http \<lparr>ld_config = \<lparr>lc_name = name, lc_port = port, lc_hostname = None, lc_tls_type = None\<rparr>,
     ld_conditions = [], ld_resolved_routes = rs, ld_unresolved_routes = [], ld_attached_routes = length rs\<rparr>"

definition agw_example_gateway :: "listener list \<Rightarrow> gateway" where
  "agw_example_gateway ls = \<lparr>gw_id = '''', gw_resource_key = \<lparr>rk_group = '''', rk_namespace = ''ns'', rk_name = ''gw'', rk_kind = ''Gateway''\<rparr>,
     gw_addresses = [], gw_listeners = map (\<lambda>l. (listener_name l, l)) ls, gw_orphaned_routes = [], gw_backend_type = Agentgateway\<rparr>"

lemmas agw_example_defs = agw_service_def agw_example_rule_def agw_example_route_def agw_example_listener_def agw_example_gateway_def

text \<open>A route on two listeners, and a route that may use a service next to one that may not.\<close>

definition two_listeners :: gateway where
  "two_listeners = agw_example_gateway [agw_example_listener ''http'' 80 [agw_example_route ''ns'' []],
     agw_example_listener ''alt'' 8080 [agw_example_route ''ns'' []]]"

definition refused_and_allowed :: gateway where
  "refused_and_allowed = agw_example_gateway [agw_example_listener ''http'' 80
     [agw_example_route ''a'' [B_NotAllowed (BT_Service (agw_service ''svc'' 80))],
      agw_example_route ''b'' [B_Resolved (BT_Service (agw_service ''svc'' 80))]]]"

lemma binds_group_listeners_witness:
  "set (map fst (generate_bindings_and_listeners example_api two_listeners)) =
     set (map (listener_bind example_api) (gateway_listeners two_listeners)) \<and> length (gateway_listeners two_listeners) = 2"
  using binds_group_listeners [OF example_api_inj, of two_listeners]
  by (simp add: two_listeners_def gateway_listeners_def agw_example_gateway_def)


lemma route_keys_collide_witness:
  "case generate_routes_and_backends_and_policies example_api two_listeners of (routes, _) \<Rightarrow> \<not> distinct (map art_key routes)"
proof -
  let ?r = "agw_example_route ''ns'' []"
  let ?l = "agw_example_listener ''http'' 80 [?r]" and ?l' = "agw_example_listener ''alt'' 8080 [?r]"
  have "?l \<in> set (gateway_listeners two_listeners)" "?l' \<in> set (gateway_listeners two_listeners)"
    by (simp_all add: two_listeners_def gateway_listeners_def agw_example_gateway_def)
  moreover have "listener_name ?l \<noteq> listener_name ?l'" "?r \<in> set (fst (listener_routes ?l))" "?r \<in> set (fst (listener_routes ?l'))"
    by (simp_all add: listener_name_def listener_routes_def agw_example_listener_def)
  moreover have "route_type_of ?r = RT_Http [agw_example_rule []]" by (simp add: agw_example_route_def)
  ultimately show ?thesis
    using route_keys_collide [of ?l two_listeners ?l' ?r "[agw_example_rule []]" "agw_example_rule []" example_api]
    by (auto split: prod.splits)
qed

lemma refused_backend_leaks_witness:
  "case generate_routes_and_backends_and_policies example_api refused_and_allowed of (routes, backends, _, services) \<Rightarrow>
     list_ex (\<lambda>t. target_present backends services t (B_NotAllowed (BT_Service (agw_service ''svc'' 80)))) routes"
proof -
  let ?c = "agw_service ''svc'' 80"
  let ?r = "agw_example_route ''a'' [B_NotAllowed (BT_Service ?c)]" and ?s = "agw_example_route ''b'' [B_Resolved (BT_Service ?c)]"
  let ?l = "agw_example_listener ''http'' 80 [?r, ?s]"
  let ?x = "agw_example_rule [B_NotAllowed (BT_Service ?c)]" and ?y = "agw_example_rule [B_Resolved (BT_Service ?c)]"
  have "(?l, ?r, [?x], ?x) \<in> set (visits refused_and_allowed)" "(?l, ?s, [?y], ?y) \<in> set (visits refused_and_allowed)"
    by (simp_all add: mem_visits gateway_listeners_def listener_routes_def refused_and_allowed_def agw_example_defs)
  from refused_backend_leaks [OF this(1) _ this(2), of ?c ?c example_api] show ?thesis
    by (auto simp: agw_example_rule_def list_ex_iff split: prod.splits)
qed

end
