(* ===== verification/Agentgateway_Server.thy ===== *)
theory Agentgateway_Server
  imports Agentgateway_Resources Orion_Server
begin

section \<open>The discovery server of agentgateway\<close>

text \<open>
  \<open>backends/agentgateway/server.rs\<close>: the incremental discovery server of the agentgateway backend. It keeps
  the resources and the workloads of every gateway and, per connected client, those last sent. An update
  is sent as two responses: one that removes, one that adds. As in \<open>Orion_Server\<close> the versions, which
  nothing reads, the random nonces and the log lines are left out, and what is sent is a log of pairs of
  a connection and a response; the messages have the shape of Orion's. The kind of a resource and the
  type of an address, which the deployer always sets, are their values here. The proofs go through
  Orion's server: a proxy cannot tell the two apart.
\<close>

subsection \<open>Resources and workloads\<close>

record istio_workload =
  iwl_uid :: string
  iwl_name :: string
  iwl_namespace :: string
  iwl_addresses :: "8 word list list"
  iwl_services :: "(string \<times> 32 word list) list"

record agw_tcp_route =
  atr_key :: string
  atr_listener_key :: string

datatype agw_resource =
    AK_Bind agw_bind
  | AK_Listener agw_listener
  | AK_Route agw_route
  | AK_Backend agw_backend
  | AK_Policy agw_policy
  | AK_TcpRoute agw_tcp_route
  | AK_Workload istio_workload
  | AK_Service istio_service

datatype workload_address = AT_Workload istio_workload | AT_Service istio_service

fun get_resource_name :: "agw_resource \<Rightarrow> string" where
  "get_resource_name (AK_Bind b) = ''bind/'' @ abd_key b"
| "get_resource_name (AK_Listener l) = ''listener/'' @ alr_key l"
| "get_resource_name (AK_Route r) = ''route/'' @ art_key r"
| "get_resource_name (AK_Backend b) = ''backend/'' @ abk_key b"
| "get_resource_name (AK_Policy p) = ''policy/'' @ apl_key p"
| "get_resource_name (AK_TcpRoute t) = ''tcproute/'' @ atr_key t"
| "get_resource_name (AK_Workload w) = ''workload/'' @ iwl_name w @ ''/'' @ iwl_namespace w"
| "get_resource_name (AK_Service s) = ''service/'' @ isv_name s @ ''/'' @ isv_namespace s"

fun get_workload_name :: "workload_address \<Rightarrow> string" where
  "get_workload_name (AT_Workload w) = ''address/'' @ iwl_uid w"
| "get_workload_name (AT_Service s) = ''address/'' @ isv_name s @ ''/'' @ isv_namespace s"

datatype agw_payload = PL_Resource agw_resource | PL_Address workload_address

definition RESOURCE_TYPE_URL :: string where
  "RESOURCE_TYPE_URL = ''type.googleapis.com/agentgateway.dev.resource.Resource''"

definition ADDRESS_TYPE_URL :: string where
  "ADDRESS_TYPE_URL = ''type.googleapis.com/istio.workload.Address''"

definition named_resource :: "agw_resource \<Rightarrow> agw_payload discovery_resource" where
  "named_resource r = \<lparr>dr_name = get_resource_name r, dr_resource = Some (PL_Resource r)\<rparr>"

definition named_address :: "workload_address \<Rightarrow> agw_payload discovery_resource" where
  "named_address a = \<lparr>dr_name = get_workload_name a, dr_resource = Some (PL_Address a)\<rparr>"

subsection \<open>Clients and managed resources\<close>

record agw_client =
  agl_sender :: nat
  agl_client_id :: client_address
  agl_gateway_id :: "string option"
  agl_resources :: "agw_resource list"
  agl_workloads :: "workload_address list"

definition new_agw_client :: "client_address \<Rightarrow> nat \<Rightarrow> agw_client" where
  "new_agw_client client_id sender =
     \<lparr>agl_sender = sender, agl_client_id = client_id, agl_gateway_id = None, agl_resources = [], agl_workloads = []\<rparr>"

definition agw_update_from :: "agw_client \<Rightarrow> agw_client \<Rightarrow> agw_client" where
  "agw_update_from value c = c\<lparr>agl_gateway_id := agl_gateway_id value, agl_resources := agl_resources value,
     agl_workloads := agl_workloads value\<rparr>"

definition cache_resources_and_calculate_delta ::
    "agw_resource list \<Rightarrow> agw_client \<Rightarrow> (agw_resource list \<times> string list) \<times> agw_client" where
  "cache_resources_and_calculate_delta new_resources c =
     ((difference new_resources (agl_resources c),
       difference (map get_resource_name (agl_resources c)) (map get_resource_name new_resources)),
      c\<lparr>agl_resources := new_resources\<rparr>)"

definition cache_workloads_and_calculate_delta ::
    "workload_address list \<Rightarrow> agw_client \<Rightarrow> (workload_address list \<times> string list) \<times> agw_client" where
  "cache_workloads_and_calculate_delta new_workloads c =
     ((difference new_workloads (agl_workloads c),
       difference (map get_workload_name (agl_workloads c)) (map get_workload_name new_workloads)),
      c\<lparr>agl_workloads := new_workloads\<rparr>)"

record agw_managed =
  agm_all_resources :: "agw_resource list"
  agm_all_workloads :: "workload_address list"

record agw_server =
  ags_clients :: "agw_client list"
  ags_managed :: "(string \<times> agw_managed) list"
  ags_sent :: "(nat \<times> agw_payload delta_response) list"

definition new_agw_server :: agw_server where
  "new_agw_server = \<lparr>ags_clients = [], ags_managed = [], ags_sent = []\<rparr>"

definition agw_clients_by_gateway_id :: "string \<Rightarrow> agw_client list \<Rightarrow> agw_client list" where
  "agw_clients_by_gateway_id gateway_id clients = filter (\<lambda>c. agl_gateway_id c = Some gateway_id) clients"

definition agw_client_by_client_id :: "client_address \<Rightarrow> agw_client list \<Rightarrow> agw_client option" where
  "agw_client_by_client_id client_id clients = find (\<lambda>c. agl_client_id c = client_id) clients"

definition agw_write_client :: "agw_client \<Rightarrow> agw_client list \<Rightarrow> agw_client list" where
  "agw_write_client client clients =
     unwrap_or (modify_first (\<lambda>c. agl_client_id c = agl_client_id client) (agw_update_from client) clients) clients"

definition agw_update_client :: "agw_client \<Rightarrow> string \<Rightarrow> agw_server \<Rightarrow> agw_client \<times> agw_server" where
  "agw_update_client client gateway_id s =
     (let client' = (if agl_gateway_id client = None
          then (let c = client\<lparr>agl_gateway_id := Some gateway_id\<rparr>
                in case map_of (ags_managed s) gateway_id of
                     Some resources \<Rightarrow> c\<lparr>agl_resources := agm_all_resources resources, agl_workloads := agm_all_workloads resources\<rparr>
                   | None \<Rightarrow> c)
          else client)
      in (client', s\<lparr>ags_clients := agw_write_client client' (ags_clients s)\<rparr>))"

definition update_managed_resources :: "string \<Rightarrow> agw_resource list \<Rightarrow> agw_server \<Rightarrow> agw_server" where
  "update_managed_resources gateway_id resources s = s\<lparr>ags_managed := AList.update gateway_id
     (case map_of (ags_managed s) gateway_id of
        Some e \<Rightarrow> e\<lparr>agm_all_resources := resources\<rparr>
      | None \<Rightarrow> \<lparr>agm_all_resources = resources, agm_all_workloads = []\<rparr>) (ags_managed s)\<rparr>"

definition update_managed_workloads :: "string \<Rightarrow> workload_address list \<Rightarrow> agw_server \<Rightarrow> agw_server" where
  "update_managed_workloads gateway_id workloads s = s\<lparr>ags_managed := AList.update gateway_id
     (case map_of (ags_managed s) gateway_id of
        Some e \<Rightarrow> e\<lparr>agm_all_workloads := workloads\<rparr>
      | None \<Rightarrow> \<lparr>agm_all_resources = [], agm_all_workloads = workloads\<rparr>) (ags_managed s)\<rparr>"

definition update_client_and_resources :: "agw_client \<Rightarrow> agw_resource list \<Rightarrow> agw_server \<Rightarrow> agw_server" where
  "update_client_and_resources client resources s =
     (let s' = s\<lparr>ags_clients := agw_write_client client (ags_clients s)\<rparr>
      in case agl_gateway_id client of Some gateway_id \<Rightarrow> update_managed_resources gateway_id resources s' | None \<Rightarrow> s')"

definition update_client_and_workloads :: "agw_client \<Rightarrow> workload_address list \<Rightarrow> agw_server \<Rightarrow> agw_server" where
  "update_client_and_workloads client workloads s =
     (let s' = s\<lparr>ags_clients := agw_write_client client (ags_clients s)\<rparr>
      in case agl_gateway_id client of Some gateway_id \<Rightarrow> update_managed_workloads gateway_id workloads s' | None \<Rightarrow> s')"

definition agw_add_or_replace_client :: "agw_client \<Rightarrow> agw_client list \<Rightarrow> agw_client list" where
  "agw_add_or_replace_client client clients =
     unwrap_or (modify_first (\<lambda>c. agl_client_id c = agl_client_id client) (\<lambda>_. client) clients) (clients @ [client])"

definition agw_remove_client :: "client_address \<Rightarrow> agw_client list \<Rightarrow> agw_client list" where
  "agw_remove_client client_id clients = filter (\<lambda>c. agl_client_id c \<noteq> client_id) clients"

subsection \<open>Updates\<close>

datatype agw_action =
    UpdateResources resource_key "agw_resource list"
  | UpdateWorkloads resource_key "workload_address list"

definition agw_send :: "nat \<Rightarrow> string \<Rightarrow> agw_payload discovery_resource list \<Rightarrow> string list \<Rightarrow> agw_server \<Rightarrow> agw_server" where
  "agw_send tx url resources removed s =
     s\<lparr>ags_sent := ags_sent s @ [(tx, \<lparr>ddr_type_url = url, ddr_resources = resources, ddr_removed_resources = removed\<rparr>)]\<rparr>"

text \<open>The loop bodies: the names of the resources to add are removed first, those of workloads are not.\<close>

definition send_resources_delta :: "agw_resource list \<Rightarrow> agw_client \<Rightarrow> agw_server \<Rightarrow> agw_server" where
  "send_resources_delta resources client s =
     (let ((to_add, to_remove), client') = cache_resources_and_calculate_delta resources client;
          s1 = agw_send (agl_sender client') RESOURCE_TYPE_URL [] (to_remove @ map get_resource_name to_add) s;
          s2 = update_client_and_resources client' resources s1
      in agw_send (agl_sender client') RESOURCE_TYPE_URL (map named_resource to_add) [] s2)"

definition send_workloads_delta :: "workload_address list \<Rightarrow> agw_client \<Rightarrow> agw_server \<Rightarrow> agw_server" where
  "send_workloads_delta workloads client s =
     (let ((to_add, to_remove), client') = cache_workloads_and_calculate_delta workloads client;
          s1 = agw_send (agl_sender client') ADDRESS_TYPE_URL [] to_remove s;
          s2 = agw_send (agl_sender client') ADDRESS_TYPE_URL (map named_address to_add) [] s1
      in update_client_and_workloads client' workloads s2)"

fun handle_agw_action :: "agw_action \<Rightarrow> agw_server \<Rightarrow> agw_server" where
  "handle_agw_action (UpdateResources gateway_key resources) s =
     (let gateway_id = create_gateway_id gateway_key;
          clients = agw_clients_by_gateway_id gateway_id (ags_clients s)
      in fold (send_resources_delta resources) clients (update_managed_resources gateway_id resources s))"
| "handle_agw_action (UpdateWorkloads gateway_key workloads) s =
     (let gateway_id = create_gateway_id gateway_key;
          clients = agw_clients_by_gateway_id gateway_id (ags_clients s)
      in fold (send_workloads_delta workloads) clients (update_managed_workloads gateway_id workloads s))"

subsection \<open>Requests\<close>

text \<open>Node identifiers: four parts separated by tildes, the third being the pod's name and namespace.\<close>

definition parse_agengateway_id :: "string \<Rightarrow> string + string \<times> string" where
  "parse_agengateway_id node = (case split_on CHR ''~'' node of
       _ # _ # node_id # _ \<Rightarrow> (case split_on CHR ''.'' node_id of
           pod # namespace # _ \<Rightarrow> Inr (pod, namespace)
         | [_] \<Rightarrow> Inl ''No namespace provided''
         | [] \<Rightarrow> Inl ''No id provided'')
     | _ \<Rightarrow> Inl ''Invalid node id format'')"

definition agw_fetch_gateway_id :: "pod_lookup \<Rightarrow> string \<Rightarrow> string option" where
  "agw_fetch_gateway_id pods node = (case parse_agengateway_id node of
       Inl _ \<Rightarrow> None
     | Inr (pod, namespace) \<Rightarrow> (case pods namespace pod of
           Some (Some labels) \<Rightarrow> map_option (\<lambda>app. create_id app namespace) (map_of labels ''app'')
         | _ \<Rightarrow> None))"

text \<open>In the answer to a request every resource has the type URL for its name.\<close>

definition handle_agw_request :: "pod_lookup \<Rightarrow> client_address \<Rightarrow> nat \<Rightarrow> delta_request \<Rightarrow> agw_server \<Rightarrow> agw_server" where
  "handle_agw_request pods client_ip tx q s =
     (if deq_error_detail q \<noteq> None then s
      else if deq_response_nonce q \<noteq> [] then s
      else case deq_node q of
          None \<Rightarrow> s
        | Some node \<Rightarrow> (case agw_client_by_client_id client_ip (ags_clients s) of
            None \<Rightarrow> s
          | Some client \<Rightarrow> (case agw_fetch_gateway_id pods (en_id node) of
              None \<Rightarrow> s
            | Some gateway_id \<Rightarrow>
                (let (client', s') = agw_update_client client gateway_id s
                 in if deq_type_url q = RESOURCE_TYPE_URL
                    then agw_send tx RESOURCE_TYPE_URL
                      (map (\<lambda>r. \<lparr>dr_name = RESOURCE_TYPE_URL, dr_resource = Some (PL_Resource r)\<rparr>) (agl_resources client')) [] s'
                    else if deq_type_url q = ADDRESS_TYPE_URL
                    then agw_send tx ADDRESS_TYPE_URL
                      (map (\<lambda>a. \<lparr>dr_name = ADDRESS_TYPE_URL, dr_resource = Some (PL_Address a)\<rparr>) (agl_workloads client')) [] s'
                    else agw_send tx (deq_type_url q) [] [] s'))))"

definition agw_open_stream :: "client_address option \<Rightarrow> nat \<Rightarrow> agw_server \<Rightarrow> rpc_status + agw_server" where
  "agw_open_stream remote_addr tx s = (case remote_addr of
       None \<Rightarrow> Inl (Status_Aborted ''Invalid remote IP address'')
     | Some client_ip \<Rightarrow> Inr (s\<lparr>ags_clients := agw_add_or_replace_client (new_agw_client client_ip tx) (ags_clients s)\<rparr>))"

definition agw_close_stream :: "client_address \<Rightarrow> agw_server \<Rightarrow> agw_server" where
  "agw_close_stream client_ip s = s\<lparr>ags_clients := agw_remove_client client_ip (ags_clients s)\<rparr>"

definition agw_stream_aggregated_resources :: "rpc_status + unit" where
  "agw_stream_aggregated_resources = Inl (Status_Aborted ''stream_aggregated_resources not supported'')"

subsection \<open>What a proxy makes of the responses\<close>

text \<open>
  The specification: the proxy knows a resource by its own name, whatever name the response gives it, and
  removes what a response lists before it adds.
\<close>

fun payload_name :: "agw_payload \<Rightarrow> string" where
  "payload_name (PL_Resource r) = get_resource_name r"
| "payload_name (PL_Address a) = get_workload_name a"

definition own_named :: "agw_payload discovery_resource \<Rightarrow> agw_payload discovery_resource" where
  "own_named x = x\<lparr>dr_name := (case dr_resource x of Some p \<Rightarrow> payload_name p | None \<Rightarrow> dr_name x)\<rparr>"

definition own_delta :: "agw_payload delta_response \<Rightarrow> agw_payload delta_response" where
  "own_delta d = d\<lparr>ddr_resources := map own_named (ddr_resources d)\<rparr>"

datatype agw_stream = Resource_Stream | Workload_Stream

fun agw_url :: "agw_stream \<Rightarrow> string" where
  "agw_url Resource_Stream = RESOURCE_TYPE_URL"
| "agw_url Workload_Stream = ADDRESS_TYPE_URL"

definition agw_view :: "agw_server \<Rightarrow> agw_stream \<Rightarrow> nat \<Rightarrow> string \<Rightarrow> agw_payload discovery_resource option" where
  "agw_view s k tx = fold (apply_delta \<circ> own_delta)
     (map snd (filter (\<lambda>(t, d). t = tx \<and> ddr_type_url d = agw_url k) (ags_sent s))) Map.empty"

lemma type_urls_distinct [simp]: "RESOURCE_TYPE_URL \<noteq> ADDRESS_TYPE_URL" "ADDRESS_TYPE_URL \<noteq> RESOURCE_TYPE_URL"
  by (simp_all add: RESOURCE_TYPE_URL_def ADDRESS_TYPE_URL_def)

lemma agw_url_inject [simp]: "agw_url j = agw_url k \<longleftrightarrow> j = k"
  by (cases j; cases k) simp_all

lemma named_inject [simp]: "named_resource a = named_resource b \<longleftrightarrow> a = b" "named_address c = named_address d \<longleftrightarrow> c = d"
  by (auto simp: named_resource_def named_address_def)

lemma dr_name_named [simp]: "dr_name (named_resource r) = get_resource_name r" "dr_name (named_address a) = get_workload_name a"
  by (simp_all add: named_resource_def named_address_def)

lemma own_named_named [simp]: "own_named (named_resource r) = named_resource r" "own_named (named_address a) = named_address a"
  "own_named \<lparr>dr_name = n, dr_resource = Some (PL_Resource r)\<rparr> = named_resource r"
  "own_named \<lparr>dr_name = n, dr_resource = Some (PL_Address a)\<rparr> = named_address a"
  by (simp_all add: own_named_def named_resource_def named_address_def)

lemma difference_map: "inj f \<Longrightarrow> difference (map f xs) (map f ys) = map f (difference xs ys)"
  by (simp add: difference_filter filter_map comp_def inj_image_mem_iff)

lemma inj_named [simp]: "inj named_resource" "inj named_address"
  by (simp_all add: inj_def)

subsection \<open>Effect of the updates\<close>

interpretation agw: client_table agl_client_id agw_update_from
  by unfold_locales (simp add: agw_update_from_def)

lemma agw_write_client_entry: "agw_write_client = write_entry agl_client_id agw_update_from"
  by (simp add: fun_eq_iff agw_write_client_def write_entry_def)

definition managed_resources_of :: "agw_server \<Rightarrow> string \<Rightarrow> agw_resource list" where
  "managed_resources_of s g = (case map_of (ags_managed s) g of Some e \<Rightarrow> agm_all_resources e | None \<Rightarrow> [])"

definition managed_workloads_of :: "agw_server \<Rightarrow> string \<Rightarrow> workload_address list" where
  "managed_workloads_of s g = (case map_of (ags_managed s) g of Some e \<Rightarrow> agm_all_workloads e | None \<Rightarrow> [])"

lemma agw_managed_update [simp]:
  "managed_resources_of (update_managed_resources g rs s) = (managed_resources_of s)(g := rs)"
  "managed_workloads_of (update_managed_resources g rs s) = managed_workloads_of s"
  "managed_workloads_of (update_managed_workloads g ws s) = (managed_workloads_of s)(g := ws)"
  "managed_resources_of (update_managed_workloads g ws s) = managed_resources_of s"
  by (auto simp: fun_eq_iff managed_resources_of_def managed_workloads_of_def update_managed_resources_def update_managed_workloads_def
      update_conv' split: option.split)

lemma agw_managed_other [simp]:
  "managed_resources_of (s\<lparr>ags_sent := x\<rparr>) = managed_resources_of s" "managed_workloads_of (s\<lparr>ags_sent := x\<rparr>) = managed_workloads_of s"
  "managed_resources_of (s\<lparr>ags_clients := y\<rparr>) = managed_resources_of s" "managed_workloads_of (s\<lparr>ags_clients := y\<rparr>) = managed_workloads_of s"
  by (simp_all add: fun_eq_iff managed_resources_of_def managed_workloads_of_def)

lemma agw_update_managed_frame [simp]:
  "ags_clients (update_managed_resources g rs s) = ags_clients s" "ags_sent (update_managed_resources g rs s) = ags_sent s"
  "ags_clients (update_managed_workloads g ws s) = ags_clients s" "ags_sent (update_managed_workloads g ws s) = ags_sent s"
  by (simp_all add: update_managed_resources_def update_managed_workloads_def)

definition resource_deltas :: "agw_resource list \<Rightarrow> agw_client \<Rightarrow> agw_payload delta_response list" where
  "resource_deltas rs c =
     [\<lparr>ddr_type_url = RESOURCE_TYPE_URL, ddr_resources = [],
       ddr_removed_resources = difference (map get_resource_name (agl_resources c)) (map get_resource_name rs) @
         map get_resource_name (difference rs (agl_resources c))\<rparr>,
      \<lparr>ddr_type_url = RESOURCE_TYPE_URL, ddr_resources = map named_resource (difference rs (agl_resources c)), ddr_removed_resources = []\<rparr>]"

definition workload_deltas :: "workload_address list \<Rightarrow> agw_client \<Rightarrow> agw_payload delta_response list" where
  "workload_deltas ws c =
     [\<lparr>ddr_type_url = ADDRESS_TYPE_URL, ddr_resources = [],
       ddr_removed_resources = difference (map get_workload_name (agl_workloads c)) (map get_workload_name ws)\<rparr>,
      \<lparr>ddr_type_url = ADDRESS_TYPE_URL, ddr_resources = map named_address (difference ws (agl_workloads c)), ddr_removed_resources = []\<rparr>]"

lemma send_resources_delta_effect:
  assumes "agl_gateway_id c = Some g"
  shows "ags_clients (send_resources_delta rs c s) = agw_write_client (c\<lparr>agl_resources := rs\<rparr>) (ags_clients s)"
    and "ags_sent (send_resources_delta rs c s) = ags_sent s @ map (Pair (agl_sender c)) (resource_deltas rs c)"
    and "managed_resources_of (send_resources_delta rs c s) = (managed_resources_of s)(g := rs)"
    and "managed_workloads_of (send_resources_delta rs c s) = managed_workloads_of s"
  using assms by (simp_all add: send_resources_delta_def cache_resources_and_calculate_delta_def agw_send_def
      update_client_and_resources_def resource_deltas_def Let_def)

lemma send_workloads_delta_effect:
  assumes "agl_gateway_id c = Some g"
  shows "ags_clients (send_workloads_delta ws c s) = agw_write_client (c\<lparr>agl_workloads := ws\<rparr>) (ags_clients s)"
    and "ags_sent (send_workloads_delta ws c s) = ags_sent s @ map (Pair (agl_sender c)) (workload_deltas ws c)"
    and "managed_workloads_of (send_workloads_delta ws c s) = (managed_workloads_of s)(g := ws)"
    and "managed_resources_of (send_workloads_delta ws c s) = managed_resources_of s"
  using assms by (simp_all add: send_workloads_delta_def cache_workloads_and_calculate_delta_def agw_send_def
      update_client_and_workloads_def workload_deltas_def Let_def)

lemma fold_send_resources_delta:
  assumes "\<forall>c\<in>set cs. agl_gateway_id c = Some g" "managed_resources_of s g = rs"
  shows "ags_clients (fold (send_resources_delta rs) cs s) = fold (\<lambda>c. agw_write_client (c\<lparr>agl_resources := rs\<rparr>)) cs (ags_clients s) \<and>
    ags_sent (fold (send_resources_delta rs) cs s) = ags_sent s @ concat (map (\<lambda>c. map (Pair (agl_sender c)) (resource_deltas rs c)) cs) \<and>
    managed_resources_of (fold (send_resources_delta rs) cs s) = managed_resources_of s \<and>
    managed_workloads_of (fold (send_resources_delta rs) cs s) = managed_workloads_of s"
  using assms by (induction cs arbitrary: s) (simp_all add: send_resources_delta_effect fun_upd_idem)

lemma fold_send_workloads_delta:
  assumes "\<forall>c\<in>set cs. agl_gateway_id c = Some g" "managed_workloads_of s g = ws"
  shows "ags_clients (fold (send_workloads_delta ws) cs s) = fold (\<lambda>c. agw_write_client (c\<lparr>agl_workloads := ws\<rparr>)) cs (ags_clients s) \<and>
    ags_sent (fold (send_workloads_delta ws) cs s) = ags_sent s @ concat (map (\<lambda>c. map (Pair (agl_sender c)) (workload_deltas ws c)) cs) \<and>
    managed_workloads_of (fold (send_workloads_delta ws) cs s) = managed_workloads_of s \<and>
    managed_resources_of (fold (send_workloads_delta ws) cs s) = managed_resources_of s"
  using assms by (induction cs arbitrary: s) (simp_all add: send_workloads_delta_effect fun_upd_idem)

definition agw_of_gateway :: "string \<Rightarrow> agw_client \<Rightarrow> bool" where
  "agw_of_gateway g c \<longleftrightarrow> agl_gateway_id c = Some g"

lemma agw_resources_sent:
  fixes k :: resource_key and rs :: "agw_resource list" and s :: agw_server
  assumes "distinct (map agl_client_id (ags_clients s))"
  defines "g \<equiv> create_gateway_id k" and "s' \<equiv> handle_agw_action (UpdateResources k rs) s"
  shows "ags_clients s' = map (\<lambda>c. if agw_of_gateway g c then c\<lparr>agl_resources := rs\<rparr> else c) (ags_clients s)"
    and "ags_sent s' = ags_sent s @
      concat (map (\<lambda>c. map (Pair (agl_sender c)) (resource_deltas rs c)) (filter (agw_of_gateway g) (ags_clients s)))"
    and "managed_resources_of s' = (managed_resources_of s)(g := rs)" and "managed_workloads_of s' = managed_workloads_of s"
proof -
  let ?cs = "filter (agw_of_gateway g) (ags_clients s)" and ?s = "update_managed_resources g rs s"
  have cs: "agw_clients_by_gateway_id g (ags_clients s) = ?cs" by (simp add: agw_clients_by_gateway_id_def agw_of_gateway_def [abs_def])
  have "\<forall>c\<in>set ?cs. agl_gateway_id c = Some g" by (simp add: agw_of_gateway_def)
  note f = fold_send_resources_delta [OF this, of ?s rs]
  have "fold (\<lambda>c. agw_write_client (c\<lparr>agl_resources := rs\<rparr>)) ?cs (ags_clients s) =
      map (\<lambda>c. if agw_of_gateway g c then c\<lparr>agl_resources := rs\<rparr> else c) (ags_clients s)"
    unfolding agw_write_client_entry using assms(1) by (rule agw.fold_write_changed) (simp_all add: agw_update_from_def)
  with f show "ags_clients s' = map (\<lambda>c. if agw_of_gateway g c then c\<lparr>agl_resources := rs\<rparr> else c) (ags_clients s)"
    "ags_sent s' = ags_sent s @ concat (map (\<lambda>c. map (Pair (agl_sender c)) (resource_deltas rs c)) ?cs)"
    "managed_resources_of s' = (managed_resources_of s)(g := rs)" "managed_workloads_of s' = managed_workloads_of s"
    by (simp_all add: s'_def g_def [symmetric] cs Let_def)
qed

lemma agw_workloads_sent:
  fixes k :: resource_key and ws :: "workload_address list" and s :: agw_server
  assumes "distinct (map agl_client_id (ags_clients s))"
  defines "g \<equiv> create_gateway_id k" and "s' \<equiv> handle_agw_action (UpdateWorkloads k ws) s"
  shows "ags_clients s' = map (\<lambda>c. if agw_of_gateway g c then c\<lparr>agl_workloads := ws\<rparr> else c) (ags_clients s)"
    and "ags_sent s' = ags_sent s @
      concat (map (\<lambda>c. map (Pair (agl_sender c)) (workload_deltas ws c)) (filter (agw_of_gateway g) (ags_clients s)))"
    and "managed_workloads_of s' = (managed_workloads_of s)(g := ws)" and "managed_resources_of s' = managed_resources_of s"
proof -
  let ?cs = "filter (agw_of_gateway g) (ags_clients s)" and ?s = "update_managed_workloads g ws s"
  have cs: "agw_clients_by_gateway_id g (ags_clients s) = ?cs" by (simp add: agw_clients_by_gateway_id_def agw_of_gateway_def [abs_def])
  have "\<forall>c\<in>set ?cs. agl_gateway_id c = Some g" by (simp add: agw_of_gateway_def)
  note f = fold_send_workloads_delta [OF this, of ?s ws]
  have "fold (\<lambda>c. agw_write_client (c\<lparr>agl_workloads := ws\<rparr>)) ?cs (ags_clients s) =
      map (\<lambda>c. if agw_of_gateway g c then c\<lparr>agl_workloads := ws\<rparr> else c) (ags_clients s)"
    unfolding agw_write_client_entry using assms(1) by (rule agw.fold_write_changed) (simp_all add: agw_update_from_def)
  with f show "ags_clients s' = map (\<lambda>c. if agw_of_gateway g c then c\<lparr>agl_workloads := ws\<rparr> else c) (ags_clients s)"
    "ags_sent s' = ags_sent s @ concat (map (\<lambda>c. map (Pair (agl_sender c)) (workload_deltas ws c)) ?cs)"
    "managed_workloads_of s' = (managed_workloads_of s)(g := ws)" "managed_resources_of s' = managed_resources_of s"
    by (simp_all add: s'_def g_def [symmetric] cs Let_def)
qed

declare handle_agw_action.simps [simp del]

subsection \<open>Simulation by Orion's server\<close>

fun orion_url :: "agw_stream \<Rightarrow> type_url" where
  "orion_url Resource_Stream = Url_Listener"
| "orion_url Workload_Stream = Url_Cluster"

definition orion_client_of :: "agw_client \<Rightarrow> agw_payload orion_client" where
  "orion_client_of c = \<lparr>orc_sender = agl_sender c, orc_client_id = agl_client_id c, orc_gateway_id = agl_gateway_id c,
     orc_listeners = map named_resource (agl_resources c), orc_clusters = map named_address (agl_workloads c)\<rparr>"

definition simulates :: "agw_payload orion_server \<Rightarrow> agw_server \<Rightarrow> bool" where
  "simulates o' s \<longleftrightarrow> ors_clients o' = map orion_client_of (ags_clients s) \<and>
     managed_listeners o' = (\<lambda>g. map named_resource (managed_resources_of s g)) \<and>
     managed_clusters o' = (\<lambda>g. map named_address (managed_workloads_of s g)) \<and>
     (\<forall>k tx. agw_view s k tx = proxy_view o' (orion_url k) tx) \<and> fst ` set (ags_sent s) = fst ` set (ors_sent o')"

lemma orion_client_of_simps [simp]:
  "orc_sender (orion_client_of c) = agl_sender c" "orc_client_id (orion_client_of c) = agl_client_id c"
  "orc_gateway_id (orion_client_of c) = agl_gateway_id c"
  "orc_listeners (orion_client_of c) = map named_resource (agl_resources c)"
  "orc_clusters (orion_client_of c) = map named_address (agl_workloads c)"
  by (simp_all add: orion_client_of_def)

lemma orion_client_of_update [simp]:
  "orion_client_of (c\<lparr>agl_resources := rs\<rparr>) = (orion_client_of c)\<lparr>orc_listeners := map named_resource rs\<rparr>"
  "orion_client_of (c\<lparr>agl_workloads := ws\<rparr>) = (orion_client_of c)\<lparr>orc_clusters := map named_address ws\<rparr>"
  by (simp_all add: orion_client_of_def)

lemma of_gateway_client [simp]: "of_gateway g (orion_client_of c) = agw_of_gateway g c"
  by (simp add: of_gateway_def agw_of_gateway_def)

text \<open>Removing and then adding in two responses is what Orion does in one.\<close>

lemma by_name_named: "by_name (map f rs) n = None \<longleftrightarrow> n \<notin> (dr_name \<circ> f) ` set rs"
  by (simp add: by_name_None image_comp)

lemma by_name_Nil [simp]: "by_name [] = Map.empty"
  by (simp add: by_name_def)

lemma set_difference [simp]: "set (difference xs ys) = set xs - set ys"
  by (auto simp: difference_filter)

lemma deltas_urls [simp]:
  "d \<in> set (resource_deltas rs c) \<Longrightarrow> ddr_type_url d = RESOURCE_TYPE_URL" "resource_deltas rs c \<noteq> []"
  "d \<in> set (workload_deltas ws c) \<Longrightarrow> ddr_type_url d = ADDRESS_TYPE_URL" "workload_deltas ws c \<noteq> []"
  by (auto simp: resource_deltas_def workload_deltas_def)

lemma orion_deltas_urls [simp]:
  "ddr_type_url (listener_delta rs c) = type_url_to_string Url_Listener" "ddr_type_url (cluster_delta rs c) = type_url_to_string Url_Cluster"
  by (simp_all add: listener_delta_def cluster_delta_def)

lemma two_step_delta:
  assumes "\<And>n. n \<notin> dr_name ` set adds \<Longrightarrow> n \<in> set removed1 \<longleftrightarrow> n \<in> set removed2"
  shows "apply_delta \<lparr>ddr_type_url = u, ddr_resources = adds, ddr_removed_resources = []\<rparr>
      (apply_delta \<lparr>ddr_type_url = u, ddr_resources = [], ddr_removed_resources = removed1\<rparr> m) =
    apply_delta \<lparr>ddr_type_url = v, ddr_resources = adds, ddr_removed_resources = removed2\<rparr> m"
proof
  fix n
  show "apply_delta \<lparr>ddr_type_url = u, ddr_resources = adds, ddr_removed_resources = []\<rparr>
      (apply_delta \<lparr>ddr_type_url = u, ddr_resources = [], ddr_removed_resources = removed1\<rparr> m) n =
    apply_delta \<lparr>ddr_type_url = v, ddr_resources = adds, ddr_removed_resources = removed2\<rparr> m n"
  proof (cases "by_name adds n")
    case None
    with assms [of n] show ?thesis by (simp add: apply_delta_def map_add_def by_name_None)
  qed (simp add: apply_delta_def map_add_def)
qed

lemma resource_deltas_view:
  "fold (apply_delta \<circ> own_delta) (resource_deltas rs c) m = apply_delta (listener_delta (map named_resource rs) (orion_client_of c)) m"
proof -
  let ?old = "agl_resources c"
  have "n \<in> set (difference (map get_resource_name ?old) (map get_resource_name rs) @ map get_resource_name (difference rs ?old)) \<longleftrightarrow>
      n \<in> set (difference (map get_resource_name ?old) (map get_resource_name rs))"
    if "n \<notin> dr_name ` set (map named_resource (difference rs ?old))" for n
    using that by (auto simp: image_image)
  from two_step_delta [where adds = "map named_resource (difference rs ?old)" and m = m and u = RESOURCE_TYPE_URL
      and v = "type_url_to_string Url_Listener", OF this]
  show ?thesis by (simp add: resource_deltas_def listener_delta_def own_delta_def comp_def difference_map)
qed

lemma workload_deltas_view:
  assumes "distinct (map get_workload_name (agl_workloads c))"
  shows "fold (apply_delta \<circ> own_delta) (workload_deltas ws c) m = apply_delta (cluster_delta (map named_address ws) (orion_client_of c)) m"
proof -
  let ?old = "agl_workloads c"
  have "n \<in> set (difference (map get_workload_name ?old) (map get_workload_name ws)) \<longleftrightarrow>
      n \<in> set (map get_workload_name (difference ?old ws))"
    if n: "n \<notin> dr_name ` set (map named_address (difference ws ?old))" for n
  proof -
    have "n \<notin> get_workload_name ` set ws" if a: "a \<in> set ?old" "a \<notin> set ws" "n = get_workload_name a" for a
    proof
      assume "n \<in> get_workload_name ` set ws"
      then obtain b where b: "b \<in> set ws" "get_workload_name b = n" by auto
      with a assms have "b \<notin> set ?old" by (auto simp: distinct_map inj_on_def)
      with b n show False by (auto simp: image_image)
    qed
    then show ?thesis by auto
  qed
  from two_step_delta [where adds = "map named_address (difference ws ?old)" and m = m and u = ADDRESS_TYPE_URL
      and v = "type_url_to_string Url_Cluster", OF this]
  show ?thesis by (simp add: workload_deltas_def cluster_delta_def own_delta_def comp_def difference_map)
qed

text \<open>The views of two logs that grow by matching responses to the same clients.\<close>

lemma views_appended:
  assumes "\<And>c d. c \<in> set cs \<Longrightarrow> d \<in> set (ds c) \<Longrightarrow> ddr_type_url d = u" "\<And>c. ddr_type_url (e c) = v"
    and "\<And>c m. c \<in> set cs \<Longrightarrow> fold f (ds c) m = apply_delta (e c) m" and same: "u = u' \<longleftrightarrow> v = v'"
  shows "fold f (map snd (filter (\<lambda>(t, d). t = tx \<and> ddr_type_url d = u')
      (concat (map (\<lambda>c. map (Pair (agl_sender c)) (ds c)) cs)))) m =
    fold apply_delta (map snd (filter (\<lambda>(t, d). t = tx \<and> ddr_type_url d = v') (map (\<lambda>c. (agl_sender c, e c)) cs))) m"
  using assms(1-3)
proof (induction cs arbitrary: m)
  case (Cons c cs)
  have "map snd (filter (\<lambda>(t, d). t = tx \<and> ddr_type_url d = u') (map (Pair (agl_sender c)) (ds c))) =
      (if agl_sender c = tx \<and> u = u' then ds c else [])"
    using Cons.prems(1) [of c] by (auto simp: filter_map comp_def filter_empty_conv intro!: filter_True)
  moreover have "fold f (map snd (filter (\<lambda>(t, d). t = tx \<and> ddr_type_url d = u')
      (concat (map (\<lambda>c. map (Pair (agl_sender c)) (ds c)) cs)))) m =
    fold apply_delta (map snd (filter (\<lambda>(t, d). t = tx \<and> ddr_type_url d = v') (map (\<lambda>c. (agl_sender c, e c)) cs))) m" for m
    by (rule Cons.IH) (use Cons.prems in auto)
  ultimately show ?case using Cons.prems(2) Cons.prems(3) [of c] same by simp
qed simp

lemma simulates_view_appended:
  assumes sim: "simulates o' s" and "ags_sent s' = ags_sent s @ concat (map (\<lambda>c. map (Pair (agl_sender c)) (ds c)) cs)"
    and "ors_sent o'' = ors_sent o' @ map (\<lambda>c. (agl_sender c, e c)) cs"
    and "\<And>c d. c \<in> set cs \<Longrightarrow> d \<in> set (ds c) \<Longrightarrow> ddr_type_url d = agw_url k" "\<And>c. ddr_type_url (e c) = type_url_to_string (orion_url k)"
    and "\<And>c m. c \<in> set cs \<Longrightarrow> fold (apply_delta \<circ> own_delta) (ds c) m = apply_delta (e c) m"
  shows "agw_view s' j tx = proxy_view o'' (orion_url j) tx"
proof -
  have "agw_url k = agw_url j \<longleftrightarrow> type_url_to_string (orion_url k) = type_url_to_string (orion_url j)"
    by (cases j; cases k) simp_all
  note v = views_appended [of cs ds "agw_url k" e "type_url_to_string (orion_url k)" "apply_delta \<circ> own_delta" "agw_url j" "type_url_to_string (orion_url j)",
      OF assms(4-6) this, where tx = tx and m = "agw_view s j tx"]
  have "agw_view s' j tx = fold (apply_delta \<circ> own_delta) (map snd (filter (\<lambda>(t, d). t = tx \<and> ddr_type_url d = agw_url j)
      (concat (map (\<lambda>c. map (Pair (agl_sender c)) (ds c)) cs)))) (agw_view s j tx)"
    by (simp add: agw_view_def assms(2))
  with v show ?thesis using sim by (simp add: proxy_view_sent [OF assms(3)] simulates_def)
qed

lemma senders_appended:
  assumes "\<And>c. c \<in> set cs \<Longrightarrow> ds c \<noteq> []"
  shows "fst ` set (concat (map (\<lambda>c. map (Pair (agl_sender c)) (ds c)) cs)) = fst ` set (map (\<lambda>c. (agl_sender c, e c)) cs)"
  using assms by (force simp: image_iff neq_Nil_conv)

lemma simulates_update_resources:
  assumes sim: "simulates o' s" and ok: "orion_ok o' L"
  shows "simulates (handle_orion_action (UpdateListeners k (map named_resource rs) v) o') (handle_agw_action (UpdateResources k rs) s)"
proof -
  let ?g = "create_gateway_id k"
  have clients: "ors_clients o' = map orion_client_of (ags_clients s)" using sim by (simp add: simulates_def)
  have d: "distinct (map agl_client_id (ags_clients s))" using orion_okD(1) [OF ok] by (simp add: clients comp_def)
  note a = agw_resources_sent [OF d, of k rs] and b = orion_listeners_sent [OF orion_okD(1) [OF ok], of k "map named_resource rs" v]
  let ?s = "handle_agw_action (UpdateResources k rs) s" and ?o = "handle_orion_action (UpdateListeners k (map named_resource rs) v) o'"
  let ?cs = "filter (agw_of_gateway ?g) (ags_clients s)"
  have sent: "ors_sent ?o = ors_sent o' @ map (\<lambda>c. (agl_sender c, listener_delta (map named_resource rs) (orion_client_of c))) ?cs"
    by (simp add: b(2) clients filter_map comp_def)
  have "agw_view ?s j tx = proxy_view ?o (orion_url j) tx" for j tx
    by (rule simulates_view_appended [OF sim a(2) sent, where k = Resource_Stream])
      (simp_all add: resource_deltas_view)
  moreover have "fst ` set (ags_sent ?s) = fst ` set (ors_sent ?o)"
    using sim senders_appended [of ?cs "resource_deltas rs" "\<lambda>c. listener_delta (map named_resource rs) (orion_client_of c)"]
    unfolding a(2) sent set_append image_Un by (simp add: simulates_def)
  moreover have "ors_clients ?o = map orion_client_of (ags_clients ?s)"
    unfolding a(1) b(1) clients by simp
  ultimately show ?thesis using sim a(3,4) b(3,4) by (auto simp: simulates_def fun_eq_iff)
qed

lemma simulates_update_workloads:
  assumes sim: "simulates o' s" and ok: "orion_ok o' L"
  shows "simulates (handle_orion_action (UpdateClusters k (map named_address ws) v) o') (handle_agw_action (UpdateWorkloads k ws) s)"
proof -
  let ?g = "create_gateway_id k"
  have clients: "ors_clients o' = map orion_client_of (ags_clients s)" using sim by (simp add: simulates_def)
  have d: "distinct (map agl_client_id (ags_clients s))" using orion_okD(1) [OF ok] by (simp add: clients comp_def)
  note a = agw_workloads_sent [OF d, of k ws] and b = orion_clusters_sent [OF orion_okD(1) [OF ok], of k "map named_address ws" v]
  let ?s = "handle_agw_action (UpdateWorkloads k ws) s" and ?o = "handle_orion_action (UpdateClusters k (map named_address ws) v) o'"
  let ?cs = "filter (agw_of_gateway ?g) (ags_clients s)"
  have names: "distinct (map get_workload_name (agl_workloads c))" if c: "c \<in> set ?cs" for c
  proof -
    have "orc_clusters (orion_client_of c) = managed_clusters o' ?g"
      using c orion_okD(6) [OF ok, of "orion_client_of c"] by (auto simp: clients client_synced_def agw_of_gateway_def)
    then have "distinct_names (map named_address (agl_workloads c))" using orion_okD(4) [OF ok] by (metis orion_client_of_simps(5))
    then show ?thesis by (simp add: comp_def)
  qed
  have sent: "ors_sent ?o = ors_sent o' @ map (\<lambda>c. (agl_sender c, cluster_delta (map named_address ws) (orion_client_of c))) ?cs"
    by (simp add: b(2) clients filter_map comp_def)
  have "agw_view ?s j tx = proxy_view ?o (orion_url j) tx" for j tx
    by (rule simulates_view_appended [OF sim a(2) sent, where k = Workload_Stream])
      (use names workload_deltas_view in simp_all)
  moreover have "fst ` set (ags_sent ?s) = fst ` set (ors_sent ?o)"
    using sim senders_appended [of ?cs "workload_deltas ws" "\<lambda>c. cluster_delta (map named_address ws) (orion_client_of c)"]
    unfolding a(2) sent set_append image_Un by (simp add: simulates_def)
  moreover have "ors_clients ?o = map orion_client_of (ags_clients ?s)"
    unfolding a(1) b(1) clients by simp
  ultimately show ?thesis using sim a(3,4) b(3,4) by (auto simp: simulates_def fun_eq_iff)
qed

lemma map_agw_write_client: "map orion_client_of (agw_write_client c cs) = write_client (orion_client_of c) (map orion_client_of cs)"
proof (induction cs)
  case Nil
  show ?case by (simp add: agw_write_client_entry write_client_entry agw.write_Nil orc.write_Nil)
next
  case (Cons d cs)
  have "orion_client_of (agw_update_from c d) = orion_update_from (orion_client_of c) (orion_client_of d)"
    by (simp add: orion_client_of_def agw_update_from_def orion_update_from_def)
  with Cons show ?case by (simp add: agw_write_client_entry write_client_entry agw.write_Cons orc.write_Cons)
qed

lemma map_agw_put_client: "map orion_client_of (agw_add_or_replace_client c cs) = orion_add_or_replace_client (orion_client_of c) (map orion_client_of cs)"
proof -
  have put: "agw_add_or_replace_client = put_entry agl_client_id (\<lambda>u _. u)"
    by (simp add: fun_eq_iff agw_add_or_replace_client_def put_entry_def)
  show ?thesis unfolding orion_add_or_replace_entry put by (induction cs) (simp_all add: put_entry_Cons)
qed

lemma simulates_clients:
  "simulates o' s \<Longrightarrow> simulates (o'\<lparr>ors_clients := map orion_client_of cs\<rparr>) (s\<lparr>ags_clients := cs\<rparr>)"
  by (simp add: simulates_def agw_view_def proxy_view_def responses_to_def)

lemma simulates_update_client:
  assumes sim: "simulates o' s" and ok: "orion_ok o' L" and c: "c \<in> set (ags_clients s)" and u: "agw_update_client c g s = (c', s1)"
  obtains o1 where "orion_update_client (orion_client_of c) g o' = (orion_client_of c', o1)" "simulates o1 s1"
proof -
  have clients: "ors_clients o' = map orion_client_of (ags_clients s)" using sim by (simp add: simulates_def)
  have old: "client_synced o' L (orion_client_of c)" using orion_okD(6) [OF ok] c by (simp add: clients)
  have "orion_update_client (orion_client_of c) g o' = (orion_client_of c', o'\<lparr>ors_clients := write_client (orion_client_of c') (ors_clients o')\<rparr>)"
  proof (cases "agl_gateway_id c")
    case (Some h)
    with u have "c' = c" by (auto simp: agw_update_client_def)
    with Some show ?thesis by (simp add: orion_update_client_def Let_def)
  next
    case None
    with old have empty: "agl_resources c = []" "agl_workloads c = []" by (simp_all add: client_synced_def)
    have "c' = c\<lparr>agl_gateway_id := Some g, agl_resources := managed_resources_of s g, agl_workloads := managed_workloads_of s g\<rparr>"
      using u None empty by (auto simp: agw_update_client_def Let_def managed_resources_of_def managed_workloads_of_def split: option.splits)
    moreover have "managed_listeners o' g = map named_resource (managed_resources_of s g)"
      "managed_clusters o' g = map named_address (managed_workloads_of s g)" using sim by (simp_all add: simulates_def)
    ultimately show ?thesis using None empty
      by (auto simp: orion_update_client_def Let_def orion_client_of_def managed_listeners_def managed_clusters_def split: option.splits)
  qed
  moreover have s1: "s1 = s\<lparr>ags_clients := agw_write_client c' (ags_clients s)\<rparr>" using u by (auto simp: agw_update_client_def Let_def)
  moreover have "simulates (o'\<lparr>ors_clients := write_client (orion_client_of c') (ors_clients o')\<rparr>) s1"
    unfolding s1 clients map_agw_write_client [symmetric] by (rule simulates_clients [OF sim])
  ultimately show ?thesis using that by blast
qed

lemma agw_view_send: "agw_view (agw_send tx url rs removed s) k t =
    (if t = tx \<and> url = agw_url k
     then apply_delta (own_delta \<lparr>ddr_type_url = url, ddr_resources = rs, ddr_removed_resources = removed\<rparr>) (agw_view s k t) else agw_view s k t)"
  by (auto simp: agw_view_def agw_send_def)

text \<open>An answer and Orion's, with the resources under their own names, do the same to the views.\<close>

lemma simulates_send:
  assumes sim: "simulates o' s" and "\<And>k. url = agw_url k \<longleftrightarrow> url' = type_url_to_string (orion_url k)" and "map own_named rs = rs'"
  shows "simulates (send_delta tx url' rs' [] o') (agw_send tx url rs [] s)"
proof -
  have "apply_delta (own_delta \<lparr>ddr_type_url = url, ddr_resources = rs, ddr_removed_resources = []\<rparr>) =
      apply_delta \<lparr>ddr_type_url = url', ddr_resources = rs', ddr_removed_resources = []\<rparr>"
    by (simp add: fun_eq_iff apply_delta_def own_delta_def assms(3))
  then have "agw_view (agw_send tx url rs [] s) k t = proxy_view (send_delta tx url' rs' [] o') (orion_url k) t" for k t
    using sim assms(2) [of k] by (simp add: agw_view_send proxy_view_send simulates_def)
  then show ?thesis using sim by (simp add: simulates_def) (simp add: agw_send_def send_delta_def)
qed

subsection \<open>Runs\<close>

text \<open>The connection and resource type a request is sent everything for.\<close>

definition agw_listed :: "pod_lookup \<Rightarrow> client_address \<Rightarrow> nat \<Rightarrow> delta_request \<Rightarrow> agw_server \<Rightarrow> (nat \<times> agw_stream) set" where
  "agw_listed pods client_ip tx q s =
     (if deq_response_nonce q = [] \<and> deq_error_detail q = None \<and> agw_client_by_client_id client_ip (ags_clients s) \<noteq> None \<and>
         (\<exists>node. deq_node q = Some node \<and> agw_fetch_gateway_id pods (en_id node) \<noteq> None)
      then {(tx, k) | k. deq_type_url q = agw_url k} else {})"

inductive agw_run :: "agw_server \<Rightarrow> (nat \<times> agw_stream) set \<Rightarrow> bool" where
  start: "agw_run new_agw_server {}"
| update_resources: "agw_run s L \<Longrightarrow> distinct (map get_resource_name rs) \<Longrightarrow> agw_run (handle_agw_action (UpdateResources k rs) s) L"
| update_workloads: "agw_run s L \<Longrightarrow> distinct (map get_workload_name ws) \<Longrightarrow> agw_run (handle_agw_action (UpdateWorkloads k ws) s) L"
| connect: "agw_run s L \<Longrightarrow> tx \<notin> agl_sender ` set (ags_clients s) \<Longrightarrow> tx \<notin> fst ` set (ags_sent s) \<Longrightarrow>
    agw_open_stream addr tx s = Inr s' \<Longrightarrow> agw_run s' L"
| request: "agw_run s L \<Longrightarrow> \<forall>c. agw_client_by_client_id client_ip (ags_clients s) = Some c \<longrightarrow> agl_sender c = tx \<Longrightarrow>
    agw_run (handle_agw_request pods client_ip tx q s) (L \<union> agw_listed pods client_ip tx q s)"
| close: "agw_run s L \<Longrightarrow> agw_run (agw_close_stream client_ip s) L"

definition orion_listed :: "(nat \<times> agw_stream) set \<Rightarrow> (nat \<times> type_url) set" where
  "orion_listed L = map_prod (\<lambda>x. x) orion_url ` L"

definition simulated :: "agw_server \<Rightarrow> (nat \<times> agw_stream) set \<Rightarrow> bool" where
  "simulated s L \<longleftrightarrow> (\<exists>o'. orion_run o' (orion_listed L) \<and> simulates o' s)"

lemma simulated_connect:
  assumes "simulated s L" "tx \<notin> agl_sender ` set (ags_clients s)" "tx \<notin> fst ` set (ags_sent s)" "agw_open_stream addr tx s = Inr s'"
  shows "simulated s' L"
proof -
  obtain o' where run: "orion_run o' (orion_listed L)" and sim: "simulates o' s" using assms(1) by (auto simp: simulated_def)
  obtain ip where addr: "addr = Some ip" and s': "s' = s\<lparr>ags_clients := agw_add_or_replace_client (new_agw_client ip tx) (ags_clients s)\<rparr>"
    using assms(4) by (auto simp: agw_open_stream_def split: option.splits)
  have clients: "ors_clients o' = map orion_client_of (ags_clients s)" using sim by (simp add: simulates_def)
  have new: "orion_client_of (new_agw_client ip tx) = new_orion_client ip tx"
    by (simp add: orion_client_of_def new_agw_client_def new_orion_client_def)
  have "open_delta_stream addr tx o' = Inr (o'\<lparr>ors_clients := map orion_client_of (ags_clients s')\<rparr>)"
    by (simp add: open_delta_stream_def addr s' map_agw_put_client new clients)
  moreover have "tx \<notin> orc_sender ` set (ors_clients o')" "tx \<notin> fst ` set (ors_sent o')"
    using assms(2,3) sim by (auto simp: clients simulates_def)
  ultimately have "orion_run (o'\<lparr>ors_clients := map orion_client_of (ags_clients s')\<rparr>) (orion_listed L)"
    using orion_run.connect [OF run] by blast
  moreover have "simulates (o'\<lparr>ors_clients := map orion_client_of (ags_clients s')\<rparr>) s'"
    using simulates_clients [OF sim, of "ags_clients s'"] by (simp add: s')
  ultimately show ?thesis by (auto simp: simulated_def)
qed

lemma simulated_close:
  assumes "simulated s L"
  shows "simulated (agw_close_stream ip s) L"
proof -
  obtain o' where run: "orion_run o' (orion_listed L)" and sim: "simulates o' s" using assms by (auto simp: simulated_def)
  have "close_delta_stream ip o' = o'\<lparr>ors_clients := map orion_client_of (agw_remove_client ip (ags_clients s))\<rparr>"
    using sim by (simp add: close_delta_stream_def orion_remove_client_def agw_remove_client_def simulates_def filter_map comp_def)
  then have "simulates (close_delta_stream ip o') (agw_close_stream ip s)"
    using simulates_clients [OF sim, of "agw_remove_client ip (ags_clients s)"] by (simp add: agw_close_stream_def)
  then show ?thesis using orion_run.close [OF run, of ip] by (auto simp: simulated_def)
qed

lemma fetched_by_orion:
  assumes "agw_fetch_gateway_id pods node = Some g"
  obtains pods' node' where "fetch_gateway_id_by_node_id pods' node' = Some g"
proof -
  obtain app ns where g: "g = create_id app ns"
    using assms by (auto simp: agw_fetch_gateway_id_def split: sum.splits option.splits)
  have "fetch_gateway_id_by_node_id (\<lambda>_ _. Some (Some [(''app'', app)])) \<lparr>en_id = '''', en_cluster = ns\<rparr> = Some g"
    by (simp add: fetch_gateway_id_by_node_id_def g)
  then show ?thesis using that by blast
qed

lemma find_map_comp: "find P (map f xs) = map_option f (find (P \<circ> f) xs)"
  by (induction xs) simp_all

lemma simulated_request:
  assumes "simulated s L" and tx: "\<forall>c. agw_client_by_client_id client_ip (ags_clients s) = Some c \<longrightarrow> agl_sender c = tx"
  shows "simulated (handle_agw_request pods client_ip tx q s) (L \<union> agw_listed pods client_ip tx q s)"
proof (cases "deq_response_nonce q = [] \<and> deq_error_detail q = None \<and> agw_client_by_client_id client_ip (ags_clients s) \<noteq> None \<and>
    (\<exists>node. deq_node q = Some node \<and> agw_fetch_gateway_id pods (en_id node) \<noteq> None)")
  case False
  then have "agw_listed pods client_ip tx q s = {}" unfolding agw_listed_def by (rule if_not_P)
  moreover have "handle_agw_request pods client_ip tx q s = s"
    using False by (auto simp: handle_agw_request_def split: option.split)
  ultimately show ?thesis using assms(1) by simp
next
  case True
  obtain o' where run: "orion_run o' (orion_listed L)" and sim: "simulates o' s" using assms(1) by (auto simp: simulated_def)
  from True obtain c node g where c: "agw_client_by_client_id client_ip (ags_clients s) = Some c"
    and g: "deq_node q = Some node" "agw_fetch_gateway_id pods (en_id node) = Some g" by blast
  have mem: "c \<in> set (ags_clients s)" using c by (auto simp: agw_client_by_client_id_def find_Some_iff)
  obtain c' s1 where u: "agw_update_client c g s = (c', s1)" by fastforce
  obtain o1 where o1: "orion_update_client (orion_client_of c) g o' = (orion_client_of c', o1)" and sim1: "simulates o1 s1"
    using simulates_update_client [OF sim orion_run_ok [OF run] mem u] .
  obtain pods' node' where fetch: "fetch_gateway_id_by_node_id pods' node' = Some g" using fetched_by_orion [OF g(2)] .
  let ?k = "if deq_type_url q = RESOURCE_TYPE_URL then Some Resource_Stream else if deq_type_url q = ADDRESS_TYPE_URL then Some Workload_Stream else None"
  let ?url = "case ?k of Some k \<Rightarrow> type_url_to_string (orion_url k) | None \<Rightarrow> ''''"
  define q' where "q' = \<lparr>deq_response_nonce = '''', deq_error_detail = None, deq_node = Some node', deq_type_url = ?url\<rparr>"
  have find: "orion_client_by_client_id client_ip (ors_clients o') = Some (orion_client_of c)"
    using sim c by (simp add: orion_client_by_client_id_def agw_client_by_client_id_def simulates_def find_map_comp comp_def)
  have no_url: "type_url_from '''' = Inl ''did not recognise type_url ''" by (simp add: type_url_from_def)
  have listed: "listed_by pods' client_ip tx q' o' = orion_listed (agw_listed pods client_ip tx q s)"
  proof -
    have "listed_by pods' client_ip tx q' o' = {(tx, url) | url. url \<in> {Url_Listener, Url_Cluster} \<and> type_url_from ?url = Inr url}"
      unfolding listed_by_def by (rule if_P [THEN trans]) (simp_all add: q'_def find fetch)
    moreover have "agw_listed pods client_ip tx q s = {(tx, k) | k. deq_type_url q = agw_url k}"
      unfolding agw_listed_def using True by (rule if_P)
    moreover have "{(tx, url) | url. url \<in> {Url_Listener, Url_Cluster} \<and> type_url_from ?url = Inr url} =
        orion_listed {(tx, k) | k. deq_type_url q = agw_url k}"
    proof -
      have "deq_type_url q = agw_url k \<longleftrightarrow> ?k = Some k" for k by (cases k) auto
      then show ?thesis by (cases ?k) (auto simp: orion_listed_def no_url, (metis orion_url.simps agw_stream.exhaust)+)
    qed
    ultimately show ?thesis by simp
  qed
  have h: "handle_agw_request pods client_ip tx q s =
      (case ?k of
        Some Resource_Stream \<Rightarrow> agw_send tx RESOURCE_TYPE_URL
          (map (\<lambda>r. \<lparr>dr_name = RESOURCE_TYPE_URL, dr_resource = Some (PL_Resource r)\<rparr>) (agl_resources c')) [] s1
      | Some Workload_Stream \<Rightarrow> agw_send tx ADDRESS_TYPE_URL
          (map (\<lambda>a. \<lparr>dr_name = ADDRESS_TYPE_URL, dr_resource = Some (PL_Address a)\<rparr>) (agl_workloads c')) [] s1
      | None \<Rightarrow> agw_send tx (deq_type_url q) [] [] s1)"
    using True c g u by (simp add: handle_agw_request_def)
  have o: "handle_delta_request pods' client_ip tx q' o' =
      (case ?k of
        Some Resource_Stream \<Rightarrow> send_delta tx (type_url_to_string Url_Listener) (map named_resource (agl_resources c')) [] o1
      | Some Workload_Stream \<Rightarrow> send_delta tx (type_url_to_string Url_Cluster) (map named_address (agl_workloads c')) [] o1
      | None \<Rightarrow> send_delta tx '''' [] [] o1)"
    using find fetch o1 by (simp add: handle_delta_request_def q'_def no_url)
  have "simulates (handle_delta_request pods' client_ip tx q' o') (handle_agw_request pods client_ip tx q s)"
  proof -
    have urls: "agw_url j = agw_url k \<longleftrightarrow> type_url_to_string (orion_url j) = type_url_to_string (orion_url k)" for j k
      by (cases j; cases k) simp_all
    have none: "deq_type_url q = agw_url k \<longleftrightarrow> '''' = type_url_to_string (orion_url k)" if "?k = None" for k
      using that by (cases k) (auto split: if_splits simp: type_url_to_string.simps)
    show ?thesis
    proof (cases ?k)
      case None
      show ?thesis unfolding h o None option.case by (rule simulates_send [OF sim1]) (use none [OF None] in simp_all)
    next
      case (Some k)
      show ?thesis
      proof (cases k)
        case Resource_Stream
        show ?thesis unfolding h o Some option.case Resource_Stream agw_stream.case
          by (rule simulates_send [OF sim1]) (use urls [of Resource_Stream] in simp_all)
      next
        case Workload_Stream
        show ?thesis unfolding h o Some option.case Workload_Stream agw_stream.case
          by (rule simulates_send [OF sim1]) (use urls [of Workload_Stream] in simp_all)
      qed
    qed
  qed
  moreover have "\<forall>c. orion_client_by_client_id client_ip (ors_clients o') = Some c \<longrightarrow> orc_sender c = tx"
    using find tx c by simp
  then have "orion_run (handle_delta_request pods' client_ip tx q' o') (orion_listed L \<union> listed_by pods' client_ip tx q' o')"
    by (rule orion_run.request [OF run])
  ultimately show ?thesis
    unfolding simulated_def listed by (metis (no_types) image_Un orion_listed_def)
qed

lemma simulated_start: "simulated new_agw_server {}"
proof -
  have "simulates (new_orion_server :: agw_payload orion_server) new_agw_server"
    by (simp add: simulates_def new_orion_server_def new_agw_server_def fun_eq_iff managed_listeners_def managed_clusters_def
        managed_resources_of_def managed_workloads_of_def agw_view_def proxy_view_def responses_to_def)
  then show ?thesis using orion_run.start by (auto simp: simulated_def orion_listed_def)
qed

lemma simulated_update:
  assumes "simulated s L"
  shows "distinct (map get_resource_name rs) \<Longrightarrow> simulated (handle_agw_action (UpdateResources k rs) s) L"
    and "distinct (map get_workload_name ws) \<Longrightarrow> simulated (handle_agw_action (UpdateWorkloads k ws) s) L"
proof -
  obtain o' where run: "orion_run o' (orion_listed L)" and sim: "simulates o' s" using assms by (auto simp: simulated_def)
  show "simulated (handle_agw_action (UpdateResources k rs) s) L" if "distinct (map get_resource_name rs)"
  proof -
    have "distinct_names (map named_resource rs)" using that by (simp add: comp_def)
    then have "orion_run (handle_orion_action (UpdateListeners k (map named_resource rs) 0) o') (orion_listed L)"
      by (rule orion_run.update_listeners [OF run])
    then show ?thesis using simulates_update_resources [OF sim orion_run_ok [OF run]] by (auto simp: simulated_def)
  qed
  show "simulated (handle_agw_action (UpdateWorkloads k ws) s) L" if "distinct (map get_workload_name ws)"
  proof -
    have "distinct_names (map named_address ws)" using that by (simp add: comp_def)
    then have "orion_run (handle_orion_action (UpdateClusters k (map named_address ws) 0) o') (orion_listed L)"
      by (rule orion_run.update_clusters [OF run])
    then show ?thesis using simulates_update_workloads [OF sim orion_run_ok [OF run]] by (auto simp: simulated_def)
  qed
qed

lemma agw_run_simulated: "agw_run s L \<Longrightarrow> simulated s L"
  by (induction rule: agw_run.induct)
    (simp_all add: simulated_start simulated_update simulated_connect simulated_request simulated_close)

lemma agw_run_distinct:
  assumes "agw_run s L"
  shows "distinct (map agl_client_id (ags_clients s))"
proof -
  obtain o' where "orion_run o' (orion_listed L)" "simulates o' s" using agw_run_simulated [OF assms] by (auto simp: simulated_def)
  then show ?thesis using orion_okD(1) [OF orion_run_ok] by (fastforce simp: simulates_def comp_def)
qed

fun stream_resources :: "agw_server \<Rightarrow> string \<Rightarrow> agw_stream \<Rightarrow> agw_payload discovery_resource list" where
  "stream_resources s g Resource_Stream = map named_resource (managed_resources_of s g)"
| "stream_resources s g Workload_Stream = map named_address (managed_workloads_of s g)"

lemma agw_stream_synced:
  assumes "agw_run s L" and "c \<in> set (ags_clients s)" and "agl_gateway_id c = Some g"
  shows "agw_view s k (agl_sender c) \<subseteq>\<^sub>m by_name (stream_resources s g k) \<and>
    ((agl_sender c, k) \<in> L \<longrightarrow> agw_view s k (agl_sender c) = by_name (stream_resources s g k))"
proof -
  obtain o' where run: "orion_run o' (orion_listed L)" and sim: "simulates o' s"
    using agw_run_simulated [OF assms(1)] by (auto simp: simulated_def)
  have "client_synced o' (orion_listed L) (orion_client_of c)"
    using orion_okD(6) [OF orion_run_ok [OF run]] sim assms(2) by (simp add: simulates_def)
  moreover have "(agl_sender c, orion_url k) \<in> orion_listed L" if "(agl_sender c, k) \<in> L"
    using that by (force simp: orion_listed_def)
  moreover have "agw_view s k tx = proxy_view o' (orion_url k) tx" for tx using sim by (simp add: simulates_def)
  ultimately show ?thesis using sim assms(3) by (cases k) (auto simp: client_synced_def in_view_def simulates_def)
qed


text \<open>Whatever it lists, the answer to a request has one name for all resources.\<close>

lemma listing_names_collide:
  assumes "deq_error_detail q = None" "deq_response_nonce q = []" "deq_node q = Some node" "deq_type_url q = RESOURCE_TYPE_URL"
    and "agw_client_by_client_id client_ip (ags_clients s) = Some c" "agw_fetch_gateway_id pods (en_id node) = Some g"
    and "agw_update_client c g s = (c', s')"
  shows "\<exists>d. ags_sent (handle_agw_request pods client_ip tx q s) = ags_sent s @ [(tx, d)] \<and>
    map dr_resource (ddr_resources d) = map (Some \<circ> PL_Resource) (agl_resources c') \<and>
    set (map dr_name (ddr_resources d)) \<subseteq> {RESOURCE_TYPE_URL}"
proof -
  have "ags_sent s' = ags_sent s" using assms(7) by (auto simp: agw_update_client_def Let_def)
  then show ?thesis using assms by (auto simp: handle_agw_request_def agw_send_def)
qed

subsection \<open>Example\<close>

definition example_agw_client :: agw_client where
  "example_agw_client = (new_agw_client example_ip 7)\<lparr>agl_gateway_id := Some ''ns.gw''\<rparr>"

definition example_agw_request :: delta_request where
  "example_agw_request = \<lparr>deq_response_nonce = '''', deq_error_detail = None,
     deq_node = Some \<lparr>en_id = ''agentgateway~1.1.1.1~pod.ns~ns.svc'', en_cluster = ''''\<rparr>, deq_type_url = RESOURCE_TYPE_URL\<rparr>"

lemma example_agw_run:
  "\<exists>s L. agw_run s L \<and> ags_clients s = [example_agw_client] \<and> ags_managed s = [] \<and> (7, Resource_Stream) \<in> L"
proof -
  let ?c0 = "new_agw_client example_ip 7"
  let ?s1 = "new_agw_server\<lparr>ags_clients := [?c0]\<rparr>"
  have o: "agw_open_stream (Some example_ip) 7 new_agw_server = Inr ?s1"
    by (simp add: agw_open_stream_def agw_add_or_replace_client_def new_agw_server_def)
  have r1: "agw_run ?s1 {}"
    by (rule agw_run.connect [OF agw_run.start _ _ o]) (simp_all add: new_agw_server_def)
  have id: "agw_fetch_gateway_id example_pods ''agentgateway~1.1.1.1~pod.ns~ns.svc'' = Some ''ns.gw''"
    by (simp add: agw_fetch_gateway_id_def parse_agengateway_id_def example_pods_def create_id_def)
  have find: "agw_client_by_client_id example_ip (ags_clients ?s1) = Some ?c0"
    by (simp add: agw_client_by_client_id_def new_agw_client_def)
  have tx: "\<forall>c. agw_client_by_client_id example_ip (ags_clients ?s1) = Some c \<longrightarrow> agl_sender c = 7"
    using find by (simp add: new_agw_client_def)
  have u: "agw_update_client ?c0 ''ns.gw'' ?s1 = (example_agw_client, ?s1\<lparr>ags_clients := [example_agw_client]\<rparr>)"
    by (simp add: agw_update_client_def example_agw_client_def new_agw_client_def new_agw_server_def agw_write_client_def
        agw_update_from_def Let_def)
  let ?s2 = "handle_agw_request example_pods example_ip 7 example_agw_request ?s1"
  have "ags_clients ?s2 = [example_agw_client]" "ags_managed ?s2 = []"
    using find id u by (simp_all add: handle_agw_request_def example_agw_request_def agw_send_def new_agw_server_def)
  moreover have "(7, Resource_Stream) \<in> agw_listed example_pods example_ip 7 example_agw_request ?s1"
    using find id by (simp add: agw_listed_def example_agw_request_def)
  moreover have "agw_run ?s2 ({} \<union> agw_listed example_pods example_ip 7 example_agw_request ?s1)"
    by (rule agw_run.request [OF r1 tx])
  ultimately show ?thesis by blast
qed

definition example_agw_resources :: "agw_resource list" where
  "example_agw_resources = [AK_Bind \<lparr>abd_key = ''b'', abd_port = 80, abd_protocol = Bind_Http\<rparr>,
     AK_TcpRoute \<lparr>atr_key = ''t'', atr_listener_key = ''l''\<rparr>]"


end
