(* ===== verification/Agentgateway_Deployer.thy ===== *)
theory Agentgateway_Deployer
  imports Envoy_Deployer Agentgateway_Server
begin

section \<open>The agentgateway deployer\<close>

text \<open>
  \<open>backends/agentgateway/agentgateway_deployer.rs\<close>: the objects that run agentgateway for a gateway, the
  resources and workloads sent to its discovery server, and the loop over the events of the gateways. The
  API objects are those of \<open>Kube_Workloads\<close>; the control plane's configuration, the order of addresses
  and the answers of the API server are as in \<open>Envoy_Deployer\<close>. The bootstrap file has one template,
  rendered from host and port of the control plane by the parameter of type \<open>agw_renderer\<close>.
\<close>

subsection \<open>Names\<close>

definition agw_config_map_names :: "gateway \<Rightarrow> string \<times> string" where
  "agw_config_map_names g = (gateway_name g @ ''-xds-cm'', gateway_name g @ ''-bootstrap-cm'')"

definition agw_port_name :: "string \<Rightarrow> 32 word \<Rightarrow> string \<Rightarrow> string" where
  "agw_port_name gw port proto = gw @ ''-'' @ show_i32 port @ ''-'' @ ascii_lower proto"

subsection \<open>Objects\<close>

definition agw_labels :: "gateway \<Rightarrow> (string \<times> string) list" where
  "agw_labels g = []"

definition AGENTGATEWAY_POD_SPEC :: pod_spec where
  "AGENTGATEWAY_POD_SPEC =
     \<lparr>pos_containers =
        [\<lparr>ctr_name = ''agentgateway'',
          ctr_image = ''ghcr.io/agentgateway/agentgateway:0.11.0'',
          ctr_image_pull_policy = ''IfNotPresent'',
          ctr_command = [''/app/agentgateway''],
          ctr_args = [''--file'', ''/agentgateway-config/agentgateway-bootstrap.yaml''],
          ctr_env = [(''GRPC_TRACE'', Env_Value ''tcp,http,api''),
            (''RUST_LOG'', Env_Value ''mio=warn,hyper_util_fork=warn,notify=info,notify_debounce_full=info,h2=warn,trace''),
            (''NAMESPACE'', Env_FieldPath ''metadata.namespace''), (''GATEWAY'', Env_FieldPath ''metadata.name''),
            (''POD_NAME'', Env_FieldPath ''metadata.name''), (''POD_NAMESPACE'', Env_FieldPath ''metadata.namespace'')],
          ctr_ports = Some [],
          ctr_readiness_probe = Some \<lparr>rpr_path = None, rpr_port = 19001, rpr_initial_delay_seconds = 3, rpr_period_seconds = 20\<rparr>,
          ctr_volume_mounts = [\<lparr>vmt_name = ''agentgateway-config'', vmt_mount_path = ''/agentgateway-config'', vmt_read_only = True\<rparr>]\<rparr>],
      pos_volumes = Some [\<lparr>vol_name = ''agentgateway-config'', vol_source = Vol_ConfigMap ''agentgateway-cm''
        (Some [\<lparr>ktp_key = ''agentgateway-bootstrap.yaml'', ktp_path = ''agentgateway-bootstrap.yaml''\<rparr>])\<rparr>]\<rparr>"

definition agw_deployment :: "string \<Rightarrow> gateway \<Rightarrow> deployment" where
  "agw_deployment version g =
     (let ports = dedup_by (\<lambda>p. (cp_container_port p, cp_protocol p))
            (map (\<lambda>l. \<lparr>cp_container_port = listener_port l, cp_protocol = Some ''TCP''\<rparr>) (gateway_listeners g));
          labels = bset_replace fst (''app'', gateway_name g) (agw_labels g);
          containers = (case pos_containers AGENTGATEWAY_POD_SPEC of [] \<Rightarrow> [] | c # cs \<Rightarrow> c\<lparr>ctr_ports := Some ports\<rparr> # cs);
          volumes = [\<lparr>vol_name = ''agentgateway-config'', vol_source = Vol_ConfigMap (snd (agw_config_map_names g))
            (Some [\<lparr>ktp_key = ''agentgateway-bootstrap.yaml'', ktp_path = ''agentgateway-bootstrap.yaml''\<rparr>])\<rparr>]
      in \<lparr>dpl_metadata = \<lparr>wm_name = gateway_name g, wm_namespace = gateway_namespace g, wm_labels = Some labels,
            wm_annotations = Some [(''gateway-version'', version)]\<rparr>,
          dpl_replicas = 1, dpl_selector = labels, dpl_template_labels = labels,
          dpl_pod_spec = AGENTGATEWAY_POD_SPEC\<lparr>pos_containers := containers, pos_volumes := Some volumes\<rparr>\<rparr>)"

definition agw_service_object :: "gateway \<Rightarrow> gateway_service" where
  "agw_service_object g =
     (let ports = dedup_by (\<lambda>p. (gsp_port p, gsp_protocol p)) (map (\<lambda>l.
            \<lparr>gsp_name = agw_port_name (gateway_name g) (listener_port l) (protocol_to_string (listener_protocol l)),
             gsp_port = listener_port l, gsp_protocol = ''TCP'', gsp_target_port = listener_port l\<rparr>) (gateway_listeners g))
      in \<lparr>gsv_metadata = \<lparr>wm_name = gateway_name g, wm_namespace = gateway_namespace g, wm_labels = Some (agw_labels g),
            wm_annotations = None\<rparr>,
          gsv_selector = [(''app'', gateway_name g)], gsv_ports = ports, gsv_type = ''LoadBalancer'', gsv_status = None\<rparr>)"

definition create_bootstrap_config_map :: "string \<Rightarrow> string \<Rightarrow> gateway \<Rightarrow> string \<Rightarrow> config_map" where
  "create_bootstrap_config_map version name g content =
     \<lparr>cfm_metadata = \<lparr>wm_name = name, wm_namespace = gateway_namespace g, wm_labels = None,
        wm_annotations = Some [(''gateway-version'', version)]\<rparr>,
      cfm_data = [(''agentgateway-bootstrap.yaml'', content)]\<rparr>"

definition agw_service_account :: "gateway \<Rightarrow> service_account" where
  "agw_service_account g = \<lparr>sac_metadata = \<lparr>wm_name = gateway_name g, wm_namespace = gateway_namespace g,
     wm_labels = Some (agw_labels g), wm_annotations = None\<rparr>\<rparr>"

type_synonym agw_renderer = "string \<Rightarrow> string \<times> 16 word \<Rightarrow> string + string"

definition agw_bootstrap_content :: "agw_renderer \<Rightarrow> control_plane_config \<Rightarrow> string + string" where
  "agw_bootstrap_content render c =
     render ''agent-gateway-bootstrap-dynamic.yaml.tera''
       (addr_hostname (cpc_listening_socket c), addr_port (cpc_listening_socket c))"

subsection \<open>Deployment\<close>

definition deploy_agentgateway ::
    "agw_renderer \<Rightarrow> string \<times> string \<Rightarrow> control_plane_config \<Rightarrow> apply_replies \<Rightarrow> gateway \<Rightarrow> kube_call list \<times> gateway_service option" where
  "deploy_agentgateway render versions c replies g = (case agw_bootstrap_content render c of
       Inl _ \<Rightarrow> ([], None)
     | Inr content \<Rightarrow>
         (let bootstrap_cm = snd (agw_config_map_names g);
              call1 = Apply_ConfigMap bootstrap_cm (create_bootstrap_config_map (snd versions) bootstrap_cm g content);
              call2 = Apply_Deployment (gateway_name g) (agw_deployment (fst versions) g);
              call3 = Apply_Service (gateway_name g) (agw_service_object g);
              call4 = Apply_ServiceAccount (gateway_name g) (agw_service_account g)
          in if \<not> apr_config_map replies then ([call1], None)
             else if \<not> apr_deployment replies then ([call1, call2], None)
             else (case apr_service replies of
                 None \<Rightarrow> ([call1, call2, call3], None)
               | Some service \<Rightarrow> ([call1, call2, call3, call4], if apr_service_account replies then Some service else None))))"

text \<open>Which requests of an undeployment succeed: it ends with the first that fails.\<close>

record delete_replies =
  der_config_map :: bool
  der_deployment :: bool
  der_service :: bool

definition undeploy_agentgateway :: "delete_replies \<Rightarrow> gateway \<Rightarrow> kube_call list" where
  "undeploy_agentgateway replies g =
     Delete_ConfigMap (snd (agw_config_map_names g)) #
       (if \<not> der_config_map replies then []
        else Delete_Deployment (gateway_name g) #
          (if \<not> der_deployment replies then []
           else Delete_Service (gateway_name g) #
             (if \<not> der_service replies then [] else [Delete_ServiceAccount (gateway_name g)])))"

subsection \<open>Workloads\<close>

text \<open>A vector of octets printed with \<open>{:x?}\<close>.\<close>

definition hex_digit :: "nat \<Rightarrow> char" where
  "hex_digit n = char_of (if n < 10 then 48 + n else 87 + n)"

definition show_octet :: "8 word \<Rightarrow> string" where
  "show_octet w = (let n = unat w in if n < 16 then [hex_digit n] else [hex_digit (n div 16), hex_digit (n mod 16)])"

fun show_octets_from :: "8 word list \<Rightarrow> string" where
  "show_octets_from [] = '']''"
| "show_octets_from [w] = show_octet w @ '']''"
| "show_octets_from (w # ws) = show_octet w @ '', '' @ show_octets_from ws"

definition show_octets :: "8 word list \<Rightarrow> string" where
  "show_octets ws = ''['' @ show_octets_from ws"

definition workload_name :: "istio_service \<Rightarrow> 8 word list \<Rightarrow> string" where
  "workload_name s a = ''workload-'' @ isv_namespace s @ ''/'' @ isv_hostname s @ ''-'' @ show_octets a"

definition convert_into_workload :: "istio_service \<Rightarrow> istio_workload list" where
  "convert_into_workload s =
     map (\<lambda>a. \<lparr>iwl_uid = workload_name s a, iwl_name = workload_name s a, iwl_namespace = isv_namespace s, iwl_addresses = [a],
       iwl_services = [(isv_namespace s @ ''/'' @ isv_hostname s, isv_ports s)]\<rparr>) (isv_addresses s)"

definition default_istio_service :: istio_service where
  "default_istio_service = \<lparr>isv_name = '''', isv_namespace = '''', isv_hostname = '''', isv_ports = [], isv_addresses = [],
     isv_load_balancing = False\<rparr>"

subsection \<open>Addresses\<close>

definition agw_find_gateway_addresses :: "gateway_service \<Rightarrow> string list option" where
  "agw_find_gateway_addresses s =
     (let ips = (case Option.bind (Option.bind (gsv_status s) sst_load_balancer) lbs_ingress of
          Some ingress \<Rightarrow> List.map_filter lbi_ip ingress
        | None \<Rightarrow> [])
      in if ips = [] then None else Some ips)"

definition agw_update_addresses :: "ip_addresses \<Rightarrow> gateway_service \<Rightarrow> gateway \<Rightarrow> gateway \<times> bool" where
  "agw_update_addresses ip service g = (case agw_find_gateway_addresses service of
       Some ips \<Rightarrow> (g\<lparr>gw_addresses := bset_append (address_rank ip) (gw_addresses g)
           (bset_from (address_rank ip) (map (\<lambda>a. GA_IPAddress (ipa_text ip a)) (filter parses_as_ip ips)))\<rparr>, True)
     | None \<Rightarrow> (g, False))"

partial_function (option) agw_poll_service ::
    "ip_addresses \<Rightarrow> (nat \<Rightarrow> gateway_service option) \<Rightarrow> gateway \<Rightarrow> kube_gateway \<Rightarrow> string \<Rightarrow> nat \<Rightarrow> backend_gateway_response list option" where
  "agw_poll_service ip answers g kg class_name n = (case answers n of
       Some service \<Rightarrow>
         (if snd (agw_update_addresses ip service g)
          then Some [ProcessedWithContext (fst (agw_update_addresses ip service g)) kg class_name]
          else agw_poll_service ip answers g kg class_name (n + 1))
     | None \<Rightarrow> Option.bind (agw_poll_service ip answers g kg class_name (n + 1)) (\<lambda>rs. Some (Processed g # rs)))"

definition agw_update_address_with_polling :: "ip_addresses \<Rightarrow> gateway_service \<Rightarrow> gateway \<Rightarrow> kube_gateway \<Rightarrow> string \<Rightarrow> address_update" where
  "agw_update_address_with_polling ip service g kg class_name = (case agw_find_gateway_addresses service of
       Some ips \<Rightarrow> Addresses_Known (ProcessedWithContext (g\<lparr>gw_addresses := bset_append (address_rank ip) (gw_addresses g)
           (bset_from (address_rank ip) (map (\<lambda>a. GA_IPAddress (ipa_text ip a)) (filter parses_as_ip ips)))\<rparr>) kg class_name)
     | None \<Rightarrow> Poll_For service g kg class_name)"

subsection \<open>The event loop\<close>

definition agw_resources :: "agw_api \<Rightarrow> gateway \<Rightarrow> agw_resource list" where
  "agw_resources api g =
     (let bindings_and_listeners = generate_bindings_and_listeners api g;
          (routes, backends, policies, services) = generate_routes_and_backends_and_policies api g
      in map (AK_Bind \<circ> fst) bindings_and_listeners @
         map AK_Listener (concat (map snd bindings_and_listeners)) @
         map AK_Route routes @ map AK_Backend backends @ map AK_Policy policies)"

definition agw_workloads :: "agw_api \<Rightarrow> gateway \<Rightarrow> workload_address list" where
  "agw_workloads api g =
     (let (routes, backends, policies, services) = generate_routes_and_backends_and_policies api g
      in AT_Service default_istio_service # map AT_Service services @ concat (map (map AT_Workload \<circ> convert_into_workload) services))"

record agw_output =
  agu_calls :: "kube_call list"
  agu_actions :: "agw_action list"
  agu_responses :: "backend_gateway_response list"
  agu_addresses :: "address_update option"
  agu_reply_deleted :: bool

record agw_env =
  age_api :: agw_api
  age_render :: agw_renderer
  age_ip :: ip_addresses
  age_config :: control_plane_config

definition handle_agw_event ::
    "agw_env \<Rightarrow> string \<times> string \<Rightarrow> apply_replies \<Rightarrow> delete_replies \<Rightarrow> backend_gateway_event \<Rightarrow> agw_output" where
  "handle_agw_event env uuids replies dreplies event = (case event of
       Changed g kg class_name \<Rightarrow>
         (let (calls, maybe_service) = deploy_agentgateway (age_render env) uuids (age_config env) replies g
          in case maybe_service of
               Some service \<Rightarrow>
                 (let actions = [UpdateResources (gw_resource_key g) (agw_resources (age_api env) g),
                        UpdateWorkloads (gw_resource_key g) (agw_workloads (age_api env) g)]
                  in case agw_update_address_with_polling (age_ip env) service g kg class_name of
                       Addresses_Known response \<Rightarrow> \<lparr>agu_calls = calls, agu_actions = actions, agu_responses = [response],
                         agu_addresses = None, agu_reply_deleted = False\<rparr>
                     | polling \<Rightarrow> \<lparr>agu_calls = calls, agu_actions = actions, agu_responses = [],
                         agu_addresses = Some polling, agu_reply_deleted = False\<rparr>)
             | None \<Rightarrow> \<lparr>agu_calls = calls, agu_actions = [], agu_responses = [Processed g], agu_addresses = None, agu_reply_deleted = False\<rparr>)
     | Deleted g \<Rightarrow> \<lparr>agu_calls = undeploy_agentgateway dreplies g, agu_actions = [], agu_responses = [Processed g],
         agu_addresses = None, agu_reply_deleted = True\<rparr>)"

subsection \<open>What the copy shares with Envoy's deployer\<close>

lemma agw_same_objects: "agw_config_map_names = config_map_names" "agw_service_account = create_service_account" "agw_service_object = create_service"
  by (simp_all add: fun_eq_iff agw_config_map_names_def config_map_names_def agw_service_account_def create_service_account_def
      agw_labels_def create_labels_def agw_service_object_def create_service_def agw_port_name_def port_name_def)

lemma agw_same_addresses:
  "agw_find_gateway_addresses = find_gateway_addresses" "agw_update_addresses = update_addresses"
  "agw_update_address_with_polling = update_address_with_polling"
proof -
  show a: "agw_find_gateway_addresses = find_gateway_addresses"
    by (auto simp: fun_eq_iff agw_find_gateway_addresses_def find_gateway_addresses_def split: option.splits)
  show "agw_update_addresses = update_addresses"
    by (simp add: fun_eq_iff agw_update_addresses_def update_addresses_def append_addresses_def a split: option.split)
  show "agw_update_address_with_polling = update_address_with_polling"
    by (simp add: fun_eq_iff agw_update_address_with_polling_def update_address_with_polling_def append_addresses_def a split: option.split)
qed

lemma agw_poll_service_step: "agw_poll_service ip answers g kg class_name n = (case answers n of
    None \<Rightarrow> map_option ((#) (Processed g)) (agw_poll_service ip answers g kg class_name (Suc n))
  | Some service \<Rightarrow>
      if has_address (Some service) then Some [ProcessedWithContext (fst (update_addresses ip service g)) kg class_name]
      else agw_poll_service ip answers g kg class_name (Suc n))"
  by (subst agw_poll_service.simps)
    (simp add: agw_same_addresses has_address_update [of _ ip g] map_conv_bind_option comp_def split: option.split)

text \<open>The loop of a deleted gateway ends with the first request that fails: what follows is left behind.\<close>

lemma undeploy_stops: "\<not> der_config_map dreplies \<Longrightarrow> undeploy_agentgateway dreplies g = [Delete_ConfigMap (snd (agw_config_map_names g))]"
  by (simp add: undeploy_agentgateway_def)

text \<open>Nothing is sent to the proxies of a deleted gateway.\<close>

lemma deleted_not_sent: "agu_actions (handle_agw_event env uuids replies dreplies (Deleted g)) = []"
  by (simp add: handle_agw_event_def)

subsection \<open>Names of the resources\<close>

lemma create_bind_name_inject: "create_bind_name p q = create_bind_name p' q' \<longleftrightarrow> p = p' \<and> q = q'"
proof
  assume eq: "create_bind_name p q = create_bind_name p' q'"
  have "CHR ''p'' \<notin> set (show_i32 w @ ''-'')" for w using show_i32_digits [of w] by (auto simp: is_digit_def)
  from append_sep_cancel [OF this this, of p "''rotocol-'' @ show_i32 q" p' "''rotocol-'' @ show_i32 q'"] eq
  show "p = p' \<and> q = q'" by (simp add: create_bind_name_def)
qed simp

lemma bind_keys_distinct:
  assumes "inj (api_bind_number api)"
  shows "distinct (map (abd_key \<circ> fst) (generate_bindings_and_listeners api g))"
proof -
  note b = generated_bindings [OF assms, of g, unfolded bindings_of_def]
  have "inj_on abd_key (range (listener_bind api))"
    by (rule inj_onI) (auto simp: listener_bind_def create_bind_name_inject Let_def assms [THEN inj_eq])
  moreover have "fst ` set (generate_bindings_and_listeners api g) \<subseteq> range (listener_bind api)" using b by auto
  moreover have "distinct (map fst (generate_bindings_and_listeners api g))"
  proof -
    have "distinct (map (bind_rank api \<circ> fst) (generate_bindings_and_listeners api g))" using b by (simp add: bset_wf_distinct)
    then show ?thesis by (metis distinct_map map_map)
  qed
  ultimately show ?thesis
    unfolding map_map [symmetric] by (subst distinct_map) (auto intro: inj_on_subset)
qed

lemma distinct_grouped:
  assumes "distinct (map f xs)" "distinct ks"
  shows "distinct (map f (concat (map (\<lambda>k. filter (\<lambda>x. key x = k) xs) ks)))"
  using assms(2)
proof (induction ks)
  case (Cons k ks)
  have "inj_on f (set xs)" using assms(1) by (simp add: distinct_map)
  then have "f ` {x \<in> set xs. key x = k} \<inter> f ` {x \<in> set xs. key x \<in> set ks} = {}"
    using Cons.prems by (auto simp: inj_on_def)
  moreover have "set (concat (map (\<lambda>k. filter (\<lambda>x. key x = k) xs) ks)) = {x \<in> set xs. key x \<in> set ks}" by auto
  moreover have "distinct (map f (filter (\<lambda>x. key x = k) xs))" by (rule distinct_map_filter [OF assms(1)])
  ultimately show ?case using Cons by (simp del: set_concat)
qed simp

lemma listener_keys_distinct:
  assumes "inj (api_bind_number api)" "distinct (map listener_name (gateway_listeners g))"
  shows "distinct (map alr_key (listener_resources api g))"
proof -
  let ?acc = "generate_bindings_and_listeners api g"
  note b = generated_bindings [OF assms(1), of g, unfolded bindings_of_def]
  have "map snd ?acc = map (\<lambda>k. map (agw_listener_of api g) (filter (\<lambda>l. listener_bind api l = k) (gateway_listeners g))) (map fst ?acc)"
    using b by auto
  then have "map alr_key (listener_resources api g) =
      map listener_name (concat (map (\<lambda>k. filter (\<lambda>l. listener_bind api l = k) (gateway_listeners g)) (map fst ?acc)))"
    unfolding listener_resources_def by (simp only: map_concat map_map comp_def) (simp add: agw_listener_of_def)
  moreover have "distinct (map fst ?acc)"
    using bind_keys_distinct [OF assms(1), of g] by (metis distinct_map map_map)
  ultimately show ?thesis using distinct_grouped [OF assms(2), of "map fst ?acc" "listener_bind api"] by simp
qed

lemma agw_resources_parts:
  assumes "generate_routes_and_backends_and_policies api g = (routes, backends, policies, services)"
  shows "agw_resources api g = map (AK_Bind \<circ> fst) (generate_bindings_and_listeners api g) @ map AK_Listener (listener_resources api g) @
    map AK_Route routes @ map AK_Backend backends @ map AK_Policy policies"
  by (simp add: agw_resources_def assms listener_resources_def Let_def)

lemma distinct_prefixed: "distinct (map f xs) \<Longrightarrow> distinct (map (\<lambda>x. p @ f x) xs)"
  by (induction xs) auto

lemma resource_names_distinct:
  assumes gen: "generate_routes_and_backends_and_policies api g = (routes, backends, policies, services)"
    and "inj (api_bind_number api)" "distinct (map listener_name (gateway_listeners g))" "distinct (map art_key routes)"
  shows "distinct (map get_resource_name (agw_resources api g))"
proof -
  have "distinct (map (\<lambda>b. ''bind/'' @ abd_key (fst b)) (generate_bindings_and_listeners api g))"
    using distinct_prefixed [OF bind_keys_distinct [OF assms(2), of g], of "''bind/''"] by simp
  moreover have "distinct (map (\<lambda>l. ''listener/'' @ alr_key l) (listener_resources api g))"
    by (rule distinct_prefixed [OF listener_keys_distinct [OF assms(2,3)]])
  moreover have "distinct (map (\<lambda>t. ''route/'' @ art_key t) routes)" by (rule distinct_prefixed [OF assms(4)])
  moreover have "distinct (map (\<lambda>b. ''backend/'' @ abk_key b) backends)" "distinct (map (\<lambda>p. ''policy/'' @ apl_key p) policies)"
    using generated_keys_distinct [OF gen] distinct_prefixed by blast+
  ultimately show ?thesis
    unfolding agw_resources_parts [OF gen] by (auto simp: comp_def)
qed

subsection \<open>Deployer, server and proxies together\<close>

lemma agw_changed_actions:
  assumes "agu_actions (handle_agw_event env uuids replies dreplies (Changed g kg class_name)) \<noteq> []"
  shows "agu_actions (handle_agw_event env uuids replies dreplies (Changed g kg class_name)) =
    [UpdateResources (gw_resource_key g) (agw_resources (age_api env) g), UpdateWorkloads (gw_resource_key g) (agw_workloads (age_api env) g)]"
  using assms by (auto simp: handle_agw_event_def Let_def split: prod.splits option.splits address_update.splits)

lemma agw_updates_served:
  assumes run: "agw_run s L"
    and gen: "generate_routes_and_backends_and_policies api g = (routes, rest)"
    and names: "inj (api_bind_number api)" "distinct (map listener_name (gateway_listeners g))" "distinct (map art_key routes)"
    and addresses: "distinct (map get_workload_name (agw_workloads api g))"
    and client: "c \<in> set (ags_clients s)" "agl_gateway_id c = Some (create_gateway_id (gw_resource_key g))"
    and listed: "(agl_sender c, Resource_Stream) \<in> L" "(agl_sender c, Workload_Stream) \<in> L"
  shows "let s' = fold handle_agw_action [UpdateResources (gw_resource_key g) (agw_resources api g), UpdateWorkloads (gw_resource_key g) (agw_workloads api g)] s
    in agw_run s' L \<and> agw_view s' Resource_Stream (agl_sender c) = by_name (map named_resource (agw_resources api g)) \<and>
       agw_view s' Workload_Stream (agl_sender c) = by_name (map named_address (agw_workloads api g))"
proof -
  let ?k = "gw_resource_key g" and ?rs = "agw_resources api g" and ?ws = "agw_workloads api g"
  let ?s1 = "handle_agw_action (UpdateResources ?k ?rs) s"
  let ?s2 = "handle_agw_action (UpdateWorkloads ?k ?ws) ?s1"
  obtain backends policies services where rest: "rest = (backends, policies, services)" by (cases rest) blast
  have r1: "agw_run ?s1 L" by (rule update_resources [OF run resource_names_distinct [OF gen [unfolded rest] names]])
  have r2: "agw_run ?s2 L" by (rule update_workloads [OF r1 addresses])
  note e1 = agw_resources_sent [OF agw_run_distinct [OF run], of ?k ?rs]
  note e2 = agw_workloads_sent [OF agw_run_distinct [OF r1], of ?k ?ws]
  let ?c1 = "c\<lparr>agl_resources := ?rs\<rparr>" and ?c2 = "c\<lparr>agl_resources := ?rs, agl_workloads := ?ws\<rparr>"
  have own: "agw_of_gateway (create_gateway_id ?k) c" "agw_of_gateway (create_gateway_id ?k) ?c1"
    using client(2) by (simp_all add: agw_of_gateway_def)
  have "?c1 \<in> set (ags_clients ?s1)" unfolding e1(1) using client(1) own(1) by force
  then have c2: "?c2 \<in> set (ags_clients ?s2)" unfolding e2(1) using own(2) by force
  have "managed_resources_of ?s2 (create_gateway_id ?k) = ?rs" "managed_workloads_of ?s2 (create_gateway_id ?k) = ?ws"
    unfolding e2(3,4) e1(3) by simp_all
  then show ?thesis
    using agw_stream_synced [OF r2 c2, of _ Resource_Stream] agw_stream_synced [OF r2 c2, of _ Workload_Stream] client(2) listed r2
    by simp
qed


definition example_agw_env :: agw_env where
  "example_agw_env = \<lparr>age_api = example_api, age_render = (\<lambda>_ _. Inr ''yaml''),
     age_ip = \<lparr>ipa_rank = (\<lambda>_. 0), ipa_text = (\<lambda>t. t)\<rparr>, age_config = den_config example_env\<rparr>"

definition example_delete_replies :: delete_replies where
  "example_delete_replies = \<lparr>der_config_map = True, der_deployment = True, der_service = True\<rparr>"

definition example_agw_gateway :: gateway where
  "example_agw_gateway = agw_example_gateway [agw_example_listener ''http'' 80
     [agw_example_route ''b'' [B_Resolved (BT_Service (agw_service ''svc'' 80))]]]"

text \<open>The proxy of the example asks for its workloads too.\<close>

lemma example_agw_run_both:
  "\<exists>s L. agw_run s L \<and> ags_clients s = [example_agw_client] \<and> (7, Resource_Stream) \<in> L \<and> (7, Workload_Stream) \<in> L"
proof -
  obtain s L where s: "agw_run s L" "ags_clients s = [example_agw_client]" "(7, Resource_Stream) \<in> L"
    using example_agw_run by blast
  let ?q = "example_agw_request\<lparr>deq_type_url := ADDRESS_TYPE_URL\<rparr>"
  have id: "agw_fetch_gateway_id example_pods ''agentgateway~1.1.1.1~pod.ns~ns.svc'' = Some ''ns.gw''"
    by (simp add: agw_fetch_gateway_id_def parse_agengateway_id_def example_pods_def create_id_def)
  have find: "agw_client_by_client_id example_ip (ags_clients s) = Some example_agw_client"
    by (simp add: s(2) agw_client_by_client_id_def example_agw_client_def new_agw_client_def)
  have u: "agw_update_client example_agw_client ''ns.gw'' s = (example_agw_client, s)"
    by (simp add: agw_update_client_def example_agw_client_def new_agw_client_def agw_write_client_def agw_update_from_def Let_def s(2))
  let ?s = "handle_agw_request example_pods example_ip 7 ?q s"
  have "ags_clients ?s = [example_agw_client]"
    using find id u by (simp add: handle_agw_request_def example_agw_request_def agw_send_def s(2))
  moreover have "(7, Workload_Stream) \<in> agw_listed example_pods example_ip 7 ?q s"
    using find id by (simp add: agw_listed_def example_agw_request_def)
  moreover have "agw_run ?s (L \<union> agw_listed example_pods example_ip 7 ?q s)"
    by (rule agw_run.request [OF s(1)]) (simp add: find example_agw_client_def new_agw_client_def)
  ultimately show ?thesis using s(3) by blast
qed


end
