(* ===== verification/Envoy_Files.thy ===== *)
theory Envoy_Files
  imports Envoy_Deployer
begin

section \<open>Envoy's configuration as files\<close>

text \<open>
  \<open>backends/envoy/envoy_cm_backend/xds_generator.rs\<close>, the generator of the backend that writes Envoy's
  configuration into config maps instead of serving it. The values handed to the templates are records;
  the template engine and the template files are a parameter with one function per template. The rules of a
  listener and the host names are those of the code the backends share.
\<close>

subsection \<open>Listeners\<close>

record file_virtual_host =
  fvh_name :: string
  fvh_hostname :: "string option"
  fvh_effective_hostnames :: "string list"
  fvh_resolved_routes :: "route list"
  fvh_unresolved_routes :: "route list"
  fvh_effective_matching_rules :: "http_effective_rule list"

record file_listener =
  fil_name :: string
  fil_port :: "32 word"
  fil_http_listener_map :: "file_virtual_host list"
  fil_tcp_listener_map :: "(string \<times> string option) list"
  fil_tls_type :: "tls_type option"

definition file_potential_hostnames :: "route list \<Rightarrow> string option \<Rightarrow> string list" where
  "file_potential_hostnames routes lhost = calculate_hostnames_common routes lhost (\<lambda>h. [h])"

definition file_effective_hostnames :: "route list \<Rightarrow> string option \<Rightarrow> string list" where
  "file_effective_hostnames routes lhost = calculate_hostnames_common routes lhost (\<lambda>h. [h @ '':*'', h])"

definition is_http_route :: "route \<Rightarrow> bool" where
  "is_http_route r = (case route_type_of r of RT_Http _ \<Rightarrow> True | RT_Grpc _ \<Rightarrow> False)"

definition generate_virtual_hosts :: "domain_patterns \<Rightarrow> enum_ranks \<Rightarrow> string \<Rightarrow> listener \<Rightarrow> file_listener" where
  "generate_virtual_hosts dp rk gname l =
     (let (all_resolved, unresolved) = listener_routes l;
          resolved = filter is_http_route all_resolved;
          potential_hostnames = file_potential_hostnames resolved (listener_hostname l);
          virtual_host = (\<lambda>h.
            \<lparr>fvh_name = listener_name l @ ''-'' @ h,
             fvh_hostname = listener_hostname l,
             fvh_effective_hostnames = file_effective_hostnames resolved (Some h),
             fvh_resolved_routes = resolved,
             fvh_unresolved_routes = unresolved,
             fvh_effective_matching_rules = filter (\<lambda>em. hostname_filter dp h (her_hostnames em)) (http_matching_rules rk l)\<rparr>)
      in \<lparr>fil_name = gname, fil_port = listener_port l,
          fil_http_listener_map = fold (\<lambda>h. bset_insert fvh_name (virtual_host h)) potential_hostnames [],
          fil_tcp_listener_map = [],
          fil_tls_type = lc_tls_type (ld_config (listener_data_of l))\<rparr>)"

text \<open>One round of the fold over the listeners; a listener of another protocol leaves the map.\<close>

definition file_map_listener ::
    "domain_patterns \<Rightarrow> enum_ranks \<Rightarrow> string \<Rightarrow> listener \<Rightarrow> (32 word \<times> file_listener) list \<Rightarrow> (32 word \<times> file_listener) list" where
  "file_map_listener dp rk gname l acc =
     (let port = listener_port l; entry = (listener_name l, listener_hostname l)
      in case bset_get port_key (sint port) acc of
           Some (_, fl) \<Rightarrow> (case listener_protocol l of
               P_Tcp \<Rightarrow> bset_replace port_key (port, fl\<lparr>fil_tcp_listener_map := bset_insert (\<lambda>x. x) entry (fil_tcp_listener_map fl)\<rparr>) acc
             | P_Tls \<Rightarrow> acc
             | P_Udp \<Rightarrow> acc
             | _ \<Rightarrow> bset_replace port_key (port, fl\<lparr>fil_http_listener_map :=
                 bset_append fvh_name (fil_http_listener_map fl) (fil_http_listener_map (generate_virtual_hosts dp rk gname l))\<rparr>) acc)
         | None \<Rightarrow> (case listener_protocol l of
               P_Tcp \<Rightarrow> bset_replace port_key (port,
                 \<lparr>fil_name = gname, fil_port = port, fil_http_listener_map = [], fil_tcp_listener_map = [entry], fil_tls_type = None\<rparr>) acc
             | P_Tls \<Rightarrow> acc
             | P_Udp \<Rightarrow> acc
             | _ \<Rightarrow> bset_replace port_key (port, generate_virtual_hosts dp rk gname l) acc))"

definition generate_envoy_representation :: "domain_patterns \<Rightarrow> enum_ranks \<Rightarrow> gateway \<Rightarrow> (32 word \<times> file_listener) list" where
  "generate_envoy_representation dp rk g = fold (file_map_listener dp rk (gateway_name g)) (gateway_listeners g) []"

subsection \<open>Routes\<close>

record tera_cluster_name =
  tcn_name :: string
  tcn_weight :: "32 word"

record tera_match_header =
  tmh_name :: string
  tmh_value :: string
  tmh_match_type :: string

record tera_path =
  tpa_path :: string
  tpa_match_type :: string

record tera_redirect =
  trd_hostname :: "string option"
  trd_status_code :: "string option"

text \<open>The headers to add to responses and to remove from them are always empty, so they are left out.\<close>

record tera_route_config =
  trc_path :: "tera_path option"
  trc_headers :: "tera_match_header list option"
  trc_cluster_name :: string
  trc_cluster_names :: "tera_cluster_name list"
  trc_request_headers_to_add_or_set :: "header_value_option list"
  trc_request_headers_to_remove :: "string list"
  trc_redirect_filter :: "tera_redirect option"

record tera_virtual_host =
  tvh_hostname :: string
  tvh_hostnames :: "string list"
  tvh_route_configs :: "tera_route_config list"

record tera_route =
  tro_name :: string
  tro_virtual_hosts :: "tera_virtual_host list"

definition tera_path_of :: "path_match \<Rightarrow> tera_path" where
  "tera_path_of matcher =
     \<lparr>tpa_path = (case pm_value matcher of None \<Rightarrow> ''/'' | Some v \<Rightarrow> if 1 < length v then trim_slashes v else v),
      tpa_match_type = (case pm_type matcher of
          None \<Rightarrow> ''''
        | Some PathExact \<Rightarrow> ''path''
        | Some PathPrefix \<Rightarrow> (case pm_value matcher of
              Some val \<Rightarrow> if val = ''/'' then ''prefix'' else ''path_separated_prefix''
            | None \<Rightarrow> ''prefix'')
        | Some PathRegularExpression \<Rightarrow> ''safe_regex'')\<rparr>"

definition tera_redirect_of :: "request_redirect \<Rightarrow> tera_redirect" where
  "tera_redirect_of f =
     \<lparr>trd_hostname = rr_hostname f,
      trd_status_code = map_option (\<lambda>c. if c = 302 then ''FOUND'' else if c = 303 then ''SEE_OTHER''
        else if c = 307 then ''TEMPORARY_REDIRECT'' else if c = 308 then ''PERMANENT_REDIRECT'' else ''MOVED_PERMANENTLY'') (rr_status_code f)\<rparr>"

definition tera_cluster_names :: "backend list \<Rightarrow> tera_cluster_name list" where
  "tera_cluster_names bs = map (\<lambda>c. \<lparr>tcn_name = service_cluster_name c, tcn_weight = stc_weight c\<rparr>)
     (filter (\<lambda>c. 0 < sint (stc_weight c))
       (List.map_filter (\<lambda>b. case backend_type_of b of BT_Service c \<Rightarrow> Some c | _ \<Rightarrow> None) bs))"

definition tera_route_config_of :: "http_effective_rule \<Rightarrow> tera_route_config" where
  "tera_route_config_of er =
     \<lparr>trc_path = map_option tera_path_of (rm_path (her_route_matcher er)),
      trc_headers = map_option (map (\<lambda>h. \<lparr>tmh_name = nm_name h, tmh_value = nm_value h, tmh_match_type = ''exact''\<rparr>))
        (rm_headers (her_route_matcher er)),
      trc_cluster_name = her_name er,
      trc_cluster_names = tera_cluster_names (her_backends er),
      trc_request_headers_to_add_or_set =
        map (\<lambda>h. \<lparr>hvo_key = hh_name h, hvo_value = hh_value h, hvo_append_action = AppendIfExistsOrAdd\<rparr>) (fh_add (her_request_headers er)) @
        map (\<lambda>h. \<lparr>hvo_key = hh_name h, hvo_value = hh_value h, hvo_append_action = OverwriteIfExistsOrAdd\<rparr>) (fh_set (her_request_headers er)),
      trc_request_headers_to_remove = fh_remove (her_request_headers er),
      trc_redirect_filter = map_option tera_redirect_of (her_redirect_filter er)\<rparr>"

definition tera_route_of :: "file_listener \<Rightarrow> tera_route" where
  "tera_route_of l =
     \<lparr>tro_name = fil_name l @ ''-'' @ show_i32 (fil_port l) @ ''-route'',
      tro_virtual_hosts = map (\<lambda>evc.
        \<lparr>tvh_hostname = unwrap_or (fvh_hostname evc) ''default-accept-all'',
         tvh_hostnames = fvh_effective_hostnames evc,
         tvh_route_configs = map tera_route_config_of (fvh_effective_matching_rules evc)\<rparr>) (fil_http_listener_map l)\<rparr>"

subsection \<open>Clusters\<close>

record tera_endpoint =
  ten_service :: string
  ten_port :: "32 word"
  ten_weight :: "32 word"

record tera_cluster =
  tcl_name :: string
  tcl_endpoints :: "tera_endpoint list"

definition tera_cluster_rank :: "tera_cluster \<Rightarrow> string \<times> (string \<times> int \<times> int) list" where
  "tera_cluster_rank c = (tcl_name c, map (\<lambda>e. (ten_service e, sint (ten_port e), sint (ten_weight e))) (tcl_endpoints c))"

definition tera_clusters_of_route :: "route \<Rightarrow> tera_cluster list" where
  "tera_clusters_of_route r = map (\<lambda>c. \<lparr>tcl_name = service_cluster_name c,
       tcl_endpoints = [\<lparr>ten_service = stc_endpoint c, ten_port = stc_effective_port c, ten_weight = stc_weight c\<rparr>]\<rparr>)
     (filter (\<lambda>c. 0 < sint (stc_weight c))
       (List.map_filter (\<lambda>b. case b of B_Resolved (BT_Service c) \<Rightarrow> Some c | _ \<Rightarrow> None) (route_backends r)))"

definition tera_clusters :: "file_listener list \<Rightarrow> tera_cluster list" where
  "tera_clusters listeners = bset_from tera_cluster_rank (concat (map (\<lambda>l. concat (map (\<lambda>evc.
     concat (map tera_clusters_of_route (fvh_resolved_routes evc @ fvh_unresolved_routes evc))) (fil_http_listener_map l))) listeners))"

subsection \<open>Listeners and the bootstrap file\<close>

text \<open>The naming functions of secrets of this backend's \<open>envoy_deployer.rs\<close>, copies of those in \<open>Envoy_Deployer\<close>.\<close>

definition file_secret_name :: "resource_key \<Rightarrow> string" where
  "file_secret_name k = rk_name k @ ''_'' @ rk_namespace k"

definition file_certificate_name :: "resource_key \<Rightarrow> string" where
  "file_certificate_name k = rk_name k @ ''_'' @ rk_namespace k @ ''_cert.pem''"

definition file_key_name :: "resource_key \<Rightarrow> string" where
  "file_key_name k = rk_name k @ ''_'' @ rk_namespace k @ ''_key.pem''"

definition terminated_keys :: "tls_type option \<Rightarrow> resource_key list option" where
  "terminated_keys t = (case t of
       Some (TT_Terminate cs) \<Rightarrow> Some (List.map_filter (\<lambda>c. case c of
           C_ResolvedSameSpace k _ \<Rightarrow> Some k
         | C_NotResolved _ \<Rightarrow> None | C_Invalid _ \<Rightarrow> None | C_ResolvedCrossSpace _ _ \<Rightarrow> None) cs)
     | _ \<Rightarrow> None)"

definition file_secrets :: "file_listener list \<Rightarrow> tera_secret list" where
  "file_secrets listeners = bset_from (\<lambda>s. (tse_name s, tse_certificate s, tse_key s))
     (map (\<lambda>k. \<lparr>tse_name = file_secret_name k, tse_certificate = file_certificate_name k, tse_key = file_key_name k\<rparr>)
       (concat (List.map_filter (terminated_keys \<circ> fil_tls_type) listeners)))"

record tera_listener =
  tli_name :: string
  tli_port :: "32 word"
  tli_route_name :: string
  tli_ip_address :: string
  tli_secrets :: "string list option"

definition tera_listener_of :: "file_listener \<Rightarrow> tera_listener" where
  "tera_listener_of l =
     \<lparr>tli_name = fil_name l, tli_port = fil_port l, tli_route_name = fil_name l @ ''-dynamic-route'', tli_ip_address = ''0.0.0.0'',
      tli_secrets = map_option (map file_secret_name) (terminated_keys (fil_tls_type l))\<rparr>"

subsection \<open>Templates\<close>

text \<open>The bootstrap template gets no secrets when there are none.\<close>

record file_templates =
  ftp_rds :: "tera_route \<Rightarrow> string + string"
  ftp_cds :: "tera_cluster list \<Rightarrow> string + string"
  ftp_bootstrap :: "tera_secret list option \<Rightarrow> string + string"
  ftp_lds :: "tera_listener list \<Rightarrow> string + string"

record rds_data =
  rda_route_name :: string
  rda_rds_content :: string

record xds_data =
  xda_bootstrap_content :: string
  xda_lds_content :: string
  xda_rds_content :: "rds_data list"
  xda_cds_content :: string

definition generate_rds :: "file_templates \<Rightarrow> file_listener \<Rightarrow> string + rds_data" where
  "generate_rds t l = (case ftp_rds t (tera_route_of l) of
       Inl e \<Rightarrow> Inl e
     | Inr content \<Rightarrow> Inr \<lparr>rda_route_name = tro_name (tera_route_of l), rda_rds_content = content\<rparr>)"

definition genereate_cds :: "file_templates \<Rightarrow> file_listener list \<Rightarrow> string + string" where
  "genereate_cds t listeners = ftp_cds t (tera_clusters listeners)"

definition generate_bootstrap :: "file_templates \<Rightarrow> file_listener list \<Rightarrow> string + string" where
  "generate_bootstrap t listeners =
     ftp_bootstrap t (if file_secrets listeners = [] then None else Some (file_secrets listeners))"

definition generate_lds :: "file_templates \<Rightarrow> file_listener list \<Rightarrow> string + string" where
  "generate_lds t listeners = ftp_lds t (map tera_listener_of listeners)"

definition generate_xds :: "file_templates \<Rightarrow> domain_patterns \<Rightarrow> enum_ranks \<Rightarrow> gateway \<Rightarrow> string + xds_data" where
  "generate_xds t dp rk g =
     (let listeners = map snd (generate_envoy_representation dp rk g)
      in case generate_lds t listeners of
           Inl e \<Rightarrow> Inl e
         | Inr lds \<Rightarrow> (case generate_bootstrap t listeners of
             Inl e \<Rightarrow> Inl e
           | Inr bootstrap \<Rightarrow>
               (let rds = List.map_filter (\<lambda>l. case generate_rds t l of Inr d \<Rightarrow> Some d | Inl _ \<Rightarrow> None) listeners
                in case genereate_cds t listeners of
                     Inl e \<Rightarrow> Inl e
                   | Inr cds \<Rightarrow> Inr \<lparr>xda_bootstrap_content = bootstrap, xda_lds_content = lds, xda_rds_content = rds,
                       xda_cds_content = cds\<rparr>)))"

end
