(* ===== verification/Envoy_File_Deployer.thy ===== *)
theory Envoy_File_Deployer
  imports Envoy_Files
begin

section \<open>The deployer of Envoy configured by files\<close>

text \<open>
  \<open>backends/envoy/envoy_cm_backend/envoy_deployer.rs\<close>: the objects that run an Envoy whose configuration is mounted
  from two config maps, and the loop over the events of the gateways. The API objects are those of
  \<open>Kube_Workloads\<close>; most functions are copies of those in \<open>Envoy_Deployer\<close>, and lemmas say which.
\<close>

subsection \<open>Names\<close>

definition file_config_map_names :: "gateway \<Rightarrow> string \<times> string" where
  "file_config_map_names g = (gateway_name g @ ''-xds-cm'', gateway_name g @ ''-bootstrap-cm'')"

definition file_port_name :: "string \<Rightarrow> 32 word \<Rightarrow> string \<Rightarrow> string" where
  "file_port_name gw port proto = gw @ ''-'' @ show_i32 port @ ''-'' @ ascii_lower proto"

subsection \<open>Objects\<close>

definition file_labels :: "gateway \<Rightarrow> (string \<times> string) list" where
  "file_labels g = []"

definition FILE_ENVOY_POD_SPEC :: pod_spec where
  "FILE_ENVOY_POD_SPEC =
     \<lparr>pos_containers =
        [\<lparr>ctr_name = ''envoy'',
          ctr_image = ''docker.io/envoyproxy/envoy:v1.36.4'',
          ctr_image_pull_policy = ''IfNotPresent'',
          ctr_command = [''envoy''],
          ctr_args = [''-c'', ''/envoy-config/envoy-bootstrap.yaml'', ''--service-cluster $(GATEWAY_NAMESPACE)'',
            ''--service-node $(ENVOY_POD_NAME)'', ''--log-level debug''],
          ctr_env = [(''GATEWAY_NAMESPACE'', Env_FieldPath ''metadata.namespace''), (''ENVOY_POD_NAME'', Env_FieldPath ''metadata.name'')],
          ctr_ports = Some [],
          ctr_readiness_probe = Some \<lparr>rpr_path = Some ''/ready'', rpr_port = 9901, rpr_initial_delay_seconds = 3, rpr_period_seconds = 20\<rparr>,
          ctr_volume_mounts =
            [\<lparr>vmt_name = ''envoy-config'', vmt_mount_path = ''/envoy-config'', vmt_read_only = True\<rparr>,
             \<lparr>vmt_name = ''envoy-xds'', vmt_mount_path = ''/envoy-xds'', vmt_read_only = True\<rparr>,
             \<lparr>vmt_name = ''envoy-secrets'', vmt_mount_path = ''/envoy-secrets'', vmt_read_only = True\<rparr>]\<rparr>],
      pos_volumes = Some
        [\<lparr>vol_name = ''envoy-config'', vol_source = Vol_ConfigMap ''envoy-cm''
           (Some [\<lparr>ktp_key = ''envoy-bootstrap.yaml'', ktp_path = ''envoy-bootstrap.yaml''\<rparr>])\<rparr>,
         \<lparr>vol_name = ''envoy-xds'', vol_source = Vol_ConfigMap ''envoy-xds''
           (Some [\<lparr>ktp_key = ''lds.yaml'', ktp_path = ''lds.yaml''\<rparr>, \<lparr>ktp_key = ''cds.yaml'', ktp_path = ''cds.yaml''\<rparr>,
             \<lparr>ktp_key = ''rds.yaml'', ktp_path = ''rds.yaml''\<rparr>])\<rparr>]\<rparr>"

definition file_secret_volumes :: "listener list \<Rightarrow> volume list" where
  "file_secret_volumes listeners =
     (let all_certificates = fold (bset_insert certificate_rank) (concat (map (\<lambda>l. case l of
            L_Https d \<Rightarrow> (case lc_tls_type (ld_config d) of Some (TT_Terminate certificates) \<Rightarrow> certificates | _ \<Rightarrow> [])
          | _ \<Rightarrow> []) listeners)) [];
          secrets = map (\<lambda>k.
            \<lparr>spj_name = rk_name k,
             spj_items = Some [\<lparr>ktp_key = ''tls.crt'', ktp_path = file_certificate_name k\<rparr>,
               \<lparr>ktp_key = ''tls.key'', ktp_path = file_key_name k\<rparr>]\<rparr>)
            (List.map_filter (\<lambda>c. case c of
               C_ResolvedSameSpace k _ \<Rightarrow> Some k
             | C_NotResolved _ \<Rightarrow> None | C_Invalid _ \<Rightarrow> None | C_ResolvedCrossSpace _ _ \<Rightarrow> None) all_certificates)
      in [\<lparr>vol_name = ''envoy-secrets'', vol_source = Vol_Projected secrets\<rparr>])"

definition file_deployment :: "string \<Rightarrow> gateway \<Rightarrow> deployment" where
  "file_deployment version g =
     (let ports = dedup_by (\<lambda>p. (cp_container_port p, cp_protocol p))
            (map (\<lambda>l. \<lparr>cp_container_port = listener_port l, cp_protocol = Some ''TCP''\<rparr>) (gateway_listeners g));
          labels = bset_replace fst (''app'', gateway_name g) (file_labels g);
          containers = (case pos_containers FILE_ENVOY_POD_SPEC of [] \<Rightarrow> [] | c # cs \<Rightarrow> c\<lparr>ctr_ports := Some ports\<rparr> # cs);
          (xds_cm, bootstrap_cm) = file_config_map_names g;
          volumes = [\<lparr>vol_name = ''envoy-config'', vol_source = Vol_ConfigMap bootstrap_cm
              (Some [\<lparr>ktp_key = ''envoy-bootstrap.yaml'', ktp_path = ''envoy-bootstrap.yaml''\<rparr>])\<rparr>,
            \<lparr>vol_name = ''envoy-xds'', vol_source = Vol_ConfigMap xds_cm None\<rparr>] @ file_secret_volumes (gateway_listeners g)
      in \<lparr>dpl_metadata = \<lparr>wm_name = gateway_name g, wm_namespace = gateway_namespace g, wm_labels = Some labels,
            wm_annotations = Some [(''gateway-version'', version)]\<rparr>,
          dpl_replicas = 1, dpl_selector = labels, dpl_template_labels = labels,
          dpl_pod_spec = FILE_ENVOY_POD_SPEC\<lparr>pos_containers := containers, pos_volumes := Some volumes\<rparr>\<rparr>)"

definition file_service_object :: "gateway \<Rightarrow> gateway_service" where
  "file_service_object g =
     (let ports = dedup_by (\<lambda>p. (gsp_port p, gsp_protocol p)) (map (\<lambda>l.
            \<lparr>gsp_name = file_port_name (gateway_name g) (listener_port l) (protocol_to_string (listener_protocol l)),
             gsp_port = listener_port l, gsp_protocol = ''TCP'', gsp_target_port = listener_port l\<rparr>) (gateway_listeners g))
      in \<lparr>gsv_metadata = \<lparr>wm_name = gateway_name g, wm_namespace = gateway_namespace g, wm_labels = Some (file_labels g),
            wm_annotations = None\<rparr>,
          gsv_selector = [(''app'', gateway_name g)], gsv_ports = ports, gsv_type = ''LoadBalancer'', gsv_status = None\<rparr>)"

definition file_service_account :: "gateway \<Rightarrow> service_account" where
  "file_service_account g = \<lparr>sac_metadata = \<lparr>wm_name = gateway_name g, wm_namespace = gateway_namespace g,
     wm_labels = Some (file_labels g), wm_annotations = None\<rparr>\<rparr>"

definition create_envoy_xds_config_map :: "string \<Rightarrow> string \<Rightarrow> gateway \<Rightarrow> string \<Rightarrow> rds_data list \<Rightarrow> string \<Rightarrow> config_map" where
  "create_envoy_xds_config_map version name g lds routes cds =
     \<lparr>cfm_metadata = \<lparr>wm_name = name, wm_namespace = gateway_namespace g, wm_labels = None,
        wm_annotations = Some [(''gateway-version'', version)]\<rparr>,
      cfm_data = fold (\<lambda>d. bset_replace fst (rda_route_name d @ ''.yaml'', rda_rds_content d)) routes
        (bset_replace fst (''lds.yaml'', lds) (bset_replace fst (''cds.yaml'', cds) []))\<rparr>"

definition file_bootstrap_config_map :: "string \<Rightarrow> string \<Rightarrow> gateway \<Rightarrow> string \<Rightarrow> config_map" where
  "file_bootstrap_config_map version name g content =
     \<lparr>cfm_metadata = \<lparr>wm_name = name, wm_namespace = gateway_namespace g, wm_labels = None,
        wm_annotations = Some [(''gateway-version'', version)]\<rparr>,
      cfm_data = [(''envoy-bootstrap.yaml'', content)]\<rparr>"

subsection \<open>Deployment\<close>

record file_env =
  fen_templates :: file_templates
  fen_patterns :: domain_patterns
  fen_ranks :: enum_ranks
  fen_ip :: ip_addresses

text \<open>The random versions of the three objects that carry one.\<close>

record file_versions =
  fve_deployment :: string
  fve_xds :: string
  fve_bootstrap :: string

record file_replies =
  fre_xds_config_map :: bool
  fre_bootstrap_config_map :: bool
  fre_deployment :: bool
  fre_service :: "gateway_service option"
  fre_service_account :: bool

text \<open>The requests for the workload, which follow the config maps; without templates there are no config maps.\<close>

definition deploy_file_workload :: "file_versions \<Rightarrow> file_replies \<Rightarrow> gateway \<Rightarrow> kube_call list \<times> gateway_service option" where
  "deploy_file_workload versions replies g =
     (let call1 = Apply_Deployment (gateway_name g) (file_deployment (fve_deployment versions) g);
          call2 = Apply_Service (gateway_name g) (file_service_object g);
          call3 = Apply_ServiceAccount (gateway_name g) (file_service_account g)
      in if \<not> fre_deployment replies then ([call1], None)
         else (case fre_service replies of
             None \<Rightarrow> ([call1, call2], None)
           | Some service \<Rightarrow> ([call1, call2, call3], if fre_service_account replies then Some service else None)))"

definition deploy_envoy_files :: "file_env \<Rightarrow> file_versions \<Rightarrow> file_replies \<Rightarrow> gateway \<Rightarrow> kube_call list \<times> gateway_service option" where
  "deploy_envoy_files env versions replies g =
     (let (xds_cm, bootstrap_cm) = file_config_map_names g
      in case generate_xds (fen_templates env) (fen_patterns env) (fen_ranks env) g of
           Inl _ \<Rightarrow> deploy_file_workload versions replies g
         | Inr d \<Rightarrow>
             (let call1 = Apply_ConfigMap xds_cm (create_envoy_xds_config_map (fve_xds versions) xds_cm g
                    (xda_lds_content d) (xda_rds_content d) (xda_cds_content d));
                  call2 = Apply_ConfigMap bootstrap_cm (file_bootstrap_config_map (fve_bootstrap versions) bootstrap_cm g
                    (xda_bootstrap_content d))
              in if \<not> fre_xds_config_map replies then ([call1], None)
                 else if \<not> fre_bootstrap_config_map replies then ([call1, call2], None)
                 else (let (calls, service) = deploy_file_workload versions replies g in (call1 # call2 # calls, service))))"

definition delete_envoy_files :: "gateway \<Rightarrow> kube_call list" where
  "delete_envoy_files g =
     (let (xds_cm, bootstrap_cm) = file_config_map_names g
      in [Delete_ServiceAccount (gateway_name g), Delete_Service (gateway_name g), Delete_Deployment (gateway_name g),
          Delete_ConfigMap xds_cm, Delete_ConfigMap bootstrap_cm])"

subsection \<open>Addresses\<close>

definition file_find_gateway_addresses :: "gateway_service \<Rightarrow> string list option" where
  "file_find_gateway_addresses s =
     (let ips = (case Option.bind (Option.bind (gsv_status s) sst_load_balancer) lbs_ingress of
          Some ingress \<Rightarrow> List.map_filter lbi_ip ingress
        | None \<Rightarrow> [])
      in if ips = [] then None else Some ips)"

definition file_update_addresses :: "ip_addresses \<Rightarrow> gateway_service \<Rightarrow> gateway \<Rightarrow> gateway \<times> bool" where
  "file_update_addresses ip service g = (case file_find_gateway_addresses service of
       Some ips \<Rightarrow> (g\<lparr>gw_addresses := bset_append (address_rank ip) (gw_addresses g)
           (bset_from (address_rank ip) (map (\<lambda>a. GA_IPAddress (ipa_text ip a)) (filter parses_as_ip ips)))\<rparr>, True)
     | None \<Rightarrow> (g, False))"

partial_function (option) file_poll_service ::
    "ip_addresses \<Rightarrow> (nat \<Rightarrow> gateway_service option) \<Rightarrow> gateway \<Rightarrow> kube_gateway \<Rightarrow> string \<Rightarrow> nat \<Rightarrow> backend_gateway_response list option" where
  "file_poll_service ip answers g kg class_name n = (case answers n of
       Some service \<Rightarrow>
         (if snd (file_update_addresses ip service g)
          then Some [ProcessedWithContext (fst (file_update_addresses ip service g)) kg class_name]
          else file_poll_service ip answers g kg class_name (n + 1))
     | None \<Rightarrow> Option.bind (file_poll_service ip answers g kg class_name (n + 1)) (\<lambda>rs. Some (Processed g # rs)))"

definition file_update_address_with_polling :: "ip_addresses \<Rightarrow> gateway_service \<Rightarrow> gateway \<Rightarrow> kube_gateway \<Rightarrow> string \<Rightarrow> address_update" where
  "file_update_address_with_polling ip service g kg class_name = (case file_find_gateway_addresses service of
       Some ips \<Rightarrow> Addresses_Known (ProcessedWithContext (g\<lparr>gw_addresses := bset_append (address_rank ip) (gw_addresses g)
           (bset_from (address_rank ip) (map (\<lambda>a. GA_IPAddress (ipa_text ip a)) (filter parses_as_ip ips)))\<rparr>) kg class_name)
     | None \<Rightarrow> Poll_For service g kg class_name)"

subsection \<open>The event loop\<close>

text \<open>As in \<open>Envoy_Deployer\<close>, the response to a deletion is dropped with its future; only the sender is told.\<close>

record file_output =
  fou_calls :: "kube_call list"
  fou_responses :: "backend_gateway_response list"
  fou_addresses :: "address_update option"
  fou_reply_deleted :: bool

fun handle_file_event :: "file_env \<Rightarrow> file_versions \<Rightarrow> file_replies \<Rightarrow> backend_gateway_event \<Rightarrow> file_output" where
  "handle_file_event env versions replies (Changed g kg class_name) =
     (let (calls, maybe_service) = deploy_envoy_files env versions replies g
      in case maybe_service of
           Some service \<Rightarrow> (case file_update_address_with_polling (fen_ip env) service g kg class_name of
               Addresses_Known response \<Rightarrow>
                 \<lparr>fou_calls = calls, fou_responses = [response], fou_addresses = None, fou_reply_deleted = False\<rparr>
             | polling \<Rightarrow> \<lparr>fou_calls = calls, fou_responses = [], fou_addresses = Some polling, fou_reply_deleted = False\<rparr>)
         | None \<Rightarrow> \<lparr>fou_calls = calls, fou_responses = [Processed g], fou_addresses = None, fou_reply_deleted = False\<rparr>)"
| "handle_file_event env versions replies (Deleted g) =
     \<lparr>fou_calls = delete_envoy_files g, fou_responses = [], fou_addresses = None, fou_reply_deleted = True\<rparr>"

subsection \<open>What the copy shares with the original\<close>

lemma file_same_objects: "file_config_map_names = config_map_names" "file_service_object = create_service" "file_service_account = create_service_account"
  "delete_envoy_files = delete_envoy" "file_secret_name = create_secret_name" "file_certificate_name = create_certificate_name"
  "file_key_name = create_key_name" "file_secret_volumes = create_secret_volumes" "file_bootstrap_config_map = create_envoy_bootstrap_config_map"
proof -
  show c: "file_certificate_name = create_certificate_name" and k: "file_key_name = create_key_name"
    by (simp_all add: fun_eq_iff file_certificate_name_def create_certificate_name_def file_key_name_def create_key_name_def)
  show "file_secret_volumes = create_secret_volumes"
    by (simp add: fun_eq_iff file_secret_volumes_def create_secret_volumes_def https_certificates_def same_space_keys_def c k)
qed (simp_all add: fun_eq_iff file_config_map_names_def config_map_names_def file_service_account_def create_service_account_def
    file_labels_def create_labels_def file_service_object_def create_service_def file_port_name_def port_name_def delete_envoy_files_def
    delete_envoy_def file_secret_name_def create_secret_name_def file_bootstrap_config_map_def create_envoy_bootstrap_config_map_def)

lemma file_same_addresses:
  "file_find_gateway_addresses = find_gateway_addresses" "file_update_addresses = update_addresses"
  "file_update_address_with_polling = update_address_with_polling"
proof -
  show a: "file_find_gateway_addresses = find_gateway_addresses"
    by (auto simp: fun_eq_iff file_find_gateway_addresses_def find_gateway_addresses_def split: option.splits)
  show "file_update_addresses = update_addresses"
    by (simp add: fun_eq_iff file_update_addresses_def update_addresses_def append_addresses_def a split: option.split)
  show "file_update_address_with_polling = update_address_with_polling"
    by (simp add: fun_eq_iff file_update_address_with_polling_def update_address_with_polling_def append_addresses_def a split: option.split)
qed

subsection \<open>The files\<close>

text \<open>All listeners of the representation have the name of the gateway and the port they are kept under.\<close>

definition representation_ok :: "string \<Rightarrow> (32 word \<times> file_listener) list \<Rightarrow> bool" where
  "representation_ok gname acc \<longleftrightarrow> bset_wf port_key acc \<and> list_all (\<lambda>(p, fl). fil_port fl = p \<and> fil_name fl = gname) acc"

lemma representation_ok_replace:
  "representation_ok gname acc \<Longrightarrow> fil_port fl = p \<Longrightarrow> fil_name fl = gname \<Longrightarrow> representation_ok gname (bset_replace port_key (p, fl) acc)"
  by (auto simp: representation_ok_def list_all_iff set_bset_replace)

lemma virtual_hosts_name_port [simp]:
  "fil_name (generate_virtual_hosts dp rk gname l) = gname" "fil_port (generate_virtual_hosts dp rk gname l) = listener_port l"
  by (simp_all add: generate_virtual_hosts_def Let_def split: prod.split)

lemma representation_ok_step: "representation_ok gname acc \<Longrightarrow> representation_ok gname (file_map_listener dp rk gname l acc)"
proof -
  assume ok: "representation_ok gname acc"
  have old: "fil_port fl = listener_port l \<and> fil_name fl = gname"
    if "bset_get port_key (sint (listener_port l)) acc = Some (p, fl)" for p fl
    using bset_get_SomeD [OF that] ok by (auto simp: representation_ok_def list_all_iff sint_port_inject)
  show ?thesis
    using ok old by (auto simp: file_map_listener_def Let_def split: option.split protocol_type.split intro!: representation_ok_replace)
qed

lemma representation_ok: "representation_ok (gateway_name g) (generate_envoy_representation dp rk g)"
proof -
  have "representation_ok gname (fold (file_map_listener dp rk gname) ls acc)" if "representation_ok gname acc" for gname ls acc
    using that by (induction ls arbitrary: acc) (simp_all add: representation_ok_step)
  then show ?thesis by (simp add: generate_envoy_representation_def representation_ok_def)
qed

definition file_listeners :: "domain_patterns \<Rightarrow> enum_ranks \<Rightarrow> gateway \<Rightarrow> file_listener list" where
  "file_listeners dp rk g = map snd (generate_envoy_representation dp rk g)"

definition routes_file :: "file_listener \<Rightarrow> string" where
  "routes_file l = fil_name l @ ''-'' @ show_i32 (fil_port l) @ ''-route.yaml''"

lemma routes_file_inject: "fil_name l = fil_name m \<Longrightarrow> routes_file l = routes_file m \<longleftrightarrow> fil_port l = fil_port m"
  by (simp add: routes_file_def)

lemma file_listeners_distinct: "distinct (map routes_file (file_listeners dp rk g))"
proof -
  let ?r = "generate_envoy_representation dp rk g"
  have ok: "fil_port (snd x) = fst x \<and> fil_name (snd x) = gateway_name g" if "x \<in> set ?r" for x
    using that representation_ok [of g dp rk] by (cases x) (auto simp: representation_ok_def list_all_iff)
  have d: "distinct (map port_key ?r)" using representation_ok [of g dp rk] by (simp add: representation_ok_def bset_wf_distinct)
  have "inj_on (routes_file \<circ> snd) (set ?r)"
  proof (rule inj_onI)
    fix x y assume x: "x \<in> set ?r" and y: "y \<in> set ?r" and "(routes_file \<circ> snd) x = (routes_file \<circ> snd) y"
    then have "fil_port (snd x) = fil_port (snd y)" using ok [OF x] ok [OF y] by (simp add: routes_file_inject)
    then have "fst x = fst y" using ok [OF x] ok [OF y] by simp
    then have "port_key x = port_key y" by (cases x, cases y) simp
    moreover have "inj_on port_key (set ?r)" using d by (simp add: distinct_map)
    ultimately show "x = y" using x y by (metis inj_onD)
  qed
  then show ?thesis using d by (simp add: file_listeners_def distinct_map)
qed

lemma routes_file_other [simp]: "routes_file l \<noteq> ''lds.yaml''" "routes_file l \<noteq> ''cds.yaml''"
proof -
  have "length (routes_file l) > length ''lds.yaml''" by (simp add: routes_file_def)
  then show "routes_file l \<noteq> ''lds.yaml''" "routes_file l \<noteq> ''cds.yaml''" by auto
qed

lemma map_of_fold_replace: "map_of (fold (bset_replace fst) ps m) = map_of m ++ map_of (rev ps)"
  using map_of_bset_append [of m ps] by (simp add: bset_append_def)

text \<open>Entries made from those elements of a list that have a value, under distinct keys.\<close>

definition entries_of :: "('a \<Rightarrow> 'k) \<Rightarrow> ('a \<Rightarrow> 'v option) \<Rightarrow> 'a list \<Rightarrow> ('k \<times> 'v) list" where
  "entries_of key val = List.map_filter (\<lambda>x. map_option (Pair (key x)) (val x))"

lemma entries_of_simps [simp]:
  "entries_of key val [] = []"
  "entries_of key val (x # xs) = (case val x of None \<Rightarrow> [] | Some v \<Rightarrow> [(key x, v)]) @ entries_of key val xs"
  by (simp_all add: entries_of_def List.map_filter_simps split: option.split)

lemma entries_of_keys: "fst ` set (entries_of key val xs) \<subseteq> key ` set xs"
  by (induction xs) (auto split: option.splits)

lemma entries_of_distinct: "distinct (map key xs) \<Longrightarrow> distinct (map fst (entries_of key val xs))"
proof (induction xs)
  case (Cons x xs)
  then show ?case using entries_of_keys [of key val xs] by (auto split: option.split)
qed simp

lemma map_of_entries_of:
  "distinct (map key xs) \<Longrightarrow> map_of (entries_of key val xs) k = Option.bind (find (\<lambda>x. key x = k) xs) val"
proof (induction xs)
  case (Cons x xs)
  have "map_of (entries_of key val xs) (key x) = None"
    using Cons.prems entries_of_keys [of key val xs] by (auto simp: map_of_eq_None_iff)
  with Cons show ?case by (cases "val x") auto
qed simp

lemma map_of_rev_entries: "distinct (map fst es) \<Longrightarrow> map_of (rev es) = map_of es"
  by (rule map_of_eqI) (auto simp: rev_map [symmetric])

definition routes_content :: "file_templates \<Rightarrow> file_listener \<Rightarrow> string option" where
  "routes_content t l = (case ftp_rds t (tera_route_of l) of Inr content \<Rightarrow> Some content | Inl _ \<Rightarrow> None)"

lemma generated_routes:
  "map (\<lambda>d. (rda_route_name d @ ''.yaml'', rda_rds_content d))
     (List.map_filter (\<lambda>l. case generate_rds t l of Inr d \<Rightarrow> Some d | Inl _ \<Rightarrow> None) ls) = entries_of routes_file (routes_content t) ls"
proof (induction ls)
  case (Cons l ls)
  have "tro_name (tera_route_of l) @ ''.yaml'' = routes_file l" by (simp add: tera_route_of_def routes_file_def)
  with Cons show ?case
    by (cases "ftp_rds t (tera_route_of l)") (simp_all add: generate_rds_def routes_content_def)
qed simp

lemma config_map_data:
  "cfm_data (create_envoy_xds_config_map version n g lds routes cds) =
     fold (bset_replace fst) (map (\<lambda>d. (rda_route_name d @ ''.yaml'', rda_rds_content d)) routes)
       (bset_replace fst (''lds.yaml'', lds) (bset_replace fst (''cds.yaml'', cds) []))"
  by (simp add: create_envoy_xds_config_map_def fold_map comp_def)


text \<open>The name of the routes in the values for that template is none of those files.\<close>

lemma dynamic_route_unused: "tli_route_name (tera_listener_of l) @ ''.yaml'' \<noteq> routes_file m" if "fil_name l = fil_name m"
proof
  assume "tli_route_name (tera_listener_of l) @ ''.yaml'' = routes_file m"
  then have "show_i32 (fil_port m) @ ''-route.yaml'' = ''dynamic'' @ ''-route.yaml''"
    using that by (simp add: tera_listener_of_def routes_file_def)
  then have "show_i32 (fil_port m) = ''dynamic''" by (rule append_same_eq [THEN iffD1])
  then have "CHR ''d'' \<in> set (show_i32 (fil_port m))" by simp
  then show False using show_i32_digits [of "fil_port m"] by (auto simp: is_digit_def)
qed

subsection \<open>Failing templates and colliding clusters\<close>

text \<open>
  When a template other than that of the routes fails, no config map is written, but the workload that mounts them is
  deployed, and the gateway is reported as processed with its addresses.
\<close>

lemma failing_template_deploys:
  assumes "generate_xds (fen_templates env) (fen_patterns env) (fen_ranks env) g = Inl e"
    and "fre_deployment replies" "fre_service replies = Some service" "fre_service_account replies"
    and "find_gateway_addresses service = Some ips"
  shows "fou_calls (handle_file_event env versions replies (Changed g kg class_name)) =
      [Apply_Deployment (gateway_name g) (file_deployment (fve_deployment versions) g),
       Apply_Service (gateway_name g) (file_service_object g), Apply_ServiceAccount (gateway_name g) (file_service_account g)]"
    and "fou_responses (handle_file_event env versions replies (Changed g kg class_name)) =
      [ProcessedWithContext (append_addresses (fen_ip env) ips g) kg class_name]"
  using assms by (simp_all add: deploy_envoy_files_def deploy_file_workload_def Let_def file_same_addresses update_address_with_polling_def
      file_config_map_names_def)

text \<open>Clusters are told apart by their whole content, so a service used with two weights is two clusters of one name.\<close>

lemma set_tera_clusters: "set (tera_clusters listeners) = (\<Union>l\<in>set listeners. \<Union>evc\<in>set (fil_http_listener_map l).
    \<Union>r\<in>set (fvh_resolved_routes evc @ fvh_unresolved_routes evc). set (tera_clusters_of_route r))"
proof -
  have "inj tera_cluster_rank"
  proof (rule injI)
    fix x y :: tera_cluster assume "tera_cluster_rank x = tera_cluster_rank y"
    moreover have "inj (\<lambda>e :: tera_endpoint. (ten_service e, sint (ten_port e), sint (ten_weight e)))"
      by (rule injI) (auto simp: sint_port_inject intro: tera_endpoint.equality)
    ultimately show "x = y" by (auto simp: tera_cluster_rank_def inj_map_eq_map intro: tera_cluster.equality)
  qed
  then have "inj_on tera_cluster_rank A" for A by (meson inj_on_subset subset_UNIV)
  then show ?thesis by (simp add: tera_clusters_def set_bset_from_inj_on)
qed


lemma cluster_names_collide:
  assumes "l \<in> set listeners" "evc \<in> set (fil_http_listener_map l)" "r \<in> set (fvh_resolved_routes evc @ fvh_unresolved_routes evc)"
    and "l' \<in> set listeners" "evc' \<in> set (fil_http_listener_map l')" "r' \<in> set (fvh_resolved_routes evc' @ fvh_unresolved_routes evc')"
    and "B_Resolved (BT_Service c) \<in> set (route_backends r)" "B_Resolved (BT_Service c') \<in> set (route_backends r')"
    and "service_cluster_name c = service_cluster_name c'" "stc_weight c \<noteq> stc_weight c'"
    and "0 < sint (stc_weight c)" "0 < sint (stc_weight c')"
  shows "\<not> distinct (map tcl_name (tera_clusters listeners))"
proof
  assume d: "distinct (map tcl_name (tera_clusters listeners))"
  define k where "k = (\<lambda>c. \<lparr>tcl_name = service_cluster_name c,
    tcl_endpoints = [\<lparr>ten_service = stc_endpoint c, ten_port = stc_effective_port c, ten_weight = stc_weight c\<rparr>]\<rparr>)"
  have one: "k c \<in> set (tera_clusters_of_route r)" if "B_Resolved (BT_Service c) \<in> set (route_backends r)" "0 < sint (stc_weight c)" for c r
  proof -
    have "c \<in> set (List.map_filter (\<lambda>b. case b of B_Resolved (BT_Service c) \<Rightarrow> Some c | _ \<Rightarrow> None) (route_backends r))"
      unfolding List.map_filter_def using that(1) by force
    then show ?thesis using that(2) by (simp add: tera_clusters_of_route_def k_def)
  qed
  have "k c \<in> set (tera_clusters listeners)" "k c' \<in> set (tera_clusters listeners)"
    unfolding set_tera_clusters using assms(1-6) one [OF assms(7,11)] one [OF assms(8,12)] by blast+
  moreover have "tcl_name (k c) = tcl_name (k c')" using assms(9) by (simp add: k_def)
  ultimately have "k c = k c'" using d by (auto simp: distinct_map dest: inj_onD)
  then show False using assms(10) by (simp add: k_def)
qed

subsection \<open>Examples\<close>

definition example_file_templates :: file_templates where
  "example_file_templates = \<lparr>ftp_rds = (\<lambda>r. Inr (tro_name r)), ftp_cds = (\<lambda>_. Inr ''clusters''),
     ftp_bootstrap = (\<lambda>_. Inr ''bootstrap''), ftp_lds = (\<lambda>_. Inr ''listeners'')\<rparr>"


end
