(* ===== verification/Resource_Patching.thy ===== *)
theory Resource_Patching
  imports Gateway_Deployment
begin

section \<open>The patcher services\<close>

text \<open>
  \<open>services/patchers/\<close> and the finalizer helpers of \<open>controllers/utils/mod.rs\<close>: what a patcher asks of the
  API server for each operation it receives, and what becomes of the object. The five services differ in
  the scope of their API only. The API server and the finalizer helper of the \<open>kube\<close> crate are parameters;
  their documented behaviour is stated by \<open>documented_server\<close> and \<open>documented_runner\<close>.
\<close>

subsection \<open>Requests to the API server\<close>

text \<open>
  Requests on the metadata of an object: a server-side apply, and the two JSON patches of the finalizer helper,
  of which the removal tests the finalizer at its index first.
\<close>

datatype meta_request =
    Apply_Metadata string object_meta
  | Append_Finalizer string
  | Remove_Finalizer nat string

text \<open>An apply of the status is forced; the name of the manager of its fields comes first.\<close>

datatype 'r api_call =
    Get_Metadata "string option" string
  | Patch_Metadata "string option" string meta_request
  | Patch_Status "string option" string string 'r

record 'r api_answers =
  aan_metadata :: "object_meta option"
  aan_patched :: bool
  aan_status :: "'r option"

type_synonym finalizer_runner = "string \<Rightarrow> object_meta \<Rightarrow> meta_request option"

text \<open>Gateway classes belong to no namespace.\<close>

datatype patcher_kind = Gateway_Patcher | GatewayClass_Patcher | HttpRoute_Patcher | GRPCRoute_Patcher | InferencePool_Patcher

fun patcher_api :: "patcher_kind \<Rightarrow> string \<Rightarrow> string option" where
  "patcher_api GatewayClass_Patcher namespace = None"
| "patcher_api _ namespace = Some namespace"

subsection \<open>Finalizers\<close>

definition finalizers_of :: "object_meta \<Rightarrow> string list" where
  "finalizers_of m = unwrap_or (om_finalizers m) []"

definition patch_finalizer ::
    "object_meta option \<Rightarrow> bool \<Rightarrow> string \<Rightarrow> string \<Rightarrow> meta_request option \<times> (controller_error + unit)" where
  "patch_finalizer maybe_meta patched controller finalizer_name = (case maybe_meta of
       None \<Rightarrow> (None, Inl UnknownResource)
     | Some m \<Rightarrow>
         (if finalizer_name \<in> set (finalizers_of m) then (None, Inr ())
          else (Some (Apply_Metadata controller
                  (m\<lparr>om_finalizers := Some (finalizers_of m @ [finalizer_name]), om_managed_fields := None\<rparr>)),
                if patched then Inr () else Inl PatchFailed)))"

definition delete_resource :: "finalizer_runner \<Rightarrow> string \<Rightarrow> object_meta \<Rightarrow> meta_request option" where
  "delete_resource run finalizer_name m = run finalizer_name m"

subsection \<open>One operation\<close>

text \<open>The second component is the reply to the sender of a status patch.\<close>

fun handle_operation ::
    "('r \<Rightarrow> object_meta) \<Rightarrow> ((object_meta \<Rightarrow> object_meta) \<Rightarrow> 'r \<Rightarrow> 'r) \<Rightarrow> patcher_kind \<Rightarrow> finalizer_runner \<Rightarrow> 'r api_answers \<Rightarrow>
     'r operation \<Rightarrow> 'r api_call list \<times> 'r option option" where
  "handle_operation meta upd_meta kind run ans (PatchStatus k r controller) =
     ([Patch_Status (patcher_api kind (rk_namespace k)) (rk_name k) controller
         (upd_meta (\<lambda>m. m\<lparr>om_resource_version := None\<rparr>) r)], Some (aan_status ans))"
| "handle_operation meta upd_meta kind run ans (PatchFinalizer ctx) =
     (let api = patcher_api kind (rk_namespace (fc_resource_key ctx)); name = rk_name (fc_resource_key ctx);
          (request, _) = patch_finalizer (aan_metadata ans) (aan_patched ans) (fc_controller_name ctx) (fc_finalizer_name ctx)
      in (Get_Metadata api name # (case request of None \<Rightarrow> [] | Some q \<Rightarrow> [Patch_Metadata api name q]), None))"
| "handle_operation meta upd_meta kind run ans (Delete_Resource k r controller) =
     ((case delete_resource run controller (meta r) of
         None \<Rightarrow> []
       | Some q \<Rightarrow> [Patch_Metadata (patcher_api kind (rk_namespace k)) (rk_name k) q]), None)"

subsection \<open>The documented behaviour\<close>

text \<open>
  The finalizer helper with a reconciler that always succeeds, as \<open>ResourceFinalizer\<close> uses it: an object that is
  being deleted loses the finalizer, any other gets it.
\<close>

definition index_of :: "'a \<Rightarrow> 'a list \<Rightarrow> nat option" where
  "index_of x xs = find (\<lambda>i. xs ! i = x) [0..<length xs]"

definition documented_runner :: "finalizer_runner \<Rightarrow> bool" where
  "documented_runner run \<longleftrightarrow> (\<forall>name m. run name m =
     (case (index_of name (finalizers_of m), om_deletion_timestamp m) of
        (Some i, Some _) \<Rightarrow> Some (Remove_Finalizer i name)
      | (None, None) \<Rightarrow> Some (Append_Finalizer name)
      | _ \<Rightarrow> None))"

text \<open>The finalizers after a request that succeeds, and none when it cannot.\<close>

fun requested_finalizers :: "meta_request \<Rightarrow> string list \<Rightarrow> string list option" where
  "requested_finalizers (Apply_Metadata manager m) fs = Some (finalizers_of m)"
| "requested_finalizers (Append_Finalizer name) fs = Some (fs @ [name])"
| "requested_finalizers (Remove_Finalizer i name) fs =
     (if i < length fs \<and> fs ! i = name then Some (take i fs @ drop (Suc i) fs) else None)"

text \<open>
  The API server may refuse a request; otherwise the finalizers are as requested, provided an apply names
  all current ones, and an object that is being deleted is gone when it has none left.
\<close>

type_synonym api_server = "meta_request \<Rightarrow> object_meta \<Rightarrow> object_meta option option"

fun names_all :: "meta_request \<Rightarrow> object_meta \<Rightarrow> bool" where
  "names_all (Apply_Metadata _ p) m \<longleftrightarrow> set (finalizers_of m) \<subseteq> set (finalizers_of p)"
| "names_all _ m \<longleftrightarrow> True"

definition served_as :: "object_meta \<Rightarrow> string list \<Rightarrow> object_meta option \<Rightarrow> bool" where
  "served_as m fs r \<longleftrightarrow> (case r of
     None \<Rightarrow> om_deletion_timestamp m \<noteq> None \<and> fs = []
   | Some m' \<Rightarrow> finalizers_of m' = fs \<and> om_deletion_timestamp m' = om_deletion_timestamp m \<and>
       (om_deletion_timestamp m = None \<or> fs \<noteq> []))"

definition documented_server :: "api_server \<Rightarrow> bool" where
  "documented_server server \<longleftrightarrow> (\<forall>q m r. server q m = Some r \<longrightarrow> names_all q m \<longrightarrow>
     (\<exists>fs. requested_finalizers q (finalizers_of m) = Some fs \<and> served_as m fs r))"

text \<open>A server that refuses no request on the object that can be met.\<close>

definition accepting :: "api_server \<Rightarrow> object_meta \<Rightarrow> bool" where
  "accepting server m \<longleftrightarrow> (\<forall>q fs. requested_finalizers q (finalizers_of m) = Some fs \<longrightarrow> server q m \<noteq> None)"

text \<open>The metadata after the calls of an operation; a status patch leaves them.\<close>

fun object_after :: "api_server \<Rightarrow> 'r api_call \<Rightarrow> object_meta option \<Rightarrow> object_meta option" where
  "object_after server (Patch_Metadata _ _ q) (Some m) = (case server q m of None \<Rightarrow> Some m | Some r \<Rightarrow> r)"
| "object_after server _ obj = obj"

definition operated ::
    "('r \<Rightarrow> object_meta) \<Rightarrow> ((object_meta \<Rightarrow> object_meta) \<Rightarrow> 'r \<Rightarrow> 'r) \<Rightarrow> patcher_kind \<Rightarrow> finalizer_runner \<Rightarrow> api_server \<Rightarrow>
     'r api_answers \<Rightarrow> 'r operation \<Rightarrow> object_meta option \<Rightarrow> object_meta option" where
  "operated meta upd_meta kind run server ans op obj =
     fold (object_after server) (fst (handle_operation meta upd_meta kind run (ans\<lparr>aan_metadata := obj\<rparr>) op)) obj"

subsection \<open>Finalizers are added once\<close>

lemma index_of_Some: "index_of x xs = Some i \<Longrightarrow> i < length xs \<and> xs ! i = x"
  by (auto simp: index_of_def find_Some_iff)

lemma index_of_None: "index_of x xs = None \<longleftrightarrow> x \<notin> set xs"
  by (auto simp: index_of_def find_None_iff in_set_conv_nth)

text \<open>What each operation asks for, on an object that is there.\<close>

lemma operated_simps:
  "operated meta upd_meta kind run server ans (PatchStatus k r controller) obj = obj"
  "operated meta upd_meta kind run server ans op None = None"
  "operated meta upd_meta kind run server ans (PatchFinalizer ctx) (Some m) =
     (if fc_finalizer_name ctx \<in> set (finalizers_of m) then Some m
      else (case server (Apply_Metadata (fc_controller_name ctx)
          (m\<lparr>om_finalizers := Some (finalizers_of m @ [fc_finalizer_name ctx]), om_managed_fields := None\<rparr>)) m of
        None \<Rightarrow> Some m | Some r \<Rightarrow> r))"
  "operated meta upd_meta kind run server ans (Delete_Resource k r controller) (Some m) =
     (case run controller (meta r) of None \<Rightarrow> Some m | Some q \<Rightarrow> (case server q m of None \<Rightarrow> Some m | Some r \<Rightarrow> r))"
proof -
  have none: "fold (object_after server) calls None = None" for calls by (induction calls) simp_all
  show "operated meta upd_meta kind run server ans op None = None" by (simp add: operated_def none)
qed (auto simp: operated_def patch_finalizer_def delete_resource_def Let_def split: option.split)

lemma served_request:
  assumes "documented_server server" "server q m = Some r" "names_all q m"
  obtains fs where "requested_finalizers q (finalizers_of m) = Some fs" "served_as m fs r"
  using assms unfolding documented_server_def by blast

lemma accepted_request:
  assumes "documented_server server" "accepting server m" "requested_finalizers q (finalizers_of m) = Some fs" "names_all q m"
  obtains r where "server q m = Some r" "served_as m fs r"
proof -
  obtain r where r: "server q m = Some r" using assms(2,3) unfolding accepting_def by blast
  from served_request [OF assms(1) r assms(4)] assms(3) have "served_as m fs r" by (metis option.inject)
  with r show thesis by (rule that)
qed

text \<open>
  A finalizer is added at the end, at most once, the others stay in place; an object that has it is left
  alone, so that repeating the operation changes nothing.
\<close>

lemma finalizer_added_once:
  assumes "documented_server server" "accepting server m"
  shows "\<exists>m'. operated meta upd_meta kind run server ans (PatchFinalizer ctx) (Some m) = Some m' \<and>
    finalizers_of m' = finalizers_of m @ (if fc_finalizer_name ctx \<in> set (finalizers_of m) then [] else [fc_finalizer_name ctx]) \<and>
    om_deletion_timestamp m' = om_deletion_timestamp m \<and>
    operated meta upd_meta kind run server ans (PatchFinalizer ctx) (Some m') = Some m'"
proof (cases "fc_finalizer_name ctx \<in> set (finalizers_of m)")
  case False
  let ?m = "m\<lparr>om_finalizers := Some (finalizers_of m @ [fc_finalizer_name ctx]), om_managed_fields := None\<rparr>"
  let ?q = "Apply_Metadata (fc_controller_name ctx) ?m"
  have f: "finalizers_of ?m = finalizers_of m @ [fc_finalizer_name ctx]" by (simp add: finalizers_of_def)
  have q: "requested_finalizers ?q (finalizers_of m) = Some (finalizers_of m @ [fc_finalizer_name ctx])" "names_all ?q m"
    by (simp_all only: requested_finalizers.simps names_all.simps f) auto
  obtain r where r: "server ?q m = Some r" "served_as m (finalizers_of m @ [fc_finalizer_name ctx]) r"
    using accepted_request [OF assms q] .
  from r(2) obtain m' where "r = Some m'" "finalizers_of m' = finalizers_of m @ [fc_finalizer_name ctx]"
    "om_deletion_timestamp m' = om_deletion_timestamp m"
    by (cases r) (auto simp: served_as_def)
  with False r(1) show ?thesis by (simp add: operated_simps)
qed (simp add: operated_simps)

subsection \<open>When a deletion completes\<close>

text \<open>
  C34: handling the deletion of an up to date object that is being deleted, with an API server that accepts
  every request, takes the first of the controller's own finalizers from the object, which is gone exactly when that was the only
  finalizer; any other finalizer keeps it.
\<close>

theorem deletion_completes_iff:
  assumes "documented_server server" "documented_runner run"
    and "om_deletion_timestamp m \<noteq> None" "finalizers_of m \<noteq> []" "meta r = m" "accepting server m"
  shows "case operated meta upd_meta kind run server ans (Delete_Resource k r controller) (Some m) of
      None \<Rightarrow> finalizers_of m = [controller]
    | Some m' \<Rightarrow> finalizers_of m \<noteq> [controller] \<and> finalizers_of m' = remove1 controller (finalizers_of m)"
proof (cases "index_of controller (finalizers_of m)")
  case None
  moreover have "run controller (meta r) = None" using assms(2,3,5) None by (auto simp: documented_runner_def split: option.split)
  ultimately show ?thesis by (auto simp: operated_simps index_of_None remove1_idem)
next
  case (Some i)
  let ?q = "Remove_Finalizer i controller"
  have run: "run controller (meta r) = Some ?q" using assms(2,3,5) Some by (auto simp: documented_runner_def split: option.split)
  have i: "i < length (finalizers_of m)" "finalizers_of m ! i = controller" using index_of_Some [OF Some] by auto
  have first: "j < i \<Longrightarrow> finalizers_of m ! j \<noteq> controller" for j
    using Some by (auto simp: index_of_def find_Some_iff)
  have take: "controller \<notin> set (take i (finalizers_of m))"
    using first i(1) by (auto simp: in_set_conv_nth)
  have split: "finalizers_of m = take i (finalizers_of m) @ controller # drop (Suc i) (finalizers_of m)"
    using id_take_nth_drop [OF i(1)] i(2) by simp
  have rest: "remove1 controller (finalizers_of m) = take i (finalizers_of m) @ drop (Suc i) (finalizers_of m)"
    by (subst split) (simp add: remove1_append take)
  have one: "take i (finalizers_of m) @ drop (Suc i) (finalizers_of m) = [] \<longleftrightarrow> finalizers_of m = [controller]"
  proof
    assume "take i (finalizers_of m) @ drop (Suc i) (finalizers_of m) = []"
    then have "take i (finalizers_of m) = []" "drop (Suc i) (finalizers_of m) = []" by simp_all
    with split show "finalizers_of m = [controller]" by (metis append_Nil)
  next
    assume "finalizers_of m = [controller]"
    with i(1) show "take i (finalizers_of m) @ drop (Suc i) (finalizers_of m) = []" by simp
  qed
  have q: "requested_finalizers ?q (finalizers_of m) = Some (take i (finalizers_of m) @ drop (Suc i) (finalizers_of m))" "names_all ?q m"
    using i by simp_all
  obtain s where s: "server ?q m = Some s" "served_as m (take i (finalizers_of m) @ drop (Suc i) (finalizers_of m)) s"
    using accepted_request [OF assms(1,6) q] .
  moreover define fs where "fs = take i (finalizers_of m) @ drop (Suc i) (finalizers_of m)"
  moreover have "operated meta upd_meta kind run server ans (Delete_Resource k r controller) (Some m) = s"
    using run s(1) by (simp add: operated_simps)
  ultimately show ?thesis
    using one rest assms(3) unfolding fs_def [symmetric] by (cases s) (auto simp: served_as_def)
qed

subsection \<open>Gateway classes are not deleted\<close>

text \<open>The operations on gateway classes: status patches, the finalizer of a class in use, and deletions under the name of the controller.\<close>

fun class_operation :: "string \<Rightarrow> gateway_class operation \<Rightarrow> bool" where
  "class_operation controller (PatchStatus k gc c) \<longleftrightarrow> c = controller"
| "class_operation controller (PatchFinalizer ctx) \<longleftrightarrow> fc_controller_name ctx = controller \<and> fc_finalizer_name ctx = GATEWAY_CLASS_FINALIZER_NAME"
| "class_operation controller (Delete_Resource k gc c) \<longleftrightarrow> c = controller"

abbreviation class_operations_ok :: "string \<Rightarrow> system \<Rightarrow> bool" where
  "class_operations_ok controller sys \<equiv> list_all (class_operation controller) (sys_class_ops sys)"

lemma class_ops_frame [simp]:
  "sys_class_ops (on_store f sys) = sys_class_ops sys" "sys_class_ops (send_request x sys) = sys_class_ops sys"
  "sys_class_ops (send_gateway_op y sys) = sys_class_ops sys" "sys_class_ops (send_class_op z sys) = sys_class_ops sys @ [z]"
  "sys_class_ops (send_event t e sys) = sys_class_ops sys"
  by (simp_all add: on_store_def send_request_def send_gateway_op_def send_class_op_def send_event_def)

lemma class_finalizer_operation [simp]: "class_operation controller (add_finalizer_to_gateway_class n controller)"
  by (simp add: add_finalizer_to_gateway_class_def)

lemma reconciled_class_operations:
  "class_operations_ok controller sys \<Longrightarrow>
   class_operations_ok controller (snd (reconcile_gateway_class now controller parse_uuid reply gc sys))"
proof -
  assume ok: "class_operations_ok controller sys"
  have "class_operations_ok controller (snd (dispatch (gateway_class_handler now controller reply) st k gc sys))" for st k
    using ok by (cases st) (simp_all add: gateway_class_handler_def default_handler_def already_added_def class_new_or_changed_def
        class_deleted_def Let_def split: option.split)
  then show ?thesis
    using ok by (cases "controller = gcs_controller_name (gc_spec gc)")
      (simp_all add: reconcile_gateway_class_def process_stored_def process_def split: option.split del: class_operation.simps)
qed

lemma reconciled_gateway_operations:
  "class_operations_ok controller sys \<Longrightarrow>
   class_operations_ok controller (snd (reconcile_gateway controller parse_uuid senders config_api kg sys))"
proof -
  assume ok: "class_operations_ok controller sys"
  have changed: "sys_class_ops (snd (gateway_new_or_changed env kg s)) = sys_class_ops s" for env s
    by (simp add: gateway_new_or_changed_def split: sum.split)
  have deleted: "sys_class_ops (snd (gateway_deleted env k kg s)) = sys_class_ops s" for env k s
    by (auto simp: gateway_deleted_def delete_backend_gateway_def Let_def split: option.split sum.split prod.split)
  have status: "class_operations_ok controller (snd (gateway_status_changed env k kg sys))" if "ge_controller_name env = controller" for env k
    using ok that by (simp add: gateway_status_changed_def Let_def changed split: option.split)
  have "class_operations_ok controller (snd (dispatch (gateway_handler env) st k kg sys))"
    if "ge_controller_name env = controller" for st k and env :: gateway_env
    using ok status [OF that] by (cases st) (simp_all add: gateway_handler_def default_handler_def already_added_def changed deleted)
  then show ?thesis
    using ok by (simp add: reconcile_gateway_def process_stored_def process_def split: option.split sum.split)
qed

lemma deployer_class_operations:
  "class_operations_ok controller sys \<Longrightarrow> class_operations_ok controller (deployer_version_not_changed controller gateway_id class_name kg sys)"
  by (auto simp: deployer_version_not_changed_def Let_def split: option.split)

text \<open>
  The life of a gateway class object after some point: users and other controllers change its metadata without touching
  the finalizers, also by asking for its deletion, and the patcher handles operations.
\<close>

inductive class_life :: "finalizer_runner \<Rightarrow> api_server \<Rightarrow> string \<Rightarrow> object_meta \<Rightarrow> object_meta option \<Rightarrow> bool"
  for run server controller m where
  begins: "class_life run server controller m (Some m)"
| changes: "class_life run server controller m (Some m1) \<Longrightarrow> om_finalizers m2 = om_finalizers m1 \<Longrightarrow> class_life run server controller m (Some m2)"
| operates: "class_life run server controller m obj \<Longrightarrow> class_operation controller op \<Longrightarrow>
    class_life run server controller m (operated gc_metadata gc_metadata_update GatewayClass_Patcher run server ans op obj)"

lemma runner_request:
  assumes "documented_runner run" "run c m = Some q"
  shows "(\<exists>i. q = Remove_Finalizer i c) \<or> q = Append_Finalizer c"
proof -
  have "run c m = (case (index_of c (finalizers_of m), om_deletion_timestamp m) of
      (Some i, Some _) \<Rightarrow> Some (Remove_Finalizer i c) | (None, None) \<Rightarrow> Some (Append_Finalizer c) | _ \<Rightarrow> None)"
    using assms(1) unfolding documented_runner_def by blast
  with assms(2) show ?thesis by (auto split: option.splits)
qed

lemma other_finalizer_kept:
  assumes "requested_finalizers q fs = Some gs" "(\<exists>i. q = Remove_Finalizer i c) \<or> q = Append_Finalizer c" "x \<noteq> c" "x \<in> set fs"
  shows "x \<in> set gs"
  using assms(2)
proof
  assume "\<exists>i. q = Remove_Finalizer i c"
  then obtain i where q: "q = Remove_Finalizer i c" by blast
  with assms(1) have i: "i < length fs" "fs ! i = c" and gs: "gs = take i fs @ drop (Suc i) fs" by (auto split: if_splits)
  have "set fs = set (take i fs @ c # drop (Suc i) fs)" using id_take_nth_drop [OF i(1)] i(2) by metis
  with assms(3,4) show ?thesis by (auto simp: gs)
qed (use assms(1,4) in auto)

text \<open>
  C37: a gateway class that once got the finalizer of a class in use is never deleted: whatever users ask for and
  whatever operations the patcher handles, the object stays and keeps this finalizer.
\<close>

theorem class_in_use_never_deleted:
  assumes server: "documented_server server" and run: "documented_runner run" and "controller \<noteq> GATEWAY_CLASS_FINALIZER_NAME"
    and "GATEWAY_CLASS_FINALIZER_NAME \<in> set (finalizers_of m)" and life: "class_life run server controller m obj"
  shows "\<exists>m'. obj = Some m' \<and> GATEWAY_CLASS_FINALIZER_NAME \<in> set (finalizers_of m')"
  using life
proof induction
  case (operates obj op ans)
  then obtain m1 where m1: "obj = Some m1" "GATEWAY_CLASS_FINALIZER_NAME \<in> set (finalizers_of m1)" by blast
  show ?case
  proof (cases op)
    case (PatchFinalizer ctx)
    with operates(2) m1 show ?thesis by (simp add: operated_simps)
  next
    case (Delete_Resource k gc c)
    then have c: "c = controller" using operates(2) by simp
    show ?thesis
    proof (cases "run c (gc_metadata gc)")
      case (Some q)
      show ?thesis
      proof (cases "server q m1")
        case s: (Some r)
        have q: "(\<exists>i. q = Remove_Finalizer i c) \<or> q = Append_Finalizer c"
          using runner_request [OF run Some] .
        then have "names_all q m1" by auto
        from served_request [OF server s this] obtain fs where fs: "requested_finalizers q (finalizers_of m1) = Some fs" "served_as m1 fs r" .
        have "GATEWAY_CLASS_FINALIZER_NAME \<in> set fs"
          by (rule other_finalizer_kept [OF fs(1) q _ m1(2)]) (simp add: c assms(3) [symmetric])
        moreover have "operated gc_metadata gc_metadata_update GatewayClass_Patcher run server ans op obj = r"
          using s Some m1(1) Delete_Resource by (simp add: operated_simps)
        ultimately show ?thesis using fs(2) by (cases r) (simp_all add: served_as_def)
      qed (use m1 Some Delete_Resource in \<open>simp add: operated_simps\<close>)
    qed (use m1 Delete_Resource in \<open>simp add: operated_simps\<close>)
  qed (use m1 in \<open>simp add: operated_simps\<close>)
qed (use assms(4) in \<open>auto simp: finalizers_of_def\<close>)

subsection \<open>Example\<close>

text \<open>A server and a helper that behave as documented.\<close>

definition example_server :: api_server where
  "example_server q m = map_option (\<lambda>fs. if om_deletion_timestamp m \<noteq> None \<and> fs = [] then None else Some (m\<lparr>om_finalizers := Some fs\<rparr>))
     (requested_finalizers q (finalizers_of m))"

definition example_runner :: finalizer_runner where
  "example_runner name m = (case (index_of name (finalizers_of m), om_deletion_timestamp m) of
     (Some i, Some _) \<Rightarrow> Some (Remove_Finalizer i name)
   | (None, None) \<Rightarrow> Some (Append_Finalizer name)
   | _ \<Rightarrow> None)"

lemma documented_examples: "documented_server example_server" "documented_runner example_runner" "accepting example_server m"
  by (auto simp: documented_server_def documented_runner_def example_server_def example_runner_def finalizers_of_def served_as_def
      accepting_def)

definition example_object :: "string list \<Rightarrow> gateway_class" where
  "example_object fs = \<lparr>gc_metadata = empty_meta\<lparr>om_finalizers := Some fs, om_deletion_timestamp := Some ''now''\<rparr>,
     gc_spec = \<lparr>gcs_controller_name = ''c'', gcs_parameters_ref = None, gcs_rest = ''''\<rparr>, gc_status = None\<rparr>"

definition example_answers_of_server :: "gateway_class api_answers" where
  "example_answers_of_server = \<lparr>aan_metadata = None, aan_patched = True, aan_status = None\<rparr>"

lemma finalizer_added_once_witness:
  "\<exists>m'. operated gc_metadata gc_metadata_update GatewayClass_Patcher example_runner example_server example_answers_of_server
      (add_finalizer_to_gateway_class ''k'' ''c'') (Some (gc_metadata (example_object [''c'']))) = Some m' \<and>
    finalizers_of m' = [''c'', GATEWAY_CLASS_FINALIZER_NAME]"
  using finalizer_added_once [OF documented_examples(1,3), of gc_metadata gc_metadata_update GatewayClass_Patcher example_runner
      example_answers_of_server _ "gc_metadata (example_object [''c''])"]
  by (fastforce simp: add_finalizer_to_gateway_class_def example_object_def finalizers_of_def GATEWAY_CLASS_FINALIZER_NAME_def)

lemma deletion_completes_iff_witness:
  "operated gc_metadata gc_metadata_update GatewayClass_Patcher example_runner example_server example_answers_of_server
     (Delete_Resource (new_key ''k'') (example_object [''c'']) ''c'') (Some (gc_metadata (example_object [''c'']))) = None"
proof -
  let ?m = "gc_metadata (example_object [''c''])"
  have "om_deletion_timestamp ?m \<noteq> None" "finalizers_of ?m = [''c'']" by (simp_all add: example_object_def finalizers_of_def)
  then show ?thesis
    using deletion_completes_iff [OF documented_examples(1,2) _ _ refl documented_examples(3), where controller = "''c''"
        and r = "example_object [''c'']" and meta = gc_metadata and upd_meta = gc_metadata_update and kind = GatewayClass_Patcher
        and ans = example_answers_of_server and k = "new_key ''k''"]
    by (auto split: option.splits)
qed

lemma class_in_use_never_deleted_witness:
  "\<exists>m'. operated gc_metadata gc_metadata_update GatewayClass_Patcher example_runner example_server example_answers_of_server
      (Delete_Resource (new_key ''k'') (example_object [''c'', GATEWAY_CLASS_FINALIZER_NAME]) ''c'')
      (Some (gc_metadata (example_object [''c'', GATEWAY_CLASS_FINALIZER_NAME]))) = Some m' \<and>
    GATEWAY_CLASS_FINALIZER_NAME \<in> set (finalizers_of m')"
proof -
  let ?o = "example_object [''c'', GATEWAY_CLASS_FINALIZER_NAME]"
  have "class_life example_runner example_server ''c'' (gc_metadata ?o)
      (operated gc_metadata gc_metadata_update GatewayClass_Patcher example_runner example_server example_answers_of_server
        (Delete_Resource (new_key ''k'') ?o ''c'') (Some (gc_metadata ?o)))"
    by (rule operates [OF begins]) simp
  moreover have "GATEWAY_CLASS_FINALIZER_NAME \<in> set (finalizers_of (gc_metadata ?o))" by (simp add: example_object_def finalizers_of_def)
  moreover have "''c'' \<noteq> GATEWAY_CLASS_FINALIZER_NAME" by (simp add: GATEWAY_CLASS_FINALIZER_NAME_def)
  ultimately show ?thesis using class_in_use_never_deleted [OF documented_examples(1,2)] by blast
qed

end
