(* ===== verification/Wiring.thy ===== *)
theory Wiring
  imports Controller_Runs Envoy_Deployer
begin

section \<open>The services and their channels\<close>

text \<open>
  \<open>kubvernor-controller/src/lib.rs\<close>: which services are started for a set of crate features and a configuration, which
  channels each of them sends to and receives from, and how long the controllers wait before they start. The
  channels themselves are lists of messages in the other theories.
\<close>

subsection \<open>Services and channels\<close>

text \<open>The crate features that \<open>start\<close> depends on; \<open>envoy_xds\<close>, without which it has no Envoy deployer to name, is taken as given.\<close>

record features =
  ft_agentgateway :: bool
  ft_orion :: bool

definition default_features :: features where
  "default_features = \<lparr>ft_agentgateway = True, ft_orion = True\<rparr>"

datatype service =
    Reference_Grants_Resolver_Service | Backend_References_Resolver_Service | Secret_Resolver_Service
  | Gateway_Deployer_Service | Resolver_Service
  | Gateway_Class_Patcher_Service | Gateway_Patcher_Service | Http_Route_Patcher_Service | Grpc_Route_Patcher_Service
  | Inference_Pool_Patcher_Service
  | Gateway_Class_Controller_Task | Gateway_Controller_Task | Http_Route_Controller_Task | Grpc_Route_Controller_Task
  | Inference_Pool_Controller_Task
  | Deployer_Service gateway_implementation_type control_plane_config

datatype channel =
    Gateway_Deployer_Channel | Reference_Validate_Channel | Gateway_Patcher_Channel | Gateway_Class_Patcher_Channel
  | Http_Route_Patcher_Channel | Grpc_Route_Patcher_Channel | Inference_Pool_Patcher_Channel | Backend_Response_Channel
  | Backend_Deployer_Channel gateway_implementation_type

definition backend_deployer_channel_senders :: "features \<Rightarrow> gateway_implementation_type list" where
  "backend_deployer_channel_senders ft =
     [Envoy] @ (if ft_agentgateway ft then [Agentgateway] else []) @ (if ft_orion ft then [Orion] else [])"

text \<open>The channels a service is built with, as the builders list them.\<close>

fun sends_to :: "features \<Rightarrow> service \<Rightarrow> channel list" where
  "sends_to ft Secret_Resolver_Service = [Reference_Validate_Channel]"
| "sends_to ft Backend_References_Resolver_Service = [Reference_Validate_Channel]"
| "sends_to ft Reference_Grants_Resolver_Service = [Reference_Validate_Channel]"
| "sends_to ft Gateway_Deployer_Service = map Backend_Deployer_Channel (backend_deployer_channel_senders ft) @
     [Gateway_Patcher_Channel, Gateway_Class_Patcher_Channel, Http_Route_Patcher_Channel, Grpc_Route_Patcher_Channel]"
| "sends_to ft Resolver_Service = [Inference_Pool_Patcher_Channel, Gateway_Deployer_Channel]"
| "sends_to ft Gateway_Patcher_Service = []"
| "sends_to ft Gateway_Class_Patcher_Service = []"
| "sends_to ft Http_Route_Patcher_Service = []"
| "sends_to ft Grpc_Route_Patcher_Service = []"
| "sends_to ft Inference_Pool_Patcher_Service = []"
| "sends_to ft Gateway_Class_Controller_Task = [Gateway_Class_Patcher_Channel]"
| "sends_to ft Gateway_Controller_Task = map Backend_Deployer_Channel (backend_deployer_channel_senders ft) @
     [Gateway_Class_Patcher_Channel, Gateway_Patcher_Channel, Reference_Validate_Channel]"
| "sends_to ft Http_Route_Controller_Task = [Http_Route_Patcher_Channel, Reference_Validate_Channel, Inference_Pool_Patcher_Channel]"
| "sends_to ft Grpc_Route_Controller_Task = [Grpc_Route_Patcher_Channel, Reference_Validate_Channel]"
| "sends_to ft Inference_Pool_Controller_Task = [Reference_Validate_Channel, Inference_Pool_Patcher_Channel]"
| "sends_to ft (Deployer_Service t cp) = [Backend_Response_Channel]"

fun receives_from :: "service \<Rightarrow> channel list" where
  "receives_from Gateway_Deployer_Service = [Gateway_Deployer_Channel, Backend_Response_Channel]"
| "receives_from Resolver_Service = [Reference_Validate_Channel]"
| "receives_from Gateway_Patcher_Service = [Gateway_Patcher_Channel]"
| "receives_from Gateway_Class_Patcher_Service = [Gateway_Class_Patcher_Channel]"
| "receives_from Http_Route_Patcher_Service = [Http_Route_Patcher_Channel]"
| "receives_from Grpc_Route_Patcher_Service = [Grpc_Route_Patcher_Channel]"
| "receives_from Inference_Pool_Patcher_Service = [Inference_Pool_Patcher_Channel]"
| "receives_from (Deployer_Service t cp) = [Backend_Deployer_Channel t]"
| "receives_from _ = []"

subsection \<open>Start\<close>

definition core_services :: "service list" where
  "core_services =
     [Reference_Grants_Resolver_Service, Backend_References_Resolver_Service, Secret_Resolver_Service,
      Gateway_Deployer_Service, Resolver_Service, Gateway_Class_Patcher_Service, Gateway_Patcher_Service,
      Http_Route_Patcher_Service, Grpc_Route_Patcher_Service, Inference_Pool_Patcher_Service,
      Gateway_Class_Controller_Task, Gateway_Controller_Task, Http_Route_Controller_Task, Grpc_Route_Controller_Task,
      Inference_Pool_Controller_Task]"

definition deployer_service :: "string \<Rightarrow> gateway_implementation_type \<Rightarrow> address option \<Rightarrow> service list" where
  "deployer_service name t control_plane = (case control_plane of
       Some a \<Rightarrow> [Deployer_Service t \<lparr>cpc_controller_name = name, cpc_listening_socket = a\<rparr>]
     | None \<Rightarrow> [])"

definition start_services :: "features \<Rightarrow> configuration \<Rightarrow> service list" where
  "start_services ft cfg = core_services @
     deployer_service (controller_name cfg) Envoy (envoy_gateway_control_plane cfg) @
     (if ft_orion ft then deployer_service (controller_name cfg) Orion (orion_gateway_control_plane cfg) else []) @
     (if ft_agentgateway ft then deployer_service (controller_name cfg) Agentgateway (agentgateway_gateway_control_plane cfg) else [])"

text \<open>The seconds a controller sleeps before its watches start.\<close>

definition STARTUP_DURATION :: nat where
  "STARTUP_DURATION = 10"

fun startup_delay :: "service \<Rightarrow> nat" where
  "startup_delay Gateway_Controller_Task = STARTUP_DURATION"
| "startup_delay Http_Route_Controller_Task = 2 * STARTUP_DURATION"
| "startup_delay Grpc_Route_Controller_Task = 2 * STARTUP_DURATION"
| "startup_delay Inference_Pool_Controller_Task = 2 * STARTUP_DURATION"
| "startup_delay _ = 0"

text \<open>\<open>main\<close>: nothing starts with a configuration that does not validate.\<close>

definition run_main :: "features \<Rightarrow> configuration \<Rightarrow> configuration_error + service list" where
  "run_main ft cfg = (case validate_configuration cfg of Inl e \<Rightarrow> Inl e | Inr _ \<Rightarrow> Inr (start_services ft cfg))"

subsection \<open>Receivers\<close>

definition control_plane_of :: "gateway_implementation_type \<Rightarrow> configuration \<Rightarrow> address option" where
  "control_plane_of t cfg = (case t of Envoy \<Rightarrow> envoy_gateway_control_plane cfg | Agentgateway \<Rightarrow> agentgateway_gateway_control_plane cfg
     | Orion \<Rightarrow> orion_gateway_control_plane cfg)"

definition deploys :: "features \<Rightarrow> configuration \<Rightarrow> gateway_implementation_type \<Rightarrow> bool" where
  "deploys ft cfg t \<longleftrightarrow> t \<in> set (backend_deployer_channel_senders ft) \<and> control_plane_of t cfg \<noteq> None"

definition receivers :: "service list \<Rightarrow> channel \<Rightarrow> service list" where
  "receivers services c = filter (\<lambda>s. c \<in> set (receives_from s)) services"

lemma deployer_service_receivers [simp]:
  "receivers (deployer_service name t cp) c =
     (if c = Backend_Deployer_Channel t then deployer_service name t cp else [])"
  by (simp add: receivers_def deployer_service_def split: option.split)

lemma receivers_append [simp]: "receivers (xs @ ys) c = receivers xs c @ receivers ys c" "receivers [] c = []"
  by (simp_all add: receivers_def)

lemma core_receivers:
  "receivers core_services c = (case c of
     Gateway_Deployer_Channel \<Rightarrow> [Gateway_Deployer_Service] | Reference_Validate_Channel \<Rightarrow> [Resolver_Service]
   | Gateway_Patcher_Channel \<Rightarrow> [Gateway_Patcher_Service] | Gateway_Class_Patcher_Channel \<Rightarrow> [Gateway_Class_Patcher_Service]
   | Http_Route_Patcher_Channel \<Rightarrow> [Http_Route_Patcher_Service] | Grpc_Route_Patcher_Channel \<Rightarrow> [Grpc_Route_Patcher_Service]
   | Inference_Pool_Patcher_Channel \<Rightarrow> [Inference_Pool_Patcher_Service] | Backend_Response_Channel \<Rightarrow> [Gateway_Deployer_Service]
   | Backend_Deployer_Channel t \<Rightarrow> [])"
  by (cases c) (simp_all add: receivers_def core_services_def)

lemma deployer_receivers:
  "receivers (start_services ft cfg) (Backend_Deployer_Channel t) =
     (if t \<in> set (backend_deployer_channel_senders ft) then deployer_service (controller_name cfg) t (control_plane_of t cfg) else [])"
  by (cases t) (simp_all add: start_services_def core_receivers backend_deployer_channel_senders_def control_plane_of_def)

lemma other_receivers:
  "(\<And>t. c \<noteq> Backend_Deployer_Channel t) \<Longrightarrow> receivers (start_services ft cfg) c = receivers core_services c"
  by (simp add: start_services_def)

text \<open>
  C30: a channel a started service sends to is received by exactly one started service, except the channel of a
  deployer without a control plane in the configuration, which nothing receives.
\<close>

theorem channels_have_receivers:
  assumes "s \<in> set (start_services ft cfg)" "c \<in> set (sends_to ft s)"
  shows "length (receivers (start_services ft cfg) c) = (case c of Backend_Deployer_Channel t \<Rightarrow> if deploys ft cfg t then 1 else 0 | _ \<Rightarrow> 1)"
proof (cases c)
  case (Backend_Deployer_Channel t)
  have "t \<in> set (backend_deployer_channel_senders ft)"
    using assms(2) by (cases s) (auto simp: Backend_Deployer_Channel)
  then show ?thesis by (auto simp: Backend_Deployer_Channel deployer_receivers deploys_def deployer_service_def)
qed (simp_all add: other_receivers core_receivers)

lemma channels_have_receivers_witness:
  "\<exists>cfg. length (receivers (start_services default_features cfg) (Backend_Deployer_Channel Orion)) = 0 \<and>
     length (receivers (start_services default_features cfg) (Backend_Deployer_Channel Envoy)) = 1"
proof -
  define cfg :: configuration where "cfg = \<lparr>controller_name = ''kubvernor'', enable_open_telemetry = None,
    envoy_gateway_control_plane = Some \<lparr>addr_hostname = ''kubvernor'', addr_port = 50051\<rparr>,
    agentgateway_gateway_control_plane = None, orion_gateway_control_plane = None, admin_interface = None\<rparr>"
  have s: "Gateway_Deployer_Service \<in> set (start_services default_features cfg)" by (simp add: start_services_def core_services_def)
  have c: "Backend_Deployer_Channel t \<in> set (sends_to default_features Gateway_Deployer_Service)" for t
    by (cases t) (simp_all add: backend_deployer_channel_senders_def default_features_def)
  have d: "deploys default_features cfg t \<longleftrightarrow> t = Envoy" for t
    by (cases t) (simp_all add: deploys_def backend_deployer_channel_senders_def default_features_def control_plane_of_def cfg_def)
  show ?thesis using channels_have_receivers [OF s c] by (intro exI [of _ cfg]) (simp add: d)
qed

subsection \<open>Consequences\<close>

text \<open>
  A gateway of an implementation whose deployer is compiled in but not configured is deployed without an error: its
  event waits in a channel that nothing receives. Only an implementation that is not compiled in stops the service.
\<close>

lemma unconfigured_gateway_waits:
  assumes "gw_backend_type (rc_gateway ctx) = t" "t \<in> set (backend_deployer_channel_senders ft)" "control_plane_of t cfg = None"
  shows "\<exists>sys'. deploy_gateway now (backend_deployer_channel_senders ft) ctx sys = Some sys' \<and>
      length (sys_events sys') = Suc (length (sys_events sys)) \<and> fst (last (sys_events sys')) = t \<and>
      receivers (start_services ft cfg) (Backend_Deployer_Channel t) = []"
  using assms by (simp add: deploy_gateway_def Let_def send_event_def deployer_receivers deployer_service_def)

lemma uncompiled_gateway_panics:
  "deploy_gateway now (backend_deployer_channel_senders ft) ctx sys = None \<longleftrightarrow>
     gw_backend_type (rc_gateway ctx) \<notin> set (backend_deployer_channel_senders ft)"
  by (simp add: deploy_gateway_def Let_def)

text \<open>With the default features a configuration that validates starts a deployer; without Agentgateway it may start none.\<close>

lemma valid_configuration_deploys:
  assumes "run_main ft cfg = Inr services" "ft_agentgateway ft"
  shows "\<exists>t. deploys ft cfg t \<and> receivers services (Backend_Deployer_Channel t) \<noteq> []"
proof -
  have v: "agentgateway_gateway_control_plane cfg \<noteq> None \<or> envoy_gateway_control_plane cfg \<noteq> None" and s: "services = start_services ft cfg"
    using assms(1) by (auto simp: run_main_def validate_configuration_def split: sum.splits option.splits if_splits)
  then obtain t where "control_plane_of t cfg \<noteq> None" "t \<in> {Envoy, Agentgateway}"
    by (metis control_plane_of_def gateway_implementation_type.case(1,2) insertCI)
  then have "deploys ft cfg t" using assms(2) by (auto simp: deploys_def backend_deployer_channel_senders_def)
  then show ?thesis by (auto simp: s deploys_def deployer_receivers deployer_service_def)
qed

lemma valid_configuration_without_deployer:
  assumes "controller_name cfg \<noteq> ''''" "agentgateway_gateway_control_plane cfg \<noteq> None" "envoy_gateway_control_plane cfg = None"
    and "\<not> ft_agentgateway ft" "orion_gateway_control_plane cfg = None"
  shows "run_main ft cfg = Inr core_services"
  using assms by (auto simp: run_main_def validate_configuration_def start_services_def deployer_service_def split: option.splits)

text \<open>Orion alone, which \<open>start\<close> would serve, does not validate.\<close>

lemma orion_alone_rejected:
  "agentgateway_gateway_control_plane cfg = None \<Longrightarrow> envoy_gateway_control_plane cfg = None \<Longrightarrow> \<exists>e. run_main ft cfg = Inl e"
  by (simp add: run_main_def validate_configuration_def)

text \<open>
  Messages flow from the controllers and resolvers to the validator, the gateway deployer, the deployers and the patchers. The
  only way back is the channel of responses.
\<close>

fun depth :: "service \<Rightarrow> nat" where
  "depth Resolver_Service = 1"
| "depth Gateway_Deployer_Service = 2"
| "depth (Deployer_Service t cp) = 3"
| "depth Gateway_Class_Patcher_Service = 3"
| "depth Gateway_Patcher_Service = 3"
| "depth Http_Route_Patcher_Service = 3"
| "depth Grpc_Route_Patcher_Service = 3"
| "depth Inference_Pool_Patcher_Service = 3"
| "depth _ = 0"

lemma only_responses_flow_back:
  assumes "c \<in> set (sends_to ft s)" "c \<in> set (receives_from s')"
  shows "depth s < depth s' \<or> c = Backend_Response_Channel \<and> s' = Gateway_Deployer_Service \<and> (\<exists>t cp. s = Deployer_Service t cp)"
  using assms by (cases s; cases s') auto

text \<open>The controllers start in the order of the references between their objects: classes, gateways, then routes and pools.\<close>

lemma startup_order:
  "startup_delay Gateway_Class_Controller_Task < startup_delay Gateway_Controller_Task \<and>
   (\<forall>s\<in>{Http_Route_Controller_Task, Grpc_Route_Controller_Task, Inference_Pool_Controller_Task}.
      startup_delay Gateway_Controller_Task < startup_delay s)"
  by (simp add: STARTUP_DURATION_def)

end
