(* ===== verification/Gateway_Rounds.thy ===== *)
theory Gateway_Rounds
  imports Controller_Runs Orion_Deployer Agentgateway_Deployer
begin

section \<open>A gateway on its way through the services\<close>

text \<open>
  The services of \<open>Controller_Runs\<close>, a backend deployer and its discovery server joined by their channels: one round is the
  reconciliation of one gateway and the delivery of the messages it leads to, in the order they are sent,
  with nothing else in between. What the other services rely on in a deployer is the locale \<open>gateway_backend\<close>, interpreted on
  the deployers of Envoy, Orion and Agentgateway, each with its server.
\<close>

subsection \<open>Rounds\<close>

record round_env =
  rde_validator :: validator_env
  rde_senders :: "gateway_implementation_type list"
  rde_config_api :: "string \<Rightarrow> string \<Rightarrow> string option option"
  rde_patch_reply :: "kube_gateway \<Rightarrow> kube_gateway option"

text \<open>The services and the state of one deployer with its server.\<close>

record 'b world =
  wld_validator :: validator
  wld_backend :: 'b

type_synonym 'b deliver = "backend_gateway_event \<Rightarrow> 'b \<Rightarrow> (backend_gateway_response list \<times> 'b) option"

fun fold_option :: "('a \<Rightarrow> 's \<Rightarrow> 's option) \<Rightarrow> 'a list \<Rightarrow> 's \<Rightarrow> 's option" where
  "fold_option f [] s = Some s"
| "fold_option f (x # xs) s = Option.bind (f x s) (fold_option f xs)"

text \<open>An event for the deployer; its responses go to the gateway deployer. Events of other implementations are not for it.\<close>

definition deliver_event ::
    "gateway_implementation_type \<Rightarrow> 'b deliver \<Rightarrow> round_env \<Rightarrow> gateway_implementation_type \<times> backend_gateway_event \<Rightarrow> 'b world \<Rightarrow> 'b world option" where
  "deliver_event kind deliver e = (\<lambda>(t, event) w.
     if t \<noteq> kind then Some w
     else map_option (\<lambda>(responses, b).
       \<lparr>wld_validator = on_system (fold (handle_response (ve_now (rde_validator e)) (ve_controller_name (rde_validator e))
           (rde_patch_reply e)) responses (va_system (wld_validator w))) (wld_validator w),
        wld_backend = b\<rparr>) (deliver event (wld_backend w)))"

definition deliver_deploy :: "round_env \<Rightarrow> gateway_deploy_request \<Rightarrow> validator \<Rightarrow> validator option" where
  "deliver_deploy e request v = (case request of Deploy ctx \<Rightarrow>
     map_option (\<lambda>sys. on_system sys v) (deploy_gateway (ve_now (rde_validator e)) (rde_senders e) ctx (va_system v)))"

definition gateway_round ::
    "gateway_implementation_type \<Rightarrow> 'b deliver \<Rightarrow> round_env \<Rightarrow> kube_gateway \<Rightarrow> 'b world \<Rightarrow> (outcome \<times> 'b world) option" where
  "gateway_round kind deliver e kg w =
     (let v = wld_validator w; env = rde_validator e;
          (result, sys) = reconcile_gateway (ve_controller_name env) (ve_parse_uuid env) (rde_senders e) (rde_config_api e) kg (va_system v)
      in if result = Panicked then None
         else Option.bind (fold_option (handle_request env) (drop (length (sys_requests (va_system v))) (sys_requests sys)) (on_system sys v)) (\<lambda>v1.
           Option.bind (fold_option (deliver_deploy e) (drop (length (va_deploys v)) (va_deploys v1)) v1) (\<lambda>v2.
             map_option (Pair result) (fold_option (deliver_event kind deliver e)
               (drop (length (sys_events (va_system v))) (sys_events (va_system v2))) (w\<lparr>wld_validator := v2\<rparr>)))))"

subsection \<open>A new gateway\<close>

text \<open>The system and the validator after a new gateway was stored and its references were registered.\<close>

definition stored_gateway :: "gateway_implementation_type \<Rightarrow> resource_key \<Rightarrow> kube_gateway \<Rightarrow> system \<Rightarrow> system" where
  "stored_gateway kind k kg sys = on_store (\<lambda>s. snd (save_gateway_type k kind (save_gateway k kg s))) sys"

definition registered_gateway :: "gateway_implementation_type \<Rightarrow> gateway \<Rightarrow> kube_gateway \<Rightarrow> validator \<Rightarrow> validator option" where
  "registered_gateway kind g kg v =
     (let class_name = gs_gateway_class_name (kg_spec kg);
          sys = send_request (AddGateway \<lparr>rc_gateway = g, rc_kube_gateway = kg, rc_gateway_class_name = class_name\<rparr>)
            (stored_gateway kind (gw_resource_key g) kg (va_system v))
      in map_option (\<lambda>backends. v\<lparr>va_system := sys, va_secrets := add_secrets_by_gateway g (va_secrets v), va_backends := backends,
             va_grants := add_references_by_gateway (sys_state sys) g (va_grants v)\<rparr>)
           (add_backend_references (sys_state sys) (gw_resource_key g) (va_backends v)))"

text \<open>The gateway the deployer is sent: validated, with the conditions of its listeners.\<close>

definition announced_gateway :: "validator_env \<Rightarrow> gateway \<Rightarrow> kube_gateway \<Rightarrow> validator \<Rightarrow> gateway" where
  "announced_gateway env g kg v = adjust_statuses (fst (process_gateway env g kg v))"

lemma announced_gateway_frame: "gw_resource_key (announced_gateway env g kg v) = gw_resource_key g"
  by (simp add: announced_gateway_def adjust_statuses_def map_listeners_def process_gateway_frame)

text \<open>What the gateway controller accepts as a gateway of a kind: a known class with that implementation, and an object that converts.\<close>

definition accepted_gateway :: "round_env \<Rightarrow> gateway_implementation_type \<Rightarrow> kube_gateway \<Rightarrow> state \<Rightarrow> bool" where
  "accepted_gateway e kind kg s \<longleftrightarrow> om_name (kg_metadata kg) \<noteq> None \<and> check_uid (ve_parse_uuid (rde_validator e)) (kg_metadata kg) = None \<and>
     configured_backend_type (rde_config_api e) (rk_namespace (key_of_gateway kg)) (gs_gateway_class_name (kg_spec kg)) s = Inr kind \<and>
     kind \<in> set (rde_senders e)"

lemma new_gateway_reconciled:
  assumes "accepted_gateway e kind kg (sys_state sys)" "get_gateway (key_of_gateway kg) (sys_state sys) = None"
    and "om_deletion_timestamp (kg_metadata kg) = None" "gateway_from (ve_parse_uuid (rde_validator e)) kg kind = Inr g"
  shows "gw_resource_key g = key_of_gateway kg"
    and "reconcile_gateway controller (ve_parse_uuid (rde_validator e)) senders (rde_config_api e) kg sys = (Acted (Requeue RECONCILE_LONG_WAIT),
      send_request (AddGateway \<lparr>rc_gateway = g, rc_kube_gateway = kg, rc_gateway_class_name = gs_gateway_class_name (kg_spec kg)\<rparr>)
        (stored_gateway kind (key_of_gateway kg) kg sys))"
proof -
  show k: "gw_resource_key g = key_of_gateway kg"
    using assms(4) by (auto simp: gateway_from_def Let_def split: option.splits prod.splits if_splits)
  show "reconcile_gateway controller (ve_parse_uuid (rde_validator e)) senders (rde_config_api e) kg sys = (Acted (Requeue RECONCILE_LONG_WAIT),
      send_request (AddGateway \<lparr>rc_gateway = g, rc_kube_gateway = kg, rc_gateway_class_name = gs_gateway_class_name (kg_spec kg)\<rparr>)
        (stored_gateway kind (key_of_gateway kg) kg sys))"
    using assms k by (auto simp: accepted_gateway_def reconcile_gateway_def process_stored_def process_def check_status_def gateway_handler_def
        gateway_new_or_changed_def stored_gateway_def on_store_def send_request_def)
qed

lemma new_gateway_validated:
  assumes "registered_gateway kind g kg v = Some v2"
  defines "c \<equiv> gs_gateway_class_name (kg_spec kg)"
  shows "handle_request env (AddGateway \<lparr>rc_gateway = g, rc_kube_gateway = kg, rc_gateway_class_name = c\<rparr>)
      (on_system (send_request (AddGateway \<lparr>rc_gateway = g, rc_kube_gateway = kg, rc_gateway_class_name = c\<rparr>)
        (stored_gateway kind (gw_resource_key g) kg (va_system v))) v) =
    Some (send_deploy \<lparr>rc_gateway = fst (process_gateway env g kg v2), rc_kube_gateway = kg, rc_gateway_class_name = c\<rparr>
      (snd (process_gateway env g kg v2)))"
  using assms by (auto simp: registered_gateway_def Let_def on_system_def case_prod_beta)

lemma process_gateway_keeps:
  "va_deploys (snd (process_gateway env g kg v)) = va_deploys v"
  "sys_events (va_system (snd (process_gateway env g kg v))) = sys_events (va_system v)"
  "sys_requests (va_system (snd (process_gateway env g kg v))) = sys_requests (va_system v)"
  "sys_gateway_ops (va_system (snd (process_gateway env g kg v))) = sys_gateway_ops (va_system v)"
  by (simp_all add: process_gateway_def Let_def case_prod_beta)

text \<open>The round of a new gateway is the delivery of the event for the validated gateway.\<close>

lemma new_gateway_round:
  fixes e :: round_env and w :: "'b world"
  defines "env \<equiv> rde_validator e" and "v \<equiv> wld_validator w"
  assumes accepted: "accepted_gateway e kind kg (sys_state (va_system v))" "get_gateway (key_of_gateway kg) (sys_state (va_system v)) = None"
      "om_deletion_timestamp (kg_metadata kg) = None" "gateway_from (ve_parse_uuid env) kg kind = Inr g"
    and registered: "registered_gateway kind g kg v = Some v2"
  shows "\<exists>v3. gateway_round kind deliver e kg w = map_option (Pair (Acted (Requeue RECONCILE_LONG_WAIT))) (deliver_event kind deliver e
      (kind, Changed (announced_gateway env g kg v2)
        (resolve_listeners_statuses (ve_now env) (announced_gateway env g kg v2) kg) (gs_gateway_class_name (kg_spec kg)))
      (w\<lparr>wld_validator := v3\<rparr>))"
proof -
  let ?k = "key_of_gateway kg"
  let ?c = "gs_gateway_class_name (kg_spec kg)"
  let ?ctx = "\<lparr>rc_gateway = g, rc_kube_gateway = kg, rc_gateway_class_name = ?c\<rparr>"
  let ?sys = "send_request (AddGateway ?ctx) (stored_gateway kind ?k kg (va_system v))"
  let ?g' = "announced_gateway env g kg v2"
  let ?kg' = "resolve_listeners_statuses (ve_now env) ?g' kg"
  let ?p = "process_gateway env g kg v2"
  let ?ctx' = "\<lparr>rc_gateway = fst ?p, rc_kube_gateway = kg, rc_gateway_class_name = ?c\<rparr>"
  let ?sys2 = "send_event kind (Changed ?g' ?kg' ?c) (va_system (snd ?p))"
  note rec = new_gateway_reconciled [OF accepted [unfolded env_def], folded env_def]
  have h: "handle_request env (AddGateway ?ctx) (on_system ?sys v) = Some (send_deploy ?ctx' (snd ?p))"
    using new_gateway_validated [OF registered, of env] by (simp add: rec(1))
  have v2: "va_deploys v2 = va_deploys v" "sys_events (va_system v2) = sys_events (va_system v)"
    using registered by (auto simp: registered_gateway_def Let_def stored_gateway_def send_request_def on_store_def)
  have t: "gw_backend_type (fst ?p) = kind"
    using accepted(4) by (auto simp: process_gateway_frame gateway_from_def Let_def split: option.splits prod.splits if_splits)
  have d: "deliver_deploy e (Deploy ?ctx') (send_deploy ?ctx' (snd ?p)) = Some (on_system ?sys2 (send_deploy ?ctx' (snd ?p)))"
    using accepted(1) t by (simp add: accepted_gateway_def deliver_deploy_def deploy_gateway_def Let_def announced_gateway_def send_deploy_def env_def)
  have requests: "drop (length (sys_requests (va_system v))) (sys_requests ?sys) = [AddGateway ?ctx]"
    by (simp add: send_request_def stored_gateway_def on_store_def)
  have deploys: "drop (length (va_deploys v)) (va_deploys (send_deploy ?ctx' (snd ?p))) = [Deploy ?ctx']"
    by (simp add: send_deploy_def process_gateway_keeps v2)
  have events: "drop (length (sys_events (va_system v))) (sys_events ?sys2) = [(kind, Changed ?g' ?kg' ?c)]"
    by (simp add: send_event_def process_gateway_keeps v2)
  have sys2: "va_system (on_system ?sys2 (send_deploy ?ctx' (snd ?p))) = ?sys2" by (simp add: on_system_def)
  have last: "Option.bind x (fold_option (deliver_event kind deliver e) []) = x" for x by (cases x) simp_all
  show ?thesis
    unfolding gateway_round_def Let_def env_def [symmetric] v_def [symmetric] rec(2) prod.case
    unfolding requests fold_option.simps(2) [of "handle_request env"] h
    by (simp only: fold_option.simps Option.bind.bind_lunit deploys d sys2 events last outcome.distinct if_False) blast
qed

subsection \<open>The reported status\<close>

text \<open>What the gateway patcher is told about a processed gateway: ready, with its addresses.\<close>

definition reported_ready :: "string \<Rightarrow> gateway \<Rightarrow> system \<Rightarrow> bool" where
  "reported_ready controller g sys \<longleftrightarrow> (\<exists>kg' status.
     PatchStatus (gw_resource_key g) kg' controller \<in> set (sys_gateway_ops sys) \<and> kg_status kg' = Some status \<and>
     gst_addresses status = Some (map (\<lambda>a. \<lparr>gsa_type = None, gsa_value = address_value a\<rparr>) (gw_addresses g)) \<and>
     (case gst_conditions status of None \<Rightarrow> False
      | Some cs \<Rightarrow> map cond_status (filter (\<lambda>c. cond_type c = ''Ready'') cs) = [''True'']))"

lemma processed_gateway_ready: "reported_ready c g (gateway_processed now c reply g kg class_name sys)"
proof -
  let ?up = "update_gateway_resource now g kg"
  let ?ops = "sys_gateway_ops (gateway_processed now c reply g kg class_name sys)"
  have "take (Suc (length (sys_gateway_ops sys))) ?ops = sys_gateway_ops sys @ [PatchStatus (gw_resource_key g) ?up c]"
    using processed_gateway_reported [of sys now c reply g kg class_name] unfolding Let_def by (elim conjE)
  then have "PatchStatus (gw_resource_key g) ?up c \<in> set (take (Suc (length (sys_gateway_ops sys))) ?ops)"
    by (simp only: set_append list.set) blast
  then have op: "PatchStatus (gw_resource_key g) ?up c \<in> set ?ops" by (rule in_set_takeD)
  define status where "status = unwrap_or (kg_status ?up) empty_gateway_status"
  have up: "kg_status ?up = Some status"
    by (simp add: status_def update_gateway_resource_def update_gateway_status_conditions_def clear_gateway_meta_def Let_def)
  have "gst_addresses status = Some (map (\<lambda>a. \<lparr>gsa_type = None, gsa_value = address_value a\<rparr>) (gw_addresses g))"
    by (simp add: status_def update_gateway_resource_def update_gateway_status_conditions_def update_gateway_status_addresses_def
        clear_gateway_meta_def Let_def)
  moreover have "case gst_conditions status of None \<Rightarrow> False | Some cs \<Rightarrow> map cond_status (filter (\<lambda>c. cond_type c = ''Ready'') cs) = [''True'']"
    by (simp add: status_def update_gateway_resource_def update_gateway_status_conditions_def clear_gateway_meta_def Let_def filter_map comp_def
        filter_filter)
  ultimately show ?thesis unfolding reported_ready_def using op up by blast
qed

subsection \<open>A deleted gateway\<close>

lemma deleted_gateway_reconciled:
  assumes "accepted_gateway e t kg (sys_state sys)" "unwrap_or (om_finalizers (kg_metadata kg)) [] \<noteq> []"
    and "om_deletion_timestamp (kg_metadata kg) \<noteq> None" "get_gateway_type (key_of_gateway kg) (sys_state sys) = Some kind"
    and "kind \<in> set (rde_senders e)" "gateway_from_default (ve_parse_uuid (rde_validator e)) kg = Inr g"
  shows "\<exists>s'. get_gateway (key_of_gateway kg) s' = None \<and>
    reconcile_gateway controller (ve_parse_uuid (rde_validator e)) (rde_senders e) (rde_config_api e) kg sys = (Acted (Requeue RECONCILE_LONG_WAIT),
      send_gateway_op (Delete_Resource (key_of_gateway kg) kg controller) (send_event kind (Deleted (g\<lparr>gw_backend_type := kind\<rparr>))
        (send_request (DeleteGateway (g\<lparr>gw_backend_type := kind\<rparr>)) (sys\<lparr>sys_state := s'\<rparr>))))"
proof -
  let ?k = "key_of_gateway kg"
  let ?s = "snd (delete_gateway_type ?k (snd (delete_gateway ?k (sys_state sys))))"
  have "get_gateway_type ?k (snd (delete_gateway ?k s)) = get_gateway_type ?k s" for s
    by (simp add: delete_gateway_def get_gateway_type_def)
  then have type: "fst (delete_gateway_type ?k (snd (delete_gateway ?k (sys_state sys)))) = Some kind"
    using assms(4) by (simp add: gateway_types.remove_returns)
  have gone: "get_gateway ?k ?s = None"
  proof -
    have "get_gateway ?k (snd (delete_gateway_type ?k s)) = get_gateway ?k s" for s
      by (simp add: delete_gateway_type_def get_gateway_def)
    then show ?thesis by (simp add: gateways.lookup_remove)
  qed
  have "reconcile_gateway controller (ve_parse_uuid (rde_validator e)) (rde_senders e) (rde_config_api e) kg sys = (Acted (Requeue RECONCILE_LONG_WAIT),
      send_gateway_op (Delete_Resource ?k kg controller) (send_event kind (Deleted (g\<lparr>gw_backend_type := kind\<rparr>))
        (send_request (DeleteGateway (g\<lparr>gw_backend_type := kind\<rparr>)) (sys\<lparr>sys_state := ?s\<rparr>))))"
    using assms type by (auto simp: accepted_gateway_def reconcile_gateway_def process_stored_def process_def check_status_def gateway_handler_def
        gateway_deleted_def delete_backend_gateway_def case_prod_beta Let_def on_store_def)
  with gone show ?thesis by blast
qed

subsection \<open>What the services rely on in a deployer\<close>

text \<open>A response that the gateway deployer only logs.\<close>

fun silent :: "backend_gateway_response \<Rightarrow> bool" where
  "silent (ProcessedWithContext _ _ _) = False"
| "silent _ = True"

lemma silent_responses: "list_all silent responses \<Longrightarrow> fold (handle_response now c reply) responses sys = sys"
proof (induction responses arbitrary: sys)
  case (Cons r rs)
  then show ?case by (cases r) simp_all
qed simp

text \<open>
  \<open>ready g b ips\<close>: in state \<open>b\<close> the deployment of \<open>g\<close> succeeds and its service has the addresses \<open>ips\<close>. Then the event of the
  changed gateway is answered with these addresses, and the gateway is served. A deletion is answered silently, and
  leaves what the proxies are served from.
\<close>

locale gateway_backend =
  fixes kind :: gateway_implementation_type and deliver :: "'b deliver"
    and addressed :: "string list \<Rightarrow> gateway \<Rightarrow> gateway"
    and ready :: "gateway \<Rightarrow> 'b \<Rightarrow> string list \<Rightarrow> bool"
    and served :: "gateway \<Rightarrow> 'b \<Rightarrow> 'b \<Rightarrow> bool"
    and contents :: "'b \<Rightarrow> 'v"
  assumes key_addressed: "gw_resource_key (addressed ips g) = gw_resource_key g"
    and deliver_changed: "ready g b ips \<Longrightarrow>
      \<exists>b'. deliver (Changed g kg c) b = Some ([ProcessedWithContext (addressed ips g) kg c], b') \<and> served g b b'"
    and deliver_deleted: "\<exists>responses b'. deliver (Deleted g) b = Some (responses, b') \<and> list_all silent responses \<and> contents b' = contents b"
begin

lemma event_delivered:
  assumes "ready g (wld_backend w) ips"
  shows "\<exists>w'. deliver_event kind deliver e (kind, Changed g kg c) w = Some w' \<and> served g (wld_backend w) (wld_backend w') \<and>
    get_gateway (gw_resource_key g) (sys_state (va_system (wld_validator w'))) \<noteq> None \<and>
    reported_ready (ve_controller_name (rde_validator e)) (addressed ips g) (va_system (wld_validator w'))"
proof -
  obtain b' where b': "deliver (Changed g kg c) (wld_backend w) = Some ([ProcessedWithContext (addressed ips g) kg c], b')"
    "served g (wld_backend w) b'"
    using deliver_changed [OF assms] by blast
  then show ?thesis
    by (simp add: deliver_event_def on_system_def processed_gateway processed_gateway_ready key_addressed)
qed

lemma round_served:
  fixes e :: round_env and w :: "'b world"
  assumes accepted: "accepted_gateway e kind kg (sys_state (va_system (wld_validator w)))"
      "get_gateway (key_of_gateway kg) (sys_state (va_system (wld_validator w))) = None" "om_deletion_timestamp (kg_metadata kg) = None"
      "gateway_from (ve_parse_uuid (rde_validator e)) kg kind = Inr g"
    and registered: "registered_gateway kind g kg (wld_validator w) = Some v2"
    and ready: "ready (announced_gateway (rde_validator e) g kg v2) (wld_backend w) ips"
  shows "\<exists>w'. gateway_round kind deliver e kg w = Some (Acted (Requeue RECONCILE_LONG_WAIT), w') \<and>
    served (announced_gateway (rde_validator e) g kg v2) (wld_backend w) (wld_backend w') \<and>
    get_gateway (key_of_gateway kg) (sys_state (va_system (wld_validator w'))) \<noteq> None \<and>
    reported_ready (ve_controller_name (rde_validator e)) (addressed ips (announced_gateway (rde_validator e) g kg v2)) (va_system (wld_validator w'))"
proof -
  let ?g' = "announced_gateway (rde_validator e) g kg v2"
  have key: "gw_resource_key ?g' = key_of_gateway kg"
    using new_gateway_reconciled(1) [OF accepted] by (simp add: announced_gateway_frame)
  obtain v3 where round: "gateway_round kind deliver e kg w = map_option (Pair (Acted (Requeue RECONCILE_LONG_WAIT))) (deliver_event kind deliver e
      (kind, Changed ?g' (resolve_listeners_statuses (ve_now (rde_validator e)) ?g' kg) (gs_gateway_class_name (kg_spec kg)))
      (w\<lparr>wld_validator := v3\<rparr>))"
    using new_gateway_round [OF accepted registered] by blast
  have "ready ?g' (wld_backend (w\<lparr>wld_validator := v3\<rparr>)) ips" using ready by simp
  from event_delivered [OF this] show ?thesis unfolding round key by fastforce
qed

lemma deleted_gateway_kept:
  fixes e :: round_env and w :: "'b world"
  assumes deleted: "accepted_gateway e t kg (sys_state (va_system (wld_validator w)))" "unwrap_or (om_finalizers (kg_metadata kg)) [] \<noteq> []"
      "om_deletion_timestamp (kg_metadata kg) \<noteq> None"
      "get_gateway_type (key_of_gateway kg) (sys_state (va_system (wld_validator w))) = Some kind" "kind \<in> set (rde_senders e)"
      "gateway_from_default (ve_parse_uuid (rde_validator e)) kg = Inr g"
    and registered: "delete_backend_references (key_of_gateway kg) (va_backends (wld_validator w)) = Some backends"
  shows "\<exists>w'. gateway_round kind deliver e kg w = Some (Acted (Requeue RECONCILE_LONG_WAIT), w') \<and>
    get_gateway (key_of_gateway kg) (sys_state (va_system (wld_validator w'))) = None \<and>
    va_backends (wld_validator w') = backends \<and>
    sys_gateway_ops (va_system (wld_validator w')) = sys_gateway_ops (va_system (wld_validator w)) @
      [Delete_Resource (key_of_gateway kg) kg (ve_controller_name (rde_validator e))] \<and>
    contents (wld_backend w') = contents (wld_backend w)"
proof -
  let ?g = "g\<lparr>gw_backend_type := kind\<rparr>" and ?k = "key_of_gateway kg" and ?v = "wld_validator w" and ?env = "rde_validator e"
  obtain s' where gone: "get_gateway ?k s' = None"
    and rec: "reconcile_gateway (ve_controller_name ?env) (ve_parse_uuid ?env) (rde_senders e) (rde_config_api e) kg (va_system ?v) =
      (Acted (Requeue RECONCILE_LONG_WAIT), send_gateway_op (Delete_Resource ?k kg (ve_controller_name ?env)) (send_event kind (Deleted ?g)
        (send_request (DeleteGateway ?g) ((va_system ?v)\<lparr>sys_state := s'\<rparr>))))"
    using deleted_gateway_reconciled [OF deleted] by blast
  let ?sys = "send_gateway_op (Delete_Resource ?k kg (ve_controller_name ?env)) (send_event kind (Deleted ?g)
      (send_request (DeleteGateway ?g) ((va_system ?v)\<lparr>sys_state := s'\<rparr>)))"
  have key: "gw_resource_key ?g = ?k"
    using deleted(6) by (auto simp: gateway_from_default_def gateway_from_def Let_def split: option.splits prod.splits if_splits)
  have sent: "drop (length (sys_requests (va_system ?v))) (sys_requests ?sys) = [DeleteGateway ?g]"
    by (simp add: send_request_def send_event_def send_gateway_op_def)
  obtain v1 where v1: "fold_option (handle_request ?env) [DeleteGateway ?g] (on_system ?sys ?v) = Some v1"
    "va_system v1 = ?sys" "va_deploys v1 = va_deploys ?v" "va_backends v1 = backends"
    using registered key by (simp add: on_system_def)
  have events: "drop (length (sys_events (va_system ?v))) (sys_events ?sys) = [(kind, Deleted ?g)]"
    by (simp add: send_request_def send_event_def send_gateway_op_def)
  obtain responses b' where b': "deliver (Deleted ?g) (wld_backend w) = Some (responses, b')" "list_all silent responses"
    "contents b' = contents (wld_backend w)"
    using deliver_deleted by blast
  have ev: "fold_option (deliver_event kind deliver e) [(kind, Deleted ?g)] (w\<lparr>wld_validator := v1\<rparr>) = Some \<lparr>wld_validator = v1, wld_backend = b'\<rparr>"
    using b'(1) by (simp add: deliver_event_def on_system_def silent_responses [OF b'(2)])
  have "gateway_round kind deliver e kg w = Some (Acted (Requeue RECONCILE_LONG_WAIT), \<lparr>wld_validator = v1, wld_backend = b'\<rparr>)"
    unfolding gateway_round_def Let_def rec prod.case sent v1(1)
    by (simp only: Option.bind.bind_lunit v1(2,3) drop_all order_refl fold_option.simps(1) events ev option.map outcome.distinct if_False)
  moreover have "get_gateway ?k (sys_state ?sys) = None" "sys_gateway_ops ?sys = sys_gateway_ops (va_system ?v) @ [Delete_Resource ?k kg (ve_controller_name ?env)]"
    using gone by (simp_all add: send_request_def send_event_def send_gateway_op_def)
  ultimately show ?thesis using v1(2,4) b'(3) by (intro exI [of _ "\<lparr>wld_validator = v1, wld_backend = b'\<rparr>"]) simp
qed

end

subsection \<open>The deployers\<close>

text \<open>
  A deployer with its discovery server: the updates an event leads to reach the server before the response is taken. For each
  of the three, when a deployment succeeds, and what the proxies are served then.
\<close>

definition envoy_deliver ::
    "deployer_env \<Rightarrow> string \<times> string \<Rightarrow> apply_replies \<Rightarrow> (deployer_versions \<times> xds_payload ads_server) deliver" where
  "envoy_deliver env uuids replies event = (\<lambda>(versions, s).
     Option.bind (handle_backend_event env uuids replies event versions) (\<lambda>(out, versions').
       map_option (\<lambda>s'. (dou_responses out, versions', s')) (run_actions (dou_actions out) s)))"

definition envoy_ready ::
    "deployer_env \<Rightarrow> string \<times> string \<Rightarrow> apply_replies \<Rightarrow> gateway \<Rightarrow> deployer_versions \<times> xds_payload ads_server \<Rightarrow> string list \<Rightarrow> bool" where
  "envoy_ready env uuids replies g b ips \<longleftrightarrow> distinct (client_ids (ads_clients (snd b))) \<and>
     (\<exists>r service. create_resources (den_patterns env) (den_ranks env) g = Some r \<and>
       snd (deploy_envoy (den_render env) uuids (den_config env) replies g (xre_secrets r)) = Some service \<and>
       find_gateway_addresses service = Some ips)"

definition envoy_served ::
    "deployer_env \<Rightarrow> gateway \<Rightarrow> deployer_versions \<times> xds_payload ads_server \<Rightarrow> deployer_versions \<times> xds_payload ads_server \<Rightarrow> bool" where
  "envoy_served env g b b' \<longleftrightarrow> (\<exists>r (versions :: ack_versions). create_resources (den_patterns env) (den_ranks env) g = Some r \<and>
     map_of (rm_cluster (ads_channels (snd b'))) (create_gateway_id (gw_resource_key g)) = Some (xre_clusters r) \<and>
     map_of (rm_listener (ads_channels (snd b'))) (create_gateway_id (gw_resource_key g)) = Some (xre_listeners r) \<and>
     ads_sent (snd b') = ads_sent (snd b) @
       map (\<lambda>c. (adc_sender c, response_of Url_Cluster (stored_payload (xre_clusters r)) (av_cluster versions)))
         (filter (registered (gw_resource_key g)) (ads_clients (snd b))) @
       map (\<lambda>c. (adc_sender c, response_of Url_Listener (stored_payload (xre_listeners r)) (av_listener versions)))
         (filter (registered (gw_resource_key g)) (ads_clients (snd b))))"

lemma envoy_delivered:
  assumes ready: "envoy_ready env uuids replies g b ips"
  shows "\<exists>b'. envoy_deliver env uuids replies (Changed g kg c) b =
      Some ([ProcessedWithContext (append_addresses (den_ip env) ips g) kg c], b') \<and> envoy_served env g b b'"
proof -
  obtain versions s where b: "b = (versions, s)" by (cases b)
  obtain r service where d: "distinct (client_ids (ads_clients s))" "create_resources (den_patterns env) (den_ranks env) g = Some r"
    "snd (deploy_envoy (den_render env) uuids (den_config env) replies g (xre_secrets r)) = Some service" "find_gateway_addresses service = Some ips"
    using ready unfolding envoy_ready_def b by auto
  let ?v = "next_versions (gw_resource_key g) versions"
  let ?actions = "[UpdateClusters (gw_resource_key g) (xre_clusters r) (av_cluster ?v), UpdateListeners (gw_resource_key g) (xre_listeners r) (av_listener ?v)]"
  have "\<exists>out. handle_backend_event env uuids replies (Changed g kg c) versions = Some (out, bset_replace fst (gw_resource_key g, ?v) versions) \<and>
      dou_actions out = ?actions \<and> dou_responses out = [ProcessedWithContext (append_addresses (den_ip env) ips g) kg c]"
    using d by (simp add: Let_def case_prod_beta update_address_with_polling_def)
  then obtain out where out: "handle_backend_event env uuids replies (Changed g kg c) versions =
      Some (out, bset_replace fst (gw_resource_key g, ?v) versions)"
    "dou_actions out = ?actions" "dou_responses out = [ProcessedWithContext (append_addresses (den_ip env) ips g) kg c]"
    by blast
  obtain s' where s': "run_actions ?actions s = Some s'"
    and served: "envoy_served env g b (bset_replace fst (gw_resource_key g, ?v) versions, s')"
    using updates_served [OF d(2,1), of "gw_resource_key g" "av_cluster ?v" "av_listener ?v"] d(2) unfolding envoy_served_def b by fastforce
  have "envoy_deliver env uuids replies (Changed g kg c) b =
      Some ([ProcessedWithContext (append_addresses (den_ip env) ips g) kg c], bset_replace fst (gw_resource_key g, ?v) versions, s')"
    by (simp add: envoy_deliver_def b out s' del: handle_backend_event.simps run_actions.simps handle_server_action.simps)
  with served show ?thesis by blast
qed

lemma append_addresses_key: "gw_resource_key (append_addresses ip ips g) = gw_resource_key g"
  by (simp add: append_addresses_def)

interpretation envoy_rounds: gateway_backend Envoy "envoy_deliver env uuids replies" "append_addresses (den_ip env)"
    "envoy_ready env uuids replies" "envoy_served env" snd
  for env uuids replies
proof
  show "\<exists>responses b'. envoy_deliver env uuids replies (Deleted g) b = Some (responses, b') \<and> list_all silent responses \<and> snd b' = snd b"
    for g b
    by (cases b) (simp add: envoy_deliver_def)
qed (simp_all only: append_addresses_key envoy_delivered)

definition orion_deliver ::
    "orion_env \<Rightarrow> string \<times> string \<Rightarrow> apply_replies \<Rightarrow> (deployer_versions \<times> xds_payload orion_server) deliver" where
  "orion_deliver env uuids replies event = (\<lambda>(versions, s).
     map_option (\<lambda>(out, versions'). (dou_responses out, versions', fold handle_orion_action (dou_actions out) s))
       (handle_orion_event env uuids replies event versions))"

text \<open>Orion gives all listeners of a gateway one name, so that the proxies are only known to be served when one port is.\<close>

definition orion_ready ::
    "orion_env \<Rightarrow> string \<times> string \<Rightarrow> apply_replies \<Rightarrow> gateway \<Rightarrow> deployer_versions \<times> xds_payload orion_server \<Rightarrow> string list \<Rightarrow> bool" where
  "orion_ready env uuids replies g b ips \<longleftrightarrow> card {p. \<exists>l\<in>set (gateway_listeners g). serves_port p l} \<le> 1 \<and>
     (\<exists>r service. orion_create_resources (oen_patterns env) (oen_ranks env) g = Some r \<and>
       snd (deploy_orion (oen_templates env) uuids (oen_config env) replies g (xre_secrets r)) = Some service \<and>
       find_gateway_addresses service = Some ips)"

definition orion_served ::
    "orion_env \<Rightarrow> gateway \<Rightarrow> deployer_versions \<times> xds_payload orion_server \<Rightarrow> deployer_versions \<times> xds_payload orion_server \<Rightarrow> bool" where
  "orion_served env g b b' \<longleftrightarrow> (\<forall>L c. orion_run (snd b) L \<longrightarrow> c \<in> set (ors_clients (snd b)) \<longrightarrow>
     orc_gateway_id c = Some (create_gateway_id (gw_resource_key g)) \<longrightarrow> (orc_sender c, Url_Cluster) \<in> L \<longrightarrow> (orc_sender c, Url_Listener) \<in> L \<longrightarrow>
     (\<exists>r. orion_create_resources (oen_patterns env) (oen_ranks env) g = Some r \<and> orion_run (snd b') L \<and>
       proxy_view (snd b') Url_Cluster (orc_sender c) = by_name (xre_clusters r) \<and>
       proxy_view (snd b') Url_Listener (orc_sender c) = by_name (xre_listeners r)))"

lemma orion_delivered:
  assumes ready: "orion_ready env uuids replies g b ips"
  shows "\<exists>b'. orion_deliver env uuids replies (Changed g kg c) b =
      Some ([ProcessedWithContext (append_addresses (oen_ip env) ips g) kg c], b') \<and> orion_served env g b b'"
proof -
  obtain versions s where b: "b = (versions, s)" by (cases b)
  obtain r service where d: "card {p. \<exists>l\<in>set (gateway_listeners g). serves_port p l} \<le> 1"
    "orion_create_resources (oen_patterns env) (oen_ranks env) g = Some r"
    "snd (deploy_orion (oen_templates env) uuids (oen_config env) replies g (xre_secrets r)) = Some service" "find_gateway_addresses service = Some ips"
    using ready unfolding orion_ready_def by blast
  let ?k = "gw_resource_key g"
  let ?v = "case map_of versions ?k of None \<Rightarrow> default_versions | Some v \<Rightarrow> inc_versions v"
  let ?actions = "[UpdateClusters ?k (xre_clusters r) (av_cluster ?v), UpdateListeners ?k (xre_listeners r) (av_listener ?v)]"
  have "orion_served env g b (bset_replace fst (?k, ?v) versions, fold handle_orion_action ?actions s)"
    unfolding orion_served_def b snd_conv using orion_updates_served [OF _ d(2,1)] d(2) by (metis (no_types, lifting))
  moreover have "orion_deliver env uuids replies (Changed g kg c) b = Some ([ProcessedWithContext (append_addresses (oen_ip env) ips g) kg c],
      bset_replace fst (?k, ?v) versions, fold handle_orion_action ?actions s)"
    using d(2-4) by (simp add: orion_deliver_def b Let_def case_prod_beta orion_same_addresses update_address_with_polling_def no_output_def)
  ultimately show ?thesis by blast
qed

interpretation orion_rounds: gateway_backend Orion "orion_deliver env uuids replies" "append_addresses (oen_ip env)"
    "orion_ready env uuids replies" "orion_served env" snd
  for env uuids replies
proof
  show "\<exists>responses b'. orion_deliver env uuids replies (Deleted g) b = Some (responses, b') \<and> list_all silent responses \<and> snd b' = snd b"
    for g b
    by (cases b) (simp add: orion_deliver_def no_output_def)
qed (simp_all only: append_addresses_key orion_delivered)

definition agw_deliver ::
    "agw_env \<Rightarrow> string \<times> string \<Rightarrow> apply_replies \<Rightarrow> delete_replies \<Rightarrow> agw_server deliver" where
  "agw_deliver env uuids replies dreplies event s =
     (let out = handle_agw_event env uuids replies dreplies event in Some (agu_responses out, fold handle_agw_action (agu_actions out) s))"

definition agw_ready ::
    "agw_env \<Rightarrow> string \<times> string \<Rightarrow> apply_replies \<Rightarrow> gateway \<Rightarrow> agw_server \<Rightarrow> string list \<Rightarrow> bool" where
  "agw_ready env uuids replies g s ips \<longleftrightarrow> inj (api_bind_number (age_api env)) \<and> distinct (map listener_name (gateway_listeners g)) \<and>
     distinct (map art_key (fst (generate_routes_and_backends_and_policies (age_api env) g))) \<and>
     distinct (map get_workload_name (agw_workloads (age_api env) g)) \<and>
     (\<exists>service. snd (deploy_agentgateway (age_render env) uuids (age_config env) replies g) = Some service \<and>
       find_gateway_addresses service = Some ips)"

definition agw_served :: "agw_env \<Rightarrow> gateway \<Rightarrow> agw_server \<Rightarrow> agw_server \<Rightarrow> bool" where
  "agw_served env g s s' \<longleftrightarrow> (\<forall>L c. agw_run s L \<longrightarrow> c \<in> set (ags_clients s) \<longrightarrow>
     agl_gateway_id c = Some (create_gateway_id (gw_resource_key g)) \<longrightarrow>
     (agl_sender c, Resource_Stream) \<in> L \<longrightarrow> (agl_sender c, Workload_Stream) \<in> L \<longrightarrow>
     agw_run s' L \<and> agw_view s' Resource_Stream (agl_sender c) = by_name (map named_resource (agw_resources (age_api env) g)) \<and>
     agw_view s' Workload_Stream (agl_sender c) = by_name (map named_address (agw_workloads (age_api env) g)))"

lemma agw_delivered:
  assumes ready: "agw_ready env uuids replies g s ips"
  shows "\<exists>s'. agw_deliver env uuids replies dreplies (Changed g kg c) s =
      Some ([ProcessedWithContext (append_addresses (age_ip env) ips g) kg c], s') \<and> agw_served env g s s'"
proof -
  obtain service where service: "snd (deploy_agentgateway (age_render env) uuids (age_config env) replies g) = Some service"
      "find_gateway_addresses service = Some ips"
    and names: "inj (api_bind_number (age_api env))" "distinct (map listener_name (gateway_listeners g))"
      "distinct (map art_key (fst (generate_routes_and_backends_and_policies (age_api env) g)))"
    and addresses: "distinct (map get_workload_name (agw_workloads (age_api env) g))"
    using ready unfolding agw_ready_def by blast
  let ?actions = "[UpdateResources (gw_resource_key g) (agw_resources (age_api env) g), UpdateWorkloads (gw_resource_key g) (agw_workloads (age_api env) g)]"
  have "agw_served env g s (fold handle_agw_action ?actions s)"
    unfolding agw_served_def using agw_updates_served [OF _ surjective_pairing names addresses] by (metis (no_types, lifting))
  moreover have "agw_deliver env uuids replies dreplies (Changed g kg c) s =
      Some ([ProcessedWithContext (append_addresses (age_ip env) ips g) kg c], fold handle_agw_action ?actions s)"
    using service by (simp add: agw_deliver_def handle_agw_event_def case_prod_beta agw_same_addresses update_address_with_polling_def Let_def)
  ultimately show ?thesis by blast
qed

interpretation agw_rounds: gateway_backend Agentgateway "agw_deliver env uuids replies dreplies" "append_addresses (age_ip env)"
    "agw_ready env uuids replies" "agw_served env" id
  for env uuids replies dreplies
proof
  show "\<exists>responses s'. agw_deliver env uuids replies dreplies (Deleted g) s = Some (responses, s') \<and> list_all silent responses \<and> id s' = id s"
    for g s
    by (simp add: agw_deliver_def handle_agw_event_def)
qed (simp_all only: append_addresses_key agw_delivered)

subsection \<open>Rounds of the three implementations\<close>

text \<open>
  C3: a new gateway of Envoy whose configuration converts is, in one round, stored, validated, deployed and served: the
  discovery server holds the clusters and listeners made for the validated gateway and has sent them to every
  client of the gateway, and the gateway patcher is sent its status, with one condition \<open>Ready\<close>, which is true, and with
  the addresses of its service.
\<close>

theorem new_gateway_served:
  fixes e :: round_env and w :: "(deployer_versions \<times> xds_payload ads_server) world"
  defines "env \<equiv> rde_validator e" and "v \<equiv> wld_validator w"
  assumes accepted: "accepted_gateway e Envoy kg (sys_state (va_system v))" "get_gateway (key_of_gateway kg) (sys_state (va_system v)) = None"
      "om_deletion_timestamp (kg_metadata kg) = None" "gateway_from (ve_parse_uuid env) kg Envoy = Inr g"
    and registered: "registered_gateway Envoy g kg v = Some v2"
    and r: "create_resources (den_patterns denv) (den_ranks denv) (announced_gateway env g kg v2) = Some r"
    and deployed: "snd (deploy_envoy (den_render denv) uuids (den_config denv) replies (announced_gateway env g kg v2) (xre_secrets r)) = Some service"
      "find_gateway_addresses service = Some ips"
    and distinct: "distinct (client_ids (ads_clients (snd (wld_backend w))))"
  shows "\<exists>w' (versions :: ack_versions).
    gateway_round Envoy (envoy_deliver denv uuids replies) e kg w = Some (Acted (Requeue RECONCILE_LONG_WAIT), w') \<and>
    map_of (rm_cluster (ads_channels (snd (wld_backend w')))) (create_gateway_id (key_of_gateway kg)) = Some (xre_clusters r) \<and>
    map_of (rm_listener (ads_channels (snd (wld_backend w')))) (create_gateway_id (key_of_gateway kg)) = Some (xre_listeners r) \<and>
    ads_sent (snd (wld_backend w')) = ads_sent (snd (wld_backend w)) @
      map (\<lambda>c. (adc_sender c, response_of Url_Cluster (stored_payload (xre_clusters r)) (av_cluster versions)))
        (filter (registered (key_of_gateway kg)) (ads_clients (snd (wld_backend w)))) @
      map (\<lambda>c. (adc_sender c, response_of Url_Listener (stored_payload (xre_listeners r)) (av_listener versions)))
        (filter (registered (key_of_gateway kg)) (ads_clients (snd (wld_backend w)))) \<and>
    get_gateway (key_of_gateway kg) (sys_state (va_system (wld_validator w'))) \<noteq> None \<and>
    reported_ready (ve_controller_name env) (append_addresses (den_ip denv) ips (announced_gateway env g kg v2)) (va_system (wld_validator w'))"
proof -
  let ?g' = "announced_gateway env g kg v2"
  have key: "gw_resource_key ?g' = key_of_gateway kg"
    using new_gateway_reconciled(1) [OF accepted(1-3) accepted(4) [unfolded env_def]] by (simp add: announced_gateway_frame)
  have ready: "envoy_ready denv uuids replies ?g' (wld_backend w) ips" unfolding envoy_ready_def using r deployed distinct by blast
  have r': "create_resources (den_patterns denv) (den_ranks denv) ?g' = Some x \<longleftrightarrow> x = r" for x using r by auto
  show ?thesis
    using envoy_rounds.round_served [OF accepted(1,2) [unfolded v_def] accepted(3) accepted(4) [unfolded env_def] registered [unfolded v_def]
      ready [unfolded env_def]] unfolding envoy_served_def env_def [symmetric] key r' by blast
qed

text \<open>The same for the two other implementations; what their proxies are served depends on the run of their server.\<close>

lemma orion_new_gateway_served:
  assumes "accepted_gateway e Orion kg (sys_state (va_system (wld_validator w)))"
      "get_gateway (key_of_gateway kg) (sys_state (va_system (wld_validator w))) = None" "om_deletion_timestamp (kg_metadata kg) = None"
      "gateway_from (ve_parse_uuid (rde_validator e)) kg Orion = Inr g"
    and "registered_gateway Orion g kg (wld_validator w) = Some v2"
    and "orion_ready env uuids replies (announced_gateway (rde_validator e) g kg v2) (wld_backend w) ips"
  shows "\<exists>w'. gateway_round Orion (orion_deliver env uuids replies) e kg w = Some (Acted (Requeue RECONCILE_LONG_WAIT), w') \<and>
    orion_served env (announced_gateway (rde_validator e) g kg v2) (wld_backend w) (wld_backend w') \<and>
    get_gateway (key_of_gateway kg) (sys_state (va_system (wld_validator w'))) \<noteq> None \<and>
    reported_ready (ve_controller_name (rde_validator e)) (append_addresses (oen_ip env) ips (announced_gateway (rde_validator e) g kg v2))
      (va_system (wld_validator w'))"
  using assms by (rule orion_rounds.round_served)

lemma agw_new_gateway_served:
  assumes "accepted_gateway e Agentgateway kg (sys_state (va_system (wld_validator w)))"
      "get_gateway (key_of_gateway kg) (sys_state (va_system (wld_validator w))) = None" "om_deletion_timestamp (kg_metadata kg) = None"
      "gateway_from (ve_parse_uuid (rde_validator e)) kg Agentgateway = Inr g"
    and "registered_gateway Agentgateway g kg (wld_validator w) = Some v2"
    and "agw_ready env uuids replies (announced_gateway (rde_validator e) g kg v2) (wld_backend w) ips"
  shows "\<exists>w'. gateway_round Agentgateway (agw_deliver env uuids replies dreplies) e kg w = Some (Acted (Requeue RECONCILE_LONG_WAIT), w') \<and>
    agw_served env (announced_gateway (rde_validator e) g kg v2) (wld_backend w) (wld_backend w') \<and>
    get_gateway (key_of_gateway kg) (sys_state (va_system (wld_validator w'))) \<noteq> None \<and>
    reported_ready (ve_controller_name (rde_validator e)) (append_addresses (age_ip env) ips (announced_gateway (rde_validator e) g kg v2))
      (va_system (wld_validator w'))"
  using assms by (rule agw_rounds.round_served)

text \<open>
  A deleted gateway leaves the store, its references are unregistered and the gateway patcher is told to delete it; the discovery
  server is told nothing and goes on serving what it has, whatever the implementation.
\<close>

lemmas deleted_gateway_rounds = envoy_rounds.deleted_gateway_kept orion_rounds.deleted_gateway_kept agw_rounds.deleted_gateway_kept

subsection \<open>An example\<close>

definition example_class :: gateway_class where
  "example_class = \<lparr>gc_metadata = empty_meta\<lparr>om_name := Some ''kubvernor''\<rparr>,
     gc_spec = \<lparr>gcs_controller_name = ''controller'', gcs_parameters_ref = None, gcs_rest = ''''\<rparr>, gc_status = None\<rparr>"

definition example_new_gateway :: kube_gateway where
  "example_new_gateway = \<lparr>kg_metadata = empty_meta\<lparr>om_name := Some ''gw'', om_namespace := Some ''ns'', om_uid := Some ''1''\<rparr>,
     kg_spec = \<lparr>gs_gateway_class_name = ''kubvernor'', gs_listeners = [\<lparr>li_name = ''a'', li_port = 80, li_hostname = None, li_protocol = ''HTTP'',
       li_allowed_routes = None, li_tls = None\<rparr>], gs_rest = ''''\<rparr>, kg_status = None\<rparr>"

definition example_world :: "(deployer_versions \<times> xds_payload ads_server) world" where
  "example_world = \<lparr>wld_validator = \<lparr>va_system = \<lparr>sys_state = new_state\<lparr>st_gateway_classes := [(namespaced_key ''kubvernor'' '''', example_class)]\<rparr>,
       sys_requests = [], sys_gateway_ops = [], sys_class_ops = [], sys_http_ops = [], sys_grpc_ops = [], sys_pool_ops = [], sys_events = []\<rparr>,
       va_secrets = new_secret_refs, va_backends = new_backend_resolver, va_grants = new_grants_resolver, va_deploys = []\<rparr>,
     wld_backend = ([], new_server)\<rparr>"

definition example_round_env :: round_env where
  "example_round_env = \<lparr>rde_validator = \<lparr>ve_controller_name = ''controller'', ve_now = ''now'', ve_parse_uuid = Some,
       ve_valid_cert = (\<lambda>_. True), ve_valid_key = (\<lambda>_. True), ve_domain_pattern = example_patterns,
       ve_cluster = \<lparr>cl_pods = (\<lambda>_ _. None), cl_service_exists = (\<lambda>_ _. True), cl_patch_pool = (\<lambda>_. True), cl_namespaces = None\<rparr>\<rparr>,
     rde_senders = [Envoy], rde_config_api = (\<lambda>_ _. None), rde_patch_reply = Some\<rparr>"

definition example_round_replies :: apply_replies where
  "example_round_replies = example_replies\<lparr>apr_service := Some (example_service_status [\<lparr>lbi_ip = Some ''10.0.0.9'', lbi_hostname = None\<rparr>])\<rparr>"

lemma example_round:
  "\<exists>g v2 r. gateway_from (ve_parse_uuid (rde_validator example_round_env)) example_new_gateway Envoy = Inr g \<and>
     registered_gateway Envoy g example_new_gateway (wld_validator example_world) = Some v2 \<and>
     create_resources example_patterns example_ranks (announced_gateway (rde_validator example_round_env) g example_new_gateway v2) = Some r \<and>
     length (xre_listeners r) = 1"
proof -
  have "(case gateway_from (ve_parse_uuid (rde_validator example_round_env)) example_new_gateway Envoy of Inl _ \<Rightarrow> None
      | Inr g \<Rightarrow> Option.bind (registered_gateway Envoy g example_new_gateway (wld_validator example_world)) (\<lambda>v2.
          map_option (\<lambda>r. length (xre_listeners r)) (create_resources example_patterns example_ranks
            (announced_gateway (rde_validator example_round_env) g example_new_gateway v2)))) = Some 1"
    by code_simp
  then show ?thesis by (auto split: sum.splits bind_splits)
qed

lemma new_gateway_served_witness:
  "\<exists>w' ls. gateway_round Envoy (envoy_deliver example_env ([], []) example_round_replies) example_round_env example_new_gateway example_world =
       Some (Acted (Requeue RECONCILE_LONG_WAIT), w') \<and>
     map_of (rm_listener (ads_channels (snd (wld_backend w')))) ''ns.gw'' = Some ls \<and> length ls = 1"
proof -
  obtain g v2 r where g: "gateway_from (ve_parse_uuid (rde_validator example_round_env)) example_new_gateway Envoy = Inr g"
    and v2: "registered_gateway Envoy g example_new_gateway (wld_validator example_world) = Some v2"
    and r: "create_resources (den_patterns example_env) (den_ranks example_env)
      (announced_gateway (rde_validator example_round_env) g example_new_gateway v2) = Some r"
    and l: "length (xre_listeners r) = 1"
    using example_round by (auto simp: example_env_def)
  have n: "om_deletion_timestamp (kg_metadata example_new_gateway) = None" by (simp add: example_new_gateway_def empty_meta_def)
  have a: "accepted_gateway example_round_env Envoy example_new_gateway (sys_state (va_system (wld_validator example_world)))"
    by (simp add: accepted_gateway_def example_new_gateway_def empty_meta_def check_uid_def example_round_env_def configured_backend_type_def
        example_world_def get_gateway_classes_def example_class_def)
  have s: "get_gateway (key_of_gateway example_new_gateway) (sys_state (va_system (wld_validator example_world))) = None"
    by (simp add: get_gateway_def example_world_def new_state_def)
  let ?service = "example_service_status [\<lparr>lbi_ip = Some ''10.0.0.9'', lbi_hostname = None\<rparr>]"
  have d: "snd (deploy_envoy (den_render example_env) ([], []) (den_config example_env) example_round_replies
      (announced_gateway (rde_validator example_round_env) g example_new_gateway v2) (xre_secrets r)) = Some ?service"
    by (simp add: example_round_replies_def example_env_def deploy_envoy_def bootstrap_content_def bootstrap_content_with_secrets_def
        example_replies_def Let_def)
  have f: "find_gateway_addresses ?service = Some [''10.0.0.9'']"
    by (simp add: find_gateway_addresses_def example_service_status_def List.map_filter_simps)
  have i: "create_gateway_id (key_of_gateway example_new_gateway) = ''ns.gw''" by code_simp
  have c: "distinct (client_ids (ads_clients (snd (wld_backend example_world))))" by (simp add: example_world_def new_server_def)
  from new_gateway_served [OF a s n g v2 r d f c, unfolded i] l show ?thesis by blast
qed

end
