(* ===== verification/Written_Orders.thy ===== *)
theory Written_Orders
  imports Envoy_Resources
begin

section \<open>Hand written orders\<close>

text \<open>
  The comparisons the program writes itself instead of deriving them (\<open>common/mod.rs\<close>, \<open>common/listener.rs\<close>, \<open>common/gateway.rs\<close>,
  \<open>common/route/mod.rs\<close>, \<open>controllers/inference_pool.rs\<close>, \<open>backends/envoy/common/\<close>). The containers of \<open>Prelude\<close> compare by a key;
  that a set with one of these orders is such a container is the law of the locale \<open>keyed_comparison\<close>: the comparison is that of
  keys. Where the equality of the type is another relation, the last section says so.
\<close>

subsection \<open>Comparisons by a key\<close>

fun ord_reverse :: "ordering \<Rightarrow> ordering" where
  "ord_reverse Ord_Less = Ord_Greater"
| "ord_reverse Ord_Equal = Ord_Equal"
| "ord_reverse Ord_Greater = Ord_Less"

locale keyed_comparison =
  fixes compare :: "'a \<Rightarrow> 'a \<Rightarrow> ordering" and key :: "'a \<Rightarrow> 'k::linorder"
  assumes by_key: "compare x y = ord_cmp (key x) (key y)"
begin

lemma equal_iff: "compare x y = Ord_Equal \<longleftrightarrow> key x = key y"
  by (simp add: by_key)

lemma reversed: "compare y x = ord_reverse (compare x y)"
  by (auto simp: by_key ord_cmp_def)

lemma transitive: "compare x y = c \<Longrightarrow> compare y z = c \<Longrightarrow> compare x z = c"
  by (cases c) (auto simp: by_key)

lemma equal_congruent: "compare x y = Ord_Equal \<Longrightarrow> compare x z = compare y z"
  by (simp add: by_key)

lemma sorted_by: "sort_by compare xs = sort_key key xs"
proof -
  have "compare = (\<lambda>a b. ord_cmp (key a) (key b))" by (intro ext by_key)
  then show ?thesis by (simp add: sort_by_key)
qed

end

subsection \<open>Inference pools\<close>

text \<open>
  \<open>InferencePoolConfig::cmp\<close>: first the failure mode, where a missing one comes first, then the other fields of the
  reference to the endpoint picker. Selector and target ports are not compared.
\<close>

definition pool_failure_order :: "failure_mode option \<Rightarrow> failure_mode option \<Rightarrow> ordering" where
  "pool_failure_order this other = (case (this, other) of
       (None, Some _) \<Rightarrow> Ord_Less
     | (Some _, None) \<Rightarrow> Ord_Greater
     | (Some FailOpen, Some FailClose) \<Rightarrow> Ord_Greater
     | (Some FailClose, Some FailOpen) \<Rightarrow> Ord_Less
     | _ \<Rightarrow> Ord_Equal)"

definition pool_port_order :: "32 word option \<Rightarrow> 32 word option \<Rightarrow> ordering" where
  "pool_port_order this other = (case (this, other) of
       (None, None) \<Rightarrow> Ord_Equal
     | (None, Some _) \<Rightarrow> Ord_Less
     | (Some _, None) \<Rightarrow> Ord_Greater
     | (Some this_port, Some other_port) \<Rightarrow> ord_cmp (sint this_port) (sint other_port))"

definition pool_config_cmp :: "inference_pool_spec \<Rightarrow> inference_pool_spec \<Rightarrow> ordering" where
  "pool_config_cmp this other =
     (let this_ref = ips_endpoint_picker_ref this; other_ref = ips_endpoint_picker_ref other;
          mode = pool_failure_order (epr_failure_mode this_ref) (epr_failure_mode other_ref)
      in if mode \<noteq> Ord_Equal then mode
         else let order = ord_cmp (epr_group this_ref) (epr_group other_ref)
         in if order \<noteq> Ord_Equal then order
         else let order = ord_cmp (epr_kind this_ref) (epr_kind other_ref)
         in if order \<noteq> Ord_Equal then order
         else let order = ord_cmp (epr_name this_ref) (epr_name other_ref)
         in if order \<noteq> Ord_Equal then order
         else pool_port_order (epr_port this_ref) (epr_port other_ref))"

fun failure_mode_key :: "failure_mode option \<Rightarrow> nat" where
  "failure_mode_key None = 0"
| "failure_mode_key (Some FailClose) = 1"
| "failure_mode_key (Some FailOpen) = 2"

definition pool_config_key :: "inference_pool_spec \<Rightarrow> nat \<times> string option \<times> string option \<times> string \<times> int option" where
  "pool_config_key s = (let r = ips_endpoint_picker_ref s
     in (failure_mode_key (epr_failure_mode r), epr_group r, epr_kind r, epr_name r, map_option sint (epr_port r)))"

lemma pool_failure_order_key: "pool_failure_order a b = ord_cmp (failure_mode_key a) (failure_mode_key b)"
  by (cases a rule: failure_mode_key.cases; cases b rule: failure_mode_key.cases)
    (simp_all add: pool_failure_order_def ord_cmp_def)

lemma pool_port_order_key: "pool_port_order a b = ord_cmp (map_option sint a) (map_option sint b)"
  by (auto simp: pool_port_order_def ord_cmp_def split: option.split)

interpretation pool_order: keyed_comparison pool_config_cmp pool_config_key
  by unfold_locales
    (simp add: pool_config_cmp_def pool_config_key_def Let_def ord_cmp_Pair pool_failure_order_key pool_port_order_key)

text \<open>\<open>ConditionHolder\<close>: conditions of a pool by their reason.\<close>

definition condition_holder_cmp :: "condition \<Rightarrow> condition \<Rightarrow> ordering" where
  "condition_holder_cmp a b = ord_cmp (cond_reason a) (cond_reason b)"

definition condition_holder_eq :: "condition \<Rightarrow> condition \<Rightarrow> bool" where
  "condition_holder_eq a b \<longleftrightarrow> cond_reason a = cond_reason b"

interpretation condition_holder_order: keyed_comparison condition_holder_cmp cond_reason
  by unfold_locales (simp add: condition_holder_cmp_def)

subsection \<open>Gateways, routes and listeners\<close>

definition gateway_cmp :: "gateway \<Rightarrow> gateway \<Rightarrow> ordering" where
  "gateway_cmp a b = ord_cmp (gw_resource_key a) (gw_resource_key b)"

definition gateway_eq :: "gateway \<Rightarrow> gateway \<Rightarrow> bool" where
  "gateway_eq a b \<longleftrightarrow> gw_resource_key a = gw_resource_key b"

interpretation gateway_order: keyed_comparison gateway_cmp gw_resource_key
  by unfold_locales (simp add: gateway_cmp_def)

definition route_config_cmp :: "route \<Rightarrow> route \<Rightarrow> ordering" where
  "route_config_cmp a b = ord_cmp (route_key a) (route_key b)"

definition route_config_eq :: "route \<Rightarrow> route \<Rightarrow> bool" where
  "route_config_eq a b \<longleftrightarrow> route_key a = route_key b"

interpretation route_order: keyed_comparison route_config_cmp route_key
  by unfold_locales (simp add: route_config_cmp_def)

text \<open>The byte \<open>ResolvedRefs::discriminant\<close> reads is the position of the constructor: the type is \<open>repr(u8)\<close>.\<close>

fun resolved_refs_discriminant :: "resolved_refs \<Rightarrow> nat" where
  "resolved_refs_discriminant (RR_Resolved _) = 0"
| "resolved_refs_discriminant (RR_ResolvedWithNotAllowedRoutes _) = 1"
| "resolved_refs_discriminant RR_InvalidAllowedRoutes = 2"
| "resolved_refs_discriminant (RR_InvalidCertificates _) = 3"
| "resolved_refs_discriminant (RR_InvalidBackend _) = 4"
| "resolved_refs_discriminant (RR_RefNotPermitted _) = 5"

definition resolved_refs_cmp :: "resolved_refs \<Rightarrow> resolved_refs \<Rightarrow> ordering" where
  "resolved_refs_cmp a b = ord_cmp (resolved_refs_discriminant a) (resolved_refs_discriminant b)"

definition resolved_refs_eq :: "resolved_refs \<Rightarrow> resolved_refs \<Rightarrow> bool" where
  "resolved_refs_eq a b \<longleftrightarrow> resolved_refs_discriminant a = resolved_refs_discriminant b"

interpretation resolved_refs_order: keyed_comparison resolved_refs_cmp resolved_refs_discriminant
  by unfold_locales (simp add: resolved_refs_cmp_def)

definition listener_condition_cmp :: "listener_condition \<Rightarrow> listener_condition \<Rightarrow> ordering" where
  "listener_condition_cmp a b = ord_cmp (condition_discriminant a) (condition_discriminant b)"

text \<open>\<open>core::mem::discriminant\<close>: the constructor.\<close>

fun listener_condition_eq :: "listener_condition \<Rightarrow> listener_condition \<Rightarrow> bool" where
  "listener_condition_eq (LC_ResolvedRefs _) (LC_ResolvedRefs _) = True"
| "listener_condition_eq a b = (a = b)"

interpretation listener_condition_order: keyed_comparison listener_condition_cmp condition_discriminant
  by unfold_locales (simp add: listener_condition_cmp_def)

definition listener_config_cmp :: "listener_config \<Rightarrow> listener_config \<Rightarrow> ordering" where
  "listener_config_cmp this other =
     (let order = ord_cmp (lc_name this) (lc_name other)
      in if order \<noteq> Ord_Equal then order
         else let order = ord_cmp (sint (lc_port this)) (sint (lc_port other))
         in if order \<noteq> Ord_Equal then order
         else ord_cmp (lc_hostname this) (lc_hostname other))"

interpretation listener_config_order:
  keyed_comparison listener_config_cmp "\<lambda>c. (lc_name c, sint (lc_port c), lc_hostname c)"
  by unfold_locales (simp add: listener_config_cmp_def Let_def ord_cmp_Pair)

subsection \<open>Resources of Envoy\<close>

definition envoy_virtual_host_cmp :: "envoy_virtual_host \<Rightarrow> envoy_virtual_host \<Rightarrow> ordering" where
  "envoy_virtual_host_cmp a b = ord_cmp (evh_name a) (evh_name b)"

definition envoy_virtual_host_eq :: "envoy_virtual_host \<Rightarrow> envoy_virtual_host \<Rightarrow> bool" where
  "envoy_virtual_host_eq a b \<longleftrightarrow> evh_name a = evh_name b"

interpretation virtual_host_order: keyed_comparison envoy_virtual_host_cmp evh_name
  by unfold_locales (simp add: envoy_virtual_host_cmp_def)

text \<open>\<open>ClusterHolder\<close>: a cluster under its name.\<close>

definition cluster_holder_cmp :: "string \<times> envoy_cluster \<Rightarrow> string \<times> envoy_cluster \<Rightarrow> ordering" where
  "cluster_holder_cmp a b = ord_cmp (fst a) (fst b)"

interpretation cluster_holder_order: keyed_comparison cluster_holder_cmp fst
  by unfold_locales (simp add: cluster_holder_cmp_def)

definition http_rule_cmp :: "enum_ranks \<Rightarrow> http_effective_rule \<Rightarrow> http_effective_rule \<Rightarrow> ordering" where
  "http_rule_cmp rk a b = http_compare_matching rk (her_route_matcher a) (her_route_matcher b)"

definition grpc_rule_cmp :: "grpc_effective_rule \<Rightarrow> grpc_effective_rule \<Rightarrow> ordering" where
  "grpc_rule_cmp a b = grpc_compare_matching (ger_route_matcher a) (ger_route_matcher b)"

interpretation http_rule_order: keyed_comparison "http_rule_cmp rk" "\<lambda>e. http_precedence rk (her_route_matcher e)" for rk
  by unfold_locales (simp add: http_rule_cmp_def http_compare_precedence)

interpretation grpc_rule_order: keyed_comparison grpc_rule_cmp "\<lambda>e. grpc_precedence (ger_route_matcher e)"
  by unfold_locales (simp add: grpc_rule_cmp_def grpc_compare_precedence)

subsection \<open>Orders and equalities\<close>

text \<open>For these types the order calls two values equal exactly when their equality does.\<close>

lemma order_agrees_with_equality:
  "gateway_cmp a b = Ord_Equal \<longleftrightarrow> gateway_eq a b"
  "route_config_cmp r s = Ord_Equal \<longleftrightarrow> route_config_eq r s"
  "resolved_refs_cmp x y = Ord_Equal \<longleftrightarrow> resolved_refs_eq x y"
  "envoy_virtual_host_cmp v w = Ord_Equal \<longleftrightarrow> envoy_virtual_host_eq v w"
  "condition_holder_cmp c d = Ord_Equal \<longleftrightarrow> condition_holder_eq c d"
  by (simp_all add: gateway_order.equal_iff gateway_eq_def route_order.equal_iff route_config_eq_def resolved_refs_order.equal_iff
      resolved_refs_eq_def virtual_host_order.equal_iff envoy_virtual_host_eq_def condition_holder_order.equal_iff condition_holder_eq_def)

text \<open>
  For conditions of listeners it does so too except for the two pairs of opposite conditions, which is what makes one
  replace the other in a set; for pools it also does so when selector or target ports differ.
\<close>

lemma condition_order_equality:
  "listener_condition_cmp a b = Ord_Equal \<longleftrightarrow> listener_condition_eq a b \<or> {a, b} = {LC_Accepted, LC_NotAccepted} \<or>
     {a, b} = {LC_Programmed, LC_NotProgrammed}"
  by (cases a; cases b) (auto simp: listener_condition_order.equal_iff doubleton_eq_iff)

lemma pool_order_equality:
  "pool_config_cmp a b = Ord_Equal \<longleftrightarrow> ips_endpoint_picker_ref a = ips_endpoint_picker_ref b"
proof -
  have mode: "failure_mode_key m = failure_mode_key n \<longleftrightarrow> m = n" for m n
    by (cases m rule: failure_mode_key.cases; cases n rule: failure_mode_key.cases) simp_all
  have port: "map_option sint p = map_option sint q \<longleftrightarrow> p = q" for p q :: "32 word option"
    by (cases p; cases q) (simp_all add: sint_port_inject)
  show ?thesis
    unfolding pool_order.equal_iff
    by (cases "ips_endpoint_picker_ref a"; cases "ips_endpoint_picker_ref b") (simp add: pool_config_key_def Let_def mode port, blast)
qed

lemma pools_with_other_ports_equal:
  "pool_config_cmp s (s\<lparr>ips_selector := selector, ips_target_ports := ports\<rparr>) = Ord_Equal"
  by (simp add: pool_order_equality)

end
