(* ===== verification/Spec2Isabelle.thy ===== *)
theory Spec2Isabelle
  imports Controller_Runs Orion_Deployer Agentgateway_Deployer Envoy_File_Deployer Resource_Patching Wiring Gateway_Rounds Written_Orders
begin

text \<open>
  Kubvernor, a Kubernetes Gateway API controller. The development models the control plane of the
  crates \<open>kubvernor-common\<close>, \<open>kubvernor-state\<close> and \<open>kubvernor-controller\<close>.

  \<^bold>\<open>The program.\<close> One controller per kind of object (gateway class, gateway, HTTP route, GRPC route,
  inference pool) reconciles the objects of the API server with an in-memory store and tells the
  reference validator what changed. The validator counts the references of gateways to secrets,
  services and inference pools, and the references that need a reference grant; background tasks
  poll the referenced objects and grants and announce changes back. For an affected gateway it
  validates certificates, resolves the backends of the linked routes, matches routes to listeners
  and passes the result to the deployer, which reports listener conditions and sends the gateway to the
  deployer of its implementation type. The response of that deployer makes the status of the gateway
  and of its routes, which patcher services write to the API server.

  The deployers of Envoy, Orion and Agentgateway create the objects that run a proxy for the gateway, translate the
  gateway into the resources of their proxy (listeners, virtual hosts, routes and clusters; for Agentgateway
  binds, listeners, routes, backends, policies and workloads), and hand these to a discovery server,
  which sends them to the proxies that connect: whole with a version for Envoy, as deltas for the two others.
  A fourth deployer, for Envoy without a discovery server, writes the resources as files of a config map.

  \<^bold>\<open>Theories and code\<close> (paths under \<open>src/\<close>, \<open>K\<close> for \<open>kubvernor-controller/src\<close>):
  \<^item> \<open>Prelude\<close>: the standard containers (ordered sets and maps, hash maps, hash sets) with their laws.
  \<^item> \<open>Resource_Keys\<close>: \<open>kubvernor-common\<close>: keys and conversions into keys, implementation types, configuration.
  \<^item> \<open>Kube_Objects\<close>: the API objects as records of the fields the controller reads or writes.
  \<^item> \<open>State_Store\<close>: \<open>kubvernor-state/src/inmemory.rs\<close>; every operation of \<open>State\<close>, the locales
    \<open>keyed_store\<close>, \<open>conditional_store\<close>, \<open>attachment\<close>, and the refinement to maps and relations.
  \<^item> \<open>Route_Model\<close>: \<open>K/common/route/\<close>, the backends of \<open>K/common/mod.rs\<close>: routes and their conversion.
  \<^item> \<open>Listener_Model\<close>: \<open>K/common/listener.rs\<close>, \<open>gateway.rs\<close>: listeners, conditions, gateways and their conversion.
  \<^item> \<open>Listener_Matching\<close>: \<open>K/controllers/utils/route_listener_matcher.rs\<close>, \<open>hostname_match_filter.rs\<close>.
  \<^item> \<open>Messages\<close>: the channels' messages (\<open>K/common/mod.rs\<close>, \<open>K/services/patchers/patcher.rs\<close>).
  \<^item> \<open>Reference_Grants\<close>, \<open>Reference_Counts\<close>, \<open>Secret_References\<close>: \<open>K/common/references_resolver/\<close>.
  \<^item> \<open>Inference_Status\<close>, \<open>Backend_Resolution\<close>, \<open>Tls_Validation\<close>: the status of inference pools,
    \<open>K/controllers/utils/routes_resolver.rs\<close> and \<open>tls_config_validator.rs\<close>.
  \<^item> \<open>Resource_Handling\<close>: \<open>K/controllers/handlers/resource_handler.rs\<close>, \<open>controllers/mod.rs\<close>,
    \<open>utils/mod.rs\<close>: how an event is classified and dispatched; the locale \<open>settling_handler\<close>.
  \<^item> \<open>Route_Controllers\<close>, \<open>Gateway_Controllers\<close>: the five controllers under \<open>K/controllers/\<close>.
  \<^item> \<open>Gateway_Deployment\<close>: \<open>K/services/gateway_deployer/\<close>, all three files.
  \<^item> \<open>Reference_Validator\<close>: \<open>K/services/reference_resolver/mod.rs\<close>.
  \<^item> \<open>Route_Rules\<close>: \<open>K/backends/envoy/common/route/\<close> and the rules of \<open>resource_generator.rs\<close>: the
    effective rules of a listener and their order.
  \<^item> \<open>Envoy_Routes\<close>: \<open>K/backends/envoy/envoy_xds_backend/route_converters/\<close>: a rule as routes of Envoy.
  \<^item> \<open>Envoy_Resources\<close>: \<open>K/backends/envoy/common/resource_generator.rs\<close>, \<open>mod.rs\<close>: listeners and clusters.
  \<^item> \<open>Client_Table\<close>: the table of connected clients both discovery servers keep, as the locale \<open>client_table\<close>.
  \<^item> \<open>Discovery_Server\<close>, \<open>Envoy_Deployer\<close>: \<open>K/backends/envoy/envoy_xds_backend/\<close>, with \<open>Kube_Workloads\<close>
    for the objects that run a proxy.
  \<^item> \<open>Orion_Server\<close>, \<open>Orion_Deployer\<close>: \<open>K/backends/envoy/orion_xds_backend/\<close>.
  \<^item> \<open>Agentgateway_Resources\<close>, \<open>Agentgateway_Server\<close>, \<open>Agentgateway_Deployer\<close>: \<open>K/backends/agentgateway/\<close>.
  \<^item> \<open>Envoy_Files\<close>, \<open>Envoy_File_Deployer\<close>: \<open>K/backends/envoy/envoy_cm_backend/\<close>.
  \<^item> \<open>Resource_Patching\<close>: \<open>K/services/patchers/\<close> and the finalizer helpers of \<open>K/controllers/utils/mod.rs\<close>.
  \<^item> \<open>Written_Orders\<close>: the comparisons and equalities that types of \<open>K/common/\<close> and others implement by hand; the locale \<open>keyed_comparison\<close>.
  \<^item> \<open>Wiring\<close>: \<open>K/lib.rs\<close>, \<open>kubvernor/src/main.rs\<close>: the channels, services and delays of \<open>start\<close>.
  \<^item> \<open>Gateway_Rounds\<close>: a gateway through all services, up to the proxies and the reported status. What the
    services rely on in a deployer is the locale \<open>gateway_backend\<close>, interpreted on the three deployers with a server.
  \<^item> \<open>Controller_Runs\<close>: the controllers, resolvers and services as one step relation, with invariants by the locale \<open>store_invariant\<close>.
  This theory holds the properties that span the components.

  \<^bold>\<open>How state and operations correspond.\<close> A struct is a record, an enum a datatype; an operation that
  changes state returns the new state. \<open>Result\<close> is a sum with the error on the left, or the datatype
  \<open>outcome\<close> for reconciliations, whose third constructor is a failed \<open>expect\<close>; elsewhere a failed \<open>expect\<close> or an
  arithmetic underflow is \<open>None\<close>. 32-bit integers are words. A message sent on a channel is appended to
  the list of that channel; the reply of a one-shot channel is an argument. A handler is one step; inside
  the program other tasks may run between two of its store operations, each of which is atomic.

  \<^bold>\<open>Parameters.\<close> Code outside the repository's sources is an argument of the definitions that use it:
  the UUID parser, the matcher of domain patterns, the PEM parsers, the clock, and the answers of the
  API server (objects, namespaces, pods, results of patches), the ranks of the enums of the API crate,
  the template engine of the bootstrap files, the order and text of IP addresses, the numbers of the protocols of a
  bind and the JSON text of a method. Of the last but one the properties of Agentgateway assume that different protocols
  have different numbers (\<open>inj\<close>); of the API server and the finalizer helper of the kube crate those of \<open>Resource_Patching\<close>
  assume the documented behaviour (\<open>documented_server\<close>, \<open>documented_runner\<close>). Nothing else is assumed about them. There is no fuel: every loop is structural but the task that polls for
  the addresses of a service, a \<open>partial_function\<close> for which termination is characterised.
  The 32-bit versions of a gateway wrap around, as they do in a release build.

  \<^bold>\<open>What the lemmas show.\<close> Per component: well-formedness invariants under every operation; the
  functional behaviour on every branch; refinement of the store and of the resolvers to maps and
  multisets; equivalence of the matching loops with the declarative conditions of attachment; the
  safety of counters, grants and certificates; that reconciliation settles; what a run of the
  controller can and cannot change. Several theorems state behaviour that differs from what
  the code or its comments intend: routes keep the gateways they no longer name, a deleted GRPC route
  and a deleted gateway class stay in the store, a gateway that does not convert stops the route controller and
  the validator, reference counts and secret references leak.

  A new gateway of each implementation is, in one round, stored, validated, deployed, served and reported ready
  (\<open>Gateway_Rounds\<close>); a deleted one leaves the store and is served on. A patcher adds the finalizer of the controller
  at most once and completes a deletion exactly when that finalizer is the only one left; a gateway class that once got the finalizer of a
  class in use is never deleted. Each channel has exactly one receiver, except that of a deployer that is not configured.

  Of the backends: the order of the rules of a listener; which listeners, virtual hosts and clusters a
  gateway gets and when their generation fails; that every proxy is sent the resources pushed for
  the gateway its pod names and nothing else; that updates and acknowledgements work together with the
  versions; that the deltas of Orion and of Agentgateway compose to the last update; that the routes of
  Agentgateway name backends and services that are sent along; which files the config map holds; that
  the resources of Orion are those of Envoy up to three changes; when the polling for addresses ends. Behaviour that looks unintended
  here: listeners of a gateway share one name, deltas remove changed clusters, a refused backend can be
  reached, a deleted gateway is still served.

  \<^bold>\<open>Not modelled\<close>: logging and tracing, timers, the reading of the command line and of the configuration file, the admin
  server, the start of the TCP and gRPC servers with their TLS, the generated API crates, and two files no
  module includes (\<open>K/state.rs\<close>, \<open>backends_resolver copy.rs\<close>). Of the messages to proxies the constant
  fields (timeouts, TLS versions of the connection to an endpoint picker) are left out, as are random nonces and the versions
  that Orion and Agentgateway keep and never read. What remains of the modelled files are imports, builders, error
  texts, code in comments and tests. Nothing of the program's own logic is left for a later extension.
\<close>

subsection \<open>From the store to the reported status\<close>

definition names_ok :: "gateway \<Rightarrow> bool" where
  "names_ok g \<longleftrightarrow> distinct (map fst (gw_listeners g)) \<and> list_all (\<lambda>(n, l). listener_name l = n) (gw_listeners g)"

lemma names_ok_map:
  assumes "\<And>l. listener_name (f l) = listener_name l" "names_ok g"
  shows "names_ok (map_listeners f g)" "map fst (gw_listeners (map_listeners f g)) = map fst (gw_listeners g)"
proof -
  have fst: "map fst (map (\<lambda>(n, l). (n, f l)) ls) = map fst ls" for ls by (induction ls) auto
  show "map fst (gw_listeners (map_listeners f g)) = map fst (gw_listeners g)"
    by (simp add: map_listeners_def fst del: map_map)
  show "names_ok (map_listeners f g)"
    using assms by (auto simp: names_ok_def map_listeners_def fst list_all_iff simp del: map_map)
qed

lemma validate_listener_name [simp]: "lc_name (ld_config (validate_listener_data env d)) = lc_name (ld_config d)"
  by (auto simp: validate_listener_data_def Let_def case_prod_beta split: option.split tls_type.split)

lemma names_ok_tls:
  "names_ok g \<Longrightarrow> names_ok (validate_tls env g)"
  "names_ok g \<Longrightarrow> map fst (gw_listeners (validate_tls env g)) = map fst (gw_listeners g)"
  unfolding validate_tls_def by (rule names_ok_map; simp add: listener_name_def)+

lemma names_ok_update_listener:
  "names_ok g \<Longrightarrow> names_ok (update_listener n (update_routes rs us) g) \<and>
     map fst (gw_listeners (update_listener n (update_routes rs us) g)) = map fst (gw_listeners g)"
proof -
  have fst: "map fst (map (\<lambda>(m, l). (m, f m l)) ls) = map fst ls" for f and ls :: "(string \<times> listener) list"
    by (induction ls) auto
  have name: "listener_name (update_routes rs us l) = listener_name l" for l
    by (simp add: update_routes_def listener_name_def update_routes_data_def Let_def)
  assume "names_ok g"
  then show ?thesis
    using fst [of "\<lambda>m l. if m = n then update_routes rs us l else l"]
    by (auto simp: names_ok_def update_listener_def list_all_iff name simp del: map_map)
qed

lemma names_ok_validate_routes:
  assumes "names_ok g"
  shows "names_ok (fst (validate_routes dp env kg g w)) \<and>
    map fst (gw_listeners (fst (validate_routes dp env kg g w))) = map fst (gw_listeners g)"
proof -
  have fold: "names_ok (fold (\<lambda>(k, routes). update_listener k (update_routes (f routes) (h routes))) ms g) \<and>
      map fst (gw_listeners (fold (\<lambda>(k, routes). update_listener k (update_routes (f routes) (h routes))) ms g)) = map fst (gw_listeners g)"
    if "names_ok g" for f h ms g
    using that
  proof (induction ms arbitrary: g)
    case (Cons m ms)
    then show ?case using names_ok_update_listener [of g] by (cases m) simp
  qed simp
  have orphans: "names_ok (g\<lparr>gw_orphaned_routes := x\<rparr>) = names_ok g" for g x by (simp add: names_ok_def)
  show ?thesis using fold [OF assms] by (simp add: validate_routes_def Let_def case_prod_beta orphans)
qed

lemma names_ok_lookup: "names_ok g \<Longrightarrow> (n, l) \<in> set (gw_listeners g) \<Longrightarrow> gateway_listener g n = Some l \<and> listener_name l = n"
  by (auto simp: names_ok_def gateway_listener_def list_all_iff)

lemma names_ok_gateway_from: "gateway_from p kg t = Inr g \<Longrightarrow> names_ok g"
  using gateway_from_wf [of p kg t g] by (auto simp: gateway_wf_def names_ok_def list_all_iff bset_wf_distinct)

text \<open>No listener of a converted gateway carries a route before validation.\<close>

lemma no_routes_gateway_from:
  assumes "gateway_from p kg t = Inr g" "gateway_listener g n = Some l"
  shows "listener_attached_routes l = 0"
  using assms gateway_from_listener [OF assms(1), of n]
  by (auto simp: listener_from_data(6) split: option.splits sum.splits)

lemma validate_tls_attached:
  "gateway_listener (validate_tls env g) n = Some l' \<Longrightarrow>
     \<exists>l. gateway_listener g n = Some l \<and> listener_attached_routes l' = listener_attached_routes l"
  by (auto simp: validate_tls_def gateway_listener_map listener_attached_routes_def validate_listener_data_def Let_def
      case_prod_beta split: option.split tls_type.split)

lemma process_gateway_counts:
  assumes g: "gateway_from p kg t = Inr g"
    and l: "gateway_listener (fst (process_gateway env g kg v)) n = Some l'"
  shows "listener_attached_routes l' = card (attached_keys (ve_domain_pattern env) (resolve_env_of env (gw_resource_key g) v) kg g
    (sys_state (va_system v), sys_pool_ops (va_system v)) n)"
proof -
  let ?w = "(sys_state (va_system v), sys_pool_ops (va_system v))"
  let ?renv = "resolve_env_of env (gw_resource_key g) v"
  let ?g1 = "validate_tls (tls_env_of env (gw_resource_key g) v) g"
  have key: "gw_resource_key ?g1 = gw_resource_key g" by (simp add: validate_tls_def map_listeners_def)
  have fst: "fst (process_gateway env g kg v) = fst (validate_routes (ve_domain_pattern env) ?renv kg ?g1 ?w)"
    by (simp add: process_gateway_def Let_def case_prod_beta key)
  have keys: "attached_keys (ve_domain_pattern env) ?renv kg ?g1 ?w n = attached_keys (ve_domain_pattern env) ?renv kg g ?w n"
    by (simp add: attached_keys_def linked_and_resolved_def key)
  note spec = listeners_carry_routes [where g = ?g1 and n = n and dp = "ve_domain_pattern env" and env = ?renv and kg = kg and w = ?w]
  obtain l1 where l1: "gateway_listener ?g1 n = Some l1"
    using spec l by (cases "gateway_listener ?g1 n") (auto simp: fst)
  then have "listener_attached_routes l1 = 0"
    using validate_tls_attached no_routes_gateway_from [OF g] by metis
  then show ?thesis
    using spec l l1 by (auto simp: fst keys split: if_splits)
qed

lemma adjust_statuses_listeners:
  "gateway_listeners (adjust_statuses g) = map (map_listener_data adjust_listener) (gateway_listeners g)"
  by (auto simp: adjust_statuses_def map_listeners_def gateway_listeners_def)

lemma listener_status_fields:
  "lst_name (listener_status_of now gen l) = listener_name l"
  "lst_attached_routes (listener_status_of now gen l) = attached_count (listener_attached_routes l)"
  by (simp_all add: listener_status_of_def)

lemma attached_count_unat: "if n < 2 ^ 31 then unat (attached_count n) = n else attached_count n = 0"
  by (auto simp: attached_count_def unat_of_nat take_bit_eq_mod intro!: mod_less)

text \<open>
  C2: the whole way from a stored gateway and the stored routes to the status sent with the event for
  the backend deployer: the event goes to the deployer of the gateway's type, names every listener
  once, and reports for each the number of linked routes that attach to it (up to the largest 32-bit integer).
\<close>

theorem reported_attached_routes:
  "case gateway_from p kg t of
     Inl _ \<Rightarrow> True
   | Inr g \<Rightarrow>
       (case deploy_gateway now senders \<lparr>rc_gateway = fst (process_gateway env g kg v), rc_kube_gateway = kg, rc_gateway_class_name = c\<rparr> sys of
          None \<Rightarrow> t \<notin> set senders
        | Some sys' \<Rightarrow> (case last (sys_events sys') of
              (t', Changed g' kg' c') \<Rightarrow> t' = t \<and> c' = c \<and>
                (case kg_status kg' of None \<Rightarrow> False | Some st \<Rightarrow> (case gst_listeners st of None \<Rightarrow> False | Some ls \<Rightarrow>
                   map lst_name ls = map fst (gw_listeners g) \<and> distinct (map lst_name ls) \<and>
                   list_all (\<lambda>l. let routes = attached_keys (ve_domain_pattern env) (resolve_env_of env (gw_resource_key g) v) kg g
                          (sys_state (va_system v), sys_pool_ops (va_system v)) (lst_name l)
                      in if card routes < 2 ^ 31 then unat (lst_attached_routes l) = card routes else lst_attached_routes l = 0) ls))
            | _ \<Rightarrow> False))"
proof (cases "gateway_from p kg t")
  case (Inr g)
  let ?g' = "fst (process_gateway env g kg v)"
  have t: "gw_backend_type ?g' = t"
    using Inr by (auto simp: process_gateway_frame gateway_from_def Let_def split: option.splits prod.splits if_splits)
  have names: "names_ok ?g' \<and> map fst (gw_listeners ?g') = map fst (gw_listeners g)"
    using names_ok_validate_routes [OF names_ok_tls(1) [OF names_ok_gateway_from [OF Inr]]] names_ok_tls(2) [OF names_ok_gateway_from [OF Inr]]
    by (simp add: process_gateway_def Let_def case_prod_beta)
  let ?ls = "map (listener_status_of now (om_generation (kg_metadata kg))) (gateway_listeners (adjust_statuses ?g'))"
  have nm: "map lst_name ?ls = map fst (gw_listeners g)"
  proof -
    have "map lst_name ?ls = map listener_name (gateway_listeners ?g')"
      by (simp add: adjust_statuses_listeners listener_status_fields listener_name_def adjust_listener_def Let_def)
    also have "\<dots> = map (\<lambda>(n, l). listener_name l) (gw_listeners ?g')"
      by (simp add: gateway_listeners_def comp_def case_prod_beta)
    also have "\<dots> = map fst (gw_listeners ?g')"
      using names by (intro map_cong) (auto simp: names_ok_def list_all_iff)
    finally show ?thesis using names by simp
  qed
  have cnt: "let routes = attached_keys (ve_domain_pattern env) (resolve_env_of env (gw_resource_key g) v) kg g
          (sys_state (va_system v), sys_pool_ops (va_system v)) (lst_name x)
      in if card routes < 2 ^ 31 then unat (lst_attached_routes x) = card routes else lst_attached_routes x = 0"
    if x0: "x \<in> set ?ls" for x
  proof -
    have "x \<in> set (map (listener_status_of now (om_generation (kg_metadata kg)))
        (map (map_listener_data adjust_listener) (gateway_listeners ?g')))"
      using x0 by (simp only: adjust_statuses_listeners)
    then obtain n l where nl: "(n, l) \<in> set (gw_listeners ?g')"
      and x: "x = listener_status_of now (om_generation (kg_metadata kg)) (map_listener_data adjust_listener l)"
      by (auto simp: gateway_listeners_def)
    from names_ok_lookup [of ?g' n l] names nl have l: "gateway_listener ?g' n = Some l" "listener_name l = n" by auto
    have "lst_name x = n" "lst_attached_routes x = attached_count (listener_attached_routes l)"
      using l by (simp_all add: x listener_status_fields listener_name_def listener_attached_routes_def adjust_listener_def Let_def)
    then show ?thesis using process_gateway_counts [OF Inr l(1)] attached_count_unat by (simp add: Let_def)
  qed
  have dist: "distinct (map fst (gw_listeners g))" using names_ok_gateway_from [OF Inr] by (simp add: names_ok_def)
  have ls: "list_all (\<lambda>l. let routes = attached_keys (ve_domain_pattern env) (resolve_env_of env (gw_resource_key g) v) kg g
          (sys_state (va_system v), sys_pool_ops (va_system v)) (lst_name l)
      in if card routes < 2 ^ 31 then unat (lst_attached_routes l) = card routes else lst_attached_routes l = 0) ?ls"
    unfolding list_all_iff by (rule ballI) (rule cnt)
  show ?thesis
    unfolding Inr sum.case deploy_gateway_def Let_def
    using t nm dist ls [unfolded Let_def]
    by (simp add: send_event_def resolve_listeners_statuses_def del: map_map)
qed simp

end
